(* ===== verification/Prelude.thy ===== *)
theory Prelude
  imports Main "HOL-Library.Sublist"
begin

text \<open>
  Shared ground of the development: the result of running Go code (a value or a panic), programs
  as functions on the history of interactions with the outside world, a weakest-precondition
  calculus over the events a program emits, and the fragments of the Go standard library the
  operator uses on strings, slices and maps (\<open>strings.HasPrefix\<close>, \<open>strings.Contains\<close>,
  \<open>fmt.Sprintf\<close> with string verbs, map lookup and \<open>reflect.DeepEqual\<close> on maps).
\<close>

named_theorems go_run \<open>evaluation of programs on a history\<close>
named_theorems wp_intro \<open>introduction rules of the weakest-precondition calculus\<close>
named_theorems wp_split \<open>case distinctions of the weakest-precondition calculus\<close>
named_theorems emits_intro \<open>introduction rules for event invariants\<close>
named_theorems go_defs \<open>definitions of the programs of a component\<close>

section \<open>Outcomes and programs\<close>

text \<open>A Go call either returns or panics.\<close>

datatype 'a outcome = Ret 'a | Panic string

text \<open>
  A program reads the history of everything that happened before and extends it. The history is a
  list of events, oldest first; an event records one interaction with the outside (an API server
  call, an RPC) together with the answer that came back.
\<close>

type_synonym ('e, 'a) prog = "'e list \<Rightarrow> 'a outcome \<times> 'e list"

definition returnG :: "'a \<Rightarrow> ('e, 'a) prog" where
  "returnG a = (\<lambda>t. (Ret a, t))"

definition panicG :: "string \<Rightarrow> ('e, 'a) prog" where
  "panicG s = (\<lambda>t. (Panic s, t))"

definition liftG :: "'a outcome \<Rightarrow> ('e, 'a) prog" where
  "liftG x = (\<lambda>t. (x, t))"

definition bindG :: "('e, 'a) prog \<Rightarrow> ('a \<Rightarrow> ('e, 'b) prog) \<Rightarrow> ('e, 'b) prog" where
  "bindG m f = (\<lambda>t. case m t of (Ret a, t') \<Rightarrow> f a t' | (Panic s, t') \<Rightarrow> (Panic s, t'))"

text \<open>One interaction: the answer is a function of the history, and both are recorded.\<close>

definition callG :: "('r \<Rightarrow> 'e) \<Rightarrow> ('e list \<Rightarrow> 'r) \<Rightarrow> ('e, 'r) prog" where
  "callG ev resp = (\<lambda>t. (Ret (resp t), t @ [ev (resp t)]))"

text \<open>Reading the clock or a random number consults the outside without leaving an event.\<close>

definition readG :: "('e list \<Rightarrow> 'r) \<Rightarrow> ('e, 'r) prog" where
  "readG f = (\<lambda>t. (Ret (f t), t))"

text \<open>The idiom \<open>x, err := f(); if err != nil { return err }\<close>, for a callee and for a caller that return
  a value or an error.\<close>

definition tryG :: "('e, 'err + 'a) prog \<Rightarrow> ('a \<Rightarrow> ('e, 'err + 'b) prog) \<Rightarrow> ('e, 'err + 'b) prog" where
  "tryG m f = bindG m (\<lambda>r. case r of Inl err \<Rightarrow> returnG (Inl err) | Inr a \<Rightarrow> f a)"

lemma returnG_run [go_run]: "returnG a t = (Ret a, t)"
  by (simp add: returnG_def)

lemma panicG_run [go_run]: "panicG s t = (Panic s, t)"
  by (simp add: panicG_def)

lemma liftG_run [go_run]: "liftG x t = (x, t)"
  by (simp add: liftG_def)

lemma callG_run [go_run]: "callG ev resp t = (Ret (resp t), t @ [ev (resp t)])"
  by (simp add: callG_def)

lemma readG_run [go_run]: "readG f t = (Ret (f t), t)"
  by (simp add: readG_def)

lemma bindG_run [go_run]:
  "bindG m f t = (case m t of (Ret a, t') \<Rightarrow> f a t' | (Panic s, t') \<Rightarrow> (Panic s, t'))"
  by (simp add: bindG_def)

lemma tryG_run [go_run]:
  "tryG m f t = (case m t of (Ret (Inr a), t') \<Rightarrow> f a t' | (Ret (Inl e), t') \<Rightarrow> (Ret (Inl e), t')
     | (Panic s, t') \<Rightarrow> (Panic s, t'))"
  by (auto simp: tryG_def bindG_run returnG_run split: prod.split outcome.split sum.split)

lemma bindG_return [simp]: "bindG (returnG a) f = f a"
  by (simp add: bindG_def fun_eq_iff go_run)

lemma tryG_return [simp]: "tryG (returnG (Inr a)) f = f a" "tryG (returnG (Inl e)) f = returnG (Inl e)"
  by (simp_all add: tryG_def)

lemma bindG_panic [simp]: "bindG (panicG s) f = panicG s"
  by (simp add: bindG_def fun_eq_iff go_run)

lemma bindG_lift_Ret [simp]: "bindG (liftG (Ret a)) f = f a"
  by (simp add: bindG_def fun_eq_iff go_run)

lemma bindG_lift_Panic [simp]: "bindG (liftG (Panic s)) f = panicG s"
  by (simp add: bindG_def fun_eq_iff go_run)

lemma return_bindG [simp]: "bindG m returnG = m"
  by (auto simp: bindG_def fun_eq_iff go_run split: prod.split outcome.split)

lemma bindG_assoc: "bindG (bindG m f) g = bindG m (\<lambda>x. bindG (f x) g)"
  by (auto simp: bindG_def fun_eq_iff split: prod.split outcome.split)

lemma bindG_prod: "bindG (case p of (a, b) \<Rightarrow> m a b) f = (case p of (a, b) \<Rightarrow> bindG (m a b) f)"
  by (cases p) simp

section \<open>Weakest preconditions over emitted events\<close>

text \<open>
  \<open>wp m Q pre\<close>: from every history, \<open>m\<close> only appends events, and its outcome and the events
  emitted so far (\<open>pre\<close> and those of \<open>m\<close>) satisfy \<open>Q\<close>. The answers of the outside world are
  unconstrained, so such a fact holds whatever other actors do to the cluster in between.
\<close>

definition wp :: "('e, 'a) prog \<Rightarrow> ('a outcome \<Rightarrow> 'e list \<Rightarrow> bool) \<Rightarrow> 'e list \<Rightarrow> bool" where
  "wp m Q pre \<longleftrightarrow> (\<forall>t. \<exists>es. snd (m t) = t @ es \<and> Q (fst (m t)) (pre @ es))"

definition gives :: "('e, 'a) prog \<Rightarrow> ('a outcome \<Rightarrow> 'e list \<Rightarrow> bool) \<Rightarrow> bool" where
  "gives m Q \<longleftrightarrow> wp m Q []"

definition emits :: "('e \<Rightarrow> bool) \<Rightarrow> ('e, 'a) prog \<Rightarrow> bool" where
  "emits \<Phi> m \<longleftrightarrow> gives m (\<lambda>_ es. list_all \<Phi> es)"

lemma wp_returnG [wp_intro]: "Q (Ret a) pre \<Longrightarrow> wp (returnG a) Q pre"
  by (simp add: wp_def go_run)

lemma wp_panicG [wp_intro]: "Q (Panic s) pre \<Longrightarrow> wp (panicG s) Q pre"
  by (simp add: wp_def go_run)

lemma wp_liftG [wp_intro]: "Q x pre \<Longrightarrow> wp (liftG x) Q pre"
  by (simp add: wp_def go_run)

lemma wp_callG [wp_intro]: "(\<And>r. Q (Ret r) (pre @ [ev r])) \<Longrightarrow> wp (callG ev resp) Q pre"
  by (simp add: wp_def go_run)

lemma wp_readG [wp_intro]: "(\<And>r. Q (Ret r) pre) \<Longrightarrow> wp (readG f) Q pre"
  by (simp add: wp_def go_run)

definition bind_post ::
  "('a \<Rightarrow> ('e, 'b) prog) \<Rightarrow> ('b outcome \<Rightarrow> 'e list \<Rightarrow> bool) \<Rightarrow> 'a outcome \<Rightarrow> 'e list \<Rightarrow> bool" where
  "bind_post f Q x es = (case x of Ret a \<Rightarrow> wp (f a) Q es | Panic s \<Rightarrow> Q (Panic s) es)"

lemma bind_post_simps [simp]:
  "bind_post f Q (Ret a) es = wp (f a) Q es"
  "bind_post f Q (Panic s) es = Q (Panic s) es"
  by (simp_all add: bind_post_def)

lemma wp_bindG [wp_intro]: "wp m (bind_post f Q) pre \<Longrightarrow> wp (bindG m f) Q pre"
  unfolding wp_def
proof
  fix t
  assume "\<forall>t. \<exists>es. snd (m t) = t @ es \<and> bind_post f Q (fst (m t)) (pre @ es)"
  then obtain es where es: "snd (m t) = t @ es" "bind_post f Q (fst (m t)) (pre @ es)" by blast
  show "\<exists>es. snd (bindG m f t) = t @ es \<and> Q (fst (bindG m f t)) (pre @ es)"
  proof (cases "fst (m t)")
    case (Ret a)
    with es have "wp (f a) Q (pre @ es)" and run: "bindG m f t = f a (t @ es)"
      by (auto simp: bindG_run split: prod.split)
    then obtain es' where "snd (f a (t @ es)) = (t @ es) @ es'"
        "Q (fst (f a (t @ es))) ((pre @ es) @ es')"
      unfolding wp_def by blast
    with run show ?thesis by (intro exI [of _ "es @ es'"]) simp
  next
    case (Panic s)
    with es show ?thesis by (auto simp: bindG_run split: prod.split)
  qed
qed

lemma wp_mono: "wp m Q pre \<Longrightarrow> (\<And>x es. Q x es \<Longrightarrow> Q' x es) \<Longrightarrow> wp m Q' pre"
  unfolding wp_def by blast

lemma wp_tryG [wp_intro]:
  "wp m (\<lambda>x es. case x of Ret (Inl e) \<Rightarrow> Q (Ret (Inl e)) es | Ret (Inr a) \<Rightarrow> wp (f a) Q es
     | Panic s \<Rightarrow> Q (Panic s) es) pre \<Longrightarrow> wp (tryG m f) Q pre"
  unfolding tryG_def
  by (rule wp_bindG, elim wp_mono) (auto split: outcome.splits sum.splits intro: wp_returnG)

lemma wp_shift: "wp m (\<lambda>x es. Q x (pre @ es)) [] \<Longrightarrow> wp m Q pre"
  unfolding wp_def by simp

text \<open>A proved contract of a callee is used through its \<open>gives\<close> fact.\<close>

lemma wp_use: "gives m R \<Longrightarrow> (\<And>x es. R x es \<Longrightarrow> Q x (pre @ es)) \<Longrightarrow> wp m Q pre"
  unfolding gives_def by (rule wp_shift) (erule wp_mono, simp)

lemma wp_try_use:
  assumes "gives m R"
    and "\<And>e es. R (Ret (Inl e)) es \<Longrightarrow> Q (Ret (Inl e)) (pre @ es)"
    and "\<And>s es. R (Panic s) es \<Longrightarrow> Q (Panic s) (pre @ es)"
    and "\<And>a es. R (Ret (Inr a)) es \<Longrightarrow> wp (f a) Q (pre @ es)"
  shows "wp (tryG m f) Q pre"
  by (rule wp_tryG, rule wp_use [OF assms(1)]) (auto split: outcome.split sum.split simp: assms(2-4))

lemma wp_bind_use:
  assumes "gives m R"
    and "\<And>s es. R (Panic s) es \<Longrightarrow> Q (Panic s) (pre @ es)"
    and "\<And>a es. R (Ret a) es \<Longrightarrow> wp (f a) Q (pre @ es)"
  shows "wp (bindG m f) Q pre"
  by (rule wp_bindG, rule wp_use [OF assms(1)]) (auto simp: bind_post_def assms(2,3) split: outcome.split)

lemma gives_mono: "gives m Q \<Longrightarrow> (\<And>x es. Q x es \<Longrightarrow> Q' x es) \<Longrightarrow> gives m Q'"
  unfolding gives_def by (rule wp_mono)

lemma gives_run:
  assumes "gives m Q" and "m t = (x, t')"
  obtains es where "t' = t @ es" and "Q x es"
  using assms unfolding gives_def wp_def by (metis append_Nil fst_conv snd_conv)

lemma gives_conj: "gives m P \<Longrightarrow> gives m Q \<Longrightarrow> gives m (\<lambda>x es. P x es \<and> Q x es)"
  unfolding gives_def wp_def by (metis same_append_eq)

lemma gives_all: "(\<And>i. gives m (Q i)) \<Longrightarrow> gives m (\<lambda>x es. \<forall>i. Q i x es)"
  unfolding gives_def wp_def by (metis same_append_eq)

text \<open>Branches: the condition taken is a premise of the branch.\<close>

lemma wp_if [wp_split]:
  "(b \<Longrightarrow> wp m Q pre) \<Longrightarrow> (\<not> b \<Longrightarrow> wp n Q pre) \<Longrightarrow> wp (if b then m else n) Q pre"
  by simp

lemma wp_option [wp_split]:
  "(x = None \<Longrightarrow> wp m Q pre) \<Longrightarrow> (\<And>a. x = Some a \<Longrightarrow> wp (f a) Q pre) \<Longrightarrow>
     wp (case x of None \<Rightarrow> m | Some a \<Rightarrow> f a) Q pre"
  by (cases x) auto

lemma wp_sum [wp_split]:
  "(\<And>a. x = Inl a \<Longrightarrow> wp (f a) Q pre) \<Longrightarrow> (\<And>b. x = Inr b \<Longrightarrow> wp (g b) Q pre) \<Longrightarrow>
     wp (case x of Inl a \<Rightarrow> f a | Inr b \<Rightarrow> g b) Q pre"
  by (cases x) auto

lemma wp_prod [wp_split]:
  "(\<And>a b. x = (a, b) \<Longrightarrow> wp (f a b) Q pre) \<Longrightarrow> wp (case x of (a, b) \<Rightarrow> f a b) Q pre"
  by (cases x) auto

lemma wp_Let [wp_split]: "wp (f x) Q pre \<Longrightarrow> wp (Let x f) Q pre"
  by simp

section \<open>Event invariants\<close>

lemma emits_returnG [emits_intro]: "emits \<Phi> (returnG a)"
  by (simp add: emits_def gives_def wp_def go_run)

lemma emits_panicG [emits_intro]: "emits \<Phi> (panicG s)"
  by (simp add: emits_def gives_def wp_def go_run)

lemma emits_liftG [emits_intro]: "emits \<Phi> (liftG x)"
  by (simp add: emits_def gives_def wp_def go_run)

lemma emits_readG [emits_intro]: "emits \<Phi> (readG f)"
  by (simp add: emits_def gives_def wp_def go_run)

lemma emits_callG [emits_intro]: "(\<And>r. \<Phi> (ev r)) \<Longrightarrow> emits \<Phi> (callG ev resp)"
  by (simp add: emits_def gives_def wp_def go_run)

lemma emits_bindG [emits_intro]:
  assumes "emits \<Phi> m" and "\<And>a. emits \<Phi> (f a)"
  shows "emits \<Phi> (bindG m f)"
  unfolding emits_def gives_def
proof (rule wp_bindG, rule wp_use)
  show "gives m (\<lambda>_ es. list_all \<Phi> es)" using assms(1) by (simp add: emits_def)
  fix x es
  assume m: "list_all \<Phi> es"
  show "bind_post f (\<lambda>_ es. list_all \<Phi> es) x ([] @ es)"
  proof (cases x)
    case (Ret a)
    have "wp (f a) (\<lambda>_ es. list_all \<Phi> es) es"
      using assms(2) [of a] m by (intro wp_use [of "f a"]) (auto simp: emits_def)
    with Ret show ?thesis by simp
  qed (use m in simp)
qed

lemma emits_tryG [emits_intro]:
  "emits \<Phi> m \<Longrightarrow> (\<And>a. emits \<Phi> (f a)) \<Longrightarrow> emits \<Phi> (tryG m f)"
  unfolding tryG_def by (auto intro!: emits_bindG emits_returnG split: sum.split)

lemma emits_if [emits_intro]: "emits \<Phi> m \<Longrightarrow> emits \<Phi> n \<Longrightarrow> emits \<Phi> (if b then m else n)"
  by simp

lemma emits_option [emits_intro]:
  "emits \<Phi> m \<Longrightarrow> (\<And>a. emits \<Phi> (f a)) \<Longrightarrow> emits \<Phi> (case x of None \<Rightarrow> m | Some a \<Rightarrow> f a)"
  by (simp split: option.split)

lemma emits_sum [emits_intro]:
  "(\<And>a. emits \<Phi> (f a)) \<Longrightarrow> (\<And>b. emits \<Phi> (g b)) \<Longrightarrow> emits \<Phi> (case x of Inl a \<Rightarrow> f a | Inr b \<Rightarrow> g b)"
  by (simp split: sum.split)

lemma emits_prod [emits_intro]:
  "(\<And>a b. emits \<Phi> (f a b)) \<Longrightarrow> emits \<Phi> (case x of (a, b) \<Rightarrow> f a b)"
  by (simp split: prod.split)

lemma emits_Let [emits_intro]: "emits \<Phi> (f x) \<Longrightarrow> emits \<Phi> (Let x f)"
  by (simp add: Let_def)

lemma wp_emits: "emits \<Phi> m \<Longrightarrow> (\<And>x es. list_all \<Phi> es \<Longrightarrow> Q x (pre @ es)) \<Longrightarrow> wp m Q pre"
  unfolding emits_def by (rule wp_use)

lemma emits_mono: "emits \<Phi> m \<Longrightarrow> (\<And>e. \<Phi> e \<Longrightarrow> \<Psi> e) \<Longrightarrow> emits \<Psi> m"
  unfolding emits_def by (erule gives_mono) (auto simp: list_all_iff)

lemma emits_run:
  assumes "emits \<Phi> m" and "m t = (x, t')"
  obtains es where "t' = t @ es" and "list_all \<Phi> es"
  using assms unfolding emits_def by (rule gives_run)

section \<open>Order of events\<close>

text \<open>\<open>guards G W es\<close>: whenever an event with \<open>W\<close> happens in \<open>es\<close>, the events before it satisfy \<open>G\<close>.\<close>

definition guards :: "('e list \<Rightarrow> bool) \<Rightarrow> ('e \<Rightarrow> bool) \<Rightarrow> 'e list \<Rightarrow> bool" where
  "guards G W es \<longleftrightarrow> (\<forall>es1 e es2. es = es1 @ e # es2 \<longrightarrow> W e \<longrightarrow> G es1)"

lemma guards_none: "list_all (\<lambda>e. \<not> W e) es \<Longrightarrow> guards G W es"
  by (auto simp: guards_def)

lemma guards_Nil [simp]: "guards G W []"
  by (simp add: guards_def)

lemma guards_append:
  assumes "guards G W es" and "\<And>es1 e es2. es' = es1 @ e # es2 \<Longrightarrow> W e \<Longrightarrow> G (es @ es1)"
  shows "guards G W (es @ es')"
  unfolding guards_def
proof (intro allI impI)
  fix es1 e es2
  assume eq: "es @ es' = es1 @ e # es2" and "W e"
  then consider us where "es = es1 @ e # us" | us where "es1 = es @ us" "es' = us @ e # es2"
    by (auto simp: append_eq_append_conv2 append_eq_Cons_conv)
  then show "G es1" using assms \<open>W e\<close> by cases (auto simp: guards_def)
qed

lemma guards_Cons: "guards G W (e # es) \<longleftrightarrow> (W e \<longrightarrow> G []) \<and> guards (\<lambda>es. G (e # es)) W es"
  unfolding guards_def by (force simp: Cons_eq_append_conv)

lemma guards_quiet: "guards G W es \<Longrightarrow> list_all (\<lambda>e. \<not> W e) es' \<Longrightarrow> guards G W (es @ es')"
  by (rule guards_append) auto

lemma guards_after:
  "guards G W es \<Longrightarrow> G es \<Longrightarrow> (\<And>es es'. G es \<Longrightarrow> G (es @ es')) \<Longrightarrow> guards G W (es @ es')"
  by (rule guards_append) auto

lemma guards_at: "guards G W (es1 @ e # es2) \<Longrightarrow> W e \<Longrightarrow> G es1"
  by (auto simp: guards_def)

lemma guards_weaken: "guards G W es \<Longrightarrow> (\<And>es. G es \<Longrightarrow> G' es) \<Longrightarrow> guards G' W es"
  by (auto simp: guards_def)

text \<open>
  A program keeps \<open>guards G W\<close> when it has no \<open>W\<close> event, or when \<open>G\<close> held before it started and
  once true stays true.
\<close>

lemma wp_guards_quiet:
  "emits \<Phi> m \<Longrightarrow> (\<And>e. \<Phi> e \<Longrightarrow> \<not> W e) \<Longrightarrow> guards G W pre \<Longrightarrow> wp m (\<lambda>_. guards G W) pre"
  by (rule wp_emits) (auto intro!: guards_quiet simp: list_all_iff)

lemma wp_guards_after:
  "emits \<Phi> m \<Longrightarrow> (\<And>es es'. G es \<Longrightarrow> G (es @ es')) \<Longrightarrow> G pre \<Longrightarrow> guards G W pre \<Longrightarrow> wp m (\<lambda>_. guards G W) pre"
  by (rule wp_emits) (auto intro!: guards_after)

lemma wp_guards_then_quiet:
  assumes "wp m (\<lambda>_. guards G W) pre" and "\<And>a. emits \<Phi> (f a)" and "\<And>e. \<Phi> e \<Longrightarrow> \<not> W e"
  shows "wp (bindG m f) (\<lambda>_. guards G W) pre"
  by (rule wp_bindG, rule wp_mono [OF assms(1)])
    (auto simp: bind_post_def split: outcome.split intro: wp_guards_quiet [OF assms(2) assms(3)])

section \<open>Strings, slices and maps of the Go standard library\<close>

type_synonym gomap = "(string \<times> string) list"

text \<open>
  A Go map of strings is given by its pairs in the order in which a \<open>range\<close> loop visits them; Go
  leaves that order open, so theorems quantify over it. \<open>m[k]\<close> on a missing key is the empty
  string.
\<close>

definition map_index :: "gomap \<Rightarrow> string \<Rightarrow> string" where
  "map_index m k = (case map_of m k of None \<Rightarrow> '''' | Some v \<Rightarrow> v)"

text \<open>\<open>reflect.DeepEqual\<close> on maps: the same length and the same value under every key.\<close>

definition map_DeepEqual :: "gomap \<Rightarrow> gomap \<Rightarrow> bool" where
  "map_DeepEqual x y \<longleftrightarrow> length x = length y \<and> list_all (\<lambda>(k, v). map_of y k = Some v) x"

definition HasPrefix :: "string \<Rightarrow> string \<Rightarrow> bool" where
  "HasPrefix s p \<longleftrightarrow> prefix p s"

definition strings_Contains :: "string \<Rightarrow> string \<Rightarrow> bool" where
  "strings_Contains s sub \<longleftrightarrow> sublist sub s"

text \<open>
  \<open>fmt.Sprintf\<close> on a format whose verbs are \<open>%s\<close> and \<open>%v\<close> and whose operands are strings. Missing
  operands print as \<open>%!s(MISSING)\<close> and surplus ones as \<open>%!(EXTRA string=...)\<close>.
\<close>

fun extra_args :: "string list \<Rightarrow> string" where
  "extra_args [] = ''''"
| "extra_args [a] = ''string='' @ a"
| "extra_args (a # as) = ''string='' @ a @ '', '' @ extra_args as"

fun Sprintf :: "string \<Rightarrow> string list \<Rightarrow> string" where
  "Sprintf [] args = (if args = [] then '''' else ''%!(EXTRA '' @ extra_args args @ '')'')"
| "Sprintf [c] args = (if c = CHR ''%'' then ''%!(NOVERB)'' else [c]) @ Sprintf [] args"
| "Sprintf (c # d # cs) args =
     (if c = CHR ''%'' \<and> (d = CHR ''s'' \<or> d = CHR ''v'')
      then (case args of [] \<Rightarrow> ''%!'' @ [d] @ ''(MISSING)'' @ Sprintf cs []
                       | a # as \<Rightarrow> a @ Sprintf cs as)
      else c # Sprintf (d # cs) args)"

text \<open>\<open>%v\<close> of a string slice.\<close>

fun join_space :: "string list \<Rightarrow> string" where
  "join_space [] = ''''"
| "join_space [a] = a"
| "join_space (a # as) = a @ '' '' @ join_space as"

definition show_strings :: "string list \<Rightarrow> string" where
  "show_strings xs = ''['' @ join_space xs @ '']''"

lemma map_DeepEqual_refl: "distinct (map fst m) \<Longrightarrow> map_DeepEqual m m"
  by (auto simp: map_DeepEqual_def list_all_iff)

lemma map_DeepEqual_map_of:
  assumes "distinct (map fst x)" and "distinct (map fst y)"
  shows "map_DeepEqual x y \<longleftrightarrow> map_of x = map_of y"
proof
  assume eq: "map_of x = map_of y"
  have "length x = card (dom (map_of x))" and "length y = card (dom (map_of y))"
    using assms by (simp_all add: dom_map_of_conv_image_fst distinct_card flip: set_map)
  with eq assms show "map_DeepEqual x y"
    by (auto simp: map_DeepEqual_def list_all_iff map_of_eq_Some_iff simp flip: eq)
next
  assume de: "map_DeepEqual x y"
  then have sub: "set x \<subseteq> set y"
    using assms(2) by (auto simp: map_DeepEqual_def list_all_iff)
  have "card (set x) = card (set y)"
    using de assms by (simp add: map_DeepEqual_def distinct_map distinct_card)
  with sub have "set x = set y" by (simp add: card_subset_eq)
  with assms show "map_of x = map_of y" by (intro map_of_inject_set [THEN iffD2]) auto
qed

end
