(* ===== verification/Api_Types.thy ===== *)
theory Api_Types
  imports Prelude
begin

text \<open>
  The data of the operator. The types of \<open>src/api/v1\<close> (VolumeGroup, VolumeGroupContent,
  VolumeGroupClass) are modelled field by field. Of the Kubernetes types the operator handles
  (PersistentVolumeClaim, PersistentVolume, StorageClass, Secret, Event) the model keeps the fields
  that the operator reads or writes; \<open>PVCRest\<close> and \<open>PVRest\<close> stand for all the others as one opaque
  value. Errors are values: \<open>StatusError\<close> is an answer of the API server, \<open>GRPCError\<close> one of the
  CSI driver, \<open>ErrorString\<close> and \<open>Wrapped\<close> are the results of \<open>fmt.Errorf\<close> without and with \<open>%w\<close>,
  and the last two are the types of \<open>src/pkg/errors\<close>.
\<close>

section \<open>Kubernetes metadata\<close>

type_synonym Time = nat
type_synonym NamespacedName = "string \<times> string" \<comment> \<open>namespace, name\<close>

record TypeMeta =
  Kind :: string
  APIVersion :: string

record ObjectMeta =
  Name :: string
  Namespace :: string
  UID :: string
  ResourceVersion :: string
  Labels :: gomap
  Annotations :: gomap
  Finalizers :: "string list"
  DeletionTimestamp :: "Time option"

text \<open>A nil pointer and the zero time both count as zero.\<close>

definition IsZero :: "Time option \<Rightarrow> bool" where
  "IsZero d = (case d of None \<Rightarrow> True | Some t \<Rightarrow> t = 0)"

record ObjectReference =
  refKind :: string
  refNamespace :: string
  refName :: string
  refUID :: string
  refAPIVersion :: string
  refResourceVersion :: string

record SecretReference =
  secretRefName :: string
  secretRefNamespace :: string

record LabelSelectorRequirement =
  reqKey :: string
  reqOperator :: string
  reqValues :: "string list"

record LabelSelector =
  MatchLabels :: gomap
  MatchExpressions :: "LabelSelectorRequirement list"

section \<open>Kubernetes storage objects\<close>

record PersistentVolumeClaim =
  PVCTypeMeta :: TypeMeta
  PVCMeta :: ObjectMeta
  PVCStorageClassName :: "string option"
  PVCVolumeName :: string
  PVCPhase :: string
  PVCRest :: string

definition ClaimBound :: string where
  "ClaimBound = ''Bound''"

record PersistentVolume =
  PVMeta :: ObjectMeta
  PVCSI :: "string option" \<comment> \<open>the CSI source, if any, by its \<open>VolumeHandle\<close>\<close>
  PVClaimRef :: "ObjectReference option"
  PVRest :: string

record StorageClass =
  SCName :: string
  Provisioner :: string
  SCParameters :: gomap

type_synonym bytes = "char list"

record Secret =
  SecretData :: "(string \<times> bytes) list"

record Event =
  evNamespace :: string
  evName :: string
  ReportingController :: string
  InvolvedObject :: ObjectReference
  Reason :: string
  Message :: string
  evType :: string
  FirstTimestamp :: Time

section \<open>The operator's own resources\<close>

type_synonym VolumeGroupDeletionPolicy = string

definition VolumeGroupContentDelete :: VolumeGroupDeletionPolicy where
  "VolumeGroupContentDelete = ''Delete''"

definition VolumeGroupContentRetain :: VolumeGroupDeletionPolicy where
  "VolumeGroupContentRetain = ''Retain''"

record VolumeGroupError =
  errTime :: "Time option"
  errMessage :: "string option"

record VolumeGroupSource =
  srcVolumeGroupContentName :: "string option"
  Selector :: "LabelSelector option"

record VolumeGroupSpec =
  vgVolumeGroupClassName :: "string option"
  vgSource :: VolumeGroupSource

record VolumeGroupStatus =
  BoundVolumeGroupContentName :: "string option"
  vgGroupCreationTime :: "Time option"
  PVCList :: "PersistentVolumeClaim list"
  vgReady :: "bool option"
  vgError :: "VolumeGroupError option"

record VolumeGroup =
  vgTypeMeta :: TypeMeta
  vgMeta :: ObjectMeta
  vgSpec :: VolumeGroupSpec
  vgStatus :: VolumeGroupStatus

record VolumeGroupClass =
  classTypeMeta :: TypeMeta
  classMeta :: ObjectMeta
  Driver :: string
  classParameters :: gomap
  classVolumeGroupDeletionPolicy :: "VolumeGroupDeletionPolicy option"
  classSupportVolumeGroupSnapshot :: "bool option"

record VolumeGroupContentSource =
  srcDriver :: string
  VolumeGroupHandle :: string
  VolumeGroupAttributes :: gomap

record VolumeGroupContentSpec =
  vgcVolumeGroupClassName :: "string option"
  VolumeGroupRef :: "ObjectReference option"
  vgcSource :: "VolumeGroupContentSource option"
  vgcVolumeGroupDeletionPolicy :: "VolumeGroupDeletionPolicy option"
  SupportVolumeGroupSnapshot :: "bool option"
  VolumeGroupSecretRef :: "SecretReference option"

record VolumeGroupContentStatus =
  vgcGroupCreationTime :: "Time option"
  PVList :: "PersistentVolume list"
  vgcReady :: "bool option"
  vgcError :: "VolumeGroupError option"

record VolumeGroupContent =
  vgcTypeMeta :: TypeMeta
  vgcMeta :: ObjectMeta
  vgcSpec :: VolumeGroupContentSpec
  vgcStatus :: VolumeGroupContentStatus

section \<open>Zero values\<close>

text \<open>The value of a freshly declared struct, into which a \<open>Get\<close> decodes its answer.\<close>

definition TypeMeta0 :: TypeMeta where
  "TypeMeta0 = \<lparr>Kind = '''', APIVersion = ''''\<rparr>"

definition ObjectMeta0 :: ObjectMeta where
  "ObjectMeta0 = \<lparr>Name = '''', Namespace = '''', UID = '''', ResourceVersion = '''',
     Labels = [], Annotations = [], Finalizers = [], DeletionTimestamp = None\<rparr>"

definition VolumeGroup0 :: VolumeGroup where
  "VolumeGroup0 = \<lparr>vgTypeMeta = TypeMeta0, vgMeta = ObjectMeta0,
     vgSpec = \<lparr>vgVolumeGroupClassName = None,
               vgSource = \<lparr>srcVolumeGroupContentName = None, Selector = None\<rparr>\<rparr>,
     vgStatus = \<lparr>BoundVolumeGroupContentName = None, vgGroupCreationTime = None, PVCList = [],
                 vgReady = None, vgError = None\<rparr>\<rparr>"

definition VolumeGroupContent0 :: VolumeGroupContent where
  "VolumeGroupContent0 = \<lparr>vgcTypeMeta = TypeMeta0, vgcMeta = ObjectMeta0,
     vgcSpec = \<lparr>vgcVolumeGroupClassName = None, VolumeGroupRef = None, vgcSource = None,
                vgcVolumeGroupDeletionPolicy = None, SupportVolumeGroupSnapshot = None,
                VolumeGroupSecretRef = None\<rparr>,
     vgcStatus = \<lparr>vgcGroupCreationTime = None, PVList = [], vgcReady = None, vgcError = None\<rparr>\<rparr>"

definition PersistentVolumeClaim0 :: PersistentVolumeClaim where
  "PersistentVolumeClaim0 = \<lparr>PVCTypeMeta = TypeMeta0, PVCMeta = ObjectMeta0,
     PVCStorageClassName = None, PVCVolumeName = '''', PVCPhase = '''', PVCRest = ''''\<rparr>"

lemmas zero_values = TypeMeta0_def ObjectMeta0_def VolumeGroup0_def VolumeGroupContent0_def
  PersistentVolumeClaim0_def

section \<open>Requests to the CSI driver\<close>

record CreateVolumeGroupRequest =
  creqName :: string
  creqParameters :: gomap
  creqSecrets :: gomap

record DeleteVolumeGroupRequest =
  dreqVolumeGroupId :: string
  dreqSecrets :: gomap

record ModifyVolumeGroupMembershipRequest =
  mreqVolumeGroupId :: string
  mreqVolumeIds :: "string list"
  mreqSecrets :: gomap

record csi_VolumeGroup =
  csiVolumeGroupId :: string
  csiVolumeGroupContext :: gomap

record CreateVolumeGroupResponse =
  crespVolumeGroup :: "csi_VolumeGroup option"

section \<open>Messages\<close>

definition MatchingLabelsAndLabelSelectorFailed :: string where "MatchingLabelsAndLabelSelectorFailed =
  ''Could not check if labels are matched with labelSelector, got %s''"
definition PVDoesNotExist_msg :: string where "PVDoesNotExist_msg = ''%s/%s persistentVolume does not exist''"
definition PVCIsAlreadyBelongToGroup :: string where "PVCIsAlreadyBelongToGroup =
  ''Failed to add %s/%s persistentVolumeClaim to VolumeGroups %v Because it belongs to other VolumeGroups %v''"
definition PVCMatchedWithMultipleNewGroups :: string where "PVCMatchedWithMultipleNewGroups =
  ''Failed to add %s/%s persistentVolumeClaim to VolumeGroups %v Because it matched more than one new VolumeGroups''"
definition FailedToGetStorageClassName :: string where "FailedToGetStorageClassName =
  ''Failed to get storageClass name from persistentVolumeClaim %s''"
definition VGCreated :: string where "VGCreated = ''Successfully Created  %s/%s volumeGroup''"
definition VGCCreated :: string where "VGCCreated = ''Successfully Created  %s/%s volumeGroupContent''"
definition AddedPVCToVG :: string where "AddedPVCToVG = ''Successfully added %s/%s persistentVolumeClaim to %s/%s volumeGroup''"
definition RemovedPVCFromVG :: string where "RemovedPVCFromVG =
  ''Successfully removed %s/%s persistentVolumeClaim from %s/%s volumeGroup''"
definition StorageClassHasVGParameter :: string where "StorageClassHasVGParameter =
  ''StorageClass %s contain parameter volume_group for claim %s/%s. volumegroup feature is not supported''"
definition VgIsStillExist :: string where "VgIsStillExist =
  ''Cant delete %s/%s volumeGroupContent because volumeGroup is still exist''"

section \<open>Errors\<close>

datatype error =
    StatusError string string \<comment> \<open>API server: reason and message\<close>
  | GRPCError nat string string \<comment> \<open>CSI driver: status code, message, printed form\<close>
  | ErrorString string
  | Wrapped string error \<comment> \<open>\<open>fmt.Errorf("... %w", err)\<close>: the text before the operand\<close>
  | MatchingLabelsAndLabelSelectorError string
  | PVDoesNotExist string string string \<comment> \<open>PVName, PVNamespace, ErrorMessage\<close>

text \<open>The \<open>Error()\<close> method. The two types of \<open>src/pkg/errors\<close> format their own message.\<close>

primrec Error :: "error \<Rightarrow> string" where
  "Error (StatusError r m) = m"
| "Error (GRPCError c m text) = text"
| "Error (ErrorString m) = m"
| "Error (Wrapped p e) = p @ Error e"
| "Error (MatchingLabelsAndLabelSelectorError m) = Sprintf MatchingLabelsAndLabelSelectorFailed [m]"
| "Error (PVDoesNotExist pv ns m) = Sprintf PVDoesNotExist_msg [pv, ns]"

section \<open>Interactions with the outside\<close>

text \<open>
  One constructor per call that leaves the operator, with its request and its answer. An operation
  that takes a pointer to an object records the object as it was sent and as the call left it.
\<close>

datatype event =
    EvGetVG NamespacedName "error option \<times> VolumeGroup"
  | EvGetVGC NamespacedName "error option \<times> VolumeGroupContent"
  | EvGetPVC NamespacedName "error option \<times> PersistentVolumeClaim"
  | EvGetPV string "error + PersistentVolume"
  | EvGetSC string "error + StorageClass"
  | EvGetVGClass string "error + VolumeGroupClass"
  | EvGetSecret NamespacedName "error + Secret"
  | EvListVG "error + VolumeGroup list"
  | EvListPVC "error + PersistentVolumeClaim list"
  | EvListCRD string "error option"
  | EvUpdateVG VolumeGroup "error option \<times> VolumeGroup"
  | EvUpdateVGC VolumeGroupContent "error option \<times> VolumeGroupContent"
  | EvUpdatePVC PersistentVolumeClaim "error option \<times> PersistentVolumeClaim"
  | EvStatusVG VolumeGroup "error option \<times> VolumeGroup"
  | EvStatusVGC VolumeGroupContent "error option \<times> VolumeGroupContent"
  | EvCreateVGC VolumeGroupContent "error option \<times> VolumeGroupContent"
  | EvCreateEvent Event "error option"
  | EvDeleteVGC VolumeGroupContent "error option"
  | EvDeletePVC PersistentVolumeClaim "error option"
  | EvRpcCreate CreateVolumeGroupRequest "CreateVolumeGroupResponse option \<times> error option"
  | EvRpcDelete DeleteVolumeGroupRequest "error option"
  | EvRpcModify ModifyVolumeGroupMembershipRequest "error option"

type_synonym history = "event list"
type_synonym 'a go = "(event, 'a) prog"

text \<open>Reads leave the cluster and the storage as they are.\<close>

fun is_read :: "event \<Rightarrow> bool" where
  "is_read (EvGetVG _ _) = True"
| "is_read (EvGetVGC _ _) = True"
| "is_read (EvGetPVC _ _) = True"
| "is_read (EvGetPV _ _) = True"
| "is_read (EvGetSC _ _) = True"
| "is_read (EvGetVGClass _ _) = True"
| "is_read (EvGetSecret _ _) = True"
| "is_read (EvListVG _) = True"
| "is_read (EvListPVC _) = True"
| "is_read (EvListCRD _ _) = True"
| "is_read _ = False"

text \<open>What an event touches.\<close>

datatype touched = Reading | SpecVG | StatusVG | SpecVGC | StatusVGC | NewVGC | GoneVGC
  | SpecPVC | GonePVC | Note | RpcCreate | RpcDelete | RpcModify

fun touches :: "event \<Rightarrow> touched" where
  "touches (EvUpdateVG _ _) = SpecVG"
| "touches (EvStatusVG _ _) = StatusVG"
| "touches (EvUpdateVGC _ _) = SpecVGC"
| "touches (EvStatusVGC _ _) = StatusVGC"
| "touches (EvCreateVGC _ _) = NewVGC"
| "touches (EvDeleteVGC _ _) = GoneVGC"
| "touches (EvUpdatePVC _ _) = SpecPVC"
| "touches (EvDeletePVC _ _) = GonePVC"
| "touches (EvCreateEvent _ _) = Note"
| "touches (EvRpcCreate _ _) = RpcCreate"
| "touches (EvRpcDelete _ _) = RpcDelete"
| "touches (EvRpcModify _ _) = RpcModify"
| "touches _ = Reading"

lemma touches_Reading: "touches e = Reading \<longleftrightarrow> is_read e"
  by (cases e) auto

text \<open>\<open>does S m\<close>: the program touches nothing but \<open>S\<close>, from whatever history it starts.\<close>

definition within :: "touched set \<Rightarrow> event \<Rightarrow> bool" where
  "within S e \<longleftrightarrow> touches e \<in> S"

lemma within_simps [simp]:
  "within S (EvGetVG x0_0 x0_1) \<longleftrightarrow> Reading \<in> S"
  "within S (EvGetVGC x1_0 x1_1) \<longleftrightarrow> Reading \<in> S"
  "within S (EvGetPVC x2_0 x2_1) \<longleftrightarrow> Reading \<in> S"
  "within S (EvGetPV x3_0 x3_1) \<longleftrightarrow> Reading \<in> S"
  "within S (EvGetSC x4_0 x4_1) \<longleftrightarrow> Reading \<in> S"
  "within S (EvGetVGClass x5_0 x5_1) \<longleftrightarrow> Reading \<in> S"
  "within S (EvGetSecret x6_0 x6_1) \<longleftrightarrow> Reading \<in> S"
  "within S (EvListVG x7_0) \<longleftrightarrow> Reading \<in> S"
  "within S (EvListPVC x8_0) \<longleftrightarrow> Reading \<in> S"
  "within S (EvListCRD x9_0 x9_1) \<longleftrightarrow> Reading \<in> S"
  "within S (EvUpdateVG x10_0 x10_1) \<longleftrightarrow> SpecVG \<in> S"
  "within S (EvUpdateVGC x11_0 x11_1) \<longleftrightarrow> SpecVGC \<in> S"
  "within S (EvUpdatePVC x12_0 x12_1) \<longleftrightarrow> SpecPVC \<in> S"
  "within S (EvStatusVG x13_0 x13_1) \<longleftrightarrow> StatusVG \<in> S"
  "within S (EvStatusVGC x14_0 x14_1) \<longleftrightarrow> StatusVGC \<in> S"
  "within S (EvCreateVGC x15_0 x15_1) \<longleftrightarrow> NewVGC \<in> S"
  "within S (EvCreateEvent x16_0 x16_1) \<longleftrightarrow> Note \<in> S"
  "within S (EvDeleteVGC x17_0 x17_1) \<longleftrightarrow> GoneVGC \<in> S"
  "within S (EvDeletePVC x18_0 x18_1) \<longleftrightarrow> GonePVC \<in> S"
  "within S (EvRpcCreate x19_0 x19_1) \<longleftrightarrow> RpcCreate \<in> S"
  "within S (EvRpcDelete x20_0 x20_1) \<longleftrightarrow> RpcDelete \<in> S"
  "within S (EvRpcModify x21_0 x21_1) \<longleftrightarrow> RpcModify \<in> S"
  by (simp_all add: within_def)

abbreviation does :: "touched set \<Rightarrow> 'a go \<Rightarrow> bool" where
  "does S m \<equiv> emits (within S) m"

lemma does_mono: "does S m \<Longrightarrow> S \<subseteq> T \<Longrightarrow> does T m"
  by (erule emits_mono) (auto simp: within_def)

lemma does_read: "emits is_read m \<Longrightarrow> Reading \<in> S \<Longrightarrow> does S m"
  by (erule emits_mono) (auto simp: within_def touches_Reading [symmetric])

text \<open>Keeping the order of events through a program that does not touch \<open>T\<close>.\<close>

lemma wp_guards_does:
  "does S m \<Longrightarrow> S \<inter> T = {} \<Longrightarrow> guards G (within T) pre \<Longrightarrow> wp m (\<lambda>_. guards G (within T)) pre"
  by (erule wp_guards_quiet) (auto simp: within_def)

lemma wp_guards_then_does:
  "wp m (\<lambda>_. guards G (within T)) pre \<Longrightarrow> (\<And>a. does S (f a)) \<Longrightarrow> S \<inter> T = {} \<Longrightarrow>
     wp (bindG m f) (\<lambda>_. guards G (within T)) pre"
  by (rule wp_guards_then_quiet [of m G "within T" pre "within S" f]) (auto simp: within_def)

lemma guards_reads:
  "list_all is_read es \<Longrightarrow> Reading \<notin> T \<Longrightarrow> guards G (within T) es"
  "guards G (within T) es \<Longrightarrow> list_all is_read es' \<Longrightarrow> Reading \<notin> T \<Longrightarrow> guards G (within T) (es @ es')"
  by (rule guards_none guards_quiet; auto simp: list_all_iff within_def touches_Reading [symmetric])+

section \<open>Configuration\<close>

record DriverConfig =
  DriverEndpoint :: string
  DriverName :: string
  RPCTimeout :: nat
  MultipleVGsToPVC :: string
  DisableDeletePvcs :: string

definition NewDriverConfig :: DriverConfig where
  "NewDriverConfig = \<lparr>DriverEndpoint = '''', DriverName = '''', RPCTimeout = 0,
     MultipleVGsToPVC = '''', DisableDeletePvcs = ''''\<rparr>"

definition Validate :: "DriverConfig \<Rightarrow> error option" where
  "Validate cfg = (if DriverName cfg = '''' then Some (ErrorString ''driverName is empty'') else None)"

end
