(* ===== verification/Cluster.thy ===== *)
theory Cluster
  imports Api_Types
begin

text \<open>
  The boundary of the operator. Everything that is not part of the repository is a parameter: the
  Kubernetes API server behind controller-runtime's client, the CSI driver behind gRPC, and the
  library functions of apimachinery, client-go, go-cmp and grpc that the operator calls. The
  answers of server and driver are functions of the whole history, so an environment may change
  objects between any two calls and may answer from a stale cache.

  Also here: the operations of \<open>src/controllers/utils/controller_utils.go\<close> that wrap the client
  (\<open>UpdateObject\<close>, \<open>UpdateObjectStatus\<close>, \<open>getNamespacedObject\<close>, \<open>GetMessageFromError\<close>), and the
  documented behaviour of \<open>retry.RetryOnConflict\<close> as the predicate \<open>retries_on_conflict\<close>.
\<close>

section \<open>Parameters\<close>

type_synonym 'o attempt = "'o \<Rightarrow> (error option \<times> 'o) go"

record api_server =
  srv_Get_VG :: "NamespacedName \<Rightarrow> VolumeGroup \<Rightarrow> history \<Rightarrow> error option \<times> VolumeGroup"
  srv_Get_VGC :: "NamespacedName \<Rightarrow> VolumeGroupContent \<Rightarrow> history \<Rightarrow> error option \<times> VolumeGroupContent"
  srv_Get_PVC :: "NamespacedName \<Rightarrow> PersistentVolumeClaim \<Rightarrow> history \<Rightarrow> error option \<times> PersistentVolumeClaim"
  srv_Get_PV :: "string \<Rightarrow> history \<Rightarrow> error + PersistentVolume"
  srv_Get_SC :: "string \<Rightarrow> history \<Rightarrow> error + StorageClass"
  srv_Get_VGClass :: "string \<Rightarrow> history \<Rightarrow> error + VolumeGroupClass"
  srv_Get_Secret :: "NamespacedName \<Rightarrow> history \<Rightarrow> error + Secret"
  srv_List_VG :: "history \<Rightarrow> error + VolumeGroup list"
  srv_List_PVC :: "history \<Rightarrow> error + PersistentVolumeClaim list"
  srv_List_CRD :: "string \<Rightarrow> history \<Rightarrow> error option"
  srv_Update_VG :: "VolumeGroup \<Rightarrow> history \<Rightarrow> error option \<times> VolumeGroup"
  srv_Update_VGC :: "VolumeGroupContent \<Rightarrow> history \<Rightarrow> error option \<times> VolumeGroupContent"
  srv_Update_PVC :: "PersistentVolumeClaim \<Rightarrow> history \<Rightarrow> error option \<times> PersistentVolumeClaim"
  srv_Status_VG :: "VolumeGroup \<Rightarrow> history \<Rightarrow> error option \<times> VolumeGroup"
  srv_Status_VGC :: "VolumeGroupContent \<Rightarrow> history \<Rightarrow> error option \<times> VolumeGroupContent"
  srv_Create_VGC :: "VolumeGroupContent \<Rightarrow> history \<Rightarrow> error option \<times> VolumeGroupContent"
  srv_Create_Event :: "Event \<Rightarrow> history \<Rightarrow> error option"
  srv_Delete_VGC :: "VolumeGroupContent \<Rightarrow> history \<Rightarrow> error option"
  srv_Delete_PVC :: "PersistentVolumeClaim \<Rightarrow> history \<Rightarrow> error option"

record csi_driver =
  drv_CreateVolumeGroup ::
    "nat \<Rightarrow> CreateVolumeGroupRequest \<Rightarrow> history \<Rightarrow> CreateVolumeGroupResponse option \<times> error option"
  drv_DeleteVolumeGroup :: "nat \<Rightarrow> DeleteVolumeGroupRequest \<Rightarrow> history \<Rightarrow> error option"
  drv_ModifyVolumeGroupMembership ::
    "nat \<Rightarrow> ModifyVolumeGroupMembershipRequest \<Rightarrow> history \<Rightarrow> error option"

text \<open>
  Library functions. \<open>RetryOnConflict\<close> (with the backoff \<open>retry.DefaultRetry\<close>) is used at the three
  types of object its closure captures. \<open>lib_decode_in_place\<close> says whether decoding an answer into
  an existing slice reuses the slice's array. \<open>lib_Intn t n i\<close> is the \<open>i\<close>-th draw of \<open>rand.Intn(n)\<close>
  after history \<open>t\<close>.
\<close>

record library =
  lib_IsNotFound :: "error \<Rightarrow> bool"
  lib_IsConflict :: "error \<Rightarrow> bool"
  lib_IsAlreadyExists :: "error \<Rightarrow> bool"
  lib_IsNoMatchError :: "error \<Rightarrow> bool"
  lib_FromError :: "error \<Rightarrow> (nat \<times> string) option" \<comment> \<open>status code and message of a gRPC error\<close>
  lib_LabelSelectorAsSelector :: "LabelSelector \<Rightarrow> error + (gomap \<Rightarrow> bool)"
  lib_Diff_SortSlices :: "(PersistentVolumeClaim \<Rightarrow> PersistentVolumeClaim \<Rightarrow> bool) \<Rightarrow>
     PersistentVolumeClaim list \<Rightarrow> PersistentVolumeClaim list \<Rightarrow> string"
  lib_Version :: "TypeMeta \<Rightarrow> string" \<comment> \<open>\<open>GroupVersionKind().Version\<close>\<close>
  lib_ObjectKind_String :: "TypeMeta \<Rightarrow> string"
  lib_RetryOnConflict_VG :: "VolumeGroup attempt \<Rightarrow> VolumeGroup attempt"
  lib_RetryOnConflict_VGC :: "VolumeGroupContent attempt \<Rightarrow> VolumeGroupContent attempt"
  lib_RetryOnConflict_PVC :: "PersistentVolumeClaim attempt \<Rightarrow> PersistentVolumeClaim attempt"
  lib_decode_in_place :: "history \<Rightarrow> bool"
  lib_Now :: "history \<Rightarrow> Time"
  lib_Intn :: "history \<Rightarrow> nat \<Rightarrow> nat \<Rightarrow> nat"

record env =
  api :: api_server
  csi :: csi_driver
  lib :: library

section \<open>Calls of the client\<close>

definition client_Get_VG :: "env \<Rightarrow> NamespacedName \<Rightarrow> VolumeGroup attempt" where
  "client_Get_VG env key obj = callG (EvGetVG key) (srv_Get_VG (api env) key obj)"

definition client_Get_VGC :: "env \<Rightarrow> NamespacedName \<Rightarrow> VolumeGroupContent attempt" where
  "client_Get_VGC env key obj = callG (EvGetVGC key) (srv_Get_VGC (api env) key obj)"

definition client_Get_PVC :: "env \<Rightarrow> NamespacedName \<Rightarrow> PersistentVolumeClaim attempt" where
  "client_Get_PVC env key obj = callG (EvGetPVC key) (srv_Get_PVC (api env) key obj)"

definition client_Get_PV :: "env \<Rightarrow> string \<Rightarrow> (error + PersistentVolume) go" where
  "client_Get_PV env name = callG (EvGetPV name) (srv_Get_PV (api env) name)"

definition client_Get_SC :: "env \<Rightarrow> string \<Rightarrow> (error + StorageClass) go" where
  "client_Get_SC env name = callG (EvGetSC name) (srv_Get_SC (api env) name)"

definition client_Get_VGClass :: "env \<Rightarrow> string \<Rightarrow> (error + VolumeGroupClass) go" where
  "client_Get_VGClass env name = callG (EvGetVGClass name) (srv_Get_VGClass (api env) name)"

definition client_Get_Secret :: "env \<Rightarrow> NamespacedName \<Rightarrow> (error + Secret) go" where
  "client_Get_Secret env key = callG (EvGetSecret key) (srv_Get_Secret (api env) key)"

definition client_List_VG :: "env \<Rightarrow> (error + VolumeGroup list) go" where
  "client_List_VG env = callG EvListVG (srv_List_VG (api env))"

definition client_List_PVC :: "env \<Rightarrow> (error + PersistentVolumeClaim list) go" where
  "client_List_PVC env = callG EvListPVC (srv_List_PVC (api env))"

definition client_List_CRD :: "env \<Rightarrow> string \<Rightarrow> error option go" where
  "client_List_CRD env kind = callG (EvListCRD kind) (srv_List_CRD (api env) kind)"

definition client_Update_VG :: "env \<Rightarrow> VolumeGroup attempt" where
  "client_Update_VG env obj = callG (EvUpdateVG obj) (srv_Update_VG (api env) obj)"

definition client_Update_VGC :: "env \<Rightarrow> VolumeGroupContent attempt" where
  "client_Update_VGC env obj = callG (EvUpdateVGC obj) (srv_Update_VGC (api env) obj)"

definition client_Update_PVC :: "env \<Rightarrow> PersistentVolumeClaim attempt" where
  "client_Update_PVC env obj = callG (EvUpdatePVC obj) (srv_Update_PVC (api env) obj)"

definition client_Status_VG :: "env \<Rightarrow> VolumeGroup attempt" where
  "client_Status_VG env obj = callG (EvStatusVG obj) (srv_Status_VG (api env) obj)"

definition client_Status_VGC :: "env \<Rightarrow> VolumeGroupContent attempt" where
  "client_Status_VGC env obj = callG (EvStatusVGC obj) (srv_Status_VGC (api env) obj)"

definition client_Create_VGC :: "env \<Rightarrow> VolumeGroupContent attempt" where
  "client_Create_VGC env obj = callG (EvCreateVGC obj) (srv_Create_VGC (api env) obj)"

definition client_Create_Event :: "env \<Rightarrow> Event \<Rightarrow> error option go" where
  "client_Create_Event env ev = callG (EvCreateEvent ev) (srv_Create_Event (api env) ev)"

definition client_Delete_VGC :: "env \<Rightarrow> VolumeGroupContent \<Rightarrow> error option go" where
  "client_Delete_VGC env obj = callG (EvDeleteVGC obj) (srv_Delete_VGC (api env) obj)"

definition client_Delete_PVC :: "env \<Rightarrow> PersistentVolumeClaim \<Rightarrow> error option go" where
  "client_Delete_PVC env obj = callG (EvDeletePVC obj) (srv_Delete_PVC (api env) obj)"

lemmas client_calls =
  client_Get_VG_def client_Get_VGC_def client_Get_PVC_def client_Get_PV_def client_Get_SC_def
  client_Get_VGClass_def client_Get_Secret_def client_List_VG_def client_List_PVC_def
  client_List_CRD_def client_Update_VG_def client_Update_VGC_def client_Update_PVC_def
  client_Status_VG_def client_Status_VGC_def client_Create_VGC_def client_Create_Event_def
  client_Delete_VGC_def client_Delete_PVC_def

section \<open>Errors of the API server\<close>

definition is_err :: "(error \<Rightarrow> bool) \<Rightarrow> error option \<Rightarrow> bool" where
  "is_err p err = (case err of None \<Rightarrow> False | Some e \<Rightarrow> p e)"

lemma is_err_simps [simp]: "is_err p None = False" "is_err p (Some e) = p e"
  by (simp_all add: is_err_def)

abbreviation IsNotFound :: "env \<Rightarrow> error \<Rightarrow> bool" where
  "IsNotFound env \<equiv> lib_IsNotFound (lib env)"

abbreviation IsConflict :: "env \<Rightarrow> error option \<Rightarrow> bool" where
  "IsConflict env \<equiv> is_err (lib_IsConflict (lib env))"

text \<open>The predicates of apimachinery look through \<open>%w\<close>.\<close>

definition looks_through_wrapping :: "env \<Rightarrow> bool" where
  "looks_through_wrapping env \<longleftrightarrow>
     (\<forall>p e. lib_IsConflict (lib env) (Wrapped p e) = lib_IsConflict (lib env) e) \<and>
     (\<forall>p e. lib_IsNotFound (lib env) (Wrapped p e) = lib_IsNotFound (lib env) e)"

section \<open>Objects behind the client.Object interface\<close>

text \<open>
  The interface as a dictionary: the accessors of the metadata and the client's methods at the
  object's type. \<open>status_Object\<close> adds the status subresource.
\<close>

record 'o client_Object =
  GetObjectKind :: "'o \<Rightarrow> TypeMeta"
  GetMeta :: "'o \<Rightarrow> ObjectMeta"
  SetFinalizers :: "string list \<Rightarrow> 'o \<Rightarrow> 'o"
  obj_Get :: "NamespacedName \<Rightarrow> 'o attempt"
  obj_Update :: "'o attempt"
  obj_RetryOnConflict :: "'o attempt \<Rightarrow> 'o attempt"

record 'o status_Object = "'o client_Object" +
  obj_StatusUpdate :: "'o attempt"

definition VG_object :: "env \<Rightarrow> VolumeGroup status_Object" where
  "VG_object env = \<lparr>GetObjectKind = vgTypeMeta, GetMeta = vgMeta,
     SetFinalizers = (\<lambda>fs vg. vg\<lparr>vgMeta := (vgMeta vg)\<lparr>Finalizers := fs\<rparr>\<rparr>),
     obj_Get = client_Get_VG env, obj_Update = client_Update_VG env,
     obj_RetryOnConflict = lib_RetryOnConflict_VG (lib env),
     obj_StatusUpdate = client_Status_VG env\<rparr>"

definition VGC_object :: "env \<Rightarrow> VolumeGroupContent status_Object" where
  "VGC_object env = \<lparr>GetObjectKind = vgcTypeMeta, GetMeta = vgcMeta,
     SetFinalizers = (\<lambda>fs vgc. vgc\<lparr>vgcMeta := (vgcMeta vgc)\<lparr>Finalizers := fs\<rparr>\<rparr>),
     obj_Get = client_Get_VGC env, obj_Update = client_Update_VGC env,
     obj_RetryOnConflict = lib_RetryOnConflict_VGC (lib env),
     obj_StatusUpdate = client_Status_VGC env\<rparr>"

definition PVC_object :: "env \<Rightarrow> PersistentVolumeClaim client_Object" where
  "PVC_object env = \<lparr>GetObjectKind = PVCTypeMeta, GetMeta = PVCMeta,
     SetFinalizers = (\<lambda>fs pvc. pvc\<lparr>PVCMeta := (PVCMeta pvc)\<lparr>Finalizers := fs\<rparr>\<rparr>),
     obj_Get = client_Get_PVC env, obj_Update = client_Update_PVC env,
     obj_RetryOnConflict = lib_RetryOnConflict_PVC (lib env)\<rparr>"

lemmas object_defs = VG_object_def VGC_object_def PVC_object_def

section \<open>controller_utils.go: updating and fetching objects\<close>

definition update_prefix :: "env \<Rightarrow> TypeMeta \<Rightarrow> ObjectMeta \<Rightarrow> string \<Rightarrow> string" where
  "update_prefix env tm m what =
     Sprintf (''failed to update %s (%s/%s) '' @ what)
       [lib_ObjectKind_String (lib env) tm, Namespace m, Name m]"

definition UpdateObject :: "env \<Rightarrow> ('o, 'z) client_Object_scheme \<Rightarrow> 'o attempt" where
  "UpdateObject env ops updateObject =
     bindG (obj_Update ops updateObject) (\<lambda>(err, obj).
     case err of
       Some e \<Rightarrow> returnG (Some (Wrapped (update_prefix env (GetObjectKind ops obj) (GetMeta ops obj) '''') e), obj)
     | None \<Rightarrow> returnG (None, obj))"

definition UpdateObjectStatus :: "env \<Rightarrow> ('o, 'z) status_Object_scheme \<Rightarrow> 'o attempt" where
  "UpdateObjectStatus env ops updateObject =
     bindG (obj_StatusUpdate ops updateObject) (\<lambda>(err, obj).
     case err of
       Some e \<Rightarrow>
         (if IsConflict env (Some e) then returnG (Some e, obj)
          else returnG (Some (Wrapped (update_prefix env (GetObjectKind ops obj) (GetMeta ops obj) ''status '') e), obj))
     | None \<Rightarrow> returnG (None, obj))"

definition getNamespacedObject :: "env \<Rightarrow> ('o, 'z) client_Object_scheme \<Rightarrow> 'o attempt" where
  "getNamespacedObject env ops obj =
     bindG (obj_Get ops (Namespace (GetMeta ops obj), Name (GetMeta ops obj)) obj) (\<lambda>(err, obj').
     returnG (err, obj'))"

definition GetMessageFromError :: "env \<Rightarrow> error \<Rightarrow> string" where
  "GetMessageFromError env err =
     (case lib_FromError (lib env) err of None \<Rightarrow> Error err | Some (code, msg) \<Rightarrow> msg)"

section \<open>RetryOnConflict\<close>

text \<open>
  \<open>attempts c n f obj\<close>: call \<open>f\<close>, and again on the object it left while it fails with a conflict,
  at most \<open>n\<close> more times. client-go documents \<open>RetryOnConflict\<close> to call its closure again after a
  conflict, up to a number of steps, and to return the error of the last call;
  \<open>retries_on_conflict\<close> states exactly that of an implementation.
\<close>

primrec attempts :: "(error option \<Rightarrow> bool) \<Rightarrow> nat \<Rightarrow> 'o attempt \<Rightarrow> 'o attempt" where
  "attempts c 0 f obj = f obj"
| "attempts c (Suc n) f obj =
     bindG (f obj) (\<lambda>(err, obj'). if c err then attempts c n f obj' else returnG (err, obj'))"

definition retries_on_conflict ::
    "(error option \<Rightarrow> bool) \<Rightarrow> ('o attempt \<Rightarrow> 'o attempt) \<Rightarrow> bool" where
  "retries_on_conflict c retry \<longleftrightarrow> (\<forall>f obj t. \<exists>n. retry f obj t = attempts c n f obj t)"

definition retry_documented :: "env \<Rightarrow> bool" where
  "retry_documented env \<longleftrightarrow>
     retries_on_conflict (IsConflict env) (lib_RetryOnConflict_VG (lib env)) \<and>
     retries_on_conflict (IsConflict env) (lib_RetryOnConflict_VGC (lib env)) \<and>
     retries_on_conflict (IsConflict env) (lib_RetryOnConflict_PVC (lib env))"

text \<open>
  Reasoning about a retried closure: a property of the object and the events so far that one
  attempt keeps on conflict and that establishes \<open>Q\<close> on every other result.
\<close>

lemma wp_attempts:
  assumes step: "\<And>obj pre. I obj pre \<Longrightarrow>
      wp (f obj) (\<lambda>x es. case x of Panic s \<Rightarrow> Q (Panic s) es
        | Ret (err, obj') \<Rightarrow> Q (Ret (err, obj')) es \<and> (c err \<longrightarrow> I obj' es)) pre"
    and "I obj pre"
  shows "wp (attempts c n f obj) Q pre"
  using assms(2)
proof (induction n arbitrary: obj pre)
  case 0
  from step [OF this] show ?case
    by (simp, elim wp_mono) (auto split: outcome.splits prod.splits)
next
  case (Suc n)
  show ?case
    unfolding attempts.simps
  proof (rule wp_bindG, rule wp_mono [OF step [OF Suc.prems]])
    fix x :: "(error option \<times> 'a) outcome" and es :: "event list"
    assume post: "case x of Panic s \<Rightarrow> Q (Panic s) es
        | Ret (err, obj') \<Rightarrow> Q (Ret (err, obj')) es \<and> (c err \<longrightarrow> I obj' es)"
    show "bind_post (\<lambda>(err, obj'). if c err then attempts c n f obj' else returnG (err, obj')) Q x es"
      using post Suc.IH by (auto split: outcome.splits prod.splits intro: wp_intro)
  qed
qed

lemma wp_retry:
  assumes "retries_on_conflict c retry"
    and "\<And>obj pre. I obj pre \<Longrightarrow>
      wp (f obj) (\<lambda>x es. case x of Panic s \<Rightarrow> Q (Panic s) es
        | Ret (err, obj') \<Rightarrow> Q (Ret (err, obj')) es \<and> (c err \<longrightarrow> I obj' es)) pre"
    and "I obj pre"
  shows "wp (retry f obj) Q pre"
  unfolding wp_def
proof
  fix t
  obtain n where n: "retry f obj t = attempts c n f obj t"
    using assms(1) unfolding retries_on_conflict_def by blast
  have "wp (attempts c n f obj) Q pre" by (rule wp_attempts [of I]) (use assms in auto)
  then show "\<exists>es. snd (retry f obj t) = t @ es \<and> Q (fst (retry f obj t)) (pre @ es)"
    unfolding n wp_def by blast
qed

lemma emits_retry:
  assumes "retries_on_conflict c retry" and "\<And>obj. emits \<Phi> (f obj)"
  shows "emits \<Phi> (retry f obj)"
  unfolding emits_def gives_def
proof (rule wp_retry [OF assms(1), where I = "\<lambda>_ es. list_all \<Phi> es"])
  fix obj pre
  assume pre: "list_all \<Phi> pre"
  show "wp (f obj) (\<lambda>x es. case x of Panic s \<Rightarrow> list_all \<Phi> es
      | Ret (err, obj') \<Rightarrow> list_all \<Phi> es \<and> (c err \<longrightarrow> list_all \<Phi> es)) pre"
    by (rule wp_emits [OF assms(2)]) (use pre in \<open>auto split: outcome.split\<close>)
qed simp

text \<open>Without conflicts the closure runs once.\<close>

lemma retry_once:
  assumes "retries_on_conflict c retry"
    and "\<And>t'. f obj t = (Ret (err, obj'), t') \<Longrightarrow> \<not> c err"
    and "f obj t = (Ret (err, obj'), t1)"
  shows "retry f obj t = (Ret (err, obj'), t1)"
proof -
  obtain n where n: "retry f obj t = attempts c n f obj t"
    using assms(1) unfolding retries_on_conflict_def by blast
  then show ?thesis using assms(2,3) by (cases n) (auto simp: go_run)
qed

end
