(* ===== verification/Utils.thy ===== *)
theory Utils
  imports Cluster
begin

text \<open>
  The stateless helpers of the operator: the constants of \<open>controllers/utils/settings.go\<close>, the
  string slices of \<open>controllers/common/utils/strings.go\<close>, field access by reflection and naming from
  \<open>controllers/utils/utils.go\<close>, the reserved parameters of \<open>parameters.go\<close> and \<open>secret.go\<close>, label
  selectors of \<open>labels.go\<close> and the event filters of \<open>predicate.go\<close>.
\<close>

section \<open>settings.go\<close>

definition VGNamePrefix :: string where "VGNamePrefix = ''volumegroup''"
definition vgGroupName :: string where "vgGroupName = ''volumegroup.storage.ibm.io''"
definition VGFinalizer :: string where "VGFinalizer = vgGroupName"
definition VGAsPrefix :: string where "VGAsPrefix = vgGroupName @ ''/''"
definition VgcFinalizer :: string where "VgcFinalizer = VGAsPrefix @ ''vgc-protection''"
definition pvcVGFinalizer :: string where "pvcVGFinalizer = VGAsPrefix @ ''pvc-protection''"
definition PrefixedVGSecretNameKey :: string where "PrefixedVGSecretNameKey = VGAsPrefix @ ''secret-name''"
definition PrefixedVGSecretNamespaceKey :: string where "PrefixedVGSecretNamespaceKey = VGAsPrefix @ ''secret-namespace''"
definition letterBytes :: string where "letterBytes = ''0123456789abcdefghijklmnopqrstuvwxyz''"
definition vgController :: string where "vgController = ''volumeGroupController''"
definition warningEventType :: string where "warningEventType = ''Warning''"
definition normalEventType :: string where "normalEventType = ''Normal''"
definition storageClassVGParameter :: string where "storageClassVGParameter = ''volume_group''"
definition addingPVC :: string where "addingPVC = ''addPVC''"
definition removingPVC :: string where "removingPVC = ''removePVC''"
definition creatingVGC :: string where "creatingVGC = ''creatingVGC''" \<comment> \<open>\<open>createVGC\<close> of the packages utils and controllers\<close>
definition vgcKind :: string where "vgcKind = ''VolumeGroupContent''"
definition csiAPIVersion :: string where "csiAPIVersion = ''csi.ibm.com/v1''" \<comment> \<open>\<open>APIVersion\<close>\<close>

lemmas settings = VGNamePrefix_def vgGroupName_def VGFinalizer_def VGAsPrefix_def VgcFinalizer_def
  pvcVGFinalizer_def PrefixedVGSecretNameKey_def PrefixedVGSecretNamespaceKey_def

section \<open>strings.go\<close>

fun Contains :: "string list \<Rightarrow> string \<Rightarrow> bool" where
  "Contains [] s = False"
| "Contains (item # slice) s = (if item = s then True else Contains slice s)"

fun Remove :: "string list \<Rightarrow> string \<Rightarrow> string list" where
  "Remove [] s = []"
| "Remove (item # slice) s = (if item = s then Remove slice s else item # Remove slice s)"

section \<open>utils.go: reflection\<close>

text \<open>
  \<open>reflect.Value\<close>, as far as the code inspects it. A pointer holds the value it points to, if any;
  kinds that are only passed over (slices, maps) are \<open>VOther\<close>.
\<close>

datatype Value =
    Invalid
  | VString string
  | VBool bool
  | VPtr "Value option"
  | VStruct "(string \<times> Value) list"
  | VOther

definition Value_Elem :: "Value \<Rightarrow> Value outcome" where
  "Value_Elem v = (case v of VPtr None \<Rightarrow> Ret Invalid | VPtr (Some w) \<Rightarrow> Ret w
     | _ \<Rightarrow> Panic ''reflect: call of reflect.Value.Elem'')"

text \<open>\<open>String\<close> of a value that is no string describes its type and does not panic.\<close>

definition Value_String :: "Value \<Rightarrow> string" where
  "Value_String v = (case v of VString s \<Rightarrow> s | Invalid \<Rightarrow> ''<invalid Value>'' | _ \<Rightarrow> ''<Value>'')"

definition Value_Bool :: "Value \<Rightarrow> bool outcome" where
  "Value_Bool v = (case v of VBool b \<Rightarrow> Ret b | _ \<Rightarrow> Panic ''reflect: call of reflect.Value.Bool'')"

definition Value_IsNil :: "Value \<Rightarrow> bool outcome" where
  "Value_IsNil v = (case v of VPtr p \<Rightarrow> Ret (p = None)
     | _ \<Rightarrow> Panic ''reflect: call of reflect.Value.IsNil'')"

fun fieldByName :: "(string \<times> Value) list \<Rightarrow> string \<Rightarrow> Value" where
  "fieldByName [] fieldName = Invalid"
| "fieldByName ((n, v) # fs) fieldName = (if n = fieldName then v else fieldByName fs fieldName)"

definition GetObjectField :: "Value \<Rightarrow> string \<Rightarrow> Value outcome" where
  "GetObjectField obj fieldName =
     (let objectValue = (case obj of VPtr None \<Rightarrow> Invalid | VPtr (Some v) \<Rightarrow> v | v \<Rightarrow> v)
      in case objectValue of
           Invalid \<Rightarrow> Ret Invalid
         | VStruct fs \<Rightarrow> Ret (fieldByName fs fieldName)
         | _ \<Rightarrow> Panic ''reflect: call of reflect.Value.NumField'')"

definition GetStringField :: "Value \<Rightarrow> string \<Rightarrow> string outcome" where
  "GetStringField obj fieldName =
     (case GetObjectField obj fieldName of
        Panic s \<Rightarrow> Panic s
      | Ret fieldValue \<Rightarrow>
          (case fieldValue of
             Invalid \<Rightarrow> Ret ''''
           | VString s \<Rightarrow> Ret s
           | VPtr None \<Rightarrow> Ret ''''
           | v \<Rightarrow> (case Value_Elem v of Panic s \<Rightarrow> Panic s | Ret w \<Rightarrow> Ret (Value_String w))))"

definition GetBoolField :: "Value \<Rightarrow> string \<Rightarrow> bool outcome" where
  "GetBoolField obj fieldName =
     (case GetObjectField obj fieldName of
        Panic s \<Rightarrow> Panic s
      | Ret fieldValue \<Rightarrow>
          (case fieldValue of
             Invalid \<Rightarrow> Ret False
           | VPtr None \<Rightarrow> Ret False
           | v \<Rightarrow> (case Value_Elem v of Panic s \<Rightarrow> Panic s | Ret w \<Rightarrow> Value_Bool w)))"

text \<open>\<open>reflect.ValueOf\<close> on the structs whose fields the code reads by name, in declaration order.\<close>

definition VStringPtr :: "string option \<Rightarrow> Value" where
  "VStringPtr p = VPtr (map_option VString p)"

definition VBoolPtr :: "bool option \<Rightarrow> Value" where
  "VBoolPtr p = VPtr (map_option VBool p)"

definition VObjPtr :: "'a option \<Rightarrow> Value" where
  "VObjPtr p = VPtr (map_option (\<lambda>_. VOther) p)"

definition ValueOf_VolumeGroupSource :: "VolumeGroupSource \<Rightarrow> Value" where
  "ValueOf_VolumeGroupSource s = VStruct
     [(''VolumeGroupContentName'', VStringPtr (srcVolumeGroupContentName s)),
      (''Selector'', VObjPtr (Selector s))]"

definition ValueOf_VolumeGroupSpec :: "VolumeGroupSpec \<Rightarrow> Value" where
  "ValueOf_VolumeGroupSpec s = VStruct
     [(''VolumeGroupClassName'', VStringPtr (vgVolumeGroupClassName s)),
      (''Source'', ValueOf_VolumeGroupSource (vgSource s))]"

definition ValueOf_VolumeGroupContentSpec :: "VolumeGroupContentSpec \<Rightarrow> Value" where
  "ValueOf_VolumeGroupContentSpec s = VStruct
     [(''VolumeGroupClassName'', VStringPtr (vgcVolumeGroupClassName s)),
      (''VolumeGroupRef'', VObjPtr (VolumeGroupRef s)),
      (''Source'', VObjPtr (vgcSource s)),
      (''VolumeGroupDeletionPolicy'', VStringPtr (vgcVolumeGroupDeletionPolicy s)),
      (''SupportVolumeGroupSnapshot'', VBoolPtr (SupportVolumeGroupSnapshot s)),
      (''VolumeGroupSecretRef'', VObjPtr (VolumeGroupSecretRef s))]"

definition ValueOf_VolumeGroupContentStatus :: "VolumeGroupContentStatus \<Rightarrow> Value" where
  "ValueOf_VolumeGroupContentStatus s = VStruct
     [(''GroupCreationTime'', VObjPtr (vgcGroupCreationTime s)), (''PVList'', VOther),
      (''Ready'', VBoolPtr (vgcReady s)), (''Error'', VObjPtr (vgcError s))]"

definition ValueOf_ObjectReference :: "ObjectReference option \<Rightarrow> Value" where
  "ValueOf_ObjectReference p = VPtr (map_option (\<lambda>r. VStruct
     [(''Kind'', VString (refKind r)), (''Namespace'', VString (refNamespace r)),
      (''Name'', VString (refName r)), (''UID'', VString (refUID r)),
      (''APIVersion'', VString (refAPIVersion r)),
      (''ResourceVersion'', VString (refResourceVersion r)), (''FieldPath'', VOther)]) p)"

definition ValueOf_PVCSpec :: "PersistentVolumeClaim \<Rightarrow> Value" where
  "ValueOf_PVCSpec pvc = VStruct
     [(''AccessModes'', VOther), (''Selector'', VOther), (''Resources'', VOther),
      (''VolumeName'', VString (PVCVolumeName pvc)),
      (''StorageClassName'', VStringPtr (PVCStorageClassName pvc))]"

lemmas reflection_defs = GetStringField_def GetBoolField_def GetObjectField_def Value_Elem_def
  Value_String_def Value_Bool_def Value_IsNil_def VStringPtr_def VBoolPtr_def VObjPtr_def
  ValueOf_VolumeGroupSource_def ValueOf_VolumeGroupSpec_def ValueOf_VolumeGroupContentSpec_def
  ValueOf_VolumeGroupContentStatus_def ValueOf_ObjectReference_def ValueOf_PVCSpec_def

section \<open>utils.go: time and names\<close>

definition GetCurrentTime :: "env \<Rightarrow> Time go" where
  "GetCurrentTime env = readG (lib_Now (lib env))"

definition MakeVGName :: "string \<Rightarrow> string \<Rightarrow> error + string" where
  "MakeVGName pfx vgUID =
     (if length vgUID = 0
      then Inl (ErrorString ''Corrupted volumeGroup object, it is missing UID'')
      else Inr (Sprintf ''%s-%s'' [pfx, vgUID]))"

section \<open>parameters.go and secret.go\<close>

fun FilterPrefixedParameters :: "string \<Rightarrow> gomap \<Rightarrow> gomap" where
  "FilterPrefixedParameters pre [] = []"
| "FilterPrefixedParameters pre ((k, v) # param) =
     (if \<not> HasPrefix k pre then (k, v) # FilterPrefixedParameters pre param
      else FilterPrefixedParameters pre param)"

text \<open>\<open>%q\<close> of a printable string.\<close>

definition strconv_Quote :: "string \<Rightarrow> string" where
  "strconv_Quote s = CHR 0x22 # concat (map (\<lambda>c. if c = CHR 0x22 \<or> c = CHR 0x5C then [CHR 0x5C, c] else [c]) s) @ [CHR 0x22]"

fun ValidatePrefixedParameters :: "gomap \<Rightarrow> error option" where
  "ValidatePrefixedParameters [] = None"
| "ValidatePrefixedParameters ((k, v) # param) =
     (if HasPrefix k VGAsPrefix then
        (if k = PrefixedVGSecretNameKey then
           (if v = '''' then Some (ErrorString ''secret name cannot be empty'')
            else ValidatePrefixedParameters param)
         else if k = PrefixedVGSecretNamespaceKey then
           (if v = '''' then Some (ErrorString ''secret namespace cannot be empty'')
            else ValidatePrefixedParameters param)
         else Some (ErrorString (Sprintf ''found unknown parameter key %s with reserved prefix %s''
                [strconv_Quote k, VGAsPrefix])))
      else ValidatePrefixedParameters param)"

definition GetSecretCred :: "VolumeGroupClass \<Rightarrow> string \<times> string" where
  "GetSecretCred vgClass =
     (let secretName = map_index (classParameters vgClass) PrefixedVGSecretNameKey;
          secretNamespace = map_index (classParameters vgClass) PrefixedVGSecretNamespaceKey
      in (secretName, secretNamespace))"

fun convertMap :: "(string \<times> bytes) list \<Rightarrow> gomap" where
  "convertMap [] = []"
| "convertMap ((key, val) # oldMap) = (key, val) # convertMap oldMap"

definition getSecretData :: "env \<Rightarrow> string \<Rightarrow> string \<Rightarrow> (error + gomap) go" where
  "getSecretData env name namespace =
     bindG (client_Get_Secret env (namespace, name)) (\<lambda>r.
     case r of
       Inl err \<Rightarrow> returnG (Inl err)
     | Inr secret \<Rightarrow> returnG (Inr (convertMap (SecretData secret))))"

definition GetSecretDataFromClass :: "env \<Rightarrow> VolumeGroupClass \<Rightarrow> (error + gomap) go" where
  "GetSecretDataFromClass env vgClass =
     (let (secretName, secretNamespace) = GetSecretCred vgClass
      in if secretName \<noteq> '''' \<and> secretNamespace \<noteq> ''''
         then bindG (getSecretData env secretName secretNamespace) (\<lambda>r.
                case r of Inl err \<Rightarrow> returnG (Inl err) | Inr secret \<Rightarrow> returnG (Inr secret))
         else returnG (Inr []))"

section \<open>labels.go\<close>

definition isSelectorMatchesLabels :: "(gomap \<Rightarrow> bool) \<Rightarrow> gomap \<Rightarrow> bool" where
  "isSelectorMatchesLabels selector labelsToCheck = selector labelsToCheck"

definition areLabelsMatchLabelSelector :: "env \<Rightarrow> gomap \<Rightarrow> LabelSelector \<Rightarrow> error + bool" where
  "areLabelsMatchLabelSelector env labelsToCheck labelSelector =
     (case lib_LabelSelectorAsSelector (lib env) labelSelector of
        Inl err \<Rightarrow> Inl (MatchingLabelsAndLabelSelectorError (Error err))
      | Inr selector \<Rightarrow> Inr (isSelectorMatchesLabels selector labelsToCheck))"

section \<open>predicate.go\<close>

definition isLabelsChanged :: "PersistentVolumeClaim \<Rightarrow> PersistentVolumeClaim \<Rightarrow> bool" where
  "isLabelsChanged oldObject newObject \<longleftrightarrow>
     \<not> map_DeepEqual (Labels (PVCMeta oldObject)) (Labels (PVCMeta newObject))"

definition isPhaseChanged :: "PersistentVolumeClaim \<Rightarrow> PersistentVolumeClaim \<Rightarrow> bool" where
  "isPhaseChanged oldObject newObject \<longleftrightarrow> PVCPhase oldObject \<noteq> PVCPhase newObject"

datatype 'o watch_event = CreateEvent 'o | DeleteEvent 'o | UpdateEvent 'o 'o | GenericEvent 'o

fun PvcPredicate :: "PersistentVolumeClaim watch_event \<Rightarrow> bool" where
  "PvcPredicate (CreateEvent e) = True"
| "PvcPredicate (DeleteEvent e) = False"
| "PvcPredicate (UpdateEvent old new) = (isLabelsChanged old new \<or> isPhaseChanged old new)"
| "PvcPredicate (GenericEvent e) = False"

definition FinalizerPredicate_UpdateFunc :: "ObjectMeta \<Rightarrow> ObjectMeta \<Rightarrow> bool" where
  "FinalizerPredicate_UpdateFunc old new \<longleftrightarrow> Finalizers new \<noteq> Finalizers old"

text \<open>The loop of \<open>CreateRequests\<close>: one request per group whose selector matches the labels.\<close>

fun createRequests_loop :: "env \<Rightarrow> gomap \<Rightarrow> VolumeGroup list \<Rightarrow> NamespacedName list \<Rightarrow> NamespacedName list" where
  "createRequests_loop env labels [] requests = requests"
| "createRequests_loop env labels (vg # vgs) requests =
     (case Selector (vgSource (vgSpec vg)) of
        None \<Rightarrow> createRequests_loop env labels vgs requests
      | Some sel \<Rightarrow>
          (case areLabelsMatchLabelSelector env labels sel of
             Inl err \<Rightarrow> []
           | Inr isVgMatchPvc \<Rightarrow>
               createRequests_loop env labels vgs
                 (if isVgMatchPvc then requests @ [(Namespace (vgMeta vg), Name (vgMeta vg))]
                  else requests)))"

definition CreateRequests :: "env \<Rightarrow> ObjectMeta \<Rightarrow> NamespacedName list go" where
  "CreateRequests env obj =
     bindG (client_List_VG env) (\<lambda>r.
     case r of
       Inl err \<Rightarrow> returnG []
     | Inr vgList \<Rightarrow> returnG (createRequests_loop env (Labels obj) vgList []))"

section \<open>Facts about the helpers\<close>

lemma Contains_iff [simp]: "Contains slice s \<longleftrightarrow> s \<in> set slice"
  by (induction slice) auto

lemma Remove_filter [simp]: "Remove slice s = filter (\<lambda>item. item \<noteq> s) slice"
  by (induction slice) auto

text \<open>What reflection yields on each field the code reads: never a panic.\<close>

definition deref :: "string option \<Rightarrow> string" where
  "deref p = (case p of None \<Rightarrow> '''' | Some s \<Rightarrow> s)"

lemma deref_simps [simp]: "deref None = ''''" "deref (Some s) = s"
  by (simp_all add: deref_def)

lemma reflected_fields [simp]:
  "GetStringField (ValueOf_VolumeGroupSpec s) ''VolumeGroupClassName'' = Ret (deref (vgVolumeGroupClassName s))"
  "GetStringField (ValueOf_VolumeGroupSource src) ''VolumeGroupContentName'' = Ret (deref (srcVolumeGroupContentName src))"
  "GetStringField (ValueOf_VolumeGroupContentSpec c) ''VolumeGroupClassName'' = Ret (deref (vgcVolumeGroupClassName c))"
  "GetStringField (ValueOf_VolumeGroupContentSpec c) ''VolumeGroupDeletionPolicy'' = Ret (deref (vgcVolumeGroupDeletionPolicy c))"
  "GetStringField (ValueOf_ObjectReference r) ''Name'' = Ret (case r of None \<Rightarrow> '''' | Some x \<Rightarrow> refName x)"
  "GetStringField (ValueOf_ObjectReference r) ''Namespace'' = Ret (case r of None \<Rightarrow> '''' | Some x \<Rightarrow> refNamespace x)"
  "GetStringField (ValueOf_PVCSpec pvc) ''VolumeName'' = Ret (PVCVolumeName pvc)"
  "GetBoolField (ValueOf_VolumeGroupContentStatus st) ''Ready'' = Ret (vgcReady st = Some True)"
  "GetObjectField (ValueOf_VolumeGroupContentSpec c) ''VolumeGroupRef'' = Ret (VObjPtr (VolumeGroupRef c))"
  "GetObjectField (ValueOf_VolumeGroupContentSpec c) ''Source'' = Ret (VObjPtr (vgcSource c))"
  "Value_IsNil (VObjPtr p) = Ret (p = None)"
  by (auto simp: reflection_defs split: option.split)

lemma set_FilterPrefixedParameters:
  "set (FilterPrefixedParameters p m) = {(k, v) \<in> set m. \<not> HasPrefix k p}"
  by (induction p m rule: FilterPrefixedParameters.induct) auto

lemma map_of_FilterPrefixedParameters:
  "map_of (FilterPrefixedParameters p m) k = (if HasPrefix k p then None else map_of m k)"
  by (induction p m rule: FilterPrefixedParameters.induct) auto

lemma reserved_keys_have_prefix:
  "HasPrefix PrefixedVGSecretNameKey VGAsPrefix" "HasPrefix PrefixedVGSecretNamespaceKey VGAsPrefix"
  "PrefixedVGSecretNameKey \<noteq> PrefixedVGSecretNamespaceKey"
  by (auto simp: HasPrefix_def PrefixedVGSecretNameKey_def PrefixedVGSecretNamespaceKey_def)

lemma ValidatePrefixedParameters_None_iff:
  "ValidatePrefixedParameters m = None \<longleftrightarrow>
     (\<forall>(k, v) \<in> set m. HasPrefix k VGAsPrefix \<longrightarrow>
        (k = PrefixedVGSecretNameKey \<or> k = PrefixedVGSecretNamespaceKey) \<and> v \<noteq> '''')"
  by (induction m rule: ValidatePrefixedParameters.induct) (auto simp: reserved_keys_have_prefix)

lemma convertMap_id [simp]: "convertMap m = m"
  by (induction m rule: convertMap.induct) auto

lemma createRequests_loop_acc:
  "createRequests_loop env labels vgs acc =
     (if \<exists>vg \<in> set vgs. \<exists>sel. Selector (vgSource (vgSpec vg)) = Some sel \<and>
            (\<exists>e. lib_LabelSelectorAsSelector (lib env) sel = Inl e)
      then []
      else acc @ map (\<lambda>vg. (Namespace (vgMeta vg), Name (vgMeta vg)))
        (filter (\<lambda>vg. \<exists>sel f. Selector (vgSource (vgSpec vg)) = Some sel \<and>
            lib_LabelSelectorAsSelector (lib env) sel = Inr f \<and> f labels) vgs))"
  by (induction vgs arbitrary: acc)
    (auto simp: areLabelsMatchLabelSelector_def isSelectorMatchesLabels_def
      split: option.splits sum.splits)

end
