(* ===== verification/Volume_Lists.thy ===== *)
theory Volume_Lists
  imports Utils
begin

text \<open>
  The member lists of a group: the claims in \<open>VolumeGroup.Status.PVCList\<close> and the volumes in
  \<open>VolumeGroupContent.Status.PVList\<close>. Both are slices searched by key, a claim by name and
  namespace. A volume is appended by name alone but removed by name and namespace, so the
  contracts of appending and of removing are two locales; \<open>keyed_list\<close> joins them for lists where
  both use one key.
\<close>

section \<open>The operations (volumegroup.go, volumegroupcontent.go, utils.go)\<close>

definition removeByIndexFromPVCList ::
    "PersistentVolumeClaim list \<Rightarrow> nat \<Rightarrow> PersistentVolumeClaim list" where
  "removeByIndexFromPVCList pvcList index = take index pvcList @ drop (index + 1) pvcList"

definition removeByIndexFromPVList ::
    "PersistentVolume list \<Rightarrow> nat \<Rightarrow> PersistentVolume list" where
  "removeByIndexFromPVList pvList index = take index pvList @ drop (index + 1) pvList"

text \<open>The index at which a \<open>range\<close> loop with an early return finds its element.\<close>

fun range_find :: "('a \<Rightarrow> bool) \<Rightarrow> nat \<Rightarrow> 'a list \<Rightarrow> nat option" where
  "range_find p index [] = None"
| "range_find p index (x # xs) = (if p x then Some index else range_find p (index + 1) xs)"

definition samePVC :: "PersistentVolumeClaim \<Rightarrow> PersistentVolumeClaim \<Rightarrow> bool" where
  "samePVC pvc pvcFromList \<longleftrightarrow>
     Name (PVCMeta pvcFromList) = Name (PVCMeta pvc) \<and>
     Namespace (PVCMeta pvcFromList) = Namespace (PVCMeta pvc)"

definition samePV :: "PersistentVolume \<Rightarrow> PersistentVolume \<Rightarrow> bool" where
  "samePV pv pvFromList \<longleftrightarrow>
     Name (PVMeta pvFromList) = Name (PVMeta pv) \<and>
     Namespace (PVMeta pvFromList) = Namespace (PVMeta pv)"

fun IsPVCInPVCList :: "PersistentVolumeClaim \<Rightarrow> PersistentVolumeClaim list \<Rightarrow> bool" where
  "IsPVCInPVCList pvc [] = False"
| "IsPVCInPVCList pvc (pvcFromList # pvcList) =
     (if samePVC pvc pvcFromList then True else IsPVCInPVCList pvc pvcList)"

definition removeFromPVCList ::
    "PersistentVolumeClaim \<Rightarrow> PersistentVolumeClaim list \<Rightarrow> PersistentVolumeClaim list" where
  "removeFromPVCList pvc pvcList =
     (case range_find (samePVC pvc) 0 pvcList of
        Some index \<Rightarrow> removeByIndexFromPVCList pvcList index
      | None \<Rightarrow> pvcList)"

definition appendPVC ::
    "PersistentVolumeClaim list \<Rightarrow> PersistentVolumeClaim \<Rightarrow> PersistentVolumeClaim list" where
  "appendPVC pvcListInVG pvc =
     (case range_find (samePVC pvc) 0 pvcListInVG of
        Some _ \<Rightarrow> pvcListInVG
      | None \<Rightarrow> pvcListInVG @ [pvc])"

fun IsPVCPartAnyVG :: "PersistentVolumeClaim \<Rightarrow> VolumeGroup list \<Rightarrow> bool" where
  "IsPVCPartAnyVG pvc [] = False"
| "IsPVCPartAnyVG pvc (vg # vgs) =
     (if IsPVCInPVCList pvc (PVCList (vgStatus vg)) then True else IsPVCPartAnyVG pvc vgs)"

definition removeFromPVList ::
    "PersistentVolume \<Rightarrow> PersistentVolume list \<Rightarrow> PersistentVolume list" where
  "removeFromPVList pv pvList =
     (case range_find (samePV pv) 0 pvList of
        Some index \<Rightarrow> removeByIndexFromPVList pvList index
      | None \<Rightarrow> pvList)"

definition appendPV :: "PersistentVolume list \<Rightarrow> PersistentVolume \<Rightarrow> PersistentVolume list" where
  "appendPV pvListInVGC pv =
     (case range_find (\<lambda>pvFromList. Name (PVMeta pvFromList) = Name (PVMeta pv)) 0 pvListInVGC of
        Some _ \<Rightarrow> pvListInVGC
      | None \<Rightarrow> pvListInVGC @ [pv])"

definition pvc_key :: "PersistentVolumeClaim \<Rightarrow> NamespacedName" where
  "pvc_key pvc = (Namespace (PVCMeta pvc), Name (PVCMeta pvc))"

definition pv_key :: "PersistentVolume \<Rightarrow> NamespacedName" where
  "pv_key pv = (Namespace (PVMeta pv), Name (PVMeta pv))"

abbreviation pv_name :: "PersistentVolume \<Rightarrow> string" where
  "pv_name pv \<equiv> Name (PVMeta pv)"

section \<open>Contracts\<close>

locale key_append =
  fixes key :: "'a \<Rightarrow> 'k"
    and append_item :: "'a list \<Rightarrow> 'a \<Rightarrow> 'a list"
  assumes append_old: "key x \<in> key ` set xs \<Longrightarrow> append_item xs x = xs"
    and append_new: "key x \<notin> key ` set xs \<Longrightarrow> append_item xs x = xs @ [x]"
begin

lemma keys_append: "key ` set (append_item xs x) = insert (key x) (key ` set xs)"
  by (cases "key x \<in> key ` set xs") (auto simp: append_old append_new)

lemma distinct_append: "distinct (map key xs) \<Longrightarrow> distinct (map key (append_item xs x))"
  by (cases "key x \<in> key ` set xs") (auto simp: append_old append_new)

lemma append_idem: "append_item (append_item xs x) x = append_item xs x"
  by (rule append_old) (simp add: keys_append)

lemma append_map:
  "map key (append_item xs x) = (if key x \<in> key ` set xs then map key xs else map key xs @ [key x])"
  by (auto simp: append_old append_new)

end

locale key_remove =
  fixes key :: "'a \<Rightarrow> 'k"
    and remove_item :: "'a \<Rightarrow> 'a list \<Rightarrow> 'a list"
  assumes remove_absent: "key x \<notin> key ` set xs \<Longrightarrow> remove_item x xs = xs"
    and remove_first: "key x \<notin> key ` set xs \<Longrightarrow> key y = key x \<Longrightarrow>
          remove_item x (xs @ y # ys) = xs @ ys"
begin

lemma remove_split:
  assumes "key x \<in> key ` set xs"
  obtains as y bs where "xs = as @ y # bs" and "key y = key x" and "key x \<notin> key ` set as"
    and "remove_item x xs = as @ bs"
proof -
  from assms have "\<exists>y \<in> set xs. key y = key x" by (auto simp: eq_commute)
  then obtain as y bs where "xs = as @ y # bs" "key y = key x" "\<forall>z \<in> set as. key z \<noteq> key x"
    using split_list_first_prop [of xs "\<lambda>y. key y = key x"] by auto
  moreover from this(3) have "key x \<notin> key ` set as" by (metis imageE)
  ultimately show ?thesis using remove_first by (intro that [of as y bs]) auto
qed

lemma remove_distinct_filter:
  assumes "distinct (map key xs)"
  shows "remove_item x xs = filter (\<lambda>y. key y \<noteq> key x) xs"
proof (cases "key x \<in> key ` set xs")
  case True
  then obtain as y bs where xs: "xs = as @ y # bs" "key y = key x" "key x \<notin> key ` set as"
      and r: "remove_item x xs = as @ bs" by (rule remove_split)
  have "\<forall>z \<in> set as. key z \<noteq> key x" using xs(3) by (metis imageI)
  moreover have "key y \<notin> key ` set bs" using assms xs(1) by simp
  with xs(2) have "\<forall>z \<in> set bs. key z \<noteq> key x" by (metis imageI)
  ultimately have "filter (\<lambda>z. key z \<noteq> key x) as = as" and "filter (\<lambda>z. key z \<noteq> key x) bs = bs"
    by (simp_all add: filter_id_conv)
  with xs r show ?thesis by simp
next
  case False
  then have "\<forall>y \<in> set xs. key y \<noteq> key x" by (metis imageI)
  then have "filter (\<lambda>y. key y \<noteq> key x) xs = xs" by (simp add: filter_id_conv)
  with False show ?thesis by (simp add: remove_absent)
qed

lemma distinct_remove: "distinct (map key xs) \<Longrightarrow> distinct (map key (remove_item x xs))"
  by (simp add: remove_distinct_filter distinct_map_filter)

lemma keys_remove:
  "distinct (map key xs) \<Longrightarrow> key ` set (remove_item x xs) = key ` set xs - {key x}"
  by (auto simp: remove_distinct_filter)

lemma length_remove: "length (remove_item x xs) = length xs - (if key x \<in> key ` set xs then 1 else 0)"
proof (cases "key x \<in> key ` set xs")
  case True
  then obtain as y bs where "xs = as @ y # bs" "remove_item x xs = as @ bs" by (rule remove_split)
  with True show ?thesis by simp
qed (simp add: remove_absent)

end

locale keyed_list = key_append key append_item + key_remove key remove_item
  for key :: "'a \<Rightarrow> 'k" and append_item :: "'a list \<Rightarrow> 'a \<Rightarrow> 'a list"
    and remove_item :: "'a \<Rightarrow> 'a list \<Rightarrow> 'a list"
begin

lemma remove_append: "key x \<notin> key ` set xs \<Longrightarrow> remove_item x (append_item xs x) = xs"
  using remove_first [of x xs x "[]"] by (simp add: append_new)

lemma append_remove_keys:
  "distinct (map key xs) \<Longrightarrow> key x \<in> key ` set xs \<Longrightarrow>
     key ` set (append_item (remove_item x xs) x) = key ` set xs"
  by (auto simp: keys_append keys_remove)

end

section \<open>The model's lists meet the contracts\<close>

lemma range_find_None: "range_find p i xs = None \<longleftrightarrow> (\<forall>x \<in> set xs. \<not> p x)"
  by (induction xs arbitrary: i) auto

lemma range_find_key_None:
  "(\<And>y. p y \<longleftrightarrow> k y = c) \<Longrightarrow> range_find p i xs = None \<longleftrightarrow> c \<notin> k ` set xs"
  by (simp add: range_find_None image_iff) (metis (no_types))

lemma range_find_append:
  "\<forall>x \<in> set xs. \<not> p x \<Longrightarrow> p y \<Longrightarrow> range_find p i (xs @ y # ys) = Some (i + length xs)"
  by (induction xs arbitrary: i) auto

lemma range_find_append_key:
  "(\<And>y. p y \<longleftrightarrow> k y = c) \<Longrightarrow> c \<notin> k ` set xs \<Longrightarrow> k y = c \<Longrightarrow>
     range_find p i (xs @ y # ys) = Some (i + length xs)"
  by (rule range_find_append) (simp_all, metis imageI)

lemma samePVC_key: "samePVC pvc p \<longleftrightarrow> pvc_key p = pvc_key pvc"
  by (auto simp: samePVC_def pvc_key_def)

lemma samePV_key: "samePV pv p \<longleftrightarrow> pv_key p = pv_key pv"
  by (auto simp: samePV_def pv_key_def)

lemma IsPVCInPVCList_iff [simp]: "IsPVCInPVCList pvc xs \<longleftrightarrow> pvc_key pvc \<in> pvc_key ` set xs"
  by (induction xs) (auto simp: samePVC_key)

lemma IsPVCPartAnyVG_iff [simp]:
  "IsPVCPartAnyVG pvc vgs \<longleftrightarrow> (\<exists>vg \<in> set vgs. pvc_key pvc \<in> pvc_key ` set (PVCList (vgStatus vg)))"
  by (induction vgs) auto

interpretation pvcs: keyed_list pvc_key appendPVC removeFromPVCList
proof
  fix x y :: PersistentVolumeClaim and xs ys
  show "pvc_key x \<in> pvc_key ` set xs \<Longrightarrow> appendPVC xs x = xs"
    by (cases "range_find (samePVC x) 0 xs") (auto simp: appendPVC_def range_find_None samePVC_key)
  show "pvc_key x \<notin> pvc_key ` set xs \<Longrightarrow> appendPVC xs x = xs @ [x]"
  proof -
    assume "pvc_key x \<notin> pvc_key ` set xs"
    then have "range_find (samePVC x) 0 xs = None" by (simp add: range_find_key_None [OF samePVC_key])
    then show ?thesis by (simp add: appendPVC_def)
  qed
  show "pvc_key x \<notin> pvc_key ` set xs \<Longrightarrow> removeFromPVCList x xs = xs"
  proof -
    assume "pvc_key x \<notin> pvc_key ` set xs"
    then have "range_find (samePVC x) 0 xs = None" by (simp add: range_find_key_None [OF samePVC_key])
    then show ?thesis by (simp add: removeFromPVCList_def)
  qed
  show "pvc_key x \<notin> pvc_key ` set xs \<Longrightarrow> pvc_key y = pvc_key x \<Longrightarrow>
      removeFromPVCList x (xs @ y # ys) = xs @ ys"
    by (simp add: removeFromPVCList_def removeByIndexFromPVCList_def range_find_append_key [OF samePVC_key])
qed

interpretation pv_append: key_append pv_name appendPV
proof
  fix x :: PersistentVolume and xs
  show "pv_name x \<in> pv_name ` set xs \<Longrightarrow> appendPV xs x = xs"
    by (cases "range_find (\<lambda>p. pv_name p = pv_name x) 0 xs")
      (auto simp: appendPV_def range_find_None)
  show "pv_name x \<notin> pv_name ` set xs \<Longrightarrow> appendPV xs x = xs @ [x]"
  proof -
    assume "pv_name x \<notin> pv_name ` set xs"
    then have "range_find (\<lambda>p. pv_name p = pv_name x) 0 xs = None"
      by (simp add: range_find_key_None [of _ pv_name, OF refl])
    then show ?thesis by (simp add: appendPV_def)
  qed
qed

interpretation pv_remove: key_remove pv_key removeFromPVList
proof
  fix x y :: PersistentVolume and xs ys
  show "pv_key x \<notin> pv_key ` set xs \<Longrightarrow> removeFromPVList x xs = xs"
  proof -
    assume "pv_key x \<notin> pv_key ` set xs"
    then have "range_find (samePV x) 0 xs = None" by (simp add: range_find_key_None [OF samePV_key])
    then show ?thesis by (simp add: removeFromPVList_def)
  qed
  show "pv_key x \<notin> pv_key ` set xs \<Longrightarrow> pv_key y = pv_key x \<Longrightarrow>
      removeFromPVList x (xs @ y # ys) = xs @ ys"
    by (simp add: removeFromPVList_def removeByIndexFromPVList_def range_find_append_key [OF samePV_key])
qed

text \<open>
  Volumes are cluster-scoped: they share one (empty) namespace, and then appending and removing by
  the two keys agree.
\<close>

lemma pv_key_one_namespace:
  "\<forall>p \<in> insert x (set xs). Namespace (PVMeta p) = ns \<Longrightarrow>
     pv_key x \<in> pv_key ` set xs \<longleftrightarrow> pv_name x \<in> pv_name ` set xs"
  by (force simp: pv_key_def)

lemma distinct_pv_key:
  "\<forall>p \<in> set xs. Namespace (PVMeta p) = ns \<Longrightarrow> distinct (map pv_key xs) \<longleftrightarrow> distinct (map pv_name xs)"
  by (induction xs) (auto simp: pv_key_def)

end
