(* ===== verification/Status.thy ===== *)
theory Status
  imports Volume_Lists
begin

text \<open>
  How the operator writes to its objects: events (\<open>event.go\<close>), status updates under
  \<open>RetryOnConflict\<close> (\<open>volumegroup.go\<close>, \<open>volumegroupcontent.go\<close>), the reporting of results
  (\<open>handle_messages.go\<close>) and finalizers (\<open>finalizers.go\<close>). Every retried write has one shape, the
  locale \<open>retried_write\<close>: an attempt prepares the object, sends it, and on a conflict fetches it
  again. An operation that mutates the object behind a pointer returns it.
\<close>

section \<open>event.go\<close>

fun random_letters :: "(nat \<Rightarrow> nat) \<Rightarrow> nat \<Rightarrow> nat \<Rightarrow> string outcome" where
  "random_letters Intn i 0 = Ret ''''"
| "random_letters Intn i (Suc n) =
     (if Intn i < length letterBytes
      then (case random_letters Intn (i + 1) n of
              Panic s \<Rightarrow> Panic s
            | Ret b \<Rightarrow> Ret (letterBytes ! Intn i # b))
      else Panic ''index out of range'')"

definition generateString :: "env \<Rightarrow> string go" where
  "generateString env =
     bindG (readG (\<lambda>t. lib_Intn (lib env) t (length letterBytes))) (\<lambda>draw. liftG (random_letters draw 0 16))"

definition generateEvent ::
    "env \<Rightarrow> TypeMeta \<Rightarrow> ObjectMeta \<Rightarrow> string \<Rightarrow> string \<Rightarrow> string \<Rightarrow> Event go" where
  "generateEvent env tm obj reason message eventType =
     bindG (generateString env) (\<lambda>suffix.
     bindG (GetCurrentTime env) (\<lambda>now.
     returnG
       \<lparr>evNamespace = Namespace obj,
        evName = Sprintf ''%s.%s'' [Name obj, suffix],
        ReportingController = vgController,
        InvolvedObject = \<lparr>refKind = Kind tm, refNamespace = Namespace obj, refName = Name obj,
          refUID = UID obj, refAPIVersion = lib_Version (lib env) tm, refResourceVersion = ''''\<rparr>,
        Reason = reason, Message = message, evType = eventType, FirstTimestamp = now\<rparr>))"

definition createEvent :: "env \<Rightarrow> Event \<Rightarrow> error option go" where
  "createEvent env event =
     bindG (client_Create_Event env event) (\<lambda>err.
     case err of Some e \<Rightarrow> returnG (Some e) | None \<Rightarrow> returnG None)"

definition createSuccessNamespacedObjectEvent ::
    "env \<Rightarrow> TypeMeta \<Rightarrow> ObjectMeta \<Rightarrow> string \<Rightarrow> string \<Rightarrow> error option go" where
  "createSuccessNamespacedObjectEvent env tm obj message reason =
     bindG (generateEvent env tm obj reason message normalEventType) (createEvent env)"

definition createNamespacedObjectErrorEvent ::
    "env \<Rightarrow> TypeMeta \<Rightarrow> ObjectMeta \<Rightarrow> string \<Rightarrow> string \<Rightarrow> error option go" where
  "createNamespacedObjectErrorEvent env tm obj errorMessage reason =
     bindG (generateEvent env tm obj reason errorMessage warningEventType) (createEvent env)"

section \<open>Status of a VolumeGroup (volumegroup.go)\<close>

definition updateVGStatus :: "env \<Rightarrow> VolumeGroup attempt" where
  "updateVGStatus env vg =
     bindG (UpdateObjectStatus env (VG_object env) vg) (\<lambda>(err, vg).
     case err of
       Some e \<Rightarrow> (if IsConflict env (Some e) then returnG (Some e, vg) else returnG (Some e, vg))
     | None \<Rightarrow> returnG (None, vg))"

definition vgRetryOnConflictFunc :: "env \<Rightarrow> VolumeGroup attempt" where
  "vgRetryOnConflictFunc env vg =
     bindG (updateVGStatus env vg) (\<lambda>(err, vg).
     if IsConflict env err
     then bindG (getNamespacedObject env (VG_object env) vg) (\<lambda>(uErr, vg).
          case uErr of Some u \<Rightarrow> returnG (Some u, vg) | None \<Rightarrow> returnG (err, vg))
     else returnG (err, vg))"

definition set_VGStatus :: "string \<Rightarrow> Time \<Rightarrow> bool \<Rightarrow> VolumeGroup \<Rightarrow> VolumeGroup" where
  "set_VGStatus vgcName groupCreationTime ready vg =
     vg\<lparr>vgStatus := (vgStatus vg)\<lparr>BoundVolumeGroupContentName := Some vgcName,
        vgGroupCreationTime := Some groupCreationTime, vgReady := Some ready, vgError := None\<rparr>\<rparr>"

definition set_PVCList :: "PersistentVolumeClaim list \<Rightarrow> VolumeGroup \<Rightarrow> VolumeGroup" where
  "set_PVCList pvcList vg = vg\<lparr>vgStatus := (vgStatus vg)\<lparr>PVCList := pvcList\<rparr>\<rparr>"

definition set_VGError :: "string \<Rightarrow> VolumeGroup \<Rightarrow> VolumeGroup" where
  "set_VGError message vg = vg\<lparr>vgStatus := (vgStatus vg)\<lparr>vgError :=
     Some \<lparr>errTime = None, errMessage = Some message\<rparr>\<rparr>\<rparr>"

definition UpdateVGStatus :: "env \<Rightarrow> VolumeGroup \<Rightarrow> string \<Rightarrow> Time \<Rightarrow> bool \<Rightarrow> (error option \<times> VolumeGroup) go" where
  "UpdateVGStatus env vg vgcName groupCreationTime ready =
     bindG (lib_RetryOnConflict_VG (lib env) (\<lambda>vg.
       vgRetryOnConflictFunc env (set_VGStatus vgcName groupCreationTime ready vg)) vg) (\<lambda>(err, vg).
     case err of
       Some e \<Rightarrow> returnG (Some e, vg)
     | None \<Rightarrow> updateVGStatus env vg)"

definition updateVGStatusPVCList :: "env \<Rightarrow> VolumeGroup \<Rightarrow> PersistentVolumeClaim list \<Rightarrow> (error option \<times> VolumeGroup) go" where
  "updateVGStatusPVCList env vg pvcList =
     bindG (lib_RetryOnConflict_VG (lib env) (\<lambda>vg. vgRetryOnConflictFunc env (set_PVCList pvcList vg)) vg) (\<lambda>(err, vg).
     case err of Some e \<Rightarrow> returnG (Some e, vg) | None \<Rightarrow> returnG (None, vg))"

definition UpdateVGStatusError :: "env \<Rightarrow> VolumeGroup \<Rightarrow> string \<Rightarrow> (error option \<times> VolumeGroup) go" where
  "UpdateVGStatusError env vg message =
     bindG (lib_RetryOnConflict_VG (lib env) (\<lambda>vg. vgRetryOnConflictFunc env (set_VGError message vg)) vg) (\<lambda>(err, vg).
     case err of Some e \<Rightarrow> returnG (Some e, vg) | None \<Rightarrow> returnG (None, vg))"

definition AddPVCToVG :: "env \<Rightarrow> PersistentVolumeClaim \<Rightarrow> VolumeGroup \<Rightarrow> (error option \<times> VolumeGroup) go" where
  "AddPVCToVG env pvc vg =
     (let vg = set_PVCList (appendPVC (PVCList (vgStatus vg)) pvc) vg
      in bindG (updateVGStatusPVCList env vg (PVCList (vgStatus vg))) (\<lambda>(err, vg).
         case err of
           Some e \<Rightarrow> returnG (Some e, set_PVCList (removeFromPVCList pvc (PVCList (vgStatus vg))) vg)
         | None \<Rightarrow> returnG (None, vg)))"

definition RemovePVCFromVG :: "env \<Rightarrow> PersistentVolumeClaim \<Rightarrow> VolumeGroup \<Rightarrow> (error option \<times> VolumeGroup) go" where
  "RemovePVCFromVG env pvc vg =
     (let vg = set_PVCList (removeFromPVCList pvc (PVCList (vgStatus vg))) vg
      in bindG (updateVGStatusPVCList env vg (PVCList (vgStatus vg))) (\<lambda>(err, vg).
         case err of
           Some e \<Rightarrow> returnG (Some e, set_PVCList (appendPVC (PVCList (vgStatus vg)) pvc) vg)
         | None \<Rightarrow> returnG (None, vg)))"

section \<open>Status of a VolumeGroupContent (volumegroupcontent.go)\<close>

definition updateVGCStatusFields :: "VolumeGroupContent \<Rightarrow> Time \<Rightarrow> bool \<Rightarrow> VolumeGroupContent" where
  "updateVGCStatusFields vgc groupCreationTime ready =
     vgc\<lparr>vgcStatus := (vgcStatus vgc)\<lparr>vgcGroupCreationTime := Some groupCreationTime, vgcReady := Some ready\<rparr>\<rparr>"

definition UpdateVGCStatus :: "env \<Rightarrow> VolumeGroupContent \<Rightarrow> Time \<Rightarrow> bool \<Rightarrow> (error option \<times> VolumeGroupContent) go" where
  "UpdateVGCStatus env vgc groupCreationTime ready =
     bindG (UpdateObjectStatus env (VGC_object env) (updateVGCStatusFields vgc groupCreationTime ready)) (\<lambda>(err, vgc).
     case err of Some e \<Rightarrow> returnG (Some e, vgc) | None \<Rightarrow> returnG (None, vgc))"

definition vgcRetryOnConflictFunc :: "env \<Rightarrow> VolumeGroupContent attempt" where
  "vgcRetryOnConflictFunc env vgc =
     bindG (UpdateObjectStatus env (VGC_object env) vgc) (\<lambda>(err, vgc).
     if IsConflict env err
     then bindG (getNamespacedObject env (VGC_object env) vgc) (\<lambda>(uErr, vgc).
          case uErr of Some u \<Rightarrow> returnG (Some u, vgc) | None \<Rightarrow> returnG (err, vgc))
     else returnG (err, vgc))"

definition set_PVList :: "PersistentVolume list \<Rightarrow> VolumeGroupContent \<Rightarrow> VolumeGroupContent" where
  "set_PVList pvList vgc = vgc\<lparr>vgcStatus := (vgcStatus vgc)\<lparr>PVList := pvList\<rparr>\<rparr>"

definition set_VGCError :: "string \<Rightarrow> VolumeGroupContent \<Rightarrow> VolumeGroupContent" where
  "set_VGCError message vgc = vgc\<lparr>vgcStatus := (vgcStatus vgc)\<lparr>vgcError :=
     Some \<lparr>errTime = None, errMessage = Some message\<rparr>\<rparr>\<rparr>"

definition updateVGCStatusPVList :: "env \<Rightarrow> VolumeGroupContent \<Rightarrow> PersistentVolume list \<Rightarrow> (error option \<times> VolumeGroupContent) go" where
  "updateVGCStatusPVList env vgc pvList =
     bindG (lib_RetryOnConflict_VGC (lib env) (\<lambda>vgc. vgcRetryOnConflictFunc env (set_PVList pvList vgc)) vgc) (\<lambda>(err, vgc).
     case err of Some e \<Rightarrow> returnG (Some e, vgc) | None \<Rightarrow> returnG (None, vgc))"

definition UpdateVGCStatusError :: "env \<Rightarrow> VolumeGroupContent \<Rightarrow> string \<Rightarrow> (error option \<times> VolumeGroupContent) go" where
  "UpdateVGCStatusError env vgc message =
     lib_RetryOnConflict_VGC (lib env) (\<lambda>vgc. vgcRetryOnConflictFunc env (set_VGCError message vgc)) vgc"

definition RemovePVFromVGC :: "env \<Rightarrow> PersistentVolume \<Rightarrow> VolumeGroupContent \<Rightarrow> (error option \<times> VolumeGroupContent) go" where
  "RemovePVFromVGC env pv vgc =
     (let vgc = set_PVList (removeFromPVList pv (PVList (vgcStatus vgc))) vgc
      in bindG (updateVGCStatusPVList env vgc (PVList (vgcStatus vgc))) (\<lambda>(err, vgc).
         case err of
           Some e \<Rightarrow> returnG (Some e, set_PVList (appendPV (PVList (vgcStatus vgc)) pv) vgc)
         | None \<Rightarrow> returnG (None, vgc)))"

definition addPVToVGC :: "env \<Rightarrow> PersistentVolume \<Rightarrow> VolumeGroupContent \<Rightarrow> (error option \<times> VolumeGroupContent) go" where
  "addPVToVGC env pv vgc =
     (let vgc = set_PVList (appendPV (PVList (vgcStatus vgc)) pv) vgc
      in bindG (updateVGCStatusPVList env vgc (PVList (vgcStatus vgc))) (\<lambda>(err, vgc).
         case err of
           Some e \<Rightarrow> returnG (Some e, set_PVList (removeFromPVList pv (PVList (vgcStatus vgc))) vgc)
         | None \<Rightarrow> returnG (None, vgc)))"

definition CreateSuccessVGCEvent :: "env \<Rightarrow> VolumeGroupContent \<Rightarrow> (error option \<times> VolumeGroupContent) go" where
  "CreateSuccessVGCEvent env vgc =
     (let vgc = vgc\<lparr>vgcTypeMeta := \<lparr>Kind = vgcKind, APIVersion = csiAPIVersion\<rparr>\<rparr>;
          message = Sprintf VGCCreated [Namespace (vgcMeta vgc), Name (vgcMeta vgc)]
      in bindG (createSuccessNamespacedObjectEvent env (vgcTypeMeta vgc) (vgcMeta vgc) message creatingVGC) (\<lambda>err.
         case err of Some e \<Rightarrow> returnG (None, vgc) | None \<Rightarrow> returnG (None, vgc)))"

section \<open>handle_messages.go\<close>

definition HandleErrorMessage :: "env \<Rightarrow> VolumeGroup \<Rightarrow> error option \<Rightarrow> string \<Rightarrow> (error option \<times> VolumeGroup) go" where
  "HandleErrorMessage env vg err reason =
     (case err of
        Some e \<Rightarrow>
          (let errorMessage = GetMessageFromError env e
           in bindG (UpdateVGStatusError env vg errorMessage) (\<lambda>(uErr, vg).
              case uErr of
                Some u \<Rightarrow> returnG (Some u, vg)
              | None \<Rightarrow>
                  bindG (createNamespacedObjectErrorEvent env (vgTypeMeta vg) (vgMeta vg) errorMessage reason) (\<lambda>uErr.
                  case uErr of Some u \<Rightarrow> returnG (Some u, vg) | None \<Rightarrow> returnG (Some e, vg))))
      | None \<Rightarrow> returnG (None, vg))"

definition HandleSuccessMessage :: "env \<Rightarrow> VolumeGroup \<Rightarrow> string \<Rightarrow> string \<Rightarrow> (error option \<times> VolumeGroup) go" where
  "HandleSuccessMessage env vg message reason =
     bindG (UpdateVGStatusError env vg '''') (\<lambda>(err, vg).
     case err of
       Some e \<Rightarrow> returnG (Some e, vg)
     | None \<Rightarrow>
         bindG (createSuccessNamespacedObjectEvent env (vgTypeMeta vg) (vgMeta vg) message reason) (\<lambda>err.
         case err of Some e \<Rightarrow> returnG (Some e, vg) | None \<Rightarrow> returnG (None, vg)))"

definition HandlePVCErrorMessage :: "env \<Rightarrow> PersistentVolumeClaim \<Rightarrow> error option \<Rightarrow> string \<Rightarrow> error option go" where
  "HandlePVCErrorMessage env pvc err reason =
     (case err of
        Some e \<Rightarrow>
          bindG (createNamespacedObjectErrorEvent env (PVCTypeMeta pvc) (PVCMeta pvc) (GetMessageFromError env e) reason) (\<lambda>uErr.
          case uErr of Some u \<Rightarrow> returnG (Some u) | None \<Rightarrow> returnG None)
      | None \<Rightarrow> returnG None)"

text \<open>
  The object is a pointer that may be nil: its metadata is reached through the embedded struct, so
  building the event for a nil object panics.
\<close>

definition HandleVGCErrorMessage :: "env \<Rightarrow> VolumeGroupContent option \<Rightarrow> error option \<Rightarrow> string \<Rightarrow> error option go" where
  "HandleVGCErrorMessage env vgc err reason =
     (case err of
        Some e \<Rightarrow>
          (case vgc of
             None \<Rightarrow> panicG ''invalid memory address or nil pointer dereference''
           | Some vgc \<Rightarrow>
               bindG (createNamespacedObjectErrorEvent env (vgcTypeMeta vgc) (vgcMeta vgc) (GetMessageFromError env e) reason) (\<lambda>uErr.
               case uErr of Some u \<Rightarrow> returnG (Some u) | None \<Rightarrow> returnG (Some e)))
      | None \<Rightarrow> returnG None)"

section \<open>finalizers.go\<close>

definition finalizerRetryOnConflictFunc ::
    "env \<Rightarrow> ('o, 'z) client_Object_scheme \<Rightarrow> string list \<Rightarrow> 'o attempt" where
  "finalizerRetryOnConflictFunc env ops finalizers obj =
     (let obj = SetFinalizers ops finalizers obj
      in bindG (UpdateObject env ops obj) (\<lambda>(err, obj).
         if IsConflict env err
         then bindG (getNamespacedObject env ops obj) (\<lambda>(uErr, obj).
              case uErr of Some u \<Rightarrow> returnG (Some u, obj) | None \<Rightarrow> returnG (err, obj))
         else returnG (err, obj)))"

definition updateFinalizer ::
    "env \<Rightarrow> ('o, 'z) client_Object_scheme \<Rightarrow> string list \<Rightarrow> 'o attempt" where
  "updateFinalizer env ops finalizers obj =
     obj_RetryOnConflict ops (finalizerRetryOnConflictFunc env ops finalizers) obj"

definition AddFinalizerToVG :: "env \<Rightarrow> VolumeGroup attempt" where
  "AddFinalizerToVG env vg =
     (if \<not> Contains (Finalizers (vgMeta vg)) VGFinalizer then
        (let vg = SetFinalizers (VG_object env) (Finalizers (vgMeta vg) @ [VGFinalizer]) vg
         in bindG (updateFinalizer env (VG_object env) (Finalizers (vgMeta vg)) vg) (\<lambda>(err, vg).
            case err of Some e \<Rightarrow> returnG (Some e, vg) | None \<Rightarrow> returnG (None, vg)))
      else returnG (None, vg))"

definition AddFinalizerToVGC :: "env \<Rightarrow> VolumeGroupContent attempt" where
  "AddFinalizerToVGC env vgc =
     (if \<not> Contains (Finalizers (vgcMeta vgc)) VgcFinalizer then
        (let vgc = SetFinalizers (VGC_object env) (Finalizers (vgcMeta vgc) @ [VgcFinalizer]) vgc
         in bindG (updateFinalizer env (VGC_object env) (Finalizers (vgcMeta vgc)) vgc) (\<lambda>(err, vgc).
            case err of Some e \<Rightarrow> returnG (Some e, vgc) | None \<Rightarrow> returnG (None, vgc)))
      else returnG (None, vgc))"

definition RemoveFinalizerFromVG :: "env \<Rightarrow> VolumeGroup attempt" where
  "RemoveFinalizerFromVG env vg =
     (if Contains (Finalizers (vgMeta vg)) VGFinalizer then
        (let vg = SetFinalizers (VG_object env) (Remove (Finalizers (vgMeta vg)) VGFinalizer) vg
         in bindG (updateFinalizer env (VG_object env) (Finalizers (vgMeta vg)) vg) (\<lambda>(err, vg).
            case err of Some e \<Rightarrow> returnG (Some e, vg) | None \<Rightarrow> returnG (None, vg)))
      else returnG (None, vg))"

definition RemoveFinalizerFromVGC :: "env \<Rightarrow> VolumeGroupContent attempt" where
  "RemoveFinalizerFromVGC env vgc =
     (if Contains (Finalizers (vgcMeta vgc)) VgcFinalizer then
        (let vgc = SetFinalizers (VGC_object env) (Remove (Finalizers (vgcMeta vgc)) VgcFinalizer) vgc
         in bindG (updateFinalizer env (VGC_object env) (Finalizers (vgcMeta vgc)) vgc) (\<lambda>(err, vgc).
            case err of Some e \<Rightarrow> returnG (Some e, vgc) | None \<Rightarrow> returnG (None, vgc)))
      else returnG (None, vgc))"

definition AddFinalizerToPVC :: "env \<Rightarrow> PersistentVolumeClaim attempt" where
  "AddFinalizerToPVC env pvc =
     (if \<not> Contains (Finalizers (PVCMeta pvc)) pvcVGFinalizer then
        (let pvc = SetFinalizers (PVC_object env) (Finalizers (PVCMeta pvc) @ [pvcVGFinalizer]) pvc
         in bindG (updateFinalizer env (PVC_object env) (Finalizers (PVCMeta pvc)) pvc) (\<lambda>(err, pvc).
            case err of Some e \<Rightarrow> returnG (Some e, pvc) | None \<Rightarrow> returnG (None, pvc)))
      else returnG (None, pvc))"

fun otherFinalizers :: "string list \<Rightarrow> bool" where
  "otherFinalizers [] = False"
| "otherFinalizers (finalizer # finalizers) =
     (if \<not> strings_Contains finalizer VGFinalizer then True else otherFinalizers finalizers)"

definition IsContainOtherFinalizers :: "ObjectMeta \<Rightarrow> bool" where
  "IsContainOtherFinalizers obj = otherFinalizers (Finalizers obj)"

lemmas status_defs =
  updateVGStatus_def vgRetryOnConflictFunc_def UpdateVGStatus_def updateVGStatusPVCList_def
  UpdateVGStatusError_def AddPVCToVG_def RemovePVCFromVG_def UpdateVGCStatus_def
  vgcRetryOnConflictFunc_def updateVGCStatusPVList_def UpdateVGCStatusError_def RemovePVFromVGC_def
  addPVToVGC_def CreateSuccessVGCEvent_def HandleErrorMessage_def HandleSuccessMessage_def
  HandlePVCErrorMessage_def HandleVGCErrorMessage_def

lemmas finalizer_defs =
  updateFinalizer_def AddFinalizerToVG_def AddFinalizerToVGC_def RemoveFinalizerFromVG_def
  RemoveFinalizerFromVGC_def AddFinalizerToPVC_def

lemmas event_defs = generateString_def generateEvent_def createEvent_def
  createSuccessNamespacedObjectEvent_def createNamespacedObjectErrorEvent_def GetCurrentTime_def

end
