(* ===== verification/Writes.thy ===== *)
theory Writes
  imports Status
begin

text \<open>
  Contracts of the retried writes of theory \<open>Status\<close>. The locale \<open>retried_write\<close> is what
  \<open>RetryOnConflict\<close> relies on; it is met by the status updates of groups and contents and by the
  finalizer updates of groups, contents and claims.
\<close>

section \<open>The contract of a retried write\<close>

locale retried_write =
  fixes prep :: "'o \<Rightarrow> 'o"
    and attempt :: "'o attempt"
    and ev_write :: "'o \<Rightarrow> error option \<times> 'o \<Rightarrow> event"
    and ev_get :: "NamespacedName \<Rightarrow> error option \<times> 'o \<Rightarrow> event"
    and conflict :: "error option \<Rightarrow> bool"
  assumes attempt_cases: "gives (attempt obj) (\<lambda>x es. \<exists>err obj'. x = Ret (err, obj') \<and>
      ((\<exists>r. es = [ev_write (prep obj) r] \<and> obj' = snd r \<and> (err = None \<longleftrightarrow> fst r = None) \<and> \<not> conflict err) \<or>
       (\<exists>r k g. es = [ev_write (prep obj) r, ev_get k g] \<and> fst r \<noteq> None \<and> err \<noteq> None \<and> obj' = snd g)))"
    and ev_distinct: "ev_write obj r \<noteq> ev_get k g"
begin

text \<open>Whatever the server answers, every object sent went through \<open>prep\<close>.\<close>

definition own_event :: "event \<Rightarrow> bool" where
  "own_event e \<longleftrightarrow> (\<exists>obj r. e = ev_write (prep obj) r) \<or> (\<exists>k g. e = ev_get k g)"

lemma own_events [simp]: "own_event (ev_write (prep obj) r)" "own_event (ev_get k g)"
  unfolding own_event_def by blast+

lemma attempt_emits: "emits own_event (attempt obj)"
  unfolding emits_def by (rule gives_mono [OF attempt_cases]) auto

lemma retry_emits: "retries_on_conflict c retry \<Longrightarrow> emits own_event (retry attempt obj)"
  by (rule emits_retry) (auto intro: attempt_emits)

text \<open>
  A retried write returns (it neither panics nor diverges); it starts by sending the prepared
  object; it succeeds exactly when its last event is an accepted write, whose answer is the object
  left behind.
\<close>

definition write_spec :: "'o \<Rightarrow> (error option \<times> 'o) outcome \<Rightarrow> event list \<Rightarrow> bool" where
  "write_spec obj x es \<longleftrightarrow>
     (\<exists>err obj'. x = Ret (err, obj') \<and> list_all own_event es \<and>
        (\<exists>r es'. es = ev_write (prep obj) r # es') \<and>
        (err = None \<longrightarrow> (\<exists>es' o1. es = es' @ [ev_write (prep o1) (None, obj')])))"

lemma write_specD:
  "write_spec obj x es \<Longrightarrow> x \<noteq> Panic s"
  "write_spec obj (Ret (None, obj')) es \<Longrightarrow> \<exists>o1. ev_write (prep o1) (None, obj') \<in> set es"
  unfolding write_spec_def by (blast, metis in_set_conv_decomp outcome.inject(1) prod.inject)

lemma attempt_spec: "gives (attempt obj) (write_spec obj)"
  by (rule gives_mono [OF attempt_cases])
    (auto simp: write_spec_def simp del: split_paired_Ex)

lemma retry_spec:
  assumes "retries_on_conflict c retry"
  shows "gives (retry attempt obj) (write_spec obj)"
  unfolding gives_def
proof (rule wp_retry [OF assms, where I = "\<lambda>o1 pre. list_all own_event pre \<and>
      (if pre = [] then o1 = obj else \<exists>r es'. pre = ev_write (prep obj) r # es')"])
  fix o1 pre
  assume I: "list_all own_event pre \<and>
      (if pre = [] then o1 = obj else \<exists>r es'. pre = ev_write (prep obj) r # es')"
  show "wp (attempt o1) (\<lambda>x es. case x of Panic s \<Rightarrow> write_spec obj (Panic s) es
      | Ret (err, obj') \<Rightarrow> write_spec obj (Ret (err, obj')) es \<and>
          (c err \<longrightarrow> list_all own_event es \<and>
             (if es = [] then obj' = obj else \<exists>r es'. es = ev_write (prep obj) r # es'))) pre"
  proof (rule wp_use [OF attempt_spec])
    fix x es
    assume sp: "write_spec o1 x es"
    then obtain err obj' r es1 where x: "x = Ret (err, obj')" "list_all own_event es"
        "es = ev_write (prep o1) r # es1" unfolding write_spec_def by blast
    from I x have first: "\<exists>r es'. pre @ es = ev_write (prep obj) r # es'"
      by (cases "pre = []") (auto split: if_splits simp del: split_paired_Ex)
    have last: "err = None \<Longrightarrow> \<exists>es' o1. pre @ es = es' @ [ev_write (prep o1) (None, obj')]"
      using sp x(1) unfolding write_spec_def by (metis append.assoc outcome.inject(1) prod.inject)
    have "write_spec obj (Ret (err, obj')) (pre @ es)"
      unfolding write_spec_def using I x(2) first last by auto
    with I x first show "case x of Panic s \<Rightarrow> write_spec obj (Panic s) (pre @ es)
      | Ret (err, obj') \<Rightarrow> write_spec obj (Ret (err, obj')) (pre @ es) \<and>
          (c err \<longrightarrow> list_all own_event (pre @ es) \<and>
             (if pre @ es = [] then obj' = obj else \<exists>r es'. pre @ es = ev_write (prep obj) r # es'))"
      by (auto simp del: split_paired_Ex)
  qed
qed simp

text \<open>When the object never had to be fetched again, there was one write, of the prepared object.\<close>

definition calm :: "event list \<Rightarrow> bool" where
  "calm es \<longleftrightarrow> (\<forall>k g. ev_get k g \<notin> set es)"

definition one_write :: "'o \<Rightarrow> (error option \<times> 'o) outcome \<Rightarrow> event list \<Rightarrow> bool" where
  "one_write obj x es \<longleftrightarrow> (\<exists>r err. es = [ev_write (prep obj) r] \<and> x = Ret (err, snd r) \<and> (err = None \<longleftrightarrow> fst r = None))"

lemma retry_calm:
  assumes "retries_on_conflict conflict retry"
  shows "gives (retry attempt obj) (\<lambda>x es. calm es \<longrightarrow> one_write obj x es)"
  unfolding gives_def
proof (rule wp_retry [OF assms, where I = "\<lambda>o1 pre. calm pre \<longrightarrow> pre = [] \<and> o1 = obj"])
  fix o1 pre
  assume I: "calm pre \<longrightarrow> pre = [] \<and> o1 = obj"
  show "wp (attempt o1) (\<lambda>x es. case x of Panic s \<Rightarrow> calm es \<longrightarrow> one_write obj (Panic s) es
      | Ret (err, obj') \<Rightarrow> (calm es \<longrightarrow> one_write obj (Ret (err, obj')) es) \<and>
          (conflict err \<longrightarrow> calm es \<longrightarrow> es = [] \<and> obj' = obj)) pre"
    apply (rule wp_use [OF attempt_cases])
    using I ev_distinct
    by (elim exE conjE disjE) (auto simp: calm_def one_write_def simp del: split_paired_Ex)
qed simp

lemma retry_success:
  assumes "retries_on_conflict c retry" and "retry attempt obj t = (Ret (None, obj'), t')"
  obtains es o1 where "t' = t @ es @ [ev_write (prep o1) (None, obj')]"
proof -
  obtain es where es: "t' = t @ es" "write_spec obj (Ret (None, obj')) es"
    using gives_run [OF retry_spec [OF assms(1)] assms(2)] by metis
  then obtain es' o1 where "es = es' @ [ev_write (prep o1) (None, obj')]"
    unfolding write_spec_def by blast
  with es show ?thesis by (intro that) auto
qed

end

section \<open>Attempts of the model\<close>

lemma UpdateObjectStatus_run:
  "UpdateObjectStatus env ops obj t = (case obj_StatusUpdate ops obj t of
     (Panic s, t') \<Rightarrow> (Panic s, t')
   | (Ret (err, obj'), t') \<Rightarrow>
       (Ret (case err of None \<Rightarrow> None | Some e \<Rightarrow>
          Some (if IsConflict env (Some e) then e
                else Wrapped (update_prefix env (GetObjectKind ops obj') (GetMeta ops obj') ''status '') e), obj'), t'))"
  by (auto simp: UpdateObjectStatus_def go_run split: prod.split outcome.split option.split)

lemma UpdateObject_run:
  "UpdateObject env ops obj t = (case obj_Update ops obj t of
     (Panic s, t') \<Rightarrow> (Panic s, t')
   | (Ret (err, obj'), t') \<Rightarrow>
       (Ret (map_option (Wrapped (update_prefix env (GetObjectKind ops obj') (GetMeta ops obj') '''')) err, obj'), t'))"
  by (auto simp: UpdateObject_def go_run split: prod.split outcome.split option.split)

lemma updateVGStatus_eq: "updateVGStatus env = UpdateObjectStatus env (VG_object env)"
proof
  fix vg
  have "(\<lambda>(err, vg). case err of Some e \<Rightarrow> if IsConflict env (Some e) then returnG (Some e, vg)
       else returnG (Some e, vg) | None \<Rightarrow> returnG (None, vg)) = (returnG :: _ \<Rightarrow> (error option \<times> VolumeGroup) go)"
    by (auto simp: fun_eq_iff split: option.split)
  then show "updateVGStatus env vg = UpdateObjectStatus env (VG_object env) vg"
    by (simp add: updateVGStatus_def)
qed

lemma case_return_pair [simp]:
  "(\<lambda>(err, obj). case err of Some e \<Rightarrow> returnG (Some e, obj) | None \<Rightarrow> returnG (None, obj)) = returnG"
  "(\<lambda>(err, obj). case err of None \<Rightarrow> returnG (None, obj) | Some e \<Rightarrow> returnG (Some e, obj)) = returnG"
  by (auto simp: fun_eq_iff split: option.split)

lemmas write_run = UpdateObjectStatus_run UpdateObject_run getNamespacedObject_def go_run

interpretation vg_status: retried_write prep "\<lambda>vg. vgRetryOnConflictFunc env (prep vg)" EvStatusVG EvGetVG "IsConflict env"
  for env :: env and prep
  by unfold_locales
    (auto simp: gives_def wp_def vgRetryOnConflictFunc_def updateVGStatus_eq write_run
      object_defs client_calls split: prod.split option.split)

interpretation vgc_status: retried_write prep "\<lambda>vgc. vgcRetryOnConflictFunc env (prep vgc)" EvStatusVGC EvGetVGC "IsConflict env"
  for env :: env and prep
  by unfold_locales
    (auto simp: gives_def wp_def vgcRetryOnConflictFunc_def write_run
      object_defs client_calls split: prod.split option.split)

interpretation vg_finalizers: retried_write "SetFinalizers (VG_object env) fs"
    "finalizerRetryOnConflictFunc env (VG_object env) fs" EvUpdateVG EvGetVG "IsConflict env"
  for env :: env and fs
  by unfold_locales
    (auto simp: gives_def wp_def finalizerRetryOnConflictFunc_def write_run is_err_def
      object_defs client_calls split: prod.split option.splits)

interpretation vgc_finalizers: retried_write "SetFinalizers (VGC_object env) fs"
    "finalizerRetryOnConflictFunc env (VGC_object env) fs" EvUpdateVGC EvGetVGC "IsConflict env"
  for env :: env and fs
  by unfold_locales
    (auto simp: gives_def wp_def finalizerRetryOnConflictFunc_def write_run is_err_def
      object_defs client_calls split: prod.split option.splits)

interpretation pvc_finalizers: retried_write "SetFinalizers (PVC_object env) fs"
    "finalizerRetryOnConflictFunc env (PVC_object env) fs" EvUpdatePVC EvGetPVC "IsConflict env"
  for env :: env and fs
  by unfold_locales
    (auto simp: gives_def wp_def finalizerRetryOnConflictFunc_def write_run is_err_def
      object_defs client_calls split: prod.split option.splits)

end
