(* ===== verification/Volumes.thy ===== *)
theory Volumes
  imports Writes
begin

text \<open>
  How the operator reads the cluster: classes (\<open>volumegroupclass.go\<close>), storage classes
  (\<open>storageclass.go\<close>), volumes (\<open>persistentvolume.go\<close>), groups and contents (\<open>volumegroup.go\<close>,
  \<open>volumegroupcontent.go\<close>), claims and their admission to a group (\<open>persistentvolumeclaim.go\<close>) and
  the release of a claim's finalizer (\<open>finalizers.go\<close>).
\<close>

section \<open>volumegroupclass.go\<close>

definition GetVGClass :: "env \<Rightarrow> string \<Rightarrow> (error + VolumeGroupClass) go" where
  "GetVGClass env vgClassName =
     (if vgClassName = '''' then returnG (Inl (ErrorString ''VolumeGroupClass name is empty''))
      else tryG (client_Get_VGClass env vgClassName) (\<lambda>vgClass. returnG (Inr vgClass)))"

definition getVGClassDriver :: "env \<Rightarrow> string \<Rightarrow> (error + string) go" where
  "getVGClassDriver env vgClassName =
     tryG (GetVGClass env vgClassName) (\<lambda>vgClass. returnG (Inr (Driver vgClass)))"

section \<open>volumegroup.go: reading groups\<close>

definition GetVG :: "env \<Rightarrow> string \<Rightarrow> string \<Rightarrow> (error + VolumeGroup) go" where
  "GetVG env vgName vgNamespace =
     bindG (client_Get_VG env (vgNamespace, vgName) VolumeGroup0) (\<lambda>(err, vg).
     case err of Some e \<Rightarrow> returnG (Inl e) | None \<Rightarrow> returnG (Inr vg))"

definition isVGHasMatchingDriver :: "env \<Rightarrow> VolumeGroup \<Rightarrow> string \<Rightarrow> (error + bool) go" where
  "isVGHasMatchingDriver env vg driver =
     bindG (liftG (GetStringField (ValueOf_VolumeGroupSpec (vgSpec vg)) ''VolumeGroupClassName'')) (\<lambda>className.
     bindG (getVGClassDriver env className) (\<lambda>r.
     case r of
       Inl err \<Rightarrow> (if IsNotFound env err then returnG (Inr False) else returnG (Inl err))
     | Inr vgClassDriver \<Rightarrow> returnG (Inr (vgClassDriver = driver))))"

fun getProvisionedVGs :: "env \<Rightarrow> VolumeGroup list \<Rightarrow> string \<Rightarrow> VolumeGroup list \<Rightarrow> (error + VolumeGroup list) go" where
  "getProvisionedVGs env [] driver newVgList = returnG (Inr newVgList)"
| "getProvisionedVGs env (vg # vgs) driver newVgList =
     tryG (isVGHasMatchingDriver env vg driver) (\<lambda>matches.
     getProvisionedVGs env vgs driver (if matches then newVgList @ [vg] else newVgList))"

definition GetVGList :: "env \<Rightarrow> string \<Rightarrow> (error + VolumeGroup list) go" where
  "GetVGList env driver =
     tryG (client_List_VG env) (\<lambda>vgList. getProvisionedVGs env vgList driver [])"

text \<open>The selector is dereferenced unchecked.\<close>

definition IsPVCMatchesVG :: "env \<Rightarrow> PersistentVolumeClaim \<Rightarrow> VolumeGroup \<Rightarrow> (error + bool) go" where
  "IsPVCMatchesVG env pvc vg =
     (case Selector (vgSource (vgSpec vg)) of
        None \<Rightarrow> panicG ''invalid memory address or nil pointer dereference''
      | Some sel \<Rightarrow> returnG (areLabelsMatchLabelSelector env (Labels (PVCMeta pvc)) sel))"

section \<open>volumegroupcontent.go: reading contents\<close>

definition GetVGC :: "env \<Rightarrow> string \<Rightarrow> string \<Rightarrow> (error + VolumeGroupContent) go" where
  "GetVGC env vgcName vgcNamespace =
     bindG (client_Get_VGC env (vgcNamespace, vgcName) VolumeGroupContent0) (\<lambda>(err, vgc).
     case err of Some e \<Rightarrow> returnG (Inl e) | None \<Rightarrow> returnG (Inr vgc))"

definition vgcNameOf :: "VolumeGroup \<Rightarrow> string outcome" where
  "vgcNameOf vg = GetStringField (ValueOf_VolumeGroupSource (vgSource (vgSpec vg))) ''VolumeGroupContentName''"

text \<open>\<open>GetVGC(..., GetStringField(vg.Spec.Source, "VolumeGroupContentName"), vg.Namespace)\<close>\<close>

definition GetVGC_of :: "env \<Rightarrow> VolumeGroup \<Rightarrow> (error + VolumeGroupContent) go" where
  "GetVGC_of env vg =
     bindG (liftG (vgcNameOf vg)) (\<lambda>vgcName. GetVGC env vgcName (Namespace (vgMeta vg)))"

definition getVgId :: "env \<Rightarrow> VolumeGroup \<Rightarrow> (error + string) go" where
  "getVgId env vg =
     tryG (GetVGC_of env vg) (\<lambda>vgc.
     case vgcSource (vgcSpec vgc) of
       None \<Rightarrow> panicG ''invalid memory address or nil pointer dereference''
     | Some src \<Rightarrow> returnG (Inr (VolumeGroupHandle src)))"

definition IsVgExist :: "env \<Rightarrow> VolumeGroupContent \<Rightarrow> (error + bool) go" where
  "IsVgExist env vgc =
     bindG (liftG (GetObjectField (ValueOf_VolumeGroupContentSpec (vgcSpec vgc)) ''VolumeGroupRef'')) (\<lambda>field.
     bindG (liftG (Value_IsNil field)) (\<lambda>isNil.
     if \<not> isNil then
       (case VolumeGroupRef (vgcSpec vgc) of
          None \<Rightarrow> panicG ''invalid memory address or nil pointer dereference''
        | Some ref \<Rightarrow>
            bindG (GetVG env (refName ref) (refNamespace ref)) (\<lambda>r.
            case r of
              Inl err \<Rightarrow> (if \<not> IsNotFound env err then returnG (Inl err) else returnG (Inr False))
            | Inr vg \<Rightarrow> returnG (Inr True)))
     else returnG (Inr False)))"

section \<open>storageclass.go\<close>

definition BetaStorageClassAnnotation :: string where
  "BetaStorageClassAnnotation = ''volume.beta.kubernetes.io/storage-class''"

definition GetPVCClass :: "PersistentVolumeClaim \<Rightarrow> error + string" where
  "GetPVCClass claim =
     (case map_of (Annotations (PVCMeta claim)) BetaStorageClassAnnotation of
        Some class \<Rightarrow> Inr class
      | None \<Rightarrow>
          (case PVCStorageClassName claim of
             Some name \<Rightarrow> Inr name
           | None \<Rightarrow> Inl (ErrorString (Sprintf FailedToGetStorageClassName [Name (PVCMeta claim)]))))"

definition getStorageClass :: "env \<Rightarrow> string \<Rightarrow> (error + StorageClass) go" where
  "getStorageClass env scName = tryG (client_Get_SC env scName) (\<lambda>sc. returnG (Inr sc))"

definition getStorageClassProvisioner :: "env \<Rightarrow> string \<Rightarrow> (error + string) go" where
  "getStorageClassProvisioner env scName =
     tryG (getStorageClass env scName) (\<lambda>sc. returnG (Inr (Provisioner sc)))"

definition isSCHasParam :: "StorageClass \<Rightarrow> string \<Rightarrow> bool" where
  "isSCHasParam sc param = (map_of (SCParameters sc) param \<noteq> None)"

section \<open>persistentvolume.go\<close>

definition getPVNameFromPVC :: "PersistentVolumeClaim \<Rightarrow> string outcome" where
  "getPVNameFromPVC pvc = GetStringField (ValueOf_PVCSpec pvc) ''VolumeName''"

definition getPV :: "env \<Rightarrow> string \<Rightarrow> (error + PersistentVolume) go" where
  "getPV env pvName = tryG (client_Get_PV env pvName) (\<lambda>pv. returnG (Inr pv))"

definition GetPVFromPVC :: "env \<Rightarrow> PersistentVolumeClaim \<Rightarrow> (error + PersistentVolume option) go" where
  "GetPVFromPVC env pvc =
     bindG (liftG (getPVNameFromPVC pvc)) (\<lambda>pvName.
     if pvName = '''' then returnG (Inr None)
     else bindG (getPV env pvName) (\<lambda>r.
          case r of
            Inl err \<Rightarrow>
              (if IsNotFound env err
               then returnG (Inl (PVDoesNotExist pvName (Namespace (PVCMeta pvc)) (Error err)))
               else returnG (Inl err))
          | Inr pv \<Rightarrow> returnG (Inr (Some pv))))"

section \<open>persistentvolumeclaim.go\<close>

text \<open>The volume handle is read through the CSI source of the volume, unchecked.\<close>

fun getPVCListVolumeIds :: "env \<Rightarrow> PersistentVolumeClaim list \<Rightarrow> string list \<Rightarrow> (error + string list) go" where
  "getPVCListVolumeIds env [] volumeIds = returnG (Inr volumeIds)"
| "getPVCListVolumeIds env (pvc # pvcList) volumeIds =
     tryG (GetPVFromPVC env pvc) (\<lambda>pv.
     case pv of
       Some pv \<Rightarrow>
         (case PVCSI pv of
            None \<Rightarrow> panicG ''invalid memory address or nil pointer dereference''
          | Some handle \<Rightarrow> getPVCListVolumeIds env pvcList (volumeIds @ [handle]))
     | None \<Rightarrow> getPVCListVolumeIds env pvcList volumeIds)"

definition checkIfPVCCanBeAddedToVG :: "PersistentVolumeClaim \<Rightarrow> string list \<Rightarrow> string list \<Rightarrow> error option" where
  "checkIfPVCCanBeAddedToVG pvc vgsWithPVC newVGsForPVC =
     (if length vgsWithPVC > 0 \<and> length newVGsForPVC > 0 then
        Some (ErrorString (Sprintf PVCIsAlreadyBelongToGroup
          [Namespace (PVCMeta pvc), Name (PVCMeta pvc), show_strings newVGsForPVC, show_strings vgsWithPVC]))
      else if length newVGsForPVC > 1 then
        Some (ErrorString (Sprintf PVCMatchedWithMultipleNewGroups
          [Namespace (PVCMeta pvc), Name (PVCMeta pvc), show_strings newVGsForPVC]))
      else None)"

fun collectVGsForPVC ::
    "env \<Rightarrow> PersistentVolumeClaim \<Rightarrow> VolumeGroup list \<Rightarrow> string list \<Rightarrow> string list \<Rightarrow> (string list \<times> string list) go" where
  "collectVGsForPVC env pvc [] vgsWithPVC newVGsForPVC = returnG (vgsWithPVC, newVGsForPVC)"
| "collectVGsForPVC env pvc (vg # vgs) vgsWithPVC newVGsForPVC =
     (if IsPVCInPVCList pvc (PVCList (vgStatus vg))
      then collectVGsForPVC env pvc vgs (vgsWithPVC @ [Name (vgMeta vg)]) newVGsForPVC
      else bindG (IsPVCMatchesVG env pvc vg) (\<lambda>r.
           collectVGsForPVC env pvc vgs vgsWithPVC
             (if r = Inr True then newVGsForPVC @ [Name (vgMeta vg)] else newVGsForPVC)))"

definition IsPVCCanBeAddedToVG :: "env \<Rightarrow> PersistentVolumeClaim \<Rightarrow> VolumeGroup list \<Rightarrow> error option go" where
  "IsPVCCanBeAddedToVG env pvc vgs =
     bindG (collectVGsForPVC env pvc vgs [] []) (\<lambda>(vgsWithPVC, newVGsForPVC).
     returnG (checkIfPVCCanBeAddedToVG pvc vgsWithPVC newVGsForPVC))"

definition IsPVCHasMatchingDriver :: "env \<Rightarrow> PersistentVolumeClaim \<Rightarrow> string \<Rightarrow> (error + bool) go" where
  "IsPVCHasMatchingDriver env pvc driver =
     tryG (returnG (GetPVCClass pvc)) (\<lambda>storageClassName.
     tryG (getStorageClassProvisioner env storageClassName) (\<lambda>scProvisioner.
     returnG (Inr (scProvisioner = driver))))"

definition IsPVCInStaticVG :: "env \<Rightarrow> PersistentVolumeClaim \<Rightarrow> (error + bool) go" where
  "IsPVCInStaticVG env pvc =
     tryG (returnG (GetPVCClass pvc)) (\<lambda>storageClassName.
     tryG (getStorageClass env storageClassName) (\<lambda>sc.
     returnG (Inr (isSCHasParam sc storageClassVGParameter))))"

definition IsPVCNeedToBeHandled :: "env \<Rightarrow> PersistentVolumeClaim \<Rightarrow> string \<Rightarrow> (error + bool) go" where
  "IsPVCNeedToBeHandled env pvc driverName =
     tryG (IsPVCHasMatchingDriver env pvc driverName) (\<lambda>isPVCHasMatchingDriver.
     if \<not> isPVCHasMatchingDriver then returnG (Inr False)
     else if PVCPhase pvc \<noteq> ClaimBound then returnG (Inr False)
     else tryG (IsPVCInStaticVG env pvc) (\<lambda>isSCHasVGParam.
          if isSCHasVGParam then
            tryG (returnG (GetPVCClass pvc)) (\<lambda>storageClassName.
            let msg = Sprintf StorageClassHasVGParameter
                  [storageClassName, Namespace (PVCMeta pvc), Name (PVCMeta pvc)]
            in bindG (HandlePVCErrorMessage env pvc (Some (ErrorString msg)) addingPVC) (\<lambda>err.
               case err of Some e \<Rightarrow> returnG (Inl e) | None \<Rightarrow> returnG (Inr False)))
          else returnG (Inr True)))"

definition getPVCList :: "env \<Rightarrow> (error + PersistentVolumeClaim list) go" where
  "getPVCList env = tryG (client_List_PVC env) (\<lambda>pvcList. returnG (Inr pvcList))"

fun getBoundPVCList :: "PersistentVolumeClaim list \<Rightarrow> PersistentVolumeClaim list" where
  "getBoundPVCList [] = []"
| "getBoundPVCList (pvc # pvcList) =
     (if PVCPhase pvc = ClaimBound then pvc # getBoundPVCList pvcList else getBoundPVCList pvcList)"

fun getProvisionedPVCList ::
    "env \<Rightarrow> string \<Rightarrow> PersistentVolumeClaim list \<Rightarrow> PersistentVolumeClaim list \<Rightarrow> (error + PersistentVolumeClaim list) go" where
  "getProvisionedPVCList env driver [] newPVCList = returnG (Inr newPVCList)"
| "getProvisionedPVCList env driver (pvc # pvcList) newPVCList =
     tryG (IsPVCHasMatchingDriver env pvc driver) (\<lambda>matches.
     getProvisionedPVCList env driver pvcList (if matches then newPVCList @ [pvc] else newPVCList))"

definition GetPVCList :: "env \<Rightarrow> string \<Rightarrow> (error + PersistentVolumeClaim list) go" where
  "GetPVCList env driver =
     tryG (getPVCList env) (\<lambda>pvcList.
     getProvisionedPVCList env driver (getBoundPVCList pvcList) [])"

fun pvcOfPV :: "PersistentVolumeClaim list \<Rightarrow> string \<Rightarrow> PersistentVolumeClaim outcome" where
  "pvcOfPV [] pvName = Ret PersistentVolumeClaim0"
| "pvcOfPV (pvc # pvcList) pvName =
     (case getPVNameFromPVC pvc of
        Panic s \<Rightarrow> Panic s
      | Ret pvNameFromPVC \<Rightarrow> if pvNameFromPVC = pvName then Ret pvc else pvcOfPV pvcList pvName)"

definition getMatchingPVCFromPVCListToPV :: "env \<Rightarrow> string \<Rightarrow> string \<Rightarrow> (error + PersistentVolumeClaim) go" where
  "getMatchingPVCFromPVCListToPV env pvName driver =
     tryG (GetPVCList env driver) (\<lambda>pvcList.
     bindG (liftG (pvcOfPV pvcList pvName)) (\<lambda>pvc. returnG (Inr pvc)))"

definition getPVCNameFromPV :: "PersistentVolume \<Rightarrow> string outcome" where
  "getPVCNameFromPV pv = GetStringField (ValueOf_ObjectReference (PVClaimRef pv)) ''Name''"

definition getPVCNamespaceFromPV :: "PersistentVolume \<Rightarrow> string outcome" where
  "getPVCNamespaceFromPV pv = GetStringField (ValueOf_ObjectReference (PVClaimRef pv)) ''Namespace''"

definition GetPVC :: "env \<Rightarrow> string \<Rightarrow> string \<Rightarrow> (error + PersistentVolumeClaim) go" where
  "GetPVC env name namespace =
     bindG (client_Get_PVC env (namespace, name) PersistentVolumeClaim0) (\<lambda>(err, pvc).
     case err of Some e \<Rightarrow> returnG (Inl e) | None \<Rightarrow> returnG (Inr pvc))"

definition removePVCObject :: "env \<Rightarrow> PersistentVolumeClaim \<Rightarrow> error option go" where
  "removePVCObject env pvc =
     bindG (client_Delete_PVC env pvc) (\<lambda>err.
     case err of Some e \<Rightarrow> returnG (Some e) | None \<Rightarrow> returnG None)"

section \<open>finalizers.go: releasing a claim\<close>

definition isFinalizerShouldBeREmovedFromPVC :: "env \<Rightarrow> string \<Rightarrow> PersistentVolumeClaim \<Rightarrow> (error + bool) go" where
  "isFinalizerShouldBeREmovedFromPVC env driver pvc =
     tryG (GetPVC env (Name (PVCMeta pvc)) (Namespace (PVCMeta pvc))) (\<lambda>pvc.
     tryG (GetVGList env driver) (\<lambda>vgList.
     returnG (Inr (\<not> IsPVCPartAnyVG pvc vgList \<and> Contains (Finalizers (PVCMeta pvc)) pvcVGFinalizer))))"

definition RemoveFinalizerFromPVC :: "env \<Rightarrow> string \<Rightarrow> PersistentVolumeClaim attempt" where
  "RemoveFinalizerFromPVC env driver pvc =
     bindG (isFinalizerShouldBeREmovedFromPVC env driver pvc) (\<lambda>r.
     case r of
       Inl err \<Rightarrow> returnG (Some err, pvc)
     | Inr removeFinalizer \<Rightarrow>
         (if removeFinalizer then
            bindG (getNamespacedObject env (PVC_object env) pvc) (\<lambda>(uErr, pvc).
            case uErr of
              Some u \<Rightarrow> returnG (Some u, pvc)
            | None \<Rightarrow>
                (let pvc = SetFinalizers (PVC_object env) (Remove (Finalizers (PVCMeta pvc)) pvcVGFinalizer) pvc
                 in bindG (updateFinalizer env (PVC_object env) (Finalizers (PVCMeta pvc)) pvc) (\<lambda>(err, pvc).
                    case err of Some e \<Rightarrow> returnG (Some e, pvc) | None \<Rightarrow> returnG (None, pvc))))
          else returnG (None, pvc)))"

definition deletePVC :: "env \<Rightarrow> string \<Rightarrow> string \<Rightarrow> string \<Rightarrow> error option go" where
  "deletePVC env name namespace driver =
     bindG (GetPVC env name namespace) (\<lambda>r.
     case r of
       Inl err \<Rightarrow> (if IsNotFound env err then returnG None else returnG (Some err))
     | Inr pvc \<Rightarrow>
         bindG (RemoveFinalizerFromPVC env driver pvc) (\<lambda>(err, pvc).
         case err of
           Some e \<Rightarrow> returnG (Some e)
         | None \<Rightarrow>
             bindG (removePVCObject env pvc) (\<lambda>err.
             case err of Some e \<Rightarrow> returnG (Some e) | None \<Rightarrow> returnG None)))"

lemmas read_defs = GetVGClass_def getVGClassDriver_def GetVG_def isVGHasMatchingDriver_def
  GetVGList_def IsPVCMatchesVG_def GetVGC_def vgcNameOf_def GetVGC_of_def getVgId_def IsVgExist_def
  getStorageClass_def getStorageClassProvisioner_def getPVNameFromPVC_def getPV_def
  GetPVFromPVC_def IsPVCCanBeAddedToVG_def IsPVCHasMatchingDriver_def IsPVCInStaticVG_def
  getPVCList_def GetPVCList_def getMatchingPVCFromPVCListToPV_def GetPVC_def
  isFinalizerShouldBeREmovedFromPVC_def

section \<open>Reading changes nothing\<close>

lemma reads_GetSecretDataFromClass [emits_intro]: "emits is_read (GetSecretDataFromClass env c)"
  unfolding GetSecretDataFromClass_def getSecretData_def client_calls
  by (auto intro!: emits_intro split: prod.split)

lemma reads_isVGHasMatchingDriver [emits_intro]: "emits is_read (isVGHasMatchingDriver env vg driver)"
  unfolding read_defs client_calls by (auto intro!: emits_intro)

lemma reads_getProvisionedVGs [emits_intro]: "emits is_read (getProvisionedVGs env vgs driver acc)"
  by (induction env vgs driver acc rule: getProvisionedVGs.induct)
    (auto intro!: emits_intro)

lemma reads_GetVGList [emits_intro]: "emits is_read (GetVGList env driver)"
  unfolding GetVGList_def client_calls by (auto intro!: emits_intro)

lemma reads_GetVGClass [emits_intro]: "emits is_read (GetVGClass env name)"
  unfolding GetVGClass_def client_calls by (auto intro!: emits_intro)

lemma reads_GetVG [emits_intro]: "emits is_read (GetVG env name ns)"
  unfolding GetVG_def client_calls by (auto intro!: emits_intro)

lemma reads_GetVGC [emits_intro]: "emits is_read (GetVGC env name ns)"
  unfolding GetVGC_def client_calls by (auto intro!: emits_intro)

lemma reads_GetPVC [emits_intro]: "emits is_read (GetPVC env name ns)"
  unfolding GetPVC_def client_calls by (auto intro!: emits_intro)

lemma reads_GetVGC_of [emits_intro]: "emits is_read (GetVGC_of env vg)"
  unfolding GetVGC_of_def by (auto intro!: emits_intro)

lemma reads_getVgId [emits_intro]: "emits is_read (getVgId env vg)"
  unfolding getVgId_def by (auto intro!: emits_intro)

lemma reads_IsVgExist [emits_intro]: "emits is_read (IsVgExist env vgc)"
  unfolding IsVgExist_def by (auto intro!: emits_intro)

lemma reads_IsPVCHasMatchingDriver [emits_intro]: "emits is_read (IsPVCHasMatchingDriver env pvc driver)"
  unfolding read_defs client_calls by (auto intro!: emits_intro)

lemma reads_getProvisionedPVCList [emits_intro]:
  "emits is_read (getProvisionedPVCList env driver pvcs acc)"
  by (induction env driver pvcs acc rule: getProvisionedPVCList.induct) (auto intro!: emits_intro)

lemma reads_GetPVCList [emits_intro]: "emits is_read (GetPVCList env driver)"
  unfolding GetPVCList_def getPVCList_def client_calls by (auto intro!: emits_intro)

lemma reads_GetPVFromPVC [emits_intro]: "emits is_read (GetPVFromPVC env pvc)"
  unfolding read_defs client_calls by (auto intro!: emits_intro)

lemma reads_getPVCListVolumeIds [emits_intro]: "emits is_read (getPVCListVolumeIds env pvcs acc)"
  by (induction pvcs arbitrary: acc) (auto intro!: emits_intro)

lemma reads_IsPVCMatchesVG [emits_intro]: "emits \<Phi> (IsPVCMatchesVG env pvc vg)"
  unfolding IsPVCMatchesVG_def by (auto intro!: emits_intro)

lemma reads_collectVGsForPVC [emits_intro]: "emits \<Phi> (collectVGsForPVC env pvc vgs a b)"
  by (induction env pvc vgs a b rule: collectVGsForPVC.induct) (auto intro!: emits_intro)

lemma reads_IsPVCCanBeAddedToVG [emits_intro]: "emits \<Phi> (IsPVCCanBeAddedToVG env pvc vgs)"
  unfolding IsPVCCanBeAddedToVG_def by (auto intro!: emits_intro)

lemma reads_isFinalizerShouldBeREmovedFromPVC [emits_intro]:
  "emits is_read (isFinalizerShouldBeREmovedFromPVC env driver pvc)"
  unfolding isFinalizerShouldBeREmovedFromPVC_def by (auto intro!: emits_intro)

section \<open>Groups and claims of the driver\<close>

abbreviation className :: "VolumeGroup \<Rightarrow> string" where
  "className vg \<equiv> deref (vgVolumeGroupClassName (vgSpec vg))"

text \<open>
  What the answers in a list of events say of a group: its class belongs to the driver, or is
  missing or of another driver.
\<close>

definition own_group :: "string \<Rightarrow> event list \<Rightarrow> VolumeGroup \<Rightarrow> bool" where
  "own_group driver es vg \<longleftrightarrow> (\<exists>c. EvGetVGClass (className vg) (Inr c) \<in> set es \<and> Driver c = driver)"

definition foreign_group :: "env \<Rightarrow> string \<Rightarrow> event list \<Rightarrow> VolumeGroup \<Rightarrow> bool" where
  "foreign_group env driver es vg \<longleftrightarrow>
     (\<exists>c. EvGetVGClass (className vg) (Inr c) \<in> set es \<and> Driver c \<noteq> driver) \<or>
     (\<exists>e. EvGetVGClass (className vg) (Inl e) \<in> set es \<and> IsNotFound env e) \<or>
     (className vg = '''' \<and> IsNotFound env (ErrorString ''VolumeGroupClass name is empty''))"

lemma group_mono:
  "own_group driver es vg \<Longrightarrow> set es \<subseteq> set es' \<Longrightarrow> own_group driver es' vg"
  "foreign_group env driver es vg \<Longrightarrow> set es \<subseteq> set es' \<Longrightarrow> foreign_group env driver es' vg"
  unfolding own_group_def foreign_group_def by blast+

lemma isVGHasMatchingDriver_spec:
  "gives (isVGHasMatchingDriver env vg driver) (\<lambda>x es.
     (x = Ret (Inr True) \<longrightarrow> own_group driver es vg) \<and>
     (x = Ret (Inr False) \<longrightarrow> foreign_group env driver es vg) \<and> (\<forall>s. x \<noteq> Panic s))"
  unfolding gives_def wp_def read_defs client_calls
  by (auto simp: go_run own_group_def foreign_group_def split: sum.splits)

lemma getProvisionedVGs_spec:
  "gives (getProvisionedVGs env vgs driver acc) (\<lambda>x es. \<forall>ys. x = Ret (Inr ys) \<longrightarrow>
     (\<exists>zs. ys = acc @ zs \<and> set zs \<subseteq> set vgs \<and> (\<forall>vg \<in> set zs. own_group driver es vg) \<and>
       (\<forall>vg \<in> set vgs. vg \<notin> set zs \<longrightarrow> foreign_group env driver es vg)))"
proof (induction vgs arbitrary: acc)
  case Nil
  show ?case by (simp add: gives_def wp_intro)
next
  case (Cons vg vgs)
  show ?case
    unfolding gives_def getProvisionedVGs.simps
  proof (rule wp_try_use [OF isVGHasMatchingDriver_spec]; (simp; fail)?)
    fix m es
    assume m: "(Ret (Inr m) = Ret (Inr True) \<longrightarrow> own_group driver es vg) \<and>
        (Ret (Inr m) = Ret (Inr False) \<longrightarrow> foreign_group env driver es vg) \<and> (\<forall>s. Ret (Inr m) \<noteq> Panic s)"
    show "wp (getProvisionedVGs env vgs driver (if m then acc @ [vg] else acc))
       (\<lambda>x es. \<forall>ys. x = Ret (Inr ys) \<longrightarrow> (\<exists>zs. ys = acc @ zs \<and> set zs \<subseteq> set (vg # vgs) \<and>
          (\<forall>vg \<in> set zs. own_group driver es vg) \<and>
          (\<forall>vg \<in> set (vg # vgs). vg \<notin> set zs \<longrightarrow> foreign_group env driver es vg))) ([] @ es)"
    proof (rule wp_use [OF Cons.IH], intro allI impI)
      fix x es' ys
      assume IH: "\<forall>ys. x = Ret (Inr ys) \<longrightarrow> (\<exists>zs. ys = (if m then acc @ [vg] else acc) @ zs \<and>
          set zs \<subseteq> set vgs \<and> (\<forall>vg \<in> set zs. own_group driver es' vg) \<and>
          (\<forall>vg \<in> set vgs. vg \<notin> set zs \<longrightarrow> foreign_group env driver es' vg))" and x: "x = Ret (Inr ys)"
      then obtain zs where zs: "ys = (if m then acc @ [vg] else acc) @ zs" "set zs \<subseteq> set vgs"
          "\<forall>vg \<in> set zs. own_group driver es' vg"
          "\<forall>vg \<in> set vgs. vg \<notin> set zs \<longrightarrow> foreign_group env driver es' vg" by blast
      show "\<exists>zs. ys = acc @ zs \<and> set zs \<subseteq> set (vg # vgs) \<and>
          (\<forall>vg \<in> set zs. own_group driver (([] @ es) @ es') vg) \<and>
          (\<forall>vg \<in> set (vg # vgs). vg \<notin> set zs \<longrightarrow> foreign_group env driver (([] @ es) @ es') vg)"
        using zs m by (intro exI [of _ "if m then vg # zs else zs"])
          (auto intro: group_mono split: if_splits)
    qed
  qed
qed

lemma GetVGList_spec:
  "gives (GetVGList env driver) (\<lambda>x es. \<forall>ys. x = Ret (Inr ys) \<longrightarrow>
     (\<exists>vgs. EvListVG (Inr vgs) \<in> set es \<and> set ys \<subseteq> set vgs \<and> (\<forall>vg \<in> set ys. own_group driver es vg) \<and>
       (\<forall>vg \<in> set vgs. vg \<notin> set ys \<longrightarrow> foreign_group env driver es vg)))"
  unfolding gives_def GetVGList_def client_calls
proof (rule wp_tryG, rule wp_callG)
  fix r
  show "case Ret r of Ret (Inl e) \<Rightarrow> \<forall>ys. Ret (Inl e) = Ret (Inr ys) \<longrightarrow> (\<exists>vgs. EvListVG (Inr vgs) \<in> set ([] @ [EvListVG r]) \<and>
         set ys \<subseteq> set vgs \<and> (\<forall>vg \<in> set ys. own_group driver ([] @ [EvListVG r]) vg) \<and>
         (\<forall>vg \<in> set vgs. vg \<notin> set ys \<longrightarrow> foreign_group env driver ([] @ [EvListVG r]) vg))
     | Ret (Inr a) \<Rightarrow> wp (getProvisionedVGs env a driver []) (\<lambda>x es. \<forall>ys. x = Ret (Inr ys) \<longrightarrow> (\<exists>vgs. EvListVG (Inr vgs) \<in> set es \<and>
         set ys \<subseteq> set vgs \<and> (\<forall>vg \<in> set ys. own_group driver es vg) \<and>
         (\<forall>vg \<in> set vgs. vg \<notin> set ys \<longrightarrow> foreign_group env driver es vg))) ([] @ [EvListVG r])
     | Panic s \<Rightarrow> \<forall>ys. Panic s = Ret (Inr ys) \<longrightarrow> (\<exists>vgs. EvListVG (Inr vgs) \<in> set ([] @ [EvListVG r]) \<and>
         set ys \<subseteq> set vgs \<and> (\<forall>vg \<in> set ys. own_group driver ([] @ [EvListVG r]) vg) \<and>
         (\<forall>vg \<in> set vgs. vg \<notin> set ys \<longrightarrow> foreign_group env driver ([] @ [EvListVG r]) vg))"
  proof (cases r)
    case (Inr vgs)
    then show ?thesis
      by (simp, intro wp_use [OF getProvisionedVGs_spec]) (force intro: group_mono)
  qed simp
qed

text \<open>A claim is the driver's when its storage class, as the events show it, names the driver.\<close>

definition own_claim :: "string \<Rightarrow> event list \<Rightarrow> PersistentVolumeClaim \<Rightarrow> bool" where
  "own_claim driver es pvc \<longleftrightarrow>
     (\<exists>name sc. GetPVCClass pvc = Inr name \<and> EvGetSC name (Inr sc) \<in> set es \<and> Provisioner sc = driver)"

lemma own_claim_mono: "own_claim driver es pvc \<Longrightarrow> set es \<subseteq> set es' \<Longrightarrow> own_claim driver es' pvc"
  unfolding own_claim_def by blast

lemma IsPVCHasMatchingDriver_spec:
  "gives (IsPVCHasMatchingDriver env pvc driver) (\<lambda>x es.
     (x = Ret (Inr True) \<longrightarrow> own_claim driver es pvc) \<and> (\<forall>s. x \<noteq> Panic s))"
  unfolding gives_def wp_def read_defs client_calls
  by (auto simp: go_run own_claim_def split: sum.splits)

lemma getProvisionedPVCList_spec:
  "gives (getProvisionedPVCList env driver pvcs acc) (\<lambda>x es. \<forall>ys. x = Ret (Inr ys) \<longrightarrow>
     (\<exists>zs. ys = acc @ zs \<and> subseq zs pvcs \<and> (\<forall>pvc \<in> set zs. own_claim driver es pvc)))"
proof (induction pvcs arbitrary: acc)
  case Nil
  show ?case by (simp add: gives_def wp_intro)
next
  case (Cons pvc pvcs)
  show ?case
    unfolding gives_def getProvisionedPVCList.simps
  proof (rule wp_try_use [OF IsPVCHasMatchingDriver_spec]; (simp; fail)?)
    fix m es
    assume m: "(Ret (Inr m) = Ret (Inr True) \<longrightarrow> own_claim driver es pvc) \<and> (\<forall>s. Ret (Inr m) \<noteq> Panic s)"
    show "wp (getProvisionedPVCList env driver pvcs (if m then acc @ [pvc] else acc))
       (\<lambda>x es. \<forall>ys. x = Ret (Inr ys) \<longrightarrow> (\<exists>zs. ys = acc @ zs \<and> subseq zs (pvc # pvcs) \<and>
          (\<forall>pvc \<in> set zs. own_claim driver es pvc))) ([] @ es)"
    proof (rule wp_use [OF Cons.IH], intro allI impI)
      fix x es' ys
      assume "\<forall>ys. x = Ret (Inr ys) \<longrightarrow> (\<exists>zs. ys = (if m then acc @ [pvc] else acc) @ zs \<and>
          subseq zs pvcs \<and> (\<forall>pvc \<in> set zs. own_claim driver es' pvc))" and "x = Ret (Inr ys)"
      then obtain zs where zs: "ys = (if m then acc @ [pvc] else acc) @ zs" "subseq zs pvcs"
          "\<forall>pvc \<in> set zs. own_claim driver es' pvc" by blast
      show "\<exists>zs. ys = acc @ zs \<and> subseq zs (pvc # pvcs) \<and>
          (\<forall>pvc \<in> set zs. own_claim driver (([] @ es) @ es') pvc)"
        using zs m by (intro exI [of _ "if m then pvc # zs else zs"])
          (auto intro: own_claim_mono split: if_splits)
    qed
  qed
qed

lemma set_subseq: "subseq xs ys \<Longrightarrow> set xs \<subseteq> set ys"
  by (induction rule: list_emb.induct) auto

lemma getBoundPVCList_filter [simp]:
  "getBoundPVCList pvcs = filter (\<lambda>pvc. PVCPhase pvc = ClaimBound) pvcs"
  by (induction pvcs) auto

lemma GetPVCList_spec:
  "gives (GetPVCList env driver) (\<lambda>x es. \<forall>ys. x = Ret (Inr ys) \<longrightarrow>
     (\<exists>pvcs. EvListPVC (Inr pvcs) \<in> set es \<and> subseq ys pvcs \<and>
       (\<forall>pvc \<in> set ys. PVCPhase pvc = ClaimBound \<and> own_claim driver es pvc)))"
proof -
  have list: "gives (getPVCList env) (\<lambda>x es. \<forall>ys. x = Ret (Inr ys) \<longrightarrow> EvListPVC (Inr ys) \<in> set es)"
    unfolding gives_def wp_def getPVCList_def client_calls by (auto simp: go_run split: sum.splits)
  show ?thesis
    unfolding gives_def GetPVCList_def
  proof (rule wp_try_use [OF list]; (simp; fail)?)
    fix pvcs es
    assume pvcs: "\<forall>ys. Ret (Inr pvcs) = Ret (Inr ys) \<longrightarrow> EvListPVC (Inr ys) \<in> set es"
    show "wp (getProvisionedPVCList env driver (getBoundPVCList pvcs) [])
      (\<lambda>x es. \<forall>ys. x = Ret (Inr ys) \<longrightarrow> (\<exists>pvcs. EvListPVC (Inr pvcs) \<in> set es \<and> subseq ys pvcs \<and>
       (\<forall>pvc \<in> set ys. PVCPhase pvc = ClaimBound \<and> own_claim driver es pvc))) ([] @ es)"
    proof (rule wp_use [OF getProvisionedPVCList_spec], intro allI impI)
      fix x es' ys
      assume "\<forall>ys. x = Ret (Inr ys) \<longrightarrow> (\<exists>zs. ys = [] @ zs \<and> subseq zs (getBoundPVCList pvcs) \<and>
          (\<forall>pvc \<in> set zs. own_claim driver es' pvc))" and "x = Ret (Inr ys)"
      then have ys: "subseq ys (filter (\<lambda>pvc. PVCPhase pvc = ClaimBound) pvcs)"
          "\<forall>pvc \<in> set ys. own_claim driver es' pvc" by auto
      have "subseq ys pvcs" using ys(1) subseq_filter_left subseq_order.trans by blast
      moreover have "set ys \<subseteq> set (filter (\<lambda>pvc. PVCPhase pvc = ClaimBound) pvcs)"
        using ys(1) by (rule set_subseq)
      then have bound: "\<forall>pvc \<in> set ys. PVCPhase pvc = ClaimBound" by auto
      ultimately show "\<exists>pvcs. EvListPVC (Inr pvcs) \<in> set (([] @ es) @ es') \<and> subseq ys pvcs \<and>
          (\<forall>pvc \<in> set ys. PVCPhase pvc = ClaimBound \<and> own_claim driver (([] @ es) @ es') pvc)"
        using ys(2) pvcs bound by (intro exI [of _ pvcs]) (auto intro: own_claim_mono)
    qed
  qed
qed

section \<open>One group per claim\<close>

text \<open>
  The groups a claim belongs to, and those it would join: its labels match their selector and they
  do not list it yet.
\<close>

definition has_claim :: "PersistentVolumeClaim \<Rightarrow> VolumeGroup \<Rightarrow> bool" where
  "has_claim pvc vg \<longleftrightarrow> pvc_key pvc \<in> pvc_key ` set (PVCList (vgStatus vg))"

definition selects_claim :: "env \<Rightarrow> PersistentVolumeClaim \<Rightarrow> VolumeGroup \<Rightarrow> bool" where
  "selects_claim env pvc vg \<longleftrightarrow> (\<exists>sel f. Selector (vgSource (vgSpec vg)) = Some sel \<and>
     lib_LabelSelectorAsSelector (lib env) sel = Inr f \<and> f (Labels (PVCMeta pvc)))"

definition has_selector :: "VolumeGroup \<Rightarrow> bool" where
  "has_selector vg \<longleftrightarrow> Selector (vgSource (vgSpec vg)) \<noteq> None"

lemma IsPVCMatchesVG_run:
  "has_selector vg \<Longrightarrow> \<exists>r. IsPVCMatchesVG env pvc vg t = (Ret r, t) \<and> (r = Inr True \<longleftrightarrow> selects_claim env pvc vg)"
  by (auto simp: IsPVCMatchesVG_def has_selector_def selects_claim_def areLabelsMatchLabelSelector_def
      isSelectorMatchesLabels_def go_run split: sum.splits)

lemma collectVGsForPVC_run:
  assumes "\<forall>vg \<in> set vgs. \<not> has_claim pvc vg \<longrightarrow> has_selector vg"
  shows "collectVGsForPVC env pvc vgs a b t =
    (Ret (a @ map (\<lambda>vg. Name (vgMeta vg)) (filter (has_claim pvc) vgs),
          b @ map (\<lambda>vg. Name (vgMeta vg)) (filter (\<lambda>vg. \<not> has_claim pvc vg \<and> selects_claim env pvc vg) vgs)), t)"
  using assms
proof (induction vgs arbitrary: a b)
  case Nil
  show ?case by (simp add: go_run)
next
  case (Cons vg vgs)
  show ?case
  proof (cases "has_claim pvc vg")
    case True
    with Cons show ?thesis by (simp add: has_claim_def)
  next
    case False
    with Cons.prems obtain r where r: "IsPVCMatchesVG env pvc vg t = (Ret r, t)"
        "r = Inr True \<longleftrightarrow> selects_claim env pvc vg" using IsPVCMatchesVG_run [of vg env pvc t] by auto
    with False Cons show ?thesis by (simp add: has_claim_def go_run)
  qed
qed

lemma checkIfPVCCanBeAddedToVG_None_iff:
  "checkIfPVCCanBeAddedToVG pvc xs ys = None \<longleftrightarrow> (xs = [] \<and> length ys \<le> 1) \<or> ys = []"
  by (auto simp: checkIfPVCCanBeAddedToVG_def)

section \<open>A claim keeps its finalizer while a group lists it\<close>

text \<open>
  The events show that a claim may be released: the claim was read afresh, the groups were listed
  afterwards, and every group that lists the claim belongs to another driver or has no class.
\<close>

definition released :: "env \<Rightarrow> string \<Rightarrow> PersistentVolumeClaim \<Rightarrow> event list \<Rightarrow> bool" where
  "released env driver pvc es \<longleftrightarrow>
     (\<exists>p vgs. EvGetPVC (pvc_key pvc) (None, p) \<in> set es \<and> EvListVG (Inr vgs) \<in> set es \<and>
        (\<forall>vg \<in> set vgs. has_claim p vg \<longrightarrow> foreign_group env driver es vg))"

lemma released_mono: "released env driver pvc es \<Longrightarrow> set es \<subseteq> set es' \<Longrightarrow> released env driver pvc es'"
  unfolding released_def by (meson group_mono(2) subsetD)

lemma released_listed:
  assumes "EvGetPVC (pvc_key pvc) (None, p) \<in> set es" and "EvListVG (Inr vgs) \<in> set es'"
    and "\<And>vg. vg \<in> set vgs \<Longrightarrow> has_claim p vg \<Longrightarrow> foreign_group env driver es' vg"
  shows "released env driver pvc (es @ es')"
  unfolding released_def
  using assms group_mono(2) [of env driver es' _ "es @ es'"] by (intro exI [of _ p] exI [of _ vgs]) simp

lemma GetPVC_spec:
  "gives (GetPVC env name ns) (\<lambda>x es. (\<forall>s. x \<noteq> Panic s) \<and>
     (\<forall>p. x = Ret (Inr p) \<longrightarrow> es = [EvGetPVC (ns, name) (None, p)]))"
  unfolding gives_def wp_def GetPVC_def client_calls by (auto simp: go_run split: option.splits prod.splits)

lemma isFinalizerShouldBeREmovedFromPVC_spec:
  "gives (isFinalizerShouldBeREmovedFromPVC env driver pvc)
     (\<lambda>x es. x = Ret (Inr True) \<longrightarrow> released env driver pvc es)"
  unfolding gives_def isFinalizerShouldBeREmovedFromPVC_def
proof (rule wp_try_use [OF GetPVC_spec]; (simp; fail)?)
  fix p es
  assume p: "(\<forall>s. Ret (Inr p) \<noteq> Panic s) \<and>
    (\<forall>q. Ret (Inr p) = Ret (Inr q) \<longrightarrow> es = [EvGetPVC (Namespace (PVCMeta pvc), Name (PVCMeta pvc)) (None, q)])"
  show "wp (tryG (GetVGList env driver) (\<lambda>vgList. returnG (Inr (\<not> IsPVCPartAnyVG p vgList \<and>
      Contains (Finalizers (PVCMeta p)) pvcVGFinalizer))))
      (\<lambda>x es. x = Ret (Inr True) \<longrightarrow> released env driver pvc es) ([] @ es)"
  proof (rule wp_try_use [OF GetVGList_spec]; (simp; fail)?)
    fix ys es'
    assume "\<forall>zs. Ret (Inr ys) = Ret (Inr zs) \<longrightarrow> (\<exists>vgs. EvListVG (Inr vgs) \<in> set es' \<and> set zs \<subseteq> set vgs \<and>
        (\<forall>vg \<in> set zs. own_group driver es' vg) \<and>
        (\<forall>vg \<in> set vgs. vg \<notin> set zs \<longrightarrow> foreign_group env driver es' vg))"
    then obtain vgs where "EvListVG (Inr vgs) \<in> set es'"
        "\<forall>vg \<in> set vgs. vg \<notin> set ys \<longrightarrow> foreign_group env driver es' vg" by blast
    with p have "(\<forall>vg \<in> set ys. \<not> has_claim p vg) \<Longrightarrow> released env driver pvc (es @ es')"
      by (intro released_listed [of _ p _ vgs]) (auto simp: pvc_key_def)
    then show "wp (returnG (Inr (\<not> IsPVCPartAnyVG p ys \<and> Contains (Finalizers (PVCMeta p)) pvcVGFinalizer)))
      (\<lambda>x es. x = Ret (Inr True) \<longrightarrow> released env driver pvc es) (([] @ es) @ es')"
      by (intro wp_returnG) (auto simp: has_claim_def)
  qed
qed

end
