(* ===== verification/Requests.thy ===== *)
theory Requests
  imports Utils
begin

text \<open>
  The path of a request to the CSI driver: the gRPC client of
  \<open>src/pkg/client/volumegroup_client.go\<close> and the request objects of \<open>src/controllers/volumegroup\<close>.
  The driver itself, reached through the generated stub, is the parameter \<open>csi\<close> of the environment.
\<close>

section \<open>volumegroup_client.go\<close>

record volumeGroupClient =
  timeout :: nat

definition NewVolumeGroupClient :: "nat \<Rightarrow> volumeGroupClient" where
  "NewVolumeGroupClient t = \<lparr>timeout = t\<rparr>"

definition CreateVolumeGroup ::
    "env \<Rightarrow> volumeGroupClient \<Rightarrow> string \<Rightarrow> gomap \<Rightarrow> gomap \<Rightarrow> (CreateVolumeGroupResponse option \<times> error option) go" where
  "CreateVolumeGroup env rc name secrets parameters =
     (let req = \<lparr>creqName = name, creqParameters = parameters, creqSecrets = secrets\<rparr>
      in callG (EvRpcCreate req) (drv_CreateVolumeGroup (csi env) (timeout rc) req))"

definition DeleteVolumeGroup ::
    "env \<Rightarrow> volumeGroupClient \<Rightarrow> string \<Rightarrow> gomap \<Rightarrow> error option go" where
  "DeleteVolumeGroup env rc volumeGroupId secrets =
     (let req = \<lparr>dreqVolumeGroupId = volumeGroupId, dreqSecrets = secrets\<rparr>
      in callG (EvRpcDelete req) (drv_DeleteVolumeGroup (csi env) (timeout rc) req))"

definition ModifyVolumeGroupMembership ::
    "env \<Rightarrow> volumeGroupClient \<Rightarrow> string \<Rightarrow> string list \<Rightarrow> gomap \<Rightarrow> error option go" where
  "ModifyVolumeGroupMembership env rc volumeGroupId volumeIds secrets =
     (let req = \<lparr>mreqVolumeGroupId = volumeGroupId, mreqVolumeIds = volumeIds, mreqSecrets = secrets\<rparr>
      in callG (EvRpcModify req) (drv_ModifyVolumeGroupMembership (csi env) (timeout rc) req))"

section \<open>controllers/volumegroup\<close>

record CommonRequestParameters =
  paramName :: string
  VolumeGroupID :: string
  VolumeIds :: "string list"
  Parameters :: gomap
  Secrets :: gomap
  VolumeGroup :: volumeGroupClient

text \<open>
  The payload of a response is only read after a create; the other two answers carry none, so
  their \<open>Response\<close> is \<open>None\<close>.
\<close>

record Response =
  Response :: "CreateVolumeGroupResponse option"
  ResponseError :: "error option"

type_synonym volumeGroupRequest = CommonRequestParameters

definition NewVolumeGroupRequest :: "CommonRequestParameters \<Rightarrow> volumeGroupRequest" where
  "NewVolumeGroupRequest params = params"

definition Create :: "env \<Rightarrow> volumeGroupRequest \<Rightarrow> Response go" where
  "Create env r =
     bindG (CreateVolumeGroup env (VolumeGroup r) (paramName r) (Secrets r) (Parameters r)) (\<lambda>(resp, err).
     returnG \<lparr>Response = resp, ResponseError = err\<rparr>)"

definition Delete :: "env \<Rightarrow> volumeGroupRequest \<Rightarrow> Response go" where
  "Delete env r =
     bindG (DeleteVolumeGroup env (VolumeGroup r) (VolumeGroupID r) (Secrets r)) (\<lambda>err.
     returnG \<lparr>Response = None, ResponseError = err\<rparr>)"

definition Modify :: "env \<Rightarrow> volumeGroupRequest \<Rightarrow> Response go" where
  "Modify env r =
     bindG (ModifyVolumeGroupMembership env (VolumeGroup r) (VolumeGroupID r) (VolumeIds r) (Secrets r)) (\<lambda>err.
     returnG \<lparr>Response = None, ResponseError = err\<rparr>)"

fun code_known :: "nat \<Rightarrow> nat list \<Rightarrow> bool" where
  "code_known code [] = False"
| "code_known code (e # knownErrors) = (if code = e then True else code_known code knownErrors)"

definition HasKnownGRPCError :: "env \<Rightarrow> Response \<Rightarrow> nat list \<Rightarrow> bool" where
  "HasKnownGRPCError env r knownErrors =
     (case ResponseError r of
        None \<Rightarrow> False
      | Some e \<Rightarrow> (case lib_FromError (lib env) e of
                    None \<Rightarrow> False
                  | Some (code, msg) \<Rightarrow> code_known code knownErrors))"

lemmas request_defs = CreateVolumeGroup_def DeleteVolumeGroup_def ModifyVolumeGroupMembership_def
  NewVolumeGroupRequest_def Create_def Delete_def Modify_def Let_def

lemma code_known_iff [simp]: "code_known code ks \<longleftrightarrow> code \<in> set ks"
  by (induction ks) auto

lemma Create_run:
  "Create env r t =
     (let req = \<lparr>creqName = paramName r, creqParameters = Parameters r, creqSecrets = Secrets r\<rparr>;
          ans = drv_CreateVolumeGroup (csi env) (timeout (VolumeGroup r)) req t
      in (Ret \<lparr>Response = fst ans, ResponseError = snd ans\<rparr>, t @ [EvRpcCreate req ans]))"
  by (simp add: request_defs go_run split: prod.split)

lemma Delete_run:
  "Delete env r t =
     (let req = \<lparr>dreqVolumeGroupId = VolumeGroupID r, dreqSecrets = Secrets r\<rparr>;
          ans = drv_DeleteVolumeGroup (csi env) (timeout (VolumeGroup r)) req t
      in (Ret \<lparr>Response = None, ResponseError = ans\<rparr>, t @ [EvRpcDelete req ans]))"
  by (simp add: request_defs go_run)

lemma Modify_run:
  "Modify env r t =
     (let req = \<lparr>mreqVolumeGroupId = VolumeGroupID r, mreqVolumeIds = VolumeIds r, mreqSecrets = Secrets r\<rparr>;
          ans = drv_ModifyVolumeGroupMembership (csi env) (timeout (VolumeGroup r)) req t
      in (Ret \<lparr>Response = None, ResponseError = ans\<rparr>, t @ [EvRpcModify req ans]))"
  by (simp add: request_defs go_run)

lemma wp_Create [wp_intro]:
  assumes "\<And>ans. Q (Ret \<lparr>Response = fst ans, ResponseError = snd ans\<rparr>)
     (pre @ [EvRpcCreate \<lparr>creqName = paramName r, creqParameters = Parameters r, creqSecrets = Secrets r\<rparr> ans])"
  shows "wp (Create env r) Q pre"
  using assms by (simp add: wp_def Create_run Let_def)

lemma wp_Delete [wp_intro]:
  assumes "\<And>err. Q (Ret \<lparr>Response = None, ResponseError = err\<rparr>)
     (pre @ [EvRpcDelete \<lparr>dreqVolumeGroupId = VolumeGroupID r, dreqSecrets = Secrets r\<rparr> err])"
  shows "wp (Delete env r) Q pre"
  using assms by (simp add: wp_def Delete_run Let_def)

lemma wp_Modify [wp_intro]:
  assumes "\<And>err. Q (Ret \<lparr>Response = None, ResponseError = err\<rparr>)
     (pre @ [EvRpcModify \<lparr>mreqVolumeGroupId = VolumeGroupID r, mreqVolumeIds = VolumeIds r, mreqSecrets = Secrets r\<rparr> err])"
  shows "wp (Modify env r) Q pre"
  using assms by (simp add: wp_def Modify_run Let_def)

end
