(* ===== verification/Membership.thy ===== *)
theory Membership
  imports Volumes Requests
begin

text \<open>
  The members of a group: the request that tells the driver the volumes of a group
  (\<open>modify_volumegroup.go\<close>) and the bookkeeping that follows it, claim by claim
  (\<open>controller_utils.go\<close>, \<open>AddMatchingPVToMatchingVGC\<close> of \<open>volumegroupcontent.go\<close>).
\<close>

section \<open>modify_volumegroup.go\<close>

text \<open>The group behind the pointer comes back beside the result: a failure is recorded in its status.\<close>

definition getSecrets :: "env \<Rightarrow> VolumeGroup \<Rightarrow> ((error + gomap) \<times> VolumeGroup) go" where
  "getSecrets env vg =
     bindG (liftG (GetStringField (ValueOf_VolumeGroupSpec (vgSpec vg)) ''VolumeGroupClassName'')) (\<lambda>className.
     bindG (GetVGClass env className) (\<lambda>r.
     case r of
       Inl err \<Rightarrow> returnG (Inl err, vg)
     | Inr vgc \<Rightarrow>
         bindG (GetSecretDataFromClass env vgc) (\<lambda>r.
         case r of
           Inl err \<Rightarrow>
             bindG (UpdateVGStatusError env vg (Error err)) (\<lambda>(uErr, vg).
             case uErr of Some u \<Rightarrow> returnG (Inl err, vg) | None \<Rightarrow> returnG (Inl err, vg))
         | Inr secrets \<Rightarrow> returnG (Inr secrets, vg))))"

definition generateModifyVGParams ::
    "env \<Rightarrow> VolumeGroup \<Rightarrow> volumeGroupClient \<Rightarrow> ((error + CommonRequestParameters) \<times> VolumeGroup) go" where
  "generateModifyVGParams env vg vgClient =
     bindG (getVgId env vg) (\<lambda>r.
     case r of
       Inl err \<Rightarrow> returnG (Inl err, vg)
     | Inr vgId \<Rightarrow>
         bindG (getPVCListVolumeIds env (PVCList (vgStatus vg)) []) (\<lambda>r.
         case r of
           Inl err \<Rightarrow> returnG (Inl err, vg)
         | Inr volumeIds \<Rightarrow>
             bindG (getSecrets env vg) (\<lambda>(r, vg).
             case r of
               Inl err \<Rightarrow> returnG (Inl err, vg)
             | Inr secrets \<Rightarrow>
                 returnG (Inr \<lparr>paramName = '''', VolumeGroupID = vgId, VolumeIds = volumeIds,
                   Parameters = [], Secrets = secrets, VolumeGroup = vgClient\<rparr>, vg))))"

definition ModifyVG :: "env \<Rightarrow> VolumeGroup \<Rightarrow> volumeGroupClient \<Rightarrow> (error option \<times> VolumeGroup) go" where
  "ModifyVG env vg vgClient =
     bindG (generateModifyVGParams env vg vgClient) (\<lambda>(r, vg).
     case r of
       Inl err \<Rightarrow> returnG (Some err, vg)
     | Inr params \<Rightarrow>
         bindG (Modify env (NewVolumeGroupRequest params)) (\<lambda>modifyVGResponse.
         case ResponseError modifyVGResponse of
           Some responseError \<Rightarrow> returnG (Some responseError, vg)
         | None \<Rightarrow> returnG (None, vg)))"

section \<open>volumegroupcontent.go: volumes follow claims\<close>

definition AddMatchingPVToMatchingVGC :: "env \<Rightarrow> PersistentVolumeClaim \<Rightarrow> VolumeGroup \<Rightarrow> error option go" where
  "AddMatchingPVToMatchingVGC env pvc vg =
     bindG (GetPVFromPVC env pvc) (\<lambda>r.
     case r of
       Inl err \<Rightarrow> returnG (Some err)
     | Inr pv \<Rightarrow>
         bindG (GetVGC_of env vg) (\<lambda>r.
         case r of
           Inl err \<Rightarrow> returnG (Some err)
         | Inr vgc \<Rightarrow>
             (case pv of
                Some pv \<Rightarrow> bindG (addPVToVGC env pv vgc) (\<lambda>(err, vgc). returnG err)
              | None \<Rightarrow> returnG None)))"

section \<open>controller_utils.go\<close>

definition AddVolumeToPvcListAndPvList ::
    "env \<Rightarrow> PersistentVolumeClaim \<Rightarrow> VolumeGroup \<Rightarrow> (error option \<times> VolumeGroup) go" where
  "AddVolumeToPvcListAndPvList env pvc vg =
     bindG (AddPVCToVG env pvc vg) (\<lambda>(err, vg).
     case err of
       Some e \<Rightarrow> returnG (Some e, vg)
     | None \<Rightarrow>
         bindG (AddMatchingPVToMatchingVGC env pvc vg) (\<lambda>err.
         case err of
           Some e \<Rightarrow> returnG (Some e, vg)
         | None \<Rightarrow>
             bindG (AddFinalizerToPVC env pvc) (\<lambda>(err, pvc).
             case err of
               Some e \<Rightarrow> returnG (Some e, vg)
             | None \<Rightarrow>
                 (let message = Sprintf AddedPVCToVG
                        [Namespace (PVCMeta pvc), Name (PVCMeta pvc), Namespace (vgMeta vg), Name (vgMeta vg)]
                  in HandleSuccessMessage env vg message addingPVC))))"

definition RemoveVolumeFromPvcListAndPvList ::
    "env \<Rightarrow> string \<Rightarrow> PersistentVolumeClaim \<Rightarrow> VolumeGroup \<Rightarrow> (error option \<times> VolumeGroup) go" where
  "RemoveVolumeFromPvcListAndPvList env driver pvc vg =
     bindG (RemovePVCFromVG env pvc vg) (\<lambda>(err, vg).
     case err of
       Some e \<Rightarrow> returnG (Some e, vg)
     | None \<Rightarrow>
         bindG (GetPVFromPVC env pvc) (\<lambda>r.
         case r of
           Inl e \<Rightarrow> returnG (Some e, vg)
         | Inr pv \<Rightarrow>
             bindG (GetVGC_of env vg) (\<lambda>r.
             case r of
               Inl e \<Rightarrow> returnG (Some e, vg)
             | Inr vgc \<Rightarrow>
                 bindG (case pv of
                     Some pv \<Rightarrow> bindG (RemovePVFromVGC env pv vgc) (\<lambda>(err, vgc). returnG err)
                   | None \<Rightarrow> returnG None) (\<lambda>err.
                 case err of
                   Some e \<Rightarrow> returnG (Some e, vg)
                 | None \<Rightarrow>
                     bindG (RemoveFinalizerFromPVC env driver pvc) (\<lambda>(err, pvc).
                     case err of
                       Some e \<Rightarrow> returnG (Some e, vg)
                     | None \<Rightarrow>
                         (let message = Sprintf RemovedPVCFromVG
                                [Namespace (PVCMeta pvc), Name (PVCMeta pvc), Namespace (vgMeta vg), Name (vgMeta vg)]
                          in HandleSuccessMessage env vg message removingPVC))))))"

text \<open>The group is passed by value: the caller's copy keeps its list.\<close>

definition ModifyVolumesInVG ::
    "env \<Rightarrow> volumeGroupClient \<Rightarrow> PersistentVolumeClaim list \<Rightarrow> VolumeGroup \<Rightarrow> error option go" where
  "ModifyVolumesInVG env vgClient matchingPvcs vg =
     (let vg = set_PVCList matchingPvcs vg
      in bindG (ModifyVG env vg vgClient) (\<lambda>(err, vg).
         case err of Some e \<Rightarrow> returnG (Some e) | None \<Rightarrow> returnG None))"

fun removeVolumes ::
    "env \<Rightarrow> string \<Rightarrow> PersistentVolumeClaim list \<Rightarrow> PersistentVolumeClaim list \<Rightarrow> VolumeGroup \<Rightarrow> (error option \<times> VolumeGroup) go" where
  "removeVolumes env driver matchingPvcs [] vg = returnG (None, vg)"
| "removeVolumes env driver matchingPvcs (pvc # vgPvcList) vg =
     (if \<not> IsPVCInPVCList pvc matchingPvcs then
        bindG (RemoveVolumeFromPvcListAndPvList env driver pvc vg) (\<lambda>(err, vg).
        case err of
          Some e \<Rightarrow> HandleErrorMessage env vg (Some e) removingPVC
        | None \<Rightarrow> removeVolumes env driver matchingPvcs vgPvcList vg)
      else removeVolumes env driver matchingPvcs vgPvcList vg)"

fun addVolumes ::
    "env \<Rightarrow> PersistentVolumeClaim list \<Rightarrow> PersistentVolumeClaim list \<Rightarrow> VolumeGroup \<Rightarrow> (error option \<times> VolumeGroup) go" where
  "addVolumes env vgPvcList [] vg = returnG (None, vg)"
| "addVolumes env vgPvcList (pvc # matchingPvcs) vg =
     (if \<not> IsPVCInPVCList pvc vgPvcList then
        bindG (AddVolumeToPvcListAndPvList env pvc vg) (\<lambda>(err, vg).
        case err of
          Some e \<Rightarrow> HandleErrorMessage env vg (Some e) addingPVC
        | None \<Rightarrow> addVolumes env vgPvcList matchingPvcs vg)
      else addVolumes env vgPvcList matchingPvcs vg)"

text \<open>
  A failure in the first loop returns from the function: \<open>HandleErrorMessage\<close> on an error never
  returns nil, so the second loop runs only after the first came to its end.
\<close>

definition UpdatePvcAndPvList ::
    "env \<Rightarrow> VolumeGroup \<Rightarrow> string \<Rightarrow> PersistentVolumeClaim list \<Rightarrow> (error option \<times> VolumeGroup) go" where
  "UpdatePvcAndPvList env vg driver matchingPvcs =
     (let vgPvcList = PVCList (vgStatus vg)
      in bindG (removeVolumes env driver matchingPvcs vgPvcList vg) (\<lambda>(err, vg).
         case err of
           Some e \<Rightarrow> returnG (Some e, vg)
         | None \<Rightarrow> addVolumes env vgPvcList matchingPvcs vg))"

fun string_less :: "string \<Rightarrow> string \<Rightarrow> bool" where
  "string_less [] [] = False"
| "string_less [] (y # ys) = True"
| "string_less (x # xs) [] = False"
| "string_less (x # xs) (y # ys) =
     ((of_char x :: nat) < of_char y \<or> x = y \<and> string_less xs ys)"

definition IsPVCListEqual :: "env \<Rightarrow> PersistentVolumeClaim list \<Rightarrow> PersistentVolumeClaim list \<Rightarrow> bool" where
  "IsPVCListEqual env x y =
     (lib_Diff_SortSlices (lib env) (\<lambda>a b. string_less (Name (PVCMeta a)) (Name (PVCMeta b))) x y = '''')"

end
