(* ===== verification/Contents.thy ===== *)
theory Contents
  imports Membership
begin

text \<open>
  The life of a VolumeGroupContent outside the reconcilers (\<open>volumegroupcontent.go\<close>): how one is
  generated from a group and its class, filled in by defaults and by the driver's answer, and how
  the claims of its volumes are deleted.
\<close>

section \<open>Creating a content\<close>

definition CreateVGC :: "env \<Rightarrow> VolumeGroupContent attempt" where
  "CreateVGC env vgc =
     bindG (client_Create_VGC env vgc) (\<lambda>(err, vgc).
     case err of
       Some e \<Rightarrow> (if lib_IsAlreadyExists (lib env) e then returnG (None, vgc) else returnG (Some e, vgc))
     | None \<Rightarrow> returnG (None, vgc))"

definition getVolumeGroupDeletionPolicy :: "VolumeGroupClass \<Rightarrow> VolumeGroupDeletionPolicy option" where
  "getVolumeGroupDeletionPolicy vgClass =
     (let defaultDeletionPolicy = VolumeGroupContentDelete
      in case classVolumeGroupDeletionPolicy vgClass of
           Some p \<Rightarrow> Some p
         | None \<Rightarrow> Some defaultDeletionPolicy)"

definition generateObjectReference :: "VolumeGroup \<Rightarrow> ObjectReference option" where
  "generateObjectReference instance =
     Some \<lparr>refKind = Kind (vgTypeMeta instance), refNamespace = Namespace (vgMeta instance),
       refName = Name (vgMeta instance), refUID = UID (vgMeta instance),
       refAPIVersion = APIVersion (vgTypeMeta instance),
       refResourceVersion = ResourceVersion (vgMeta instance)\<rparr>"

definition generateSecretReference :: "string \<Rightarrow> string \<Rightarrow> SecretReference option" where
  "generateSecretReference secretName secretNamespace =
     Some \<lparr>secretRefName = secretName, secretRefNamespace = secretNamespace\<rparr>"

definition generateVGCSource :: "VolumeGroupClass \<Rightarrow> VolumeGroupContentSource option" where
  "generateVGCSource vgClass =
     Some \<lparr>srcDriver = Driver vgClass, VolumeGroupHandle = '''', VolumeGroupAttributes = []\<rparr>"

definition generateVGCSpec ::
    "VolumeGroup \<Rightarrow> VolumeGroupClass \<Rightarrow> string \<Rightarrow> string \<Rightarrow> VolumeGroupContentSpec outcome" where
  "generateVGCSpec instance vgClass secretName secretNamespace =
     (case GetStringField (ValueOf_VolumeGroupSpec (vgSpec instance)) ''VolumeGroupClassName'' of
        Panic s \<Rightarrow> Panic s
      | Ret vgClassName \<Rightarrow>
          Ret \<lparr>vgcVolumeGroupClassName = Some vgClassName,
            VolumeGroupRef = generateObjectReference instance,
            vgcSource = generateVGCSource vgClass,
            vgcVolumeGroupDeletionPolicy = getVolumeGroupDeletionPolicy vgClass,
            SupportVolumeGroupSnapshot = Some False,
            VolumeGroupSecretRef = generateSecretReference secretName secretNamespace\<rparr>)"

definition GenerateVGC ::
    "string \<Rightarrow> VolumeGroup \<Rightarrow> VolumeGroupClass \<Rightarrow> string \<Rightarrow> string \<Rightarrow> VolumeGroupContent outcome" where
  "GenerateVGC vgname instance vgClass secretName secretNamespace =
     (case generateVGCSpec instance vgClass secretName secretNamespace of
        Panic s \<Rightarrow> Panic s
      | Ret spec \<Rightarrow>
          Ret (VolumeGroupContent0\<lparr>vgcMeta := ObjectMeta0\<lparr>Name := vgname, Namespace := Namespace (vgMeta instance)\<rparr>,
            vgcSpec := spec\<rparr>))"

section \<open>Defaults of a content\<close>

definition updateStaticVGCSpec :: "VolumeGroupClass \<Rightarrow> VolumeGroupContent \<Rightarrow> VolumeGroupContent" where
  "updateStaticVGCSpec vgClass vgc =
     (let (secretName, secretNamespace) = GetSecretCred vgClass;
          spec = vgcSpec vgc;
          spec = (if vgcVolumeGroupClassName spec = None
                  then spec\<lparr>vgcVolumeGroupClassName := Some (Name (classMeta vgClass))\<rparr> else spec);
          spec = (if VolumeGroupSecretRef spec = None
                  then spec\<lparr>VolumeGroupSecretRef := generateSecretReference secretName secretNamespace\<rparr> else spec);
          spec = (if vgcVolumeGroupDeletionPolicy spec = None
                  then spec\<lparr>vgcVolumeGroupDeletionPolicy := getVolumeGroupDeletionPolicy vgClass\<rparr> else spec)
      in vgc\<lparr>vgcSpec := spec\<rparr>)"

definition UpdateStaticVGCFromVG :: "env \<Rightarrow> VolumeGroup \<Rightarrow> VolumeGroupClass \<Rightarrow> error option go" where
  "UpdateStaticVGCFromVG env vg vgClass =
     (case srcVolumeGroupContentName (vgSource (vgSpec vg)) of
        None \<Rightarrow> panicG ''invalid memory address or nil pointer dereference''
      | Some vgcName \<Rightarrow>
          bindG (GetVGC env vgcName (Namespace (vgMeta vg))) (\<lambda>r.
          case r of
            Inl err \<Rightarrow> returnG (Some err)
          | Inr vgc \<Rightarrow>
              (let vgc = vgc\<lparr>vgcSpec := (vgcSpec vgc)\<lparr>VolumeGroupRef := generateObjectReference vg\<rparr>\<rparr>;
                   vgc = updateStaticVGCSpec vgClass vgc
               in bindG (UpdateObject env (VGC_object env) vgc) (\<lambda>(err, vgc). returnG err))))"

definition UpdateStaticVGC :: "env \<Rightarrow> string \<Rightarrow> string \<Rightarrow> VolumeGroupClass \<Rightarrow> error option go" where
  "UpdateStaticVGC env vgcNamespace vgcName vgClass =
     bindG (GetVGC env vgcName vgcNamespace) (\<lambda>r.
     case r of
       Inl err \<Rightarrow> returnG (Some err)
     | Inr vgc \<Rightarrow>
         (let vgc = updateStaticVGCSpec vgClass vgc
          in bindG (UpdateObject env (VGC_object env) vgc) (\<lambda>(err, vgc). returnG err)))"

definition updateThinVGCSpec :: "VolumeGroupContent \<Rightarrow> VolumeGroupContent outcome" where
  "updateThinVGCSpec vgc =
     (case GetStringField (ValueOf_VolumeGroupContentSpec (vgcSpec vgc)) ''VolumeGroupDeletionPolicy'' of
        Panic s \<Rightarrow> Panic s
      | Ret policy \<Rightarrow>
          Ret (if policy = ''''
               then vgc\<lparr>vgcSpec := (vgcSpec vgc)\<lparr>vgcVolumeGroupDeletionPolicy := Some VolumeGroupContentRetain\<rparr>\<rparr>
               else vgc))"

definition UpdateThinVGC :: "env \<Rightarrow> string \<Rightarrow> string \<Rightarrow> error option go" where
  "UpdateThinVGC env vgcNamespace vgcName =
     bindG (GetVGC env vgcName vgcNamespace) (\<lambda>r.
     case r of
       Inl err \<Rightarrow> returnG (Some err)
     | Inr vgc \<Rightarrow>
         bindG (liftG (updateThinVGCSpec vgc)) (\<lambda>vgc.
         bindG (UpdateObject env (VGC_object env) vgc) (\<lambda>(err, vgc). returnG err)))"

text \<open>
  The answer of the driver is read through pointers: a missing answer, an answer without a group
  and a content without a source each make the assignment panic.
\<close>

definition UpdateVGCByResponse :: "env \<Rightarrow> VolumeGroupContent \<Rightarrow> Response \<Rightarrow> (error option \<times> VolumeGroupContent) go" where
  "UpdateVGCByResponse env vgc resp =
     (case Response resp of
        None \<Rightarrow> panicG ''invalid memory address or nil pointer dereference''
      | Some createVGResponse \<Rightarrow>
          (case (vgcSource (vgcSpec vgc), crespVolumeGroup createVGResponse) of
             (Some src, Some csiGroup) \<Rightarrow>
               (let src = src\<lparr>VolumeGroupHandle := csiVolumeGroupId csiGroup,
                      VolumeGroupAttributes := csiVolumeGroupContext csiGroup\<rparr>;
                    vgc = vgc\<lparr>vgcSpec := (vgcSpec vgc)\<lparr>vgcSource := Some src\<rparr>\<rparr>
                in UpdateObject env (VGC_object env) vgc)
           | _ \<Rightarrow> panicG ''invalid memory address or nil pointer dereference''))"

section \<open>Deleting the claims under a content\<close>

text \<open>
  The loop ranges over the slice \<open>vgc.Status.PVList\<close> while its body removes elements from the
  same slice: \<open>append(pvList[:i], pvList[i+1:]...)\<close> moves the tail down inside the array the loop
  reads, and the answer of the status update may be decoded into that array again. The loop
  therefore runs over the array itself: \<open>arr\<close> is its present contents, as long as the slice was
  when the loop began, \<open>i\<close> the next index, \<open>k\<close> the number of indices left, and \<open>shared\<close> says
  whether the list of the content still lies in it.
\<close>

definition overlay :: "'a list \<Rightarrow> 'a list \<Rightarrow> 'a list" where
  "overlay xs arr = take (length arr) (xs @ drop (length xs) arr)"

text \<open>The end of the loop's body, and what follows it.\<close>

definition deletePVC_of ::
    "env \<Rightarrow> string \<Rightarrow> PersistentVolume \<Rightarrow> string \<Rightarrow> string \<Rightarrow> PersistentVolume list \<Rightarrow> bool \<Rightarrow> VolumeGroupContent \<Rightarrow>
     (PersistentVolume list \<Rightarrow> bool \<Rightarrow> VolumeGroupContent \<Rightarrow> (error option \<times> VolumeGroupContent) go) \<Rightarrow>
     (error option \<times> VolumeGroupContent) go" where
  "deletePVC_of env driver pv pvcName pvcNamespace arr shared vgc continue =
     bindG (deletePVC env pvcName pvcNamespace driver) (\<lambda>err.
     case err of
       Some e \<Rightarrow> returnG (Some e, vgc)
     | None \<Rightarrow>
         (let arr = (if shared then overlay (removeFromPVList pv (PVList (vgcStatus vgc))) arr else arr)
          in bindG (RemovePVFromVGC env pv vgc) (\<lambda>(err, vgc).
             case err of
               Some e \<Rightarrow> returnG (Some e, vgc)
             | None \<Rightarrow>
                 bindG (readG (lib_decode_in_place (lib env))) (\<lambda>inPlace.
                 let shared = (shared \<and> inPlace);
                     arr = (if shared then overlay (PVList (vgcStatus vgc)) arr else arr)
                 in continue arr shared vgc))))"

fun deletePVCs_loop ::
    "env \<Rightarrow> string \<Rightarrow> nat \<Rightarrow> nat \<Rightarrow> PersistentVolume list \<Rightarrow> bool \<Rightarrow> VolumeGroupContent \<Rightarrow> (error option \<times> VolumeGroupContent) go" where
  "deletePVCs_loop env driver 0 i arr shared vgc = returnG (None, vgc)"
| "deletePVCs_loop env driver (Suc k) i arr shared vgc =
     (let pv = arr ! i
      in bindG (liftG (getPVCNameFromPV pv)) (\<lambda>pvcName.
         bindG (liftG (getPVCNamespaceFromPV pv)) (\<lambda>pvcNamespace.
         if pvcNamespace = '''' \<or> pvcName = '''' then
           bindG (getMatchingPVCFromPVCListToPV env (Name (PVMeta pv)) driver) (\<lambda>r.
           case r of
             Inl err \<Rightarrow> returnG (Some err, vgc)
           | Inr pvc \<Rightarrow>
               (if Name (PVCMeta pvc) = '''' \<or> Namespace (PVCMeta pvc) = ''''
                then deletePVCs_loop env driver k (i + 1) arr shared vgc
                else deletePVC_of env driver pv (Name (PVCMeta pvc)) (Namespace (PVCMeta pvc)) arr shared vgc
                       (deletePVCs_loop env driver k (i + 1))))
         else deletePVC_of env driver pv pvcName pvcNamespace arr shared vgc
                (deletePVCs_loop env driver k (i + 1)))))"

definition DeletePVCsUnderVGC :: "env \<Rightarrow> VolumeGroupContent \<Rightarrow> string \<Rightarrow> (error option \<times> VolumeGroupContent) go" where
  "DeletePVCsUnderVGC env vgc driver =
     (let arr = PVList (vgcStatus vgc)
      in deletePVCs_loop env driver (length arr) 0 arr True vgc)"

end
