(* ===== verification/VG_Controller.thy ===== *)
theory VG_Controller
  imports Contents
begin

text \<open>
  The reconciler of VolumeGroups (\<open>src/controllers/volumegroup_controller.go\<close>). A reconciler is a
  record of its configuration and its RPC client; every method takes the environment and the
  reconciler, and a method that changes the group behind its pointer returns it.
\<close>

section \<open>settings.go and the result of a reconcile\<close>

definition vgReconcile :: string where "vgReconcile = ''vgReconcile''"
definition deletingVG :: string where "deletingVG = ''deletingVG''" \<comment> \<open>\<open>deleteVG\<close>, and \<open>deleteVGC\<close> of the content controller\<close>
definition creatingVG :: string where "creatingVG = ''creatingVG''" \<comment> \<open>\<open>createVG\<close>, and \<open>createVGC\<close> of the content controller\<close>
definition updatingVGC :: string where "updatingVGC = ''updatingVGC''" \<comment> \<open>\<open>updateVGC\<close>\<close>
definition updateStatusVG :: string where "updateStatusVG = ''updatingStatusVG''"

record Result =
  Requeue :: bool

definition Result0 :: Result where
  "Result0 = \<lparr>Requeue = False\<rparr>"

record VolumeGroupReconciler =
  vgDriverConfig :: DriverConfig
  vgVGClient :: volumeGroupClient

section \<open>Which claims belong to a group\<close>

definition isPVCShouldBeRemovedFromVg ::
    "env \<Rightarrow> VolumeGroup \<Rightarrow> PersistentVolumeClaim \<Rightarrow> (error + bool) go" where
  "isPVCShouldBeRemovedFromVg env vg pvc =
     (if \<not> IsPVCInPVCList pvc (PVCList (vgStatus vg)) then returnG (Inr False)
      else tryG (IsPVCMatchesVG env pvc vg) (\<lambda>isPVCMatchesVG. returnG (Inr (\<not> isPVCMatchesVG))))"

definition isPVCCanBeAddedToVG :: "env \<Rightarrow> VolumeGroupReconciler \<Rightarrow> PersistentVolumeClaim \<Rightarrow> error option go" where
  "isPVCCanBeAddedToVG env r pvc =
     (if MultipleVGsToPVC (vgDriverConfig r) = ''true'' then returnG None
      else bindG (GetVGList env (DriverName (vgDriverConfig r))) (\<lambda>res.
           case res of
             Inl err \<Rightarrow> returnG (Some err)
           | Inr vgList \<Rightarrow> IsPVCCanBeAddedToVG env pvc vgList))"

definition isPVCShouldBeInVg ::
    "env \<Rightarrow> VolumeGroupReconciler \<Rightarrow> VolumeGroup \<Rightarrow> PersistentVolumeClaim \<Rightarrow> (error + bool) go" where
  "isPVCShouldBeInVg env r vg pvc =
     tryG (IsPVCMatchesVG env pvc vg) (\<lambda>isPVCMatchesVG.
     if \<not> isPVCMatchesVG then returnG (Inr False)
     else bindG (isPVCCanBeAddedToVG env r pvc) (\<lambda>err.
          case err of Some e \<Rightarrow> returnG (Inl e) | None \<Rightarrow> returnG (Inr True)))"

fun collectMatchingPVCs ::
    "env \<Rightarrow> VolumeGroupReconciler \<Rightarrow> VolumeGroup \<Rightarrow> PersistentVolumeClaim list \<Rightarrow> PersistentVolumeClaim list \<Rightarrow>
     (error + PersistentVolumeClaim list) go" where
  "collectMatchingPVCs env r vg [] matchingPvcs = returnG (Inr matchingPvcs)"
| "collectMatchingPVCs env r vg (pvc # pvcList) matchingPvcs =
     tryG (isPVCShouldBeInVg env r vg pvc) (\<lambda>shouldBeInVg.
     tryG (IsPVCNeedToBeHandled env pvc (DriverName (vgDriverConfig r))) (\<lambda>shouldBeHandled.
     collectMatchingPVCs env r vg pvcList
       (if shouldBeInVg \<and> \<not> IsPVCInPVCList pvc matchingPvcs \<and> shouldBeHandled
        then matchingPvcs @ [pvc] else matchingPvcs)))"

definition getMatchingPVCs ::
    "env \<Rightarrow> VolumeGroupReconciler \<Rightarrow> VolumeGroup \<Rightarrow> (error + PersistentVolumeClaim list) go" where
  "getMatchingPVCs env r vg =
     tryG (GetPVCList env (DriverName (vgDriverConfig r))) (\<lambda>pvcList.
     collectMatchingPVCs env r vg pvcList [])"

section \<open>Steps of a reconcile\<close>

definition updatePVCs :: "env \<Rightarrow> VolumeGroupReconciler \<Rightarrow> VolumeGroup attempt" where
  "updatePVCs env r vg =
     bindG (getMatchingPVCs env r vg) (\<lambda>res.
     case res of
       Inl err \<Rightarrow> HandleErrorMessage env vg (Some err) vgReconcile
     | Inr matchingPvcs \<Rightarrow>
         (if IsPVCListEqual env matchingPvcs (PVCList (vgStatus vg)) then returnG (None, vg)
          else bindG (ModifyVolumesInVG env (vgVGClient r) matchingPvcs vg) (\<lambda>err.
               case err of
                 Some e \<Rightarrow> HandleErrorMessage env vg (Some e) vgReconcile
               | None \<Rightarrow> UpdatePvcAndPvList env vg (DriverName (vgDriverConfig r)) matchingPvcs)))"

text \<open>\<open>UpdateVGSourceContent\<close> is in \<open>volumegroup.go\<close>.\<close>

definition set_ContentName :: "string \<Rightarrow> VolumeGroup \<Rightarrow> VolumeGroup" where
  "set_ContentName vgcName vg = vg\<lparr>vgSpec := (vgSpec vg)\<lparr>vgSource :=
     (vgSource (vgSpec vg))\<lparr>srcVolumeGroupContentName := Some vgcName\<rparr>\<rparr>\<rparr>"

definition UpdateVGSourceContent :: "env \<Rightarrow> VolumeGroup \<Rightarrow> string \<Rightarrow> (error option \<times> VolumeGroup) go" where
  "UpdateVGSourceContent env vg vgcName =
     bindG (UpdateObject env (VG_object env) (set_ContentName vgcName vg)) (\<lambda>(err, vg).
     case err of Some e \<Rightarrow> returnG (Some e, vg) | None \<Rightarrow> returnG (None, vg))"

definition updateItems :: "env \<Rightarrow> VolumeGroup \<Rightarrow> Time \<Rightarrow> string \<Rightarrow> (error option \<times> VolumeGroup) go" where
  "updateItems env vg groupCreationTime vgcName =
     bindG (UpdateVGSourceContent env vg vgcName) (\<lambda>(err, vg).
     case err of
       Some e \<Rightarrow> HandleErrorMessage env vg (Some e) updatingVGC
     | None \<Rightarrow>
         bindG (UpdateVGStatus env vg vgcName groupCreationTime True) (\<lambda>(err, vg).
         case err of
           Some e \<Rightarrow> HandleErrorMessage env vg (Some e) updateStatusVG
         | None \<Rightarrow> returnG (None, vg)))"

text \<open>The error, the flag \<open>isStaticProvisioned\<close> and the group.\<close>

definition handleStaticProvisionedVG ::
    "env \<Rightarrow> VolumeGroupReconciler \<Rightarrow> VolumeGroup \<Rightarrow> Time \<Rightarrow> VolumeGroupClass \<Rightarrow> (error option \<times> bool \<times> VolumeGroup) go" where
  "handleStaticProvisionedVG env r vg groupCreationTime vgClass =
     (case srcVolumeGroupContentName (vgSource (vgSpec vg)) of
        Some vgcName \<Rightarrow>
          bindG (updateItems env vg groupCreationTime vgcName) (\<lambda>(err, vg).
          case err of
            Some e \<Rightarrow> returnG (Some e, True, vg)
          | None \<Rightarrow>
              bindG (UpdateStaticVGCFromVG env vg vgClass) (\<lambda>err.
              case err of
                Some e \<Rightarrow> returnG (Some e, True, vg)
              | None \<Rightarrow>
                  bindG (updatePVCs env r vg) (\<lambda>(err, vg).
                  case err of
                    Some e \<Rightarrow> returnG (Some e, True, vg)
                  | None \<Rightarrow> returnG (None, True, vg))))
      | None \<Rightarrow> returnG (None, False, vg))"

text \<open>The deletion policy is dereferenced unchecked.\<close>

definition removeVGCObject :: "env \<Rightarrow> VolumeGroupContent \<Rightarrow> error option go" where
  "removeVGCObject env vgc =
     (case vgcVolumeGroupDeletionPolicy (vgcSpec vgc) of
        None \<Rightarrow> panicG ''invalid memory address or nil pointer dereference''
      | Some policy \<Rightarrow>
          (if policy = VolumeGroupContentDelete
           then bindG (client_Delete_VGC env vgc) (\<lambda>err.
                case err of Some e \<Rightarrow> returnG (Some e) | None \<Rightarrow> returnG None)
           else returnG None))"

definition removeInstance :: "env \<Rightarrow> VolumeGroup attempt" where
  "removeInstance env instance =
     bindG (GetVGC_of env instance) (\<lambda>res.
     bindG (case res of
         Inl err \<Rightarrow> (if \<not> IsNotFound env err then returnG (Some err) else returnG None)
       | Inr vgc \<Rightarrow> removeVGCObject env vgc) (\<lambda>err.
     case err of
       Some e \<Rightarrow> returnG (Some e, instance)
     | None \<Rightarrow>
         bindG (RemoveFinalizerFromVG env instance) (\<lambda>(err, instance).
         case err of Some e \<Rightarrow> returnG (Some e, instance) | None \<Rightarrow> returnG (None, instance))))"

definition isVGCReady :: "env \<Rightarrow> VolumeGroupContent \<Rightarrow> (error + bool) go" where
  "isVGCReady env vgc =
     bindG (GetVGC env (Name (vgcMeta vgc)) (Namespace (vgcMeta vgc))) (\<lambda>res.
     case res of
       Inl err \<Rightarrow> (if \<not> IsNotFound env err then returnG (Inl err) else returnG (Inr False))
     | Inr vgcFromCluster \<Rightarrow>
         bindG (liftG (GetBoolField (ValueOf_VolumeGroupContentStatus (vgcStatus vgcFromCluster)) ''Ready'')) (\<lambda>b.
         returnG (Inr b)))"

definition createSuccessVGEvent :: "env \<Rightarrow> VolumeGroup attempt" where
  "createSuccessVGEvent env vg =
     (let message = Sprintf VGCreated [Namespace (vgMeta vg), Name (vgMeta vg)]
      in bindG (HandleSuccessMessage env vg message vgReconcile) (\<lambda>(err, vg). returnG (None, vg)))"

section \<open>Reconcile\<close>

text \<open>\<open>return ctrl.Result{}, utils.HandleErrorMessage(...)\<close>\<close>

definition failVG :: "env \<Rightarrow> VolumeGroup \<Rightarrow> error \<Rightarrow> string \<Rightarrow> (Result \<times> error option) go" where
  "failVG env vg err reason =
     bindG (HandleErrorMessage env vg (Some err) reason) (\<lambda>(e, vg). returnG (Result0, e))"

text \<open>
  \<open>Reconcile\<close> in the parts its early returns make: the content of a group without one (lines 122 to
  152), the group once its finalizer is set (115 to 120), a group of the driver, and the whole.
\<close>

definition reconcileDynamic ::
    "env \<Rightarrow> VolumeGroupReconciler \<Rightarrow> VolumeGroup \<Rightarrow> Time \<Rightarrow> VolumeGroupClass \<Rightarrow> (Result \<times> error option) go" where
  "reconcileDynamic env r instance groupCreationTime vgClass =
     (case MakeVGName VGNamePrefix (UID (vgMeta instance)) of
        Inl err \<Rightarrow> failVG env instance err creatingVG
      | Inr vgName \<Rightarrow>
          (let (secretName, secretNamespace) = GetSecretCred vgClass
           in bindG (liftG (GenerateVGC vgName instance vgClass secretName secretNamespace)) (\<lambda>vgc.
              bindG (CreateVGC env vgc) (\<lambda>(err, vgc).
              case err of
                Some e \<Rightarrow> failVG env instance e creatingVGC
              | None \<Rightarrow>
                  bindG (isVGCReady env vgc) (\<lambda>res.
                  case res of
                    Inl e \<Rightarrow> failVG env instance e creatingVGC
                  | Inr ready \<Rightarrow>
                      (if \<not> ready then returnG (\<lparr>Requeue = True\<rparr>, None)
                       else bindG (updateItems env instance groupCreationTime (Name (vgcMeta vgc))) (\<lambda>(err, instance).
                            case err of
                              Some e \<Rightarrow> returnG (Result0, Some e)
                            | None \<Rightarrow>
                                bindG (updatePVCs env r instance) (\<lambda>(err, instance).
                                case err of
                                  Some e \<Rightarrow> returnG (Result0, Some e)
                                | None \<Rightarrow>
                                    bindG (createSuccessVGEvent env instance) (\<lambda>(err, instance).
                                    case err of
                                      Some e \<Rightarrow> failVG env instance e vgReconcile
                                    | None \<Rightarrow> returnG (Result0, None))))))))))"

definition reconcileLive ::
    "env \<Rightarrow> VolumeGroupReconciler \<Rightarrow> VolumeGroup \<Rightarrow> VolumeGroupClass \<Rightarrow> (Result \<times> error option) go" where
  "reconcileLive env r instance vgClass =
     bindG (GetCurrentTime env) (\<lambda>groupCreationTime.
     bindG (handleStaticProvisionedVG env r instance groupCreationTime vgClass) (\<lambda>(err, isStaticProvisioned, instance).
     if isStaticProvisioned then returnG (Result0, err)
     else reconcileDynamic env r instance groupCreationTime vgClass))"

text \<open>Lines 92 to 152: a group whose class is the driver's.\<close>

definition reconcileOwn ::
    "env \<Rightarrow> VolumeGroupReconciler \<Rightarrow> VolumeGroup \<Rightarrow> VolumeGroupClass \<Rightarrow> (Result \<times> error option) go" where
  "reconcileOwn env r instance vgClass =
     (case ValidatePrefixedParameters (classParameters vgClass) of
        Some e \<Rightarrow>
          bindG (UpdateVGStatusError env instance (Error e)) (\<lambda>(uErr, instance).
          case uErr of Some u \<Rightarrow> returnG (Result0, Some u) | None \<Rightarrow> returnG (Result0, Some e))
      | None \<Rightarrow>
          (if IsZero (DeletionTimestamp (vgMeta instance)) then
             bindG (AddFinalizerToVG env instance) (\<lambda>(err, instance).
             case err of
               Some e \<Rightarrow> failVG env instance e creatingVG
             | None \<Rightarrow> reconcileLive env r instance vgClass)
           else if Contains (Finalizers (vgMeta instance)) VGFinalizer \<and> \<not> IsContainOtherFinalizers (vgMeta instance) then
             bindG (removeInstance env instance) (\<lambda>(err, instance).
             case err of
               Some e \<Rightarrow> failVG env instance e deletingVG
             | None \<Rightarrow> returnG (Result0, None))
           else returnG (Result0, None)))"

definition VG_Reconcile :: "env \<Rightarrow> VolumeGroupReconciler \<Rightarrow> NamespacedName \<Rightarrow> (Result \<times> error option) go" where
  "VG_Reconcile env r req =
     bindG (client_Get_VG env req VolumeGroup0) (\<lambda>(err, instance).
     case err of
       Some e \<Rightarrow> (if IsNotFound env e then returnG (Result0, None) else failVG env instance e vgReconcile)
     | None \<Rightarrow>
         bindG (liftG (GetStringField (ValueOf_VolumeGroupSpec (vgSpec instance)) ''VolumeGroupClassName'')) (\<lambda>className.
         bindG (GetVGClass env className) (\<lambda>res.
         case res of
           Inl e \<Rightarrow> failVG env instance e vgReconcile
         | Inr vgClass \<Rightarrow>
             (if DriverName (vgDriverConfig r) \<noteq> Driver vgClass then returnG (Result0, None)
              else reconcileOwn env r instance vgClass))))"

section \<open>Start-up: waiting for the resource definitions\<close>

text \<open>
  The loop has no bound; \<open>fuel\<close> is the number of \<open>List\<close> calls allowed and \<open>None\<close> stands for still
  waiting.
\<close>

fun waitForVGResource :: "env \<Rightarrow> nat \<Rightarrow> string \<Rightarrow> error option option go" where
  "waitForVGResource env 0 resourceName = returnG None"
| "waitForVGResource env (Suc fuel) resourceName =
     bindG (client_List_CRD env resourceName) (\<lambda>err.
     case err of
       None \<Rightarrow> returnG (Some None)
     | Some e \<Rightarrow>
         (if \<not> lib_IsNoMatchError (lib env) e then returnG (Some (Some e))
          else waitForVGResource env fuel resourceName))"

fun waitForCrds_from :: "env \<Rightarrow> nat \<Rightarrow> string list \<Rightarrow> error option option go" where
  "waitForCrds_from env fuel [] = returnG (Some None)"
| "waitForCrds_from env fuel (resourceName # resources) =
     bindG (waitForVGResource env fuel resourceName) (\<lambda>res.
     case res of
       Some None \<Rightarrow> waitForCrds_from env fuel resources
     | _ \<Rightarrow> returnG res)"

definition waitForCrds :: "env \<Rightarrow> nat \<Rightarrow> error option option go" where
  "waitForCrds env fuel =
     waitForCrds_from env fuel [''VolumeGroup'', ''VolumeGroupClass'', ''VolumeGroupContent'']"

end
