(* ===== verification/VGC_Controller.thy ===== *)
theory VGC_Controller
  imports VG_Controller
begin

text \<open>
  The reconciler of VolumeGroupContents
  (\<open>src/controllers/volumegroupcontent/volumegroupcontent_controller.go\<close>), which owns the calls
  that create and delete volume groups on the storage.
\<close>

definition vgcReconcile :: string where "vgcReconcile = ''vgcReconcile''"
definition updateStatusVGC :: string where "updateStatusVGC = ''updatingStatusVGC''"

record VolumeGroupContentReconciler =
  vgcDriverConfig :: DriverConfig
  vgcVGClient :: volumeGroupClient

section \<open>Deletion\<close>

definition deleteVG :: "env \<Rightarrow> VolumeGroupContentReconciler \<Rightarrow> string \<Rightarrow> gomap \<Rightarrow> error option go" where
  "deleteVG env r vgId secrets =
     (let param = \<lparr>paramName = '''', VolumeGroupID = vgId, VolumeIds = [], Parameters = [],
            Secrets = secrets, VolumeGroup = vgcVGClient r\<rparr>
      in bindG (Delete env (NewVolumeGroupRequest param)) (\<lambda>resp.
         case ResponseError resp of Some e \<Rightarrow> returnG (Some e) | None \<Rightarrow> returnG None))"

text \<open>Policy and source are dereferenced unchecked.\<close>

definition removeVGC :: "env \<Rightarrow> VolumeGroupContentReconciler \<Rightarrow> VolumeGroupContent \<Rightarrow> gomap \<Rightarrow> (error option \<times> VolumeGroupContent) go" where
  "removeVGC env r vgc secret =
     (case vgcVolumeGroupDeletionPolicy (vgcSpec vgc) of
        None \<Rightarrow> panicG ''invalid memory address or nil pointer dereference''
      | Some policy \<Rightarrow>
          bindG (if policy = VolumeGroupContentDelete
              then (case vgcSource (vgcSpec vgc) of
                      None \<Rightarrow> panicG ''invalid memory address or nil pointer dereference''
                    | Some src \<Rightarrow> deleteVG env r (VolumeGroupHandle src) secret)
              else returnG None) (\<lambda>err.
          case err of
            Some e \<Rightarrow> returnG (Some e, vgc)
          | None \<Rightarrow>
              bindG (RemoveFinalizerFromVGC env vgc) (\<lambda>(err, vgc).
              case err of Some e \<Rightarrow> returnG (Some e, vgc) | None \<Rightarrow> returnG (None, vgc))))"

definition handleVGCWithDeletionTimestamp ::
    "env \<Rightarrow> VolumeGroupContentReconciler \<Rightarrow> VolumeGroupContent \<Rightarrow> gomap \<Rightarrow> (error option \<times> VolumeGroupContent) go" where
  "handleVGCWithDeletionTimestamp env r vgc secret =
     bindG (IsVgExist env vgc) (\<lambda>res.
     case res of
       Inl err \<Rightarrow> returnG (Some err, vgc)
     | Inr isVgExist \<Rightarrow>
         (if isVgExist
          then returnG (Some (ErrorString (Sprintf VgIsStillExist [Name (vgcMeta vgc), Namespace (vgcMeta vgc)])), vgc)
          else if Contains (Finalizers (vgcMeta vgc)) VgcFinalizer \<and> \<not> IsContainOtherFinalizers (vgcMeta vgc) then
            bindG (if DisableDeletePvcs (vgcDriverConfig r) = ''false''
                then DeletePVCsUnderVGC env vgc (DriverName (vgcDriverConfig r))
                else returnG (None, vgc)) (\<lambda>(err, vgc).
            case err of
              Some e \<Rightarrow> returnG (Some e, vgc)
            | None \<Rightarrow>
                bindG (removeVGC env r vgc secret) (\<lambda>(err, vgc).
                case err of Some e \<Rightarrow> returnG (Some e, vgc) | None \<Rightarrow> returnG (None, vgc)))
          else returnG (None, vgc)))"

section \<open>Creation\<close>

definition createVG :: "env \<Rightarrow> VolumeGroupContentReconciler \<Rightarrow> string \<Rightarrow> gomap \<Rightarrow> gomap \<Rightarrow> Response go" where
  "createVG env r vgName parameters secrets =
     (let param = \<lparr>paramName = vgName, VolumeGroupID = '''', VolumeIds = [], Parameters = parameters,
            Secrets = secrets, VolumeGroup = vgcVGClient r\<rparr>
      in Create env (NewVolumeGroupRequest param))"

definition handleCreateVG ::
    "env \<Rightarrow> VolumeGroupContentReconciler \<Rightarrow> VolumeGroupContent \<Rightarrow> VolumeGroupClass \<Rightarrow> gomap \<Rightarrow> (error option \<times> VolumeGroupContent) go" where
  "handleCreateVG env r vgc vgClass secret =
     (let parameters = FilterPrefixedParameters VGAsPrefix (classParameters vgClass)
      in bindG (createVG env r (Name (vgcMeta vgc)) parameters secret) (\<lambda>createVGResponse.
         case ResponseError createVGResponse of
           Some e \<Rightarrow> returnG (Some e, vgc)
         | None \<Rightarrow>
             bindG (UpdateVGCByResponse env vgc createVGResponse) (\<lambda>(err, vgc).
             case err of
               Some e \<Rightarrow> returnG (Some e, vgc)
             | None \<Rightarrow>
                 bindG (GetCurrentTime env) (\<lambda>now.
                 bindG (UpdateVGCStatus env vgc now True) (\<lambda>(err, vgc).
                 case err of
                   Some e \<Rightarrow> bindG (HandleVGCErrorMessage env (Some vgc) (Some e) updateStatusVGC) (\<lambda>err. returnG (err, vgc))
                 | None \<Rightarrow> returnG (None, vgc))))))"

text \<open>\<open>updateStaticVGCSpec\<close> of the controller; \<open>volumegroupcontent.go\<close> has a function of the same name.\<close>

definition reconciler_updateStaticVGCSpec :: "env \<Rightarrow> VolumeGroupContent \<Rightarrow> error option go" where
  "reconciler_updateStaticVGCSpec env vgc =
     (case vgcVolumeGroupClassName (vgcSpec vgc) of
        None \<Rightarrow> panicG ''invalid memory address or nil pointer dereference''
      | Some vgClassName \<Rightarrow>
          bindG (GetVGClass env vgClassName) (\<lambda>res.
          case res of
            Inl err \<Rightarrow> returnG (Some err)
          | Inr vgClass \<Rightarrow>
              bindG (UpdateStaticVGC env (Namespace (vgcMeta vgc)) (Name (vgcMeta vgc)) vgClass) (\<lambda>err.
              case err of Some e \<Rightarrow> returnG (Some e) | None \<Rightarrow> returnG None)))"

definition updateStaticVGC :: "env \<Rightarrow> VolumeGroupContent \<Rightarrow> (error option \<times> VolumeGroupContent) go" where
  "updateStaticVGC env vgc =
     bindG (reconciler_updateStaticVGCSpec env vgc) (\<lambda>err.
     case err of
       Some e \<Rightarrow> returnG (Some e, vgc)
     | None \<Rightarrow>
         bindG (GetCurrentTime env) (\<lambda>now.
         bindG (UpdateVGCStatus env vgc now True) (\<lambda>(err, vgc).
         case err of Some e \<Rightarrow> returnG (Some e, vgc) | None \<Rightarrow> returnG (None, vgc))))"

definition handleStaticProvisionedVGC :: "env \<Rightarrow> VolumeGroupContent \<Rightarrow> (error option \<times> bool \<times> VolumeGroupContent) go" where
  "handleStaticProvisionedVGC env vgc =
     bindG (liftG (GetObjectField (ValueOf_VolumeGroupContentSpec (vgcSpec vgc)) ''Source'')) (\<lambda>field.
     bindG (liftG (Value_IsNil field)) (\<lambda>isNil.
     case vgcSource (vgcSpec vgc) of
       Some src \<Rightarrow>
         (if \<not> isNil \<and> VolumeGroupHandle src \<noteq> ''''
          then bindG (updateStaticVGC env vgc) (\<lambda>(err, vgc). returnG (err, True, vgc))
          else returnG (None, False, vgc))
     | None \<Rightarrow>
         (if \<not> isNil then panicG ''invalid memory address or nil pointer dereference''
          else returnG (None, False, vgc))))"

section \<open>Reconcile\<close>

definition failVGC :: "env \<Rightarrow> VolumeGroupContent option \<Rightarrow> error \<Rightarrow> string \<Rightarrow> (Result \<times> error option) go" where
  "failVGC env vgc err reason =
     bindG (HandleVGCErrorMessage env vgc (Some err) reason) (\<lambda>e. returnG (Result0, e))"

text \<open>Lines 63 to 72: a content without a class.\<close>

definition reconcileThin :: "env \<Rightarrow> VolumeGroupContent \<Rightarrow> (Result \<times> error option) go" where
  "reconcileThin env vgc =
     bindG (UpdateThinVGC env (Namespace (vgcMeta vgc)) (Name (vgcMeta vgc))) (\<lambda>err.
     case err of
       Some e \<Rightarrow> returnG (Result0, Some e)
     | None \<Rightarrow>
         bindG (GetCurrentTime env) (\<lambda>now.
         bindG (UpdateVGCStatus env vgc now False) (\<lambda>(err, vgc).
         case err of Some e \<Rightarrow> returnG (Result0, Some e) | None \<Rightarrow> returnG (Result0, None))))"

text \<open>Lines 106 to 118: a live content whose finalizer is set.\<close>

definition reconcileLiveVGC ::
    "env \<Rightarrow> VolumeGroupContentReconciler \<Rightarrow> VolumeGroupContent \<Rightarrow> VolumeGroupClass \<Rightarrow> gomap \<Rightarrow> (Result \<times> error option) go" where
  "reconcileLiveVGC env r vgc vgClass secret =
     bindG (handleStaticProvisionedVGC env vgc) (\<lambda>(err, isStaticProvisioned, vgc).
     if isStaticProvisioned then returnG (Result0, err)
     else bindG (handleCreateVG env r vgc vgClass secret) (\<lambda>(err, vgc).
          case err of
            Some e \<Rightarrow> failVGC env (Some vgc) e creatingVG
          | None \<Rightarrow>
              bindG (CreateSuccessVGCEvent env vgc) (\<lambda>(err, vgc).
              case err of
                Some e \<Rightarrow> failVGC env (Some vgc) e vgcReconcile
              | None \<Rightarrow> returnG (Result0, None))))"

text \<open>Lines 83 to 118: a content whose class is the driver's.\<close>

definition reconcileOwnVGC ::
    "env \<Rightarrow> VolumeGroupContentReconciler \<Rightarrow> VolumeGroupContent \<Rightarrow> VolumeGroupClass \<Rightarrow> (Result \<times> error option) go" where
  "reconcileOwnVGC env r vgc vgClass =
     (case ValidatePrefixedParameters (classParameters vgClass) of
        Some e \<Rightarrow>
          bindG (UpdateVGCStatusError env vgc (Error e)) (\<lambda>(uErr, vgc).
          case uErr of Some u \<Rightarrow> returnG (Result0, Some u) | None \<Rightarrow> returnG (Result0, Some e))
      | None \<Rightarrow>
          bindG (GetSecretDataFromClass env vgClass) (\<lambda>res.
          case res of
            Inl e \<Rightarrow> failVGC env (Some vgc) e vgcReconcile
          | Inr secret \<Rightarrow>
              (if IsZero (DeletionTimestamp (vgcMeta vgc)) then
                 bindG (AddFinalizerToVGC env vgc) (\<lambda>(err, vgc).
                 case err of
                   Some e \<Rightarrow> failVGC env (Some vgc) e creatingVG
                 | None \<Rightarrow> reconcileLiveVGC env r vgc vgClass secret)
               else
                 bindG (handleVGCWithDeletionTimestamp env r vgc secret) (\<lambda>(err, vgc).
                 case err of
                   Some e \<Rightarrow> failVGC env (Some vgc) e deletingVG
                 | None \<Rightarrow> returnG (Result0, None)))))"

text \<open>\<open>GetVGC\<close> returns a nil content with its error, which is what line 60 passes on.\<close>

definition VGC_Reconcile :: "env \<Rightarrow> VolumeGroupContentReconciler \<Rightarrow> NamespacedName \<Rightarrow> (Result \<times> error option) go" where
  "VGC_Reconcile env r req =
     bindG (GetVGC env (snd req) (fst req)) (\<lambda>res.
     case res of
       Inl e \<Rightarrow> (if IsNotFound env e then returnG (Result0, None) else failVGC env None e vgcReconcile)
     | Inr vgc \<Rightarrow>
         bindG (liftG (GetStringField (ValueOf_VolumeGroupContentSpec (vgcSpec vgc)) ''VolumeGroupClassName'')) (\<lambda>vgClassName.
         if vgClassName = '''' then reconcileThin env vgc
         else bindG (GetVGClass env vgClassName) (\<lambda>res.
              case res of
                Inl e \<Rightarrow> failVGC env (Some vgc) e vgcReconcile
              | Inr vgClass \<Rightarrow>
                  (if DriverName (vgcDriverConfig r) \<noteq> Driver vgClass then returnG (Result0, None)
                   else reconcileOwnVGC env r vgc vgClass))))"

end
