(* ===== verification/Frames.thy ===== *)
theory Frames
  imports VGC_Controller
begin

text \<open>
  What each operation may touch. A frame fact \<open>does S m\<close> bounds the writes of \<open>m\<close> whatever the API
  server answers; those of retried writes rest on the documented behaviour of \<open>RetryOnConflict\<close>.
\<close>

named_theorems frames \<open>frame facts\<close>

lemma retry_VG: "retry_documented env \<Longrightarrow> retries_on_conflict (IsConflict env) (lib_RetryOnConflict_VG (lib env))"
  and retry_VGC: "retry_documented env \<Longrightarrow> retries_on_conflict (IsConflict env) (lib_RetryOnConflict_VGC (lib env))"
  and retry_PVC: "retry_documented env \<Longrightarrow> retries_on_conflict (IsConflict env) (lib_RetryOnConflict_PVC (lib env))"
  by (simp_all add: retry_documented_def)

section \<open>Retried writes\<close>

lemma object_retry:
  "obj_RetryOnConflict (VG_object env) = lib_RetryOnConflict_VG (lib env)"
  "obj_RetryOnConflict (VGC_object env) = lib_RetryOnConflict_VGC (lib env)"
  "obj_RetryOnConflict (PVC_object env) = lib_RetryOnConflict_PVC (lib env)"
  by (simp_all add: object_defs)

lemma does_retry_VG:
  assumes "retry_documented env" and "{Reading, StatusVG} \<subseteq> S"
  shows "does S (lib_RetryOnConflict_VG (lib env) (\<lambda>vg. vgRetryOnConflictFunc env (prep vg)) vg)"
  using vg_status.retry_emits [OF retry_VG [OF assms(1)]]
  by (rule emits_mono) (use assms(2) in \<open>auto simp: vg_status.own_event_def\<close>)

lemma does_retry_VGC:
  assumes "retry_documented env" and "{Reading, StatusVGC} \<subseteq> S"
  shows "does S (lib_RetryOnConflict_VGC (lib env) (\<lambda>vgc. vgcRetryOnConflictFunc env (prep vgc)) vgc)"
  using vgc_status.retry_emits [OF retry_VGC [OF assms(1)]]
  by (rule emits_mono) (use assms(2) in \<open>auto simp: vgc_status.own_event_def\<close>)

lemma does_updateFinalizer_VG:
  assumes "retry_documented env" and "{Reading, SpecVG} \<subseteq> S"
  shows "does S (updateFinalizer env (VG_object env) fs vg)"
  using vg_finalizers.retry_emits [OF retry_VG [OF assms(1)]] unfolding updateFinalizer_def object_retry
  by (rule emits_mono) (use assms(2) in \<open>auto simp: vg_finalizers.own_event_def\<close>)

lemma does_updateFinalizer_VGC:
  assumes "retry_documented env" and "{Reading, SpecVGC} \<subseteq> S"
  shows "does S (updateFinalizer env (VGC_object env) fs vgc)"
  using vgc_finalizers.retry_emits [OF retry_VGC [OF assms(1)]] unfolding updateFinalizer_def object_retry
  by (rule emits_mono) (use assms(2) in \<open>auto simp: vgc_finalizers.own_event_def\<close>)

lemma does_updateFinalizer_PVC:
  assumes "retry_documented env" and "{Reading, SpecPVC} \<subseteq> S"
  shows "does S (updateFinalizer env (PVC_object env) fs pvc)"
  using pvc_finalizers.retry_emits [OF retry_PVC [OF assms(1)]] unfolding updateFinalizer_def object_retry
  by (rule emits_mono) (use assms(2) in \<open>auto simp: pvc_finalizers.own_event_def\<close>)

lemma does_createEvent: "Note \<in> S \<Longrightarrow>
    does S (createSuccessNamespacedObjectEvent env tm obj m r)" "Note \<in> S \<Longrightarrow>
    does S (createNamespacedObjectErrorEvent env tm obj m r)"
  unfolding event_defs client_calls by (auto intro!: emits_intro)

lemma does_UpdateObject_VG: "SpecVG \<in> S \<Longrightarrow> does S (UpdateObject env (VG_object env) vg)"
  and does_UpdateObject_VGC: "SpecVGC \<in> S \<Longrightarrow> does S (UpdateObject env (VGC_object env) vgc)"
  and does_UpdateObjectStatus_VG: "StatusVG \<in> S \<Longrightarrow> does S (UpdateObjectStatus env (VG_object env) vg)"
  and does_UpdateObjectStatus_VGC: "StatusVGC \<in> S \<Longrightarrow> does S (UpdateObjectStatus env (VGC_object env) vgc)"
  unfolding UpdateObject_def UpdateObjectStatus_def object_defs client_calls
  by (auto intro!: emits_intro)

lemma does_getNamespacedObject_PVC: "Reading \<in> S \<Longrightarrow> does S (getNamespacedObject env (PVC_object env) pvc)"
  unfolding getNamespacedObject_def object_defs client_calls by (auto intro!: emits_intro)

lemmas does_writes = does_retry_VG does_retry_VGC does_updateFinalizer_VG does_updateFinalizer_VGC
  does_updateFinalizer_PVC does_createEvent does_UpdateObject_VG does_UpdateObject_VGC
  does_UpdateObjectStatus_VG does_UpdateObjectStatus_VGC does_getNamespacedObject_PVC

lemmas does_reads = reads_GetSecretDataFromClass [THEN does_read] reads_isVGHasMatchingDriver [THEN does_read]
  reads_GetVGList [THEN does_read] reads_GetVGClass [THEN does_read] reads_GetVG [THEN does_read]
  reads_GetVGC [THEN does_read] reads_GetPVC [THEN does_read] reads_GetVGC_of [THEN does_read]
  reads_getVgId [THEN does_read] reads_IsVgExist [THEN does_read]
  reads_IsPVCHasMatchingDriver [THEN does_read] reads_GetPVCList [THEN does_read]
  reads_GetPVFromPVC [THEN does_read] reads_getPVCListVolumeIds [THEN does_read]
  reads_isFinalizerShouldBeREmovedFromPVC [THEN does_read]

section \<open>Status, messages and finalizers\<close>

lemma does_status_VG [frames]:
  assumes "retry_documented env" and "{Reading, StatusVG} \<subseteq> S"
  shows "does S (UpdateVGStatusError env vg message)" "does S (updateVGStatusPVCList env vg pvcList)"
    "does S (UpdateVGStatus env vg vgcName now ready)"
    "does S (AddPVCToVG env pvc vg)" "does S (RemovePVCFromVG env pvc vg)"
  unfolding UpdateVGStatusError_def updateVGStatusPVCList_def UpdateVGStatus_def updateVGStatus_eq
    AddPVCToVG_def RemovePVCFromVG_def Let_def
  using assms by (auto intro!: emits_intro does_writes)

lemma does_status_VGC [frames]:
  assumes "retry_documented env" and "{Reading, StatusVGC} \<subseteq> S"
  shows "does S (UpdateVGCStatusError env vgc message)" "does S (updateVGCStatusPVList env vgc pvList)"
    "does S (RemovePVFromVGC env pv vgc)" "does S (addPVToVGC env pv vgc)"
  unfolding UpdateVGCStatusError_def updateVGCStatusPVList_def RemovePVFromVGC_def addPVToVGC_def Let_def
  using assms by (auto intro!: emits_intro does_writes)

lemma does_UpdateVGCStatus [frames]: "StatusVGC \<in> S \<Longrightarrow> does S (UpdateVGCStatus env vgc now ready)"
  unfolding UpdateVGCStatus_def by (auto intro!: emits_intro does_writes)

lemma does_messages_VG [frames]:
  assumes "retry_documented env" and "{Reading, StatusVG, Note} \<subseteq> S"
  shows "does S (HandleErrorMessage env vg err reason)" "does S (HandleSuccessMessage env vg message reason)"
  unfolding HandleErrorMessage_def HandleSuccessMessage_def Let_def
  using assms by (auto intro!: emits_intro does_writes does_status_VG)

lemma does_notes [frames]:
  assumes "Note \<in> S"
  shows "does S (HandlePVCErrorMessage env pvc err reason)" "does S (HandleVGCErrorMessage env v err reason)"
    "does S (CreateSuccessVGCEvent env vgc)"
  unfolding HandlePVCErrorMessage_def HandleVGCErrorMessage_def CreateSuccessVGCEvent_def Let_def
  using assms by (auto intro!: emits_intro does_writes)

lemma does_finalizers_VG [frames]:
  assumes "retry_documented env" and "{Reading, SpecVG} \<subseteq> S"
  shows "does S (AddFinalizerToVG env vg)" "does S (RemoveFinalizerFromVG env vg)"
  unfolding AddFinalizerToVG_def RemoveFinalizerFromVG_def Let_def
  using assms by (auto intro!: emits_intro does_writes)

lemma does_finalizers_VGC [frames]:
  assumes "retry_documented env" and "{Reading, SpecVGC} \<subseteq> S"
  shows "does S (AddFinalizerToVGC env vgc)" "does S (RemoveFinalizerFromVGC env vgc)"
  unfolding AddFinalizerToVGC_def RemoveFinalizerFromVGC_def Let_def
  using assms by (auto intro!: emits_intro does_writes)

lemma does_finalizers_PVC [frames]:
  assumes "retry_documented env" and "{Reading, SpecPVC} \<subseteq> S"
  shows "does S (AddFinalizerToPVC env pvc)" "does S (RemoveFinalizerFromPVC env driver pvc)"
  unfolding AddFinalizerToPVC_def RemoveFinalizerFromPVC_def Let_def
  using assms by (auto intro!: emits_intro does_writes does_reads)

lemma does_deletePVC [frames]:
  assumes "retry_documented env" and "{Reading, SpecPVC, GonePVC} \<subseteq> S"
  shows "does S (deletePVC env name ns driver)"
  unfolding deletePVC_def removePVCObject_def client_calls
  using assms by (auto intro!: emits_intro does_finalizers_PVC does_reads)

lemma does_IsPVCNeedToBeHandled [frames]:
  "{Reading, Note} \<subseteq> S \<Longrightarrow> does S (IsPVCNeedToBeHandled env pvc driver)"
  unfolding IsPVCNeedToBeHandled_def IsPVCInStaticVG_def getStorageClass_def client_calls Let_def
  by (auto intro!: emits_intro does_reads does_notes)

section \<open>Membership\<close>

lemma does_modify [frames]:
  assumes "retry_documented env" and "{Reading, StatusVG, RpcModify} \<subseteq> S"
  shows "does S (ModifyVG env vg c)" "does S (ModifyVolumesInVG env c pvcs vg)"
proof -
  have "does S (Modify env p)" for p
    using assms(2) unfolding request_defs by (auto intro!: emits_intro)
  then show "does S (ModifyVG env vg c)" for vg
    unfolding ModifyVG_def generateModifyVGParams_def getSecrets_def
    using assms by (auto intro!: emits_intro does_reads does_status_VG)
  then show "does S (ModifyVolumesInVG env c pvcs vg)"
    unfolding ModifyVolumesInVG_def Let_def by (auto intro!: emits_intro)
qed

lemma does_AddMatchingPV [frames]:
  assumes "retry_documented env" and "{Reading, StatusVGC} \<subseteq> S"
  shows "does S (AddMatchingPVToMatchingVGC env pvc vg)"
  unfolding AddMatchingPVToMatchingVGC_def
  using assms by (auto intro!: emits_intro does_reads does_status_VGC)

lemma does_members [frames]:
  assumes "retry_documented env" and "{Reading, StatusVG, StatusVGC, SpecPVC, Note} \<subseteq> S"
  shows "does S (AddVolumeToPvcListAndPvList env pvc vg)"
    "does S (RemoveVolumeFromPvcListAndPvList env driver pvc vg)"
  unfolding AddVolumeToPvcListAndPvList_def RemoveVolumeFromPvcListAndPvList_def Let_def
  using assms by (auto intro!: emits_intro does_reads frames)

lemma does_loops [frames]:
  assumes "retry_documented env" and "{Reading, StatusVG, StatusVGC, SpecPVC, Note} \<subseteq> S"
  shows "does S (removeVolumes env driver pvcs xs vg)" "does S (addVolumes env xs pvcs vg)"
proof -
  show "does S (removeVolumes env driver pvcs xs vg)"
    using assms by (induction xs arbitrary: vg) (auto intro!: emits_intro frames)
  show "does S (addVolumes env xs pvcs vg)"
    using assms by (induction pvcs arbitrary: vg) (auto intro!: emits_intro frames)
qed

lemma does_UpdatePvcAndPvList [frames]:
  assumes "retry_documented env" and "{Reading, StatusVG, StatusVGC, SpecPVC, Note} \<subseteq> S"
  shows "does S (UpdatePvcAndPvList env vg driver pvcs)"
  unfolding UpdatePvcAndPvList_def Let_def using assms by (auto intro!: emits_intro frames)

section \<open>Contents\<close>

lemma does_contents [frames]:
  assumes "{Reading, SpecVGC} \<subseteq> S"
  shows "does S (UpdateStaticVGCFromVG env vg c)" "does S (UpdateStaticVGC env ns name c)"
    "does S (UpdateThinVGC env ns name)" "does S (UpdateVGCByResponse env vgc resp)"
  unfolding UpdateStaticVGCFromVG_def UpdateStaticVGC_def UpdateThinVGC_def UpdateVGCByResponse_def Let_def
  using assms by (auto intro!: emits_intro does_reads does_writes)

lemma does_CreateVGC [frames]: "NewVGC \<in> S \<Longrightarrow> does S (CreateVGC env vgc)"
  unfolding CreateVGC_def client_calls by (auto intro!: emits_intro)

lemma does_getMatchingPVC [frames]:
  "Reading \<in> S \<Longrightarrow> does S (getMatchingPVCFromPVCListToPV env name driver)"
  unfolding getMatchingPVCFromPVCListToPV_def by (auto intro!: emits_intro does_reads)

lemma does_DeletePVCsUnderVGC [frames]:
  assumes "retry_documented env" and "{Reading, SpecPVC, GonePVC, StatusVGC} \<subseteq> S"
  shows "does S (DeletePVCsUnderVGC env vgc driver)"
proof -
  have "does S (deletePVCs_loop env driver k i arr shared vgc)" for k i arr shared vgc
    using assms
    by (induction k arbitrary: i arr shared vgc)
      (auto simp: deletePVC_of_def Let_def intro!: emits_intro frames)
  then show ?thesis unfolding DeletePVCsUnderVGC_def Let_def .
qed

section \<open>The reconcilers\<close>

lemma does_getMatchingPVCs [frames]:
  assumes "{Reading, Note} \<subseteq> S"
  shows "does S (getMatchingPVCs env r vg)"
proof -
  have "does S (collectMatchingPVCs env r vg pvcs acc)" for pvcs acc
    using assms by (induction pvcs arbitrary: acc)
      (auto simp: isPVCShouldBeInVg_def isPVCCanBeAddedToVG_def intro!: emits_intro frames does_reads)
  then show ?thesis
    unfolding getMatchingPVCs_def using assms by (auto intro!: emits_intro does_reads)
qed

lemma does_updatePVCs [frames]:
  assumes "retry_documented env" and "{Reading, StatusVG, StatusVGC, SpecPVC, Note, RpcModify} \<subseteq> S"
  shows "does S (updatePVCs env r vg)"
  unfolding updatePVCs_def using assms by (auto intro!: emits_intro frames)

lemma does_updateItems [frames]:
  assumes "retry_documented env" and "{Reading, SpecVG, StatusVG, Note} \<subseteq> S"
  shows "does S (updateItems env vg now name)"
  unfolding updateItems_def UpdateVGSourceContent_def
  using assms by (auto intro!: emits_intro frames does_writes)

lemma does_removeInstance [frames]:
  assumes "retry_documented env" and "{Reading, SpecVG, GoneVGC} \<subseteq> S"
  shows "does S (removeInstance env vg)"
  unfolding removeInstance_def removeVGCObject_def client_calls
  using assms by (auto intro!: emits_intro frames does_reads)

lemma does_failVG [frames]:
  assumes "retry_documented env" and "{Reading, StatusVG, Note} \<subseteq> S"
  shows "does S (failVG env vg err reason)" "does S (createSuccessVGEvent env vg)"
  unfolding failVG_def createSuccessVGEvent_def Let_def
  using assms by (auto intro!: emits_intro frames)

lemma does_failVGC [frames]: "Note \<in> S \<Longrightarrow> does S (failVGC env v err reason)"
  unfolding failVGC_def by (auto intro!: emits_intro frames)

lemma does_isVGCReady [frames]: "Reading \<in> S \<Longrightarrow> does S (isVGCReady env vgc)"
  unfolding isVGCReady_def by (auto intro!: emits_intro does_reads)

lemma does_GetCurrentTime [frames]: "does S (GetCurrentTime env)"
  unfolding GetCurrentTime_def by (rule emits_intro)

lemma does_handleStaticProvisionedVG [frames]:
  assumes "retry_documented env"
    and "{Reading, SpecVG, StatusVG, SpecVGC, StatusVGC, SpecPVC, Note, RpcModify} \<subseteq> S"
  shows "does S (handleStaticProvisionedVG env r vg now c)"
  unfolding handleStaticProvisionedVG_def using assms by (auto intro!: emits_intro frames)

lemma does_reconcileLive [frames]:
  assumes "retry_documented env"
    and "{Reading, SpecVG, StatusVG, SpecVGC, StatusVGC, NewVGC, SpecPVC, Note, RpcModify} \<subseteq> S"
  shows "does S (reconcileLive env r vg c)"
  unfolding reconcileLive_def reconcileDynamic_def using assms by (auto intro!: emits_intro frames split: sum.split)

lemma does_removeVGC [frames]:
  assumes "retry_documented env" and "{Reading, SpecVGC, RpcDelete} \<subseteq> S"
  shows "does S (removeVGC env r vgc secret)"
  unfolding removeVGC_def deleteVG_def request_defs
  using assms by (auto intro!: emits_intro frames)

lemma does_createVG [frames]: "RpcCreate \<in> S \<Longrightarrow> does S (createVG env r name params secret)"
  unfolding createVG_def request_defs by (auto intro!: emits_intro)

lemma does_handleCreateVG [frames]:
  assumes "{Reading, SpecVGC, StatusVGC, Note, RpcCreate} \<subseteq> S"
  shows "does S (handleCreateVG env r vgc c secret)"
  unfolding handleCreateVG_def Let_def using assms by (auto intro!: emits_intro frames)

lemma does_static [frames]:
  assumes "{Reading, SpecVGC, StatusVGC} \<subseteq> S"
  shows "does S (handleStaticProvisionedVGC env vgc)"
  unfolding handleStaticProvisionedVGC_def updateStaticVGC_def reconciler_updateStaticVGCSpec_def
  using assms by (auto intro!: emits_intro frames does_reads)

lemma does_reconcileThin [frames]:
  "{Reading, SpecVGC, StatusVGC} \<subseteq> S \<Longrightarrow> does S (reconcileThin env vgc)"
  unfolding reconcileThin_def by (auto intro!: emits_intro frames)

lemma does_reconcileLiveVGC [frames]:
  assumes "{Reading, SpecVGC, StatusVGC, Note, RpcCreate} \<subseteq> S"
  shows "does S (reconcileLiveVGC env r vgc c secret)"
  unfolding reconcileLiveVGC_def using assms by (auto intro!: emits_intro frames)

lemma does_deletion [frames]:
  assumes "retry_documented env" and "{Reading, SpecVGC, StatusVGC, SpecPVC, GonePVC, RpcDelete} \<subseteq> S"
  shows "does S (handleVGCWithDeletionTimestamp env r vgc secret)"
  unfolding handleVGCWithDeletionTimestamp_def
  using assms by (auto intro!: emits_intro frames does_reads)

lemma does_reconcileOwn [frames]:
  assumes "retry_documented env"
    and "{Reading, Note, SpecVG, StatusVG, SpecVGC, StatusVGC, NewVGC, GoneVGC, SpecPVC, RpcModify} \<subseteq> S"
  shows "does S (reconcileOwn env r vg c)"
  unfolding reconcileOwn_def using assms by (auto intro!: emits_intro frames)

lemma does_reconcileOwnVGC [frames]:
  assumes "retry_documented env"
    and "{Reading, Note, SpecVGC, StatusVGC, SpecPVC, GonePVC, RpcCreate, RpcDelete} \<subseteq> S"
  shows "does S (reconcileOwnVGC env r vgc c)"
  unfolding reconcileOwnVGC_def using assms by (auto intro!: emits_intro frames does_reads)

lemma does_VG_Reconcile:
  assumes "retry_documented env"
    and "{Reading, Note, SpecVG, StatusVG, SpecVGC, StatusVGC, NewVGC, GoneVGC, SpecPVC, RpcModify} \<subseteq> S"
  shows "does S (VG_Reconcile env r req)"
  unfolding VG_Reconcile_def client_calls
  using assms by (auto intro!: emits_intro frames does_reads)

lemma does_VGC_Reconcile:
  assumes "retry_documented env"
    and "{Reading, Note, SpecVGC, StatusVGC, SpecPVC, GonePVC, RpcCreate, RpcDelete} \<subseteq> S"
  shows "does S (VGC_Reconcile env r req)"
  unfolding VGC_Reconcile_def
  using assms by (auto intro!: emits_intro frames does_reads)

end
