(* ===== verification/Membership_Spec.thy ===== *)
theory Membership_Spec
  imports Frames
begin

text \<open>
  The members of a group: what the driver is told, that the bookkeeping follows only its
  agreement, that it ends with the claims it was asked for, and that a claim keeps its finalizer
  while a group lists it.
\<close>

section \<open>What the driver is told\<close>

text \<open>The volume handles of the bound claims of a list, in order, as the events show them.\<close>

definition handle_of :: "event list \<Rightarrow> PersistentVolumeClaim \<Rightarrow> string \<Rightarrow> bool" where
  "handle_of es pvc h \<longleftrightarrow> (\<exists>pv. EvGetPV (PVCVolumeName pvc) (Inr pv) \<in> set es \<and> PVCSI pv = Some h)"

definition handles :: "event list \<Rightarrow> PersistentVolumeClaim list \<Rightarrow> string list \<Rightarrow> bool" where
  "handles es pvcs hs \<longleftrightarrow> list_all2 (handle_of es) (filter (\<lambda>pvc. PVCVolumeName pvc \<noteq> '''') pvcs) hs"

lemma handles_mono: "handles es pvcs hs \<Longrightarrow> set es \<subseteq> set es' \<Longrightarrow> handles es' pvcs hs"
  unfolding handles_def by (erule list_all2_mono) (auto simp: handle_of_def)

lemma GetPVFromPVC_spec:
  "gives (GetPVFromPVC env pvc) (\<lambda>x es. (\<forall>s. x \<noteq> Panic s) \<and> list_all is_read es \<and>
     (x = Ret (Inr None) \<longrightarrow> PVCVolumeName pvc = '''') \<and>
     (\<forall>pv. x = Ret (Inr (Some pv)) \<longrightarrow> PVCVolumeName pvc \<noteq> '''' \<and> EvGetPV (PVCVolumeName pvc) (Inr pv) \<in> set es))"
  unfolding gives_def wp_def GetPVFromPVC_def getPVNameFromPVC_def getPV_def client_calls
  by (auto simp: go_run split: sum.splits)

lemma getPVCListVolumeIds_spec:
  "gives (getPVCListVolumeIds env pvcs acc) (\<lambda>x es. \<forall>ids. x = Ret (Inr ids) \<longrightarrow>
     (\<exists>hs. ids = acc @ hs \<and> handles es pvcs hs))"
proof (induction pvcs arbitrary: acc)
  case Nil
  show ?case by (simp add: gives_def wp_returnG handles_def)
next
  case (Cons pvc pvcs)
  have step: "\<exists>hs. ids = acc @ hs \<and> handles (es @ es') (pvc # pvcs) hs"
    if "EvGetPV (PVCVolumeName pvc) (Inr pv) \<in> set es" "PVCSI pv = Some h" "PVCVolumeName pvc \<noteq> ''''"
      "ids = (acc @ [h]) @ hs" "handles es' pvcs hs" for ids hs es es' pv h
  proof -
    have "handles (es @ es') pvcs hs" using that(5) by (rule handles_mono) simp
    with that show ?thesis by (intro exI [of _ "h # hs"]) (auto simp: handles_def handle_of_def)
  qed
  have skip: "\<exists>hs. ids = acc @ hs \<and> handles (es @ es') (pvc # pvcs) hs"
    if "PVCVolumeName pvc = ''''" "ids = acc @ hs" "handles es' pvcs hs" for ids hs es es'
  proof -
    have "handles (es @ es') pvcs hs" using that(3) by (rule handles_mono) simp
    with that show ?thesis by (auto simp: handles_def)
  qed
  show ?case
    unfolding gives_def getPVCListVolumeIds.simps
    apply (rule wp_try_use [OF GetPVFromPVC_spec]; (simp; fail)?)
    apply (intro wp_split wp_panicG; (simp; fail)?)
     apply (rule wp_use [OF Cons.IH], use skip in \<open>auto; blast\<close>)
    apply (rule wp_use [OF Cons.IH], use step in \<open>auto; blast\<close>)
    done
qed

text \<open>
  The driver agreed to a list of claims as the members of a group: the content of the group was
  read, and the last request told the driver, under the content's handle, the handles of exactly
  these claims.
\<close>

definition agreed :: "VolumeGroup \<Rightarrow> PersistentVolumeClaim list \<Rightarrow> event list \<Rightarrow> bool" where
  "agreed vg pvcs es \<longleftrightarrow> (\<exists>vgc src ids secrets.
     EvGetVGC (Namespace (vgMeta vg), deref (srcVolumeGroupContentName (vgSource (vgSpec vg)))) (None, vgc) \<in> set es \<and>
     vgcSource (vgcSpec vgc) = Some src \<and> handles es pvcs ids \<and>
     EvRpcModify \<lparr>mreqVolumeGroupId = VolumeGroupHandle src, mreqVolumeIds = ids, mreqSecrets = secrets\<rparr> None \<in> set es)"

lemma agreed_mono: "agreed vg pvcs es \<Longrightarrow> set es \<subseteq> set es' \<Longrightarrow> agreed vg pvcs es'"
  unfolding agreed_def using handles_mono [of es pvcs _ es'] by blast

lemma agreed_append: "agreed vg pvcs es \<Longrightarrow> agreed vg pvcs (es @ es')" "agreed vg pvcs es' \<Longrightarrow> agreed vg pvcs (es @ es')"
  by (erule agreed_mono, simp)+

lemma getVgId_spec:
  "gives (getVgId env vg) (\<lambda>x es. \<forall>h. x = Ret (Inr h) \<longrightarrow> (\<exists>vgc src.
     EvGetVGC (Namespace (vgMeta vg), deref (srcVolumeGroupContentName (vgSource (vgSpec vg)))) (None, vgc) \<in> set es \<and>
     vgcSource (vgcSpec vgc) = Some src \<and> h = VolumeGroupHandle src))"
  unfolding gives_def wp_def getVgId_def GetVGC_of_def vgcNameOf_def GetVGC_def client_calls
  by (auto simp: go_run split: option.splits prod.splits)

lemma does_getSecrets:
  "retry_documented env \<Longrightarrow> {Reading, StatusVG} \<subseteq> S \<Longrightarrow> does S (getSecrets env vg)"
  unfolding getSecrets_def by (auto intro!: emits_intro does_reads frames)

lemma ModifyVG_agreed:
  assumes env: "retry_documented env"
  shows "gives (ModifyVG env vg c) (\<lambda>x es. \<forall>vg'. x = Ret (None, vg') \<longrightarrow> agreed vg (PVCList (vgStatus vg)) es)"
proof -
  have fin: "agreed vg (PVCList (vgStatus vg)) (es1 @ es2 @ es3 @
      [EvRpcModify \<lparr>mreqVolumeGroupId = VolumeGroupHandle src, mreqVolumeIds = ids, mreqSecrets = s\<rparr> None])"
    if "EvGetVGC (Namespace (vgMeta vg), deref (srcVolumeGroupContentName (vgSource (vgSpec vg)))) (None, vgc) \<in> set es1"
      "vgcSource (vgcSpec vgc) = Some src" "handles es2 (PVCList (vgStatus vg)) ids"
    for es1 es2 es3 vgc src ids s
    unfolding agreed_def using that handles_mono [OF that(3), of "es1 @ es2 @ es3 @ [e]" for e]
    by (intro exI [of _ vgc] exI [of _ src] exI [of _ ids] exI [of _ s]) auto
  show ?thesis
    unfolding gives_def ModifyVG_def generateModifyVGParams_def bindG_assoc NewVolumeGroupRequest_def
    apply (rule wp_bind_use [OF getVgId_spec]; (simp; fail)?)
    apply (simp only: sum.case_distrib [of "\<lambda>m. bindG m _"])
    apply (intro wp_split; (simp add: wp_returnG; fail)?)
    apply (simp only: bindG_assoc)
    apply (rule wp_bind_use [OF getPVCListVolumeIds_spec]; (simp; fail)?)
    apply (simp only: sum.case_distrib [of "\<lambda>m. bindG m _"])
    apply (intro wp_split; (simp add: wp_returnG; fail)?)
    apply (simp only: bindG_assoc bindG_prod)
    apply (rule wp_bind_use [OF does_getSecrets [OF env subset_UNIV, unfolded emits_def]]; (simp; fail)?)
    apply (intro wp_split)
    apply (simp only: sum.case_distrib [of "\<lambda>m. bindG m _"])
    apply (intro wp_split; (simp add: wp_returnG; fail)?)
    apply (simp only: bindG_return prod.case sum.case)
    apply (intro wp_bindG wp_Modify)
    apply (auto intro!: wp_split wp_returnG intro: fin)
    done
qed

lemma ModifyVolumesInVG_agreed:
  assumes "retry_documented env"
  shows "gives (ModifyVolumesInVG env c pvcs vg) (\<lambda>x es. x = Ret None \<longrightarrow> agreed vg pvcs es)"
  unfolding gives_def ModifyVolumesInVG_def Let_def
  by (rule wp_bind_use [OF ModifyVG_agreed [OF assms]])
    (auto intro!: wp_split wp_returnG simp: agreed_def set_PVCList_def)

section \<open>The bookkeeping follows the driver\<close>

text \<open>
  Before a volume enters or leaves a content or a claim's finalizer changes, the driver agreed to
  the claims that match the group.
\<close>

lemma updatePVCs_order:
  assumes env: "retry_documented env"
  shows "gives (updatePVCs env r vg) (\<lambda>_. guards (\<lambda>es. \<exists>pvcs. agreed vg pvcs es) (within {StatusVGC, SpecPVC}))"
proof -
  let ?Q = "\<lambda>_ :: (error option \<times> VolumeGroup) outcome. guards (\<lambda>es. \<exists>pvcs. agreed vg pvcs es) (within {StatusVGC, SpecPVC})"
  let ?S = "{Reading, StatusVG, Note, RpcModify}"
  have quiet: "list_all (within ?S) es \<Longrightarrow> guards G (within {StatusVGC, SpecPVC}) es" for G es
    by (rule guards_none) (auto simp: list_all_iff within_def)
  have fail: "wp (HandleErrorMessage env vg e reason) ?Q es" if "list_all (within ?S) es" for e reason es
    by (rule wp_guards_does [OF does_messages_VG(1) [OF env order_refl]]) (auto intro: quiet that)
  have work: "wp (UpdatePvcAndPvList env vg d pvcs) ?Q es" if "list_all (within ?S) es" "agreed vg pvcs es" for d pvcs es
    by (rule wp_guards_after [OF does_UpdatePvcAndPvList [OF env subset_UNIV]])
      (use that in \<open>auto intro: quiet agreed_append\<close>)
  have modify: "gives (ModifyVolumesInVG env c pvcs vg) (\<lambda>x es. list_all (within ?S) es \<and> (x = Ret None \<longrightarrow> agreed vg pvcs es))" for c pvcs
    by (rule gives_conj [OF does_modify(2) [OF env, unfolded emits_def] ModifyVolumesInVG_agreed [OF env]]) simp
  have claims: "gives (getMatchingPVCs env r vg) (\<lambda>_ es. list_all (within ?S) es)"
    using does_getMatchingPVCs [of ?S] by (simp add: emits_def)
  show ?thesis
    unfolding gives_def updatePVCs_def
    apply (rule wp_bind_use [OF claims]; (simp add: quiet; fail)?)
    apply (intro wp_split fail wp_returnG; (simp add: quiet; fail)?)
    apply (rule wp_bind_use [OF modify]; (simp add: quiet; fail)?)
    apply (intro wp_split fail work; simp add: agreed_append)
    done
qed

section \<open>A claim keeps its finalizer while a group lists it\<close>

lemma RemoveFinalizerFromPVC_released:
  assumes env: "retry_documented env" and pre: "guards (\<lambda>es. released env driver pvc es \<and> G es) (within {SpecPVC}) pre" "G pre"
    and G: "\<And>es es'. G es \<Longrightarrow> G (es @ es')"
  shows "wp (RemoveFinalizerFromPVC env driver pvc) (\<lambda>_. guards (\<lambda>es. released env driver pvc es \<and> G es) (within {SpecPVC})) pre"
proof -
  let ?R = "\<lambda>es. released env driver pvc es \<and> G es"
  have check: "gives (isFinalizerShouldBeREmovedFromPVC env driver pvc)
      (\<lambda>x es. list_all is_read es \<and> (x = Ret (Inr True) \<longrightarrow> released env driver pvc es))"
    by (rule gives_conj [OF reads_isFinalizerShouldBeREmovedFromPVC [unfolded emits_def] isFinalizerShouldBeREmovedFromPVC_spec])
  have mono: "?R es \<Longrightarrow> ?R (es @ es')" for es es'
    using G by (auto intro: released_mono [of env driver pvc es])
  have later: "released env driver pvc es \<Longrightarrow> released env driver pvc (es' @ es)" for es es'
    by (erule released_mono) simp
  have quiet: "guards ?R (within {SpecPVC}) (pre @ es)" if "list_all is_read es" for es
    using that pre(1) by (auto intro: guards_reads(2))
  have "does S (bindG (getNamespacedObject env (PVC_object env) pvc) (\<lambda>(uErr, pvc).
      case uErr of None \<Rightarrow> (let pvc = SetFinalizers (PVC_object env) (Remove (Finalizers (PVCMeta pvc)) pvcVGFinalizer) pvc
          in bindG (updateFinalizer env (PVC_object env) (Finalizers (PVCMeta pvc)) pvc) (\<lambda>(err, pvc).
             case err of None \<Rightarrow> returnG (None, pvc) | Some e \<Rightarrow> returnG (Some e, pvc)))
        | Some u \<Rightarrow> returnG (Some u, pvc)))" if "{Reading, SpecPVC} \<subseteq> S" for S
    using env that by (auto simp: Let_def intro!: emits_intro does_writes)
  note work = this [OF subset_UNIV]
  show ?thesis
    unfolding RemoveFinalizerFromPVC_def
    apply (rule wp_bind_use [OF check]; (simp add: quiet; fail)?)
    apply (intro wp_split wp_returnG; (simp add: quiet; fail)?)
    apply (rule wp_guards_after [OF work])
      apply (rule mono, assumption)
     apply (simp add: G pre(2) later)
    apply (simp add: quiet)
    done
qed

text \<open>The status of the group without the claim was accepted.\<close>

definition unlisted :: "VolumeGroup \<Rightarrow> PersistentVolumeClaim \<Rightarrow> event list \<Rightarrow> bool" where
  "unlisted vg pvc es \<longleftrightarrow> (\<exists>o1 ans. EvStatusVG (set_PVCList (removeFromPVCList pvc (PVCList (vgStatus vg))) o1) (None, ans) \<in> set es)"

lemma unlistedI:
  "EvStatusVG (set_PVCList (removeFromPVCList pvc (PVCList (vgStatus vg))) o1) (None, ans) \<in> set es \<Longrightarrow> unlisted vg pvc es"
  unfolding unlisted_def by blast

lemma unlisted_append: "unlisted vg pvc es \<Longrightarrow> unlisted vg pvc (es @ es')"
  unfolding unlisted_def by auto

lemma updateVGStatusPVCList_written:
  assumes "retry_documented env"
  shows "gives (updateVGStatusPVCList env vg pvcs) (\<lambda>x es. list_all (within {Reading, StatusVG}) es \<and> (\<forall>s. x \<noteq> Panic s) \<and>
    (\<forall>vg'. x = Ret (None, vg') \<longrightarrow> (\<exists>o1. EvStatusVG (set_PVCList pvcs o1) (None, vg') \<in> set es)))"
  unfolding updateVGStatusPVCList_def case_return_pair return_bindG
  by (rule gives_mono [OF gives_conj [OF does_retry_VG [OF assms order_refl, unfolded emits_def]
        vg_status.retry_spec [OF retry_VG [OF assms]]]])
    (use vg_status.write_specD in fastforce)

lemma PVCList_set [simp]: "PVCList (vgStatus (set_PVCList pvcs vg)) = pvcs"
  by (simp add: set_PVCList_def)

lemma RemovePVCFromVG_unlisted:
  assumes "retry_documented env"
  shows "gives (RemovePVCFromVG env pvc vg) (\<lambda>x es. list_all (within {Reading, StatusVG}) es \<and>
    (\<forall>vg'. x = Ret (None, vg') \<longrightarrow> unlisted vg pvc es))"
  unfolding gives_def RemovePVCFromVG_def Let_def
  apply (rule wp_bind_use [OF updateVGStatusPVCList_written [OF assms]]; (simp; fail)?)
  apply (intro wp_split wp_returnG; simp)
  apply (metis unlistedI)
  done

lemma RemoveVolume_release:
  assumes env: "retry_documented env"
  shows "gives (RemoveVolumeFromPvcListAndPvList env driver pvc vg)
    (\<lambda>_. guards (\<lambda>es. released env driver pvc es \<and> unlisted vg pvc es) (within {SpecPVC}))"
proof -
  let ?R = "\<lambda>es. released env driver pvc es \<and> unlisted vg pvc es"
  let ?Q = "\<lambda>_ :: (error option \<times> VolumeGroup) outcome. guards ?R (within {SpecPVC})"
  let ?S = "{Reading, StatusVG, StatusVGC, Note}"
  have quiet: "guards ?R (within {SpecPVC}) es" if "list_all (within ?S) es" for es
    by (rule guards_none) (use that in \<open>auto simp: list_all_iff within_def\<close>)
  have drop: "gives (RemovePVCFromVG env pvc vg) (\<lambda>x es. list_all (within ?S) es \<and>
      (\<forall>vg'. x = Ret (None, vg') \<longrightarrow> unlisted vg pvc es))"
    by (rule gives_mono [OF RemovePVCFromVG_unlisted [OF env]]) (auto simp: list_all_iff within_def)
  have reads: "does ?S (GetPVFromPVC env pvc)" "does ?S (GetVGC_of env vg')" for vg'
    by (auto intro: does_reads)
  have volume: "does ?S (case pv of Some pv \<Rightarrow> bindG (RemovePVFromVGC env pv vgc) (\<lambda>(err, vgc). returnG err) | None \<Rightarrow> returnG None)" for pv vgc
    using env by (auto intro!: emits_intro frames split: option.split)
  have say: "does ?S (HandleSuccessMessage env vg' m r)" for vg' m r
    using env by (auto intro!: frames)
  show ?thesis
    unfolding gives_def RemoveVolumeFromPvcListAndPvList_def Let_def
    apply (rule wp_bind_use [OF drop]; (simp add: quiet; fail)?)
    apply (intro wp_split wp_returnG; (simp add: quiet; fail)?)
    apply (rule wp_bind_use [OF reads(1) [unfolded emits_def]]; (simp add: quiet; fail)?)
    apply (intro wp_split wp_returnG; (simp add: quiet; fail)?)
    apply (rule wp_bind_use [OF reads(2) [unfolded emits_def]]; (simp add: quiet; fail)?)
    apply (intro wp_split wp_returnG; (simp add: quiet; fail)?)
    apply (rule wp_bind_use [OF volume [unfolded emits_def]]; (simp add: quiet; fail)?)
    apply (intro wp_split wp_returnG; (simp add: quiet; fail)?)
    apply (rule wp_guards_then_does [where S = ?S])
      apply (rule RemoveFinalizerFromPVC_released [OF env])
        apply (auto simp: quiet unlisted_append intro!: emits_intro say)
    done
qed

section \<open>The bookkeeping ends with the claims asked for\<close>

text \<open>
  A run is undisturbed when no status update of a group had to fetch the group again and every
  accepted one was answered with the list that was sent.
\<close>

fun faithful :: "event \<Rightarrow> bool" where
  "faithful (EvGetVG _ _) = False"
| "faithful (EvStatusVG sent (None, ans)) = (PVCList (vgStatus ans) = PVCList (vgStatus sent))"
| "faithful _ = True"

abbreviation undisturbed :: "event list \<Rightarrow> bool" where
  "undisturbed es \<equiv> list_all faithful es"

definition ends_with :: "(error option \<times> VolumeGroup) go \<Rightarrow> PersistentVolumeClaim list \<Rightarrow> bool" where
  "ends_with m l \<longleftrightarrow> gives m (\<lambda>x es. undisturbed es \<longrightarrow> (\<forall>vg. x = Ret (None, vg) \<longrightarrow> PVCList (vgStatus vg) = l))"

definition fails :: "(error option \<times> 'o) go \<Rightarrow> bool" where
  "fails m \<longleftrightarrow> gives m (\<lambda>x _. \<forall>vg. x \<noteq> Ret (None, vg))"

named_theorems ends_intro \<open>rules for the list a program leaves\<close>

lemma ends_return [ends_intro]:
  "PVCList (vgStatus vg) = l \<Longrightarrow> ends_with (returnG (None, vg)) l"
  by (simp add: ends_with_def gives_def wp_returnG)

lemma fails_return: "fails (returnG (Some e, vg))"
  by (simp add: fails_def gives_def wp_returnG)

lemma ends_fail: "fails m \<Longrightarrow> ends_with m l"
  unfolding fails_def ends_with_def by (erule gives_mono) auto

lemma ends_bind:
  assumes "ends_with m l" and "\<And>vg. PVCList (vgStatus vg) = l \<Longrightarrow> ends_with (k vg) l'"
    and "\<And>vg. emits (\<lambda>_. True) (k vg)" and "\<And>e vg. fails (h e vg)"
  shows "ends_with (bindG m (\<lambda>(err, vg). case err of None \<Rightarrow> k vg | Some e \<Rightarrow> h e vg)) l'"
  unfolding ends_with_def gives_def
  apply (rule wp_bind_use [OF assms(1) [unfolded ends_with_def]]; (simp; fail)?)
  apply (intro wp_split)
  subgoal for x es err vg
    apply (cases "PVCList (vgStatus vg) = l")
     apply (rule wp_use [OF assms(2) [unfolded ends_with_def]], simp, simp)
    apply (rule wp_emits [OF assms(3)], simp)
    done
  apply (rule wp_use [OF assms(4) [unfolded fails_def]], simp)
  done

lemma ends_skip:
  assumes "emits \<Phi> m" and "\<And>a. ends_with (f a) l"
  shows "ends_with (bindG m f) l"
  unfolding ends_with_def gives_def
  by (rule wp_bind_use [OF assms(1) [unfolded emits_def]], simp,
      rule wp_use [OF assms(2) [unfolded ends_with_def]], simp)

lemma ends_retry:
  assumes "retry_documented env"
  shows "ends_with (lib_RetryOnConflict_VG (lib env) (\<lambda>vg. vgRetryOnConflictFunc env (prep vg)) vg)
    (PVCList (vgStatus (prep vg)))"
  unfolding ends_with_def
  apply (rule gives_mono [OF vg_status.retry_calm [OF retry_VG [OF assms]]])
  subgoal premises prems for x es
  proof (intro impI allI)
    fix vg'
    assume un: "undisturbed es" and x: "x = Ret (None, vg')"
    have "vg_status.calm es"
      using un by (auto simp: vg_status.calm_def list_all_iff simp del: split_paired_All split_paired_Ex)
    with prems x obtain r where "es = [EvStatusVG (prep vg) r]" "vg' = snd r" "fst r = None"
      unfolding vg_status.one_write_def by auto
    with un show "PVCList (vgStatus vg') = PVCList (vgStatus (prep vg))" by (cases r) simp
  qed
  done

lemma does_any: "does S m \<Longrightarrow> emits (\<lambda>_. True) m"
  by (erule emits_mono) simp

lemma HandleErrorMessage_fails:
  assumes "retry_documented env"
  shows "fails (HandleErrorMessage env vg (Some e) reason)"
  unfolding fails_def gives_def HandleErrorMessage_def Let_def option.case
  apply (rule wp_bind_use [OF does_status_VG(1) [OF assms subset_UNIV, unfolded emits_def]]; (simp; fail)?)
  apply (intro wp_split wp_returnG; (simp; fail)?)
  apply (rule wp_bind_use [OF does_createEvent(2) [of UNIV, unfolded emits_def]]; (simp; fail)?)
  apply (intro wp_split wp_returnG; simp)
  done

lemma ends_status:
  assumes env: "retry_documented env"
  shows "ends_with (updateVGStatusPVCList env vg pvcs) pvcs"
    "ends_with (UpdateVGStatusError env vg message) (PVCList (vgStatus vg))"
    "ends_with (AddPVCToVG env pvc vg) (appendPVC (PVCList (vgStatus vg)) pvc)"
    "ends_with (RemovePVCFromVG env pvc vg) (removeFromPVCList pvc (PVCList (vgStatus vg)))"
    "ends_with (HandleSuccessMessage env vg text reason) (PVCList (vgStatus vg))"
proof -
  show list: "ends_with (updateVGStatusPVCList env vg pvcs) pvcs" for vg pvcs
    using ends_retry [OF env, of "set_PVCList pvcs" vg]
    by (simp add: updateVGStatusPVCList_def)
  show err: "ends_with (UpdateVGStatusError env vg message) (PVCList (vgStatus vg))" for vg message
    using ends_retry [OF env, of "set_VGError message" vg]
    by (simp add: UpdateVGStatusError_def set_VGError_def)
  show "ends_with (AddPVCToVG env pvc vg) (appendPVC (PVCList (vgStatus vg)) pvc)"
    unfolding AddPVCToVG_def Let_def
    by (rule ends_bind [OF list]) (auto intro!: ends_intro fails_return emits_intro)
  show "ends_with (RemovePVCFromVG env pvc vg) (removeFromPVCList pvc (PVCList (vgStatus vg)))"
    unfolding RemovePVCFromVG_def Let_def
    by (rule ends_bind [OF list]) (auto intro!: ends_intro fails_return emits_intro)
  have say: "does UNIV (createSuccessNamespacedObjectEvent env tm obj m r)" for tm obj m r
    by (rule does_createEvent) simp
  show "ends_with (HandleSuccessMessage env vg text reason) (PVCList (vgStatus vg))"
    unfolding HandleSuccessMessage_def
    by (rule ends_bind [OF err])
      (auto intro!: ends_intro fails_return emits_intro ends_skip [OF say] does_any [OF say] ends_fail [OF fails_return] split: option.split)
qed

lemma ends_AddVolume:
  assumes env: "retry_documented env"
  shows "ends_with (AddVolumeToPvcListAndPvList env pvc vg) (appendPVC (PVCList (vgStatus vg)) pvc)"
proof -
  note volume = does_AddMatchingPV [OF env subset_UNIV]
    and claim = does_finalizers_PVC(1) [OF env subset_UNIV] and say = does_messages_VG(2) [OF env subset_UNIV]
  show ?thesis
    unfolding AddVolumeToPvcListAndPvList_def Let_def
    apply (rule ends_bind [OF ends_status(3) [OF env]])
      apply (rule ends_skip [OF volume])
      apply (auto split: option.split intro!: ends_fail [OF fails_return] ends_skip [OF claim])[1]
      apply (metis ends_status(5) [OF env])
     apply (auto intro!: emits_intro does_any [OF volume] does_any [OF claim] does_any [OF say] fails_return)
    done
qed

lemma ends_RemoveVolume:
  assumes env: "retry_documented env"
  shows "ends_with (RemoveVolumeFromPvcListAndPvList env driver pvc vg) (removeFromPVCList pvc (PVCList (vgStatus vg)))"
proof -
  note reads = does_reads(13) [of UNIV] does_reads(8) [of UNIV]
    and claim = does_finalizers_PVC(2) [OF env subset_UNIV] and say = does_messages_VG(2) [OF env subset_UNIV]
  have volume: "emits (\<lambda>_. True) (case pv of Some pv \<Rightarrow> bindG (RemovePVFromVGC env pv vgc) (\<lambda>(err, vgc). returnG err) | None \<Rightarrow> returnG None)" for pv vgc
    by (auto intro!: emits_intro does_any [OF does_status_VGC(3) [OF env subset_UNIV]] split: option.split)
  show ?thesis
    unfolding RemoveVolumeFromPvcListAndPvList_def Let_def
    apply (rule ends_bind [OF ends_status(4) [OF env]])
      apply (rule ends_skip [OF reads(1)], simp)
      apply (auto split: sum.split intro!: ends_fail [OF fails_return] ends_skip [OF reads(2)])[1]
      apply (rule ends_skip [OF volume])
      apply (auto split: option.split intro!: ends_fail [OF fails_return] ends_skip [OF claim])[1]
      apply (metis ends_status(5) [OF env])
     apply (auto intro!: emits_intro volume does_any [OF reads(1)] does_any [OF reads(2)] does_any [OF claim] does_any [OF say] fails_return)
    done
qed

abbreviation drop_unmatched :: "PersistentVolumeClaim list \<Rightarrow> PersistentVolumeClaim \<Rightarrow> PersistentVolumeClaim list \<Rightarrow> PersistentVolumeClaim list" where
  "drop_unmatched matching pvc l \<equiv> if pvc_key pvc \<in> pvc_key ` set matching then l else removeFromPVCList pvc l"

abbreviation add_unlisted :: "PersistentVolumeClaim list \<Rightarrow> PersistentVolumeClaim \<Rightarrow> PersistentVolumeClaim list \<Rightarrow> PersistentVolumeClaim list" where
  "add_unlisted listed pvc l \<equiv> if pvc_key pvc \<in> pvc_key ` set listed then l else appendPVC l pvc"

lemma ends_cong:
  "(\<And>vg. ends_with (k vg) (fold f xs (PVCList (vgStatus vg)))) \<Longrightarrow> PVCList (vgStatus vg) = l \<Longrightarrow> ends_with (k vg) (fold f xs l)"
  by blast

lemma ends_loops:
  assumes env: "retry_documented env"
  shows "ends_with (removeVolumes env driver matching xs vg) (fold (drop_unmatched matching) xs (PVCList (vgStatus vg)))"
    "ends_with (addVolumes env listed ys vg) (fold (add_unlisted listed) ys (PVCList (vgStatus vg)))"
proof -
  note loops = does_any [OF does_loops(1) [OF env subset_UNIV]] does_any [OF does_loops(2) [OF env subset_UNIV]]
  show "ends_with (removeVolumes env driver matching xs vg) (fold (drop_unmatched matching) xs (PVCList (vgStatus vg)))"
  proof (induction xs arbitrary: vg)
    case (Cons pvc xs)
    have "ends_with (bindG (RemoveVolumeFromPvcListAndPvList env driver pvc vg) (\<lambda>(err, vg). case err of
        None \<Rightarrow> removeVolumes env driver matching xs vg | Some e \<Rightarrow> HandleErrorMessage env vg (Some e) removingPVC))
      (fold (drop_unmatched matching) xs (removeFromPVCList pvc (PVCList (vgStatus vg))))"
      by (intro ends_bind [OF ends_RemoveVolume [OF env]] HandleErrorMessage_fails [OF env] loops ends_cong [OF Cons.IH])
    with Cons.IH show ?case by simp
  qed (simp add: ends_return)
  show "ends_with (addVolumes env listed ys vg) (fold (add_unlisted listed) ys (PVCList (vgStatus vg)))"
  proof (induction ys arbitrary: vg)
    case (Cons pvc ys)
    have "ends_with (bindG (AddVolumeToPvcListAndPvList env pvc vg) (\<lambda>(err, vg). case err of
        None \<Rightarrow> addVolumes env listed ys vg | Some e \<Rightarrow> HandleErrorMessage env vg (Some e) addingPVC))
      (fold (add_unlisted listed) ys (appendPVC (PVCList (vgStatus vg)) pvc))"
      by (intro ends_bind [OF ends_AddVolume [OF env]] HandleErrorMessage_fails [OF env] loops ends_cong [OF Cons.IH])
    with Cons.IH show ?case by simp
  qed (simp add: ends_return)
qed

lemma fold_drop:
  "distinct (map pvc_key l) \<Longrightarrow> fold (drop_unmatched m) xs l =
     filter (\<lambda>p. pvc_key p \<in> pvc_key ` set m \<or> pvc_key p \<notin> pvc_key ` set xs) l"
proof (induction xs arbitrary: l)
  case (Cons x xs)
  show ?case
  proof (cases "pvc_key x \<in> pvc_key ` set m")
    case True
    with Cons show ?thesis by (auto intro!: filter_cong)
  next
    case False
    have "distinct (map pvc_key (removeFromPVCList x l))" by (rule pvcs.distinct_remove [OF Cons.prems])
    with False Cons.IH show ?thesis
      by (auto simp: pvcs.remove_distinct_filter [OF Cons.prems] intro!: filter_cong)
  qed
qed simp

lemma fold_add:
  "pvc_key ` set (fold (add_unlisted listed) ys l) = pvc_key ` set l \<union> (pvc_key ` set ys - pvc_key ` set listed)"
proof (induction ys arbitrary: l)
  case (Cons y ys)
  then show ?case by (cases "pvc_key y \<in> pvc_key ` set listed") (simp_all add: pvcs.keys_append insert_Diff_if)
qed simp

lemma distinct_fold_add:
  "distinct (map pvc_key l) \<Longrightarrow> distinct (map pvc_key (fold (add_unlisted listed) ys l))"
  by (induction ys arbitrary: l) (simp_all add: pvcs.distinct_append)

definition settled_members :: "PersistentVolumeClaim list \<Rightarrow> PersistentVolumeClaim list \<Rightarrow> PersistentVolumeClaim list" where
  "settled_members old matching = fold (add_unlisted old) matching (fold (drop_unmatched matching) old old)"

lemma settled_members_keys:
  assumes "distinct (map pvc_key old)"
  shows "pvc_key ` set (settled_members old matching) = pvc_key ` set matching"
    "distinct (map pvc_key (settled_members old matching))"
  using assms by (force simp: settled_members_def fold_drop fold_add, simp add: settled_members_def fold_drop distinct_fold_add distinct_map_filter)

lemma UpdatePvcAndPvList_ends:
  assumes env: "retry_documented env"
  shows "ends_with (UpdatePvcAndPvList env vg driver matching) (settled_members (PVCList (vgStatus vg)) matching)"
  unfolding UpdatePvcAndPvList_def Let_def settled_members_def
  apply (rule ends_bind [OF ends_loops(1) [OF env]])
    apply (rule ends_cong [OF ends_loops(2) [OF env]], assumption)
   apply (rule does_any [OF does_loops(2) [OF env subset_UNIV]])
  apply (rule fails_return)
  done

end
