(* ===== verification/VGC_Spec.thy ===== *)
theory VGC_Spec
  imports Frames
begin

text \<open>
  The content reconciler: what has to have happened before claims or the storage group are
  deleted, that the storage group is gone before the content's finalizer is, and how a storage
  group is created once.
\<close>

section \<open>Contracts of the reads\<close>

lemma GetVGC_spec:
  "gives (GetVGC env name ns) (\<lambda>x es. (\<forall>s. x \<noteq> Panic s) \<and> list_all is_read es \<and>
     (\<forall>c. x = Ret (Inr c) \<longrightarrow> es = [EvGetVGC (ns, name) (None, c)]))"
  unfolding gives_def wp_def GetVGC_def client_calls
  by (auto simp: go_run split: option.splits prod.splits)

lemma GetVGClass_spec:
  "gives (GetVGClass env name) (\<lambda>x es. (\<forall>s. x \<noteq> Panic s) \<and> list_all is_read es \<and>
     (\<forall>c. x = Ret (Inr c) \<longrightarrow> es = [EvGetVGClass name (Inr c)]))"
  unfolding gives_def wp_def GetVGClass_def client_calls
  by (auto simp: go_run split: sum.splits)

lemma GetSecretDataFromClass_spec:
  "gives (GetSecretDataFromClass env c) (\<lambda>x es. (\<forall>s. x \<noteq> Panic s) \<and> list_all is_read es)"
  unfolding gives_def wp_def GetSecretDataFromClass_def getSecretData_def client_calls
  by (auto simp: go_run split: sum.splits prod.splits)

text \<open>The events show that the group a content refers to does not exist, or that it refers to none.\<close>

definition group_gone :: "env \<Rightarrow> VolumeGroupContent \<Rightarrow> event list \<Rightarrow> bool" where
  "group_gone env vgc es \<longleftrightarrow> (\<forall>ref. VolumeGroupRef (vgcSpec vgc) = Some ref \<longrightarrow>
     (\<exists>e vg. EvGetVG (refNamespace ref, refName ref) (Some e, vg) \<in> set es \<and> IsNotFound env e))"

lemma group_gone_mono: "group_gone env vgc es \<Longrightarrow> set es \<subseteq> set es' \<Longrightarrow> group_gone env vgc es'"
  unfolding group_gone_def by blast

lemma IsVgExist_spec:
  "gives (IsVgExist env vgc) (\<lambda>x es. (\<forall>s. x \<noteq> Panic s) \<and> list_all is_read es \<and>
     (x = Ret (Inr False) \<longrightarrow> group_gone env vgc es))"
  unfolding gives_def wp_def IsVgExist_def GetVG_def client_calls
  by (auto simp: go_run group_gone_def split: option.splits prod.splits)

section \<open>Nothing is destroyed under a living group\<close>

text \<open>What has to be so before anything of the content is destroyed.\<close>

definition released_content :: "env \<Rightarrow> VolumeGroupContent \<Rightarrow> event list \<Rightarrow> bool" where
  "released_content env vgc es \<longleftrightarrow> group_gone env vgc es \<and>
     VgcFinalizer \<in> set (Finalizers (vgcMeta vgc)) \<and> \<not> IsContainOtherFinalizers (vgcMeta vgc)"

text \<open>The content was read under deletion, with the operator's finalizer only, and its group is gone.\<close>

definition orphaned ::
    "env \<Rightarrow> VolumeGroupContentReconciler \<Rightarrow> NamespacedName \<Rightarrow> VolumeGroupContent \<Rightarrow> event list \<Rightarrow> bool" where
  "orphaned env r req vgc es \<longleftrightarrow> (\<exists>class.
     EvGetVGC req (None, vgc) \<in> set es \<and>
     \<not> IsZero (DeletionTimestamp (vgcMeta vgc)) \<and>
     VgcFinalizer \<in> set (Finalizers (vgcMeta vgc)) \<and> \<not> IsContainOtherFinalizers (vgcMeta vgc) \<and>
     EvGetVGClass (deref (vgcVolumeGroupClassName (vgcSpec vgc))) (Inr class) \<in> set es \<and>
     Driver class = DriverName (vgcDriverConfig r) \<and>
     group_gone env vgc es)"

lemma orphaned_mono: "orphaned env r req vgc es \<Longrightarrow> set es \<subseteq> set es' \<Longrightarrow> orphaned env r req vgc es'"
  unfolding orphaned_def using group_gone_mono by blast

lemma released_orphaned:
  "EvGetVGC req (None, vgc) \<in> set pre \<Longrightarrow> \<not> IsZero (DeletionTimestamp (vgcMeta vgc)) \<Longrightarrow>
   EvGetVGClass (deref (vgcVolumeGroupClassName (vgcSpec vgc))) (Inr vgClass) \<in> set pre \<Longrightarrow>
   Driver vgClass = DriverName (vgcDriverConfig r) \<Longrightarrow> released_content env vgc es \<Longrightarrow> orphaned env r req vgc (pre @ es)"
  using group_gone_mono [of env vgc es "pre @ es"] unfolding orphaned_def released_content_def by auto

abbreviation destroys :: "event \<Rightarrow> bool" where
  "destroys \<equiv> within {RpcDelete, GonePVC, GoneVGC}"

text \<open>A part that keeps an order of events keeps it in the whole, when what the order asks for can lie further back.\<close>

lemma guards_history:
  assumes "guards G W t" and "guards G' W es" and "\<And>es. G' es \<Longrightarrow> G (t @ es)"
  shows "guards G W (t @ es)"
  using assms(1) by (rule guards_append) (use assms(2,3) in \<open>auto simp: guards_def\<close>)

text \<open>Whatever order of destructive events the handling of a content under deletion keeps, the reconciler keeps.\<close>

lemma VGC_Reconcile_deletion:
  assumes env: "retry_documented env" and W: "\<And>e. W e \<Longrightarrow> destroys e"
    and del: "\<And>vgc secret. gives (handleVGCWithDeletionTimestamp env r vgc secret) (\<lambda>_. guards (D vgc) W)"
    and G: "\<And>vgc vgClass pre es. EvGetVGC req (None, vgc) \<in> set pre \<Longrightarrow> \<not> IsZero (DeletionTimestamp (vgcMeta vgc)) \<Longrightarrow>
      EvGetVGClass (deref (vgcVolumeGroupClassName (vgcSpec vgc))) (Inr vgClass) \<in> set pre \<Longrightarrow>
      Driver vgClass = DriverName (vgcDriverConfig r) \<Longrightarrow> D vgc es \<Longrightarrow> G (pre @ es)"
  shows "gives (VGC_Reconcile env r req) (\<lambda>_. guards G W)"
proof -
  let ?S = "{Reading, Note, SpecVGC, StatusVGC, RpcCreate}"
  have calm: "\<not> W e" if "within ?S e" for e using that W [of e] by (auto simp: within_def)
  have quiet: "guards G W es" if "list_all (within ?S) es" for es
    by (rule guards_none) (use that calm in \<open>auto simp: list_all_iff\<close>)
  have idle: "wp m (\<lambda>_. guards G W) pre" if "does ?S m" "guards G W pre" for m :: "(Result \<times> error option) go" and pre
    by (rule wp_guards_quiet [OF that(1) calm that(2)])
  have reads: "list_all (within ?S) es" if "list_all is_read es" for es
    using that by (auto simp: list_all_iff within_def touches_Reading [symmetric])
  have own: "wp (reconcileOwnVGC env r vgc vgClass) (\<lambda>_. guards G W) pre"
    if pre: "list_all (within ?S) pre" "EvGetVGC req (None, vgc) \<in> set pre"
      "EvGetVGClass (deref (vgcVolumeGroupClassName (vgcSpec vgc))) (Inr vgClass) \<in> set pre"
      "Driver vgClass = DriverName (vgcDriverConfig r)" for vgc vgClass pre
  proof -
    have dying: "guards G W (pre @ es @ es')"
      if "\<not> IsZero (DeletionTimestamp (vgcMeta vgc))" "list_all is_read es" "guards (D vgc) W es'" for es es'
    proof -
      have "guards G W (pre @ es)" by (rule quiet) (use pre(1) reads [OF that(2)] in simp)
      then have "guards G W ((pre @ es) @ es')"
        by (rule guards_history [OF _ that(3)]) (rule G, use pre(2-4) that(1) in auto)
      then show ?thesis by simp
    qed
    have fail: "does ?S (failVGC env v e m)" for v e m by (auto intro!: frames)
    show ?thesis
      unfolding reconcileOwnVGC_def
      apply (rule wp_option)
       apply (rule wp_bind_use [OF GetSecretDataFromClass_spec]; (simp; fail)?)
       apply (intro wp_split)
         apply (rule idle [OF fail], simp add: quiet pre(1) reads)
        apply (rule idle, use env in \<open>auto intro!: emits_intro frames\<close>)[1]
        apply (simp add: quiet pre(1) reads)
       apply (rule wp_bind_use [OF del], simp add: dying)
       apply (intro wp_split wp_returnG)
         apply (simp add: dying)
        apply (rule idle [OF fail], simp add: dying)
      apply (rule idle, use env in \<open>auto intro!: emits_intro frames\<close>)[1]
      apply (simp add: quiet pre(1))
      done
  qed
  show ?thesis
    unfolding gives_def VGC_Reconcile_def
    apply (rule wp_bind_use [OF GetVGC_spec]; (simp; fail)?)
    apply (intro wp_split; (simp only: reflected_fields bindG_lift_Ret)?)
      apply (rule idle; auto intro!: quiet reads emits_intro frames)
     apply (rule idle; auto intro!: quiet reads emits_intro frames)
    apply (intro wp_split)
     apply (rule idle; auto intro!: quiet reads emits_intro frames)
    apply (rule wp_bind_use [OF GetVGClass_spec]; (simp; fail)?)
    apply (intro wp_split)
      apply (rule idle; auto intro!: quiet reads emits_intro frames)
     apply (rule idle; auto intro!: quiet reads emits_intro frames)
    apply (rule own; auto intro!: reads)
    done
qed

section \<open>The storage group goes before the content\<close>

text \<open>
  The content a deletion works on is the one it was given or the answer of the last accepted
  status update.
\<close>

definition seen_content :: "VolumeGroupContent \<Rightarrow> event list \<Rightarrow> VolumeGroupContent \<Rightarrow> bool" where
  "seen_content vgc es c \<longleftrightarrow> c = vgc \<or> (\<exists>sent. EvStatusVGC sent (None, c) \<in> set es)"

lemma seen_content_append:
  "seen_content vgc es c \<Longrightarrow> seen_content vgc (es @ es') c"
  "seen_content c es' d \<Longrightarrow> seen_content vgc es c \<Longrightarrow> seen_content vgc (es @ es') d"
  unfolding seen_content_def by auto

lemma updateVGCStatusPVList_seen:
  assumes "retry_documented env"
  shows "gives (updateVGCStatusPVList env vgc pvs) (\<lambda>x es. (\<forall>s. x \<noteq> Panic s) \<and> (\<forall>c. x = Ret (None, c) \<longrightarrow>
    (\<exists>sent. EvStatusVGC (set_PVList pvs sent) (None, c) \<in> set es)))"
  unfolding updateVGCStatusPVList_def case_return_pair return_bindG
  by (rule gives_mono [OF vgc_status.retry_spec [OF retry_VGC [OF assms]]])
    (auto simp: vgc_status.write_spec_def)

lemma RemovePVFromVGC_seen:
  assumes "retry_documented env"
  shows "gives (RemovePVFromVGC env pv vgc) (\<lambda>x es. \<forall>c. x = Ret (None, c) \<longrightarrow> seen_content vgc es c)"
  unfolding gives_def RemovePVFromVGC_def Let_def
  by (rule wp_bind_use [OF updateVGCStatusPVList_seen [OF assms]])
    (auto intro!: wp_split wp_returnG simp: seen_content_def)

lemma deletePVC_of_seen:
  assumes env: "retry_documented env"
    and k: "\<And>arr shared vgc. gives (k arr shared vgc) (\<lambda>x es. \<forall>c. x = Ret (None, c) \<longrightarrow> seen_content vgc es c)"
  shows "gives (deletePVC_of env driver pv name ns arr shared vgc k)
    (\<lambda>x es. \<forall>c. x = Ret (None, c) \<longrightarrow> seen_content vgc es c)"
  unfolding gives_def deletePVC_of_def Let_def
  apply (rule wp_bind_use [OF does_deletePVC [OF env subset_UNIV, unfolded emits_def]]; (simp; fail)?)
  apply (intro wp_split)
   apply (rule wp_bind_use [OF RemovePVFromVGC_seen [OF env]]; (simp; fail)?)
   apply (intro wp_split)
    apply (rule wp_bindG, rule wp_readG, simp only: bind_post_simps)
    apply (rule wp_use [OF k])
    apply (auto intro!: wp_returnG simp: seen_content_def)
  done

lemma DeletePVCsUnderVGC_seen:
  assumes env: "retry_documented env"
  shows "gives (DeletePVCsUnderVGC env vgc driver) (\<lambda>x es. \<forall>c. x = Ret (None, c) \<longrightarrow> seen_content vgc es c)"
proof -
  have "gives (deletePVCs_loop env driver k i arr shared vgc) (\<lambda>x es. \<forall>c. x = Ret (None, c) \<longrightarrow> seen_content vgc es c)"
    for k i arr shared vgc
  proof (induction k arbitrary: i arr shared vgc)
    case 0
    show ?case by (simp add: gives_def wp_returnG seen_content_def)
  next
    case (Suc k)
    show ?case
      unfolding gives_def deletePVCs_loop.simps Let_def getPVCNameFromPV_def getPVCNamespaceFromPV_def
        reflected_fields bindG_lift_Ret
      apply (intro wp_if)
       apply (rule wp_bind_use [OF does_getMatchingPVC [of UNIV, unfolded emits_def]]; (simp; fail)?)
       apply (intro wp_split wp_returnG; (simp; fail)?)
        apply (rule wp_use [OF Suc.IH], force simp: seen_content_def)
       apply (rule wp_use [OF deletePVC_of_seen [OF env Suc.IH]], force simp: seen_content_def)+
      done
  qed
  then show ?thesis unfolding DeletePVCsUnderVGC_def Let_def .
qed

text \<open>
  Before the content's finalizer is touched, the storage group was deleted under the handle of the
  content, or the content's policy keeps it.
\<close>

definition settled :: "VolumeGroupContent \<Rightarrow> event list \<Rightarrow> bool" where
  "settled c es \<longleftrightarrow> (\<exists>policy. vgcVolumeGroupDeletionPolicy (vgcSpec c) = Some policy \<and>
     (policy = VolumeGroupContentDelete \<longrightarrow> (\<exists>src secret. vgcSource (vgcSpec c) = Some src \<and>
        EvRpcDelete \<lparr>dreqVolumeGroupId = VolumeGroupHandle src, dreqSecrets = secret\<rparr> None \<in> set es)))"

definition storage_settled :: "VolumeGroupContent \<Rightarrow> event list \<Rightarrow> bool" where
  "storage_settled vgc es \<longleftrightarrow> (\<exists>c. seen_content vgc es c \<and> settled c es)"

lemma settled_append: "settled c es \<Longrightarrow> settled c (es @ es')"
  unfolding settled_def by fastforce

lemma storage_settled_append: "storage_settled vgc es \<Longrightarrow> storage_settled vgc (es @ es')"
  unfolding storage_settled_def using seen_content_append(1) settled_append by blast

lemma removeVGC_settled:
  assumes env: "retry_documented env" and c: "seen_content vgc pre c"
    and pre: "guards (storage_settled vgc) (within {SpecVGC}) pre"
  shows "wp (removeVGC env r c secret) (\<lambda>_. guards (storage_settled vgc) (within {SpecVGC})) pre"
proof -
  let ?Q = "\<lambda>_ :: (error option \<times> VolumeGroupContent) outcome. guards (storage_settled vgc) (within {SpecVGC})"
  have release: "wp (RemoveFinalizerFromVGC env c) ?Q es"
    if "guards (storage_settled vgc) (within {SpecVGC}) es" "storage_settled vgc es" for es
    by (rule wp_guards_after [OF does_finalizers_VGC(2) [OF env subset_UNIV]]) (use that storage_settled_append in auto)
  have rpc: "guards (storage_settled vgc) (within {SpecVGC}) (pre @ [EvRpcDelete q a])" for q a
    by (rule guards_quiet [OF pre]) simp
  have gone: "storage_settled vgc (pre @ [EvRpcDelete \<lparr>dreqVolumeGroupId = VolumeGroupHandle src, dreqSecrets = secret\<rparr> None])"
    if "vgcVolumeGroupDeletionPolicy (vgcSpec c) = Some p" "vgcSource (vgcSpec c) = Some src" for p src
    unfolding storage_settled_def settled_def using c that by (auto intro!: exI [of _ c] seen_content_append)
  have keep: "storage_settled vgc pre"
    if "vgcVolumeGroupDeletionPolicy (vgcSpec c) = Some p" "p \<noteq> VolumeGroupContentDelete" for p
    unfolding storage_settled_def settled_def using c that by (auto intro!: exI [of _ c])
  show ?thesis
    unfolding removeVGC_def deleteVG_def Let_def case_return_pair return_bindG NewVolumeGroupRequest_def
    by (auto intro!: wp_split wp_intro pre release rpc keep gone)
qed

lemma handleVGCWithDeletionTimestamp_settled:
  assumes env: "retry_documented env"
  shows "gives (handleVGCWithDeletionTimestamp env r vgc secret)
    (\<lambda>_. guards (storage_settled vgc) (within {SpecVGC}))"
proof -
  let ?Q = "\<lambda>_ :: (error option \<times> VolumeGroupContent) outcome. guards (storage_settled vgc) (within {SpecVGC})"
  let ?S = "{Reading, SpecPVC, GonePVC, StatusVGC}"
  have claims: "gives (if b then DeletePVCsUnderVGC env vgc d else returnG (None, vgc))
      (\<lambda>x es. list_all (within ?S) es \<and> (\<forall>c. x = Ret (None, c) \<longrightarrow> seen_content vgc es c))" for b d
    using gives_conj [OF does_DeletePVCsUnderVGC [OF env order_refl, unfolded emits_def] DeletePVCsUnderVGC_seen [OF env]]
    by (auto simp: gives_def seen_content_def intro!: wp_returnG)
  have quiet: "guards (storage_settled vgc) (within {SpecVGC}) (es @ es')"
    if "list_all is_read es" "list_all (within ?S) es'" for es es'
    using that by (intro guards_quiet guards_reads(1)) (auto simp: list_all_iff within_def)
  show ?thesis
    unfolding gives_def handleVGCWithDeletionTimestamp_def
    apply (rule wp_bind_use [OF IsVgExist_spec]; (simp; fail)?)
    apply (intro wp_split wp_returnG)
       apply (auto intro!: guards_reads)[2]
     apply (rule wp_bind_use [OF claims]; (simp add: quiet; fail)?)
     apply (intro wp_split wp_returnG; (simp add: quiet; fail)?)
     apply (simp only: case_return_pair return_bindG)
     apply (rule removeVGC_settled [OF env])
      apply (auto simp: quiet seen_content_def intro!: guards_reads)
    done
qed

section \<open>A storage group is created once, and announced only when recorded\<close>

lemma static_no_rpc:
  assumes "vgcSource (vgcSpec vgc) = Some src" and "VolumeGroupHandle src \<noteq> ''''"
  shows "does {Reading, SpecVGC, StatusVGC} (reconcileLiveVGC env r vgc c secret)"
proof -
  have "handleStaticProvisionedVGC env vgc = bindG (updateStaticVGC env vgc) (\<lambda>(err, vgc). returnG (err, True, vgc))"
    using assms by (simp add: handleStaticProvisionedVGC_def)
  then have "reconcileLiveVGC env r vgc c secret = bindG (updateStaticVGC env vgc) (\<lambda>(err, vgc). returnG (Result0, err))"
    by (simp add: reconcileLiveVGC_def bindG_assoc bindG_prod)
  then show ?thesis
    by (auto simp: updateStaticVGC_def reconciler_updateStaticVGCSpec_def intro!: emits_intro frames does_reads)
qed

text \<open>The driver was asked to create the group of a content, under its name, and answered with a group.\<close>

definition created :: "VolumeGroupContent \<Rightarrow> VolumeGroupClass \<Rightarrow> gomap \<Rightarrow> csi_VolumeGroup \<Rightarrow> event list \<Rightarrow> bool" where
  "created vgc vgClass secret g es \<longleftrightarrow> (\<exists>resp. crespVolumeGroup resp = Some g \<and>
     EvRpcCreate \<lparr>creqName = Name (vgcMeta vgc),
         creqParameters = FilterPrefixedParameters VGAsPrefix (classParameters vgClass), creqSecrets = secret\<rparr>
       (Some resp, None) \<in> set es)"

definition with_handle :: "csi_VolumeGroup \<Rightarrow> VolumeGroupContent \<Rightarrow> bool" where
  "with_handle g vgc \<longleftrightarrow> (\<exists>src. vgcSource (vgcSpec vgc) = Some src \<and>
     VolumeGroupHandle src = csiVolumeGroupId g \<and> VolumeGroupAttributes src = csiVolumeGroupContext g)"

text \<open>
  The content is updated only after the driver's answer, with the handle and the attributes from it.
\<close>

definition creation_order :: "VolumeGroupContent \<Rightarrow> VolumeGroupClass \<Rightarrow> gomap \<Rightarrow> event list \<Rightarrow> bool" where
  "creation_order vgc vgClass secret es \<longleftrightarrow>
     guards (\<lambda>es. \<exists>g. created vgc vgClass secret g es) (within {SpecVGC}) es \<and>
     guards (\<lambda>es. \<exists>g sent ans. created vgc vgClass secret g es \<and> with_handle g sent \<and>
        EvUpdateVGC sent (None, ans) \<in> set es) (within {StatusVGC}) es"

lemma handleCreateVG_order:
  "gives (handleCreateVG env r vgc vgClass secret) (\<lambda>x es. creation_order vgc vgClass secret es \<and>
     (\<exists>ans rest. es = EvRpcCreate \<lparr>creqName = Name (vgcMeta vgc),
         creqParameters = FilterPrefixedParameters VGAsPrefix (classParameters vgClass), creqSecrets = secret\<rparr> ans # rest \<and>
       (\<forall>e. snd ans = Some e \<longrightarrow> x = Ret (Some e, vgc) \<and> rest = [])))"
proof -
  have quiet: "list_all (within {Note}) es \<Longrightarrow> T \<inter> {Note} = {} \<Longrightarrow> guards G (within T) es" for G T es
    by (rule guards_none) (auto simp: list_all_iff within_def)
  show ?thesis
    unfolding gives_def handleCreateVG_def createVG_def NewVolumeGroupRequest_def Let_def
    apply (rule wp_bindG, rule wp_Create, simp only: bind_post_simps CommonRequestParameters.simps Response.simps)
    apply (intro wp_split wp_returnG)
    unfolding UpdateVGCByResponse_def UpdateObject_def UpdateVGCStatus_def UpdateObjectStatus_def object_defs
      client_calls GetCurrentTime_def Let_def
    apply (auto intro!: wp_split wp_intro wp_emits [OF does_notes(2) [of "{Note}"]])
          apply (auto simp: creation_order_def guards_Cons created_def with_handle_def bind_post_def quiet
            split: outcome.split intro!: wp_returnG)
    done
qed

section \<open>Contents of other drivers\<close>

definition owned_content :: "VolumeGroupContentReconciler \<Rightarrow> NamespacedName \<Rightarrow> event list \<Rightarrow> bool" where
  "owned_content r req es \<longleftrightarrow> (\<exists>vgc vgClass. EvGetVGC req (None, vgc) \<in> set es \<and>
     EvGetVGClass (deref (vgcVolumeGroupClassName (vgcSpec vgc))) (Inr vgClass) \<in> set es \<and>
     Driver vgClass = DriverName (vgcDriverConfig r))"

lemma owned_content_append: "owned_content r req es \<Longrightarrow> owned_content r req (es @ es')"
  unfolding owned_content_def by auto

lemma VGC_Reconcile_owned:
  assumes env: "retry_documented env"
  shows "gives (VGC_Reconcile env r req) (\<lambda>_. guards (owned_content r req) (within {RpcCreate, RpcDelete, SpecPVC, GonePVC}))"
proof -
  let ?quiet = "{Reading, Note, SpecVGC, StatusVGC}"
  show ?thesis
    unfolding gives_def VGC_Reconcile_def
    apply (rule wp_bind_use [OF GetVGC_spec]; (simp; fail)?)
    apply (intro wp_split; (simp only: reflected_fields bindG_lift_Ret)?)
      apply (rule wp_guards_does [of ?quiet]; auto intro!: guards_reads emits_intro frames)
     apply (rule wp_guards_does [of ?quiet]; auto intro!: guards_reads emits_intro frames)
    apply (intro wp_split)
     apply (rule wp_guards_does [of ?quiet]; auto intro!: guards_reads emits_intro frames)
    apply (rule wp_bind_use [OF GetVGClass_spec]; (simp; fail)?)
    apply (intro wp_split)
      apply (rule wp_guards_does [of ?quiet]; auto intro!: guards_reads emits_intro frames)
     apply (rule wp_guards_does [of ?quiet]; auto intro!: guards_reads emits_intro frames)
    apply (rule wp_guards_after [OF does_reconcileOwnVGC [OF env subset_UNIV]])
      apply (erule owned_content_append)
     apply (auto simp: owned_content_def intro!: guards_reads)
    done
qed

end
