(* ===== verification/VG_Spec.thy ===== *)
theory VG_Spec
  imports Membership_Spec VGC_Spec
begin

text \<open>
  The group reconciler: it leaves groups of other drivers alone, deletes a content only for a
  group that is being deleted and only under the policy Delete, announces a group only once its
  content is ready, and selects the claims of a group.
\<close>

section \<open>Groups of other drivers\<close>

text \<open>The group was read, and its class belongs to the driver.\<close>

definition owned :: "VolumeGroupReconciler \<Rightarrow> NamespacedName \<Rightarrow> event list \<Rightarrow> bool" where
  "owned r req es \<longleftrightarrow> (\<exists>vg vgClass. EvGetVG req (None, vg) \<in> set es \<and>
     EvGetVGClass (className vg) (Inr vgClass) \<in> set es \<and> Driver vgClass = DriverName (vgDriverConfig r))"

lemma owned_append: "owned r req es \<Longrightarrow> owned r req (es @ es')"
  unfolding owned_def by auto

abbreviation acts :: "event \<Rightarrow> bool" where
  "acts \<equiv> within (- {Reading, StatusVG, Note})"

lemma VG_Reconcile_owned:
  assumes env: "retry_documented env"
  shows "gives (VG_Reconcile env r req) (\<lambda>_. guards (owned r req) acts)"
proof -
  have fail: "wp (failVG env vg e reason) (\<lambda>_. guards (owned r req) acts) es" if "guards (owned r req) acts es" for vg e reason es
    by (rule wp_guards_does [OF does_failVG(1) [OF env order_refl] _ that]) simp
  show ?thesis
    unfolding gives_def VG_Reconcile_def client_calls
    apply (intro wp_bindG wp_callG, simp only: bind_post_simps)
    apply (intro wp_split wp_returnG fail; (simp add: guards_Cons; fail)?)
    apply (simp only: reflected_fields bindG_lift_Ret)
    apply (rule wp_bind_use [OF GetVGClass_spec]; (simp; fail)?)
    apply (intro wp_split wp_returnG fail; (auto simp: guards_Cons intro!: guards_reads; fail)?)
    apply (rule wp_guards_after [OF does_reconcileOwn [OF env subset_UNIV]])
      apply (erule owned_append)
     apply (auto simp: owned_def guards_Cons)
    done
qed

section \<open>Deleting a group\<close>

text \<open>
  The content of a group being deleted is settled: it does not exist, or its policy keeps it, or
  its deletion was accepted.
\<close>

definition content_key :: "VolumeGroup \<Rightarrow> NamespacedName" where
  "content_key vg = (Namespace (vgMeta vg), deref (srcVolumeGroupContentName (vgSource (vgSpec vg))))"

definition content_settled :: "env \<Rightarrow> VolumeGroup \<Rightarrow> event list \<Rightarrow> bool" where
  "content_settled env vg es \<longleftrightarrow>
     (\<exists>e c. EvGetVGC (content_key vg) (Some e, c) \<in> set es \<and> IsNotFound env e) \<or>
     (\<exists>c policy. EvGetVGC (content_key vg) (None, c) \<in> set es \<and>
        vgcVolumeGroupDeletionPolicy (vgcSpec c) = Some policy \<and>
        (policy = VolumeGroupContentDelete \<longrightarrow> EvDeleteVGC c None \<in> set es))"

text \<open>The content may be deleted: it was read as that of the group and its policy says Delete.\<close>

definition content_deletable :: "VolumeGroup \<Rightarrow> VolumeGroupContent \<Rightarrow> event list \<Rightarrow> bool" where
  "content_deletable vg c es \<longleftrightarrow> EvGetVGC (content_key vg) (None, c) \<in> set es \<and>
     vgcVolumeGroupDeletionPolicy (vgcSpec c) = Some VolumeGroupContentDelete"

lemma content_append:
  "content_settled env vg es \<Longrightarrow> content_settled env vg (es @ es')"
  "content_deletable vg c es \<Longrightarrow> content_deletable vg c (es @ es')"
  unfolding content_settled_def content_deletable_def by auto

lemma removeInstance_order:
  assumes env: "retry_documented env"
  shows "gives (removeInstance env vg) (\<lambda>_ es. guards (content_settled env vg) (within {SpecVG}) es \<and>
    guards (content_deletable vg c) (\<lambda>e. e = EvDeleteVGC c a) es)"
proof -
  let ?P = "\<lambda>es. guards (content_settled env vg) (within {SpecVG}) es \<and> guards (content_deletable vg c) (\<lambda>e. e = EvDeleteVGC c a) es"
  have release: "wp (RemoveFinalizerFromVG env vg) (\<lambda>_. ?P) es" if P: "?P es" "content_settled env vg es" for es
  proof (rule wp_emits [OF does_finalizers_VG(2) [OF env order_refl]], intro conjI)
    fix es'
    assume "list_all (within {Reading, SpecVG}) es'"
    then show "guards (content_deletable vg c) (\<lambda>e. e = EvDeleteVGC c a) (es @ es')"
      using P by (intro guards_quiet) (auto simp: list_all_iff within_def)
    show "guards (content_settled env vg) (within {SpecVG}) (es @ es')"
      using P by (intro guards_after) (auto intro: content_append)
  qed
  show ?thesis
    unfolding gives_def removeInstance_def GetVGC_of_def vgcNameOf_def reflected_fields bindG_lift_Ret GetVGC_def
      removeVGCObject_def client_calls bindG_assoc case_return_pair return_bindG
    by (auto intro!: wp_split wp_intro release
      simp: guards_Cons content_settled_def content_deletable_def content_key_def)
qed

text \<open>The content is that of a group that was read with a deletion timestamp, with the operator's finalizer and no other.\<close>

definition deleting :: "NamespacedName \<Rightarrow> VolumeGroupContent \<Rightarrow> event list \<Rightarrow> bool" where
  "deleting req c es \<longleftrightarrow> (\<exists>vg. EvGetVG req (None, vg) \<in> set es \<and>
     \<not> IsZero (DeletionTimestamp (vgMeta vg)) \<and> VGFinalizer \<in> set (Finalizers (vgMeta vg)) \<and>
     \<not> IsContainOtherFinalizers (vgMeta vg) \<and> content_deletable vg c es)"

lemma reconcileOwn_deleting:
  assumes env: "retry_documented env" and "EvGetVG req (None, vg) \<in> set pre" and pre: "guards (deleting req c) (\<lambda>e. e = EvDeleteVGC c a) pre"
  shows "wp (reconcileOwn env r vg vgClass) (\<lambda>_. guards (deleting req c) (\<lambda>e. e = EvDeleteVGC c a)) pre"
proof -
  let ?S = "{Reading, Note, SpecVG, StatusVG, SpecVGC, StatusVGC, NewVGC, SpecPVC, RpcModify}"
  have remove: "wp (removeInstance env vg) (\<lambda>_. guards (deleting req c) (\<lambda>e. e = EvDeleteVGC c a)) pre"
    if "\<not> IsZero (DeletionTimestamp (vgMeta vg))" "VGFinalizer \<in> set (Finalizers (vgMeta vg))" "\<not> IsContainOtherFinalizers (vgMeta vg)"
    apply (rule wp_use [OF removeInstance_order [OF env, of vg c a]])
    apply (rule guards_append [OF pre])
    apply (drule conjunct2, simp only:, drule guards_at, rule refl)
    using that assms(2) by (auto simp: deleting_def content_deletable_def)
  show ?thesis
    unfolding reconcileOwn_def
    apply (intro wp_split wp_returnG pre)
      apply (rule wp_guards_quiet [of "within ?S", OF _ _ pre]; use env in \<open>auto intro!: emits_intro frames\<close>)
     apply (rule wp_guards_then_quiet [where \<Phi> = "within ?S", OF remove]; use env in \<open>auto intro!: emits_intro frames\<close>)
    apply (rule wp_guards_quiet [of "within ?S", OF _ _ pre]; use env in \<open>auto intro!: emits_intro frames\<close>)
    done
qed

lemma VG_Reconcile_deletes:
  assumes env: "retry_documented env"
  shows "gives (VG_Reconcile env r req) (\<lambda>_. guards (deleting req c) (\<lambda>e. e = EvDeleteVGC c a))"
proof -
  have fail: "wp (failVG env vg e reason) (\<lambda>_. guards (deleting req c) (\<lambda>e. e = EvDeleteVGC c a)) es"
    if "guards (deleting req c) (\<lambda>e. e = EvDeleteVGC c a) es" for vg e reason es
    by (rule wp_guards_quiet [OF does_failVG(1) [OF env order_refl] _ that]) auto
  have quiet: "guards (deleting req c) (\<lambda>e. e = EvDeleteVGC c a) (EvGetVG req r # es)" if "list_all is_read es" for r es
    by (rule guards_none) (use that in \<open>auto simp: list_all_iff\<close>)
  show ?thesis
    unfolding gives_def VG_Reconcile_def client_calls
    apply (intro wp_bindG wp_callG, simp only: bind_post_simps)
    apply (intro wp_split wp_returnG fail; (simp add: guards_Cons; fail)?)
    apply (simp only: reflected_fields bindG_lift_Ret)
    apply (rule wp_bind_use [OF GetVGClass_spec]; (simp; fail)?)
    apply (intro wp_split wp_returnG fail; (simp add: quiet; fail)?)
    apply (rule reconcileOwn_deleting [OF env])
     apply (auto simp: guards_Cons)
    done
qed

section \<open>A new group waits for its content\<close>

text \<open>
  The content generated for the group was created, or existed, and was read back ready.
\<close>

definition content_ready :: "VolumeGroup \<Rightarrow> VolumeGroupClass \<Rightarrow> event list \<Rightarrow> bool" where
  "content_ready vg vgClass es \<longleftrightarrow> (\<exists>name sent err made ans.
     MakeVGName VGNamePrefix (UID (vgMeta vg)) = Inr name \<and>
     GenerateVGC name vg vgClass (fst (GetSecretCred vgClass)) (snd (GetSecretCred vgClass)) = Ret sent \<and>
     EvCreateVGC sent (err, made) \<in> set es \<and>
     EvGetVGC (Namespace (vgcMeta made), Name (vgcMeta made)) (None, ans) \<in> set es \<and>
     vgcReady (vgcStatus ans) = Some True)"

lemma content_ready_append: "content_ready vg c es \<Longrightarrow> content_ready vg c (es @ es')"
  unfolding content_ready_def by fastforce

lemma CreateVGC_spec:
  "gives (CreateVGC env sent) (\<lambda>x es. (\<forall>s. x \<noteq> Panic s) \<and> (\<exists>err made. es = [EvCreateVGC sent (err, made)] \<and>
     (\<forall>m. x = Ret (None, m) \<longrightarrow> m = made)))"
  unfolding gives_def wp_def CreateVGC_def client_calls by (auto simp: go_run split: option.splits prod.splits)

lemma isVGCReady_spec:
  "gives (isVGCReady env vgc) (\<lambda>x es. (\<forall>s. x \<noteq> Panic s) \<and> list_all is_read es \<and> (x = Ret (Inr True) \<longrightarrow>
     (\<exists>ans. EvGetVGC (Namespace (vgcMeta vgc), Name (vgcMeta vgc)) (None, ans) \<in> set es \<and> vgcReady (vgcStatus ans) = Some True)))"
  unfolding gives_def wp_def isVGCReady_def GetVGC_def client_calls
  by (auto simp: go_run split: option.splits prod.splits)

lemma GenerateVGC_run: "\<exists>spec. GenerateVGC name vg c n ns = Ret spec"
  by (simp add: GenerateVGC_def generateVGCSpec_def)

lemma reconcileDynamic_ready:
  assumes env: "retry_documented env"
  shows "gives (reconcileDynamic env r vg now c) (\<lambda>_. guards (content_ready vg c) (within {SpecVG, StatusVGC, SpecPVC, RpcModify}))"
proof -
  let ?T = "{SpecVG, StatusVGC, SpecPVC, RpcModify}"
  have fail: "wp (failVG env vg e reason) (\<lambda>_. guards G (within ?T)) es"
    if "guards G (within ?T) es" for G vg e reason es
    by (rule wp_guards_does [OF does_failVG(1) [OF env order_refl] _ that]) simp
  have work: "wp (bindG (updateItems env vg now name) (\<lambda>(err, vg). case err of Some e \<Rightarrow> returnG (Result0, Some e)
      | None \<Rightarrow> bindG (updatePVCs env r vg) (\<lambda>(err, vg). case err of Some e \<Rightarrow> returnG (Result0, Some e)
          | None \<Rightarrow> bindG (createSuccessVGEvent env vg) (\<lambda>(err, vg). case err of
              Some e \<Rightarrow> failVG env vg e vgReconcile | None \<Rightarrow> returnG (Result0, None)))))
      (\<lambda>_. guards (content_ready vg c) (within ?T)) es"
    if "content_ready vg c es" "guards (content_ready vg c) (within ?T) es" for name es
    by (rule wp_guards_after [of "within (insert Reading (- {Reading}))"])
      (use env that in \<open>auto intro!: emits_intro frames content_ready_append\<close>)
  have pre: "guards (content_ready vg c) (within ?T) (EvCreateVGC a b # es)" if "list_all is_read es" for a b es
    using that by (auto simp: guards_Cons intro!: guards_reads)
  have ready: "content_ready vg c (EvCreateVGC sent (err, made) # es)"
    if "MakeVGName VGNamePrefix (UID (vgMeta vg)) = Inr name"
      "GenerateVGC name vg c (fst (GetSecretCred c)) (snd (GetSecretCred c)) = Ret sent"
      "EvGetVGC (Namespace (vgcMeta made), Name (vgcMeta made)) (None, ans) \<in> set es"
      "vgcReady (vgcStatus ans) = Some True" for name sent err made ans es
    unfolding content_ready_def using that
    by (intro exI [of _ name] exI [of _ sent] exI [of _ err] exI [of _ made] exI [of _ ans]) simp
  have made: "wp (bindG (CreateVGC env sent) (\<lambda>(err, vgc). case err of
        Some e \<Rightarrow> failVG env vg e creatingVGC
      | None \<Rightarrow> bindG (isVGCReady env vgc) (\<lambda>res. case res of
          Inl e \<Rightarrow> failVG env vg e creatingVGC
        | Inr ready \<Rightarrow> (if \<not> ready then returnG (\<lparr>Requeue = True\<rparr>, None)
            else bindG (updateItems env vg now (Name (vgcMeta vgc))) (\<lambda>(err, vg). case err of Some e \<Rightarrow> returnG (Result0, Some e)
              | None \<Rightarrow> bindG (updatePVCs env r vg) (\<lambda>(err, vg). case err of Some e \<Rightarrow> returnG (Result0, Some e)
                | None \<Rightarrow> bindG (createSuccessVGEvent env vg) (\<lambda>(err, vg). case err of
                    Some e \<Rightarrow> failVG env vg e vgReconcile | None \<Rightarrow> returnG (Result0, None))))))))
      (\<lambda>_. guards (content_ready vg c) (within ?T)) []"
    if "MakeVGName VGNamePrefix (UID (vgMeta vg)) = Inr name"
      "GenerateVGC name vg c (fst (GetSecretCred c)) (snd (GetSecretCred c)) = Ret sent" for name sent
    apply (rule wp_bind_use [OF CreateVGC_spec]; (simp; fail)?)
    apply (elim conjE exE, simp only:)
    apply (intro wp_split fail; (simp add: pre; fail)?)
    apply (rule wp_bind_use [OF isVGCReady_spec]; (simp; fail)?)
    apply (intro wp_split fail wp_returnG work; (simp add: pre; fail)?)
    apply (auto intro!: ready [OF that])
    done
  show ?thesis
    unfolding gives_def reconcileDynamic_def
    apply (intro wp_split fail, simp)
    apply (rule wp_bindG, rule wp_liftG)
    subgoal for name n ns
      using GenerateVGC_run [of name vg c n ns] made [of name] by auto
    done
qed

section \<open>The claims of a group\<close>

text \<open>
  The groups that list a claim and those it would join, among given groups: a claim may be added
  when no group lists it and at most one selects it, or when no further group selects it.
\<close>

definition admissible :: "env \<Rightarrow> PersistentVolumeClaim \<Rightarrow> VolumeGroup list \<Rightarrow> bool" where
  "admissible env pvc vgs \<longleftrightarrow>
     (let joins = filter (\<lambda>vg. \<not> has_claim pvc vg \<and> selects_claim env pvc vg) vgs
      in joins = [] \<or> (length joins = 1 \<and> filter (has_claim pvc) vgs = []))"

lemma collectVGsForPVC_spec:
  "gives (collectVGsForPVC env pvc vgs a b) (\<lambda>x es. es = [] \<and> (\<forall>a' b'. x = Ret (a', b') \<longrightarrow>
     a' = a @ map (\<lambda>vg. Name (vgMeta vg)) (filter (has_claim pvc) vgs) \<and>
     b' = b @ map (\<lambda>vg. Name (vgMeta vg)) (filter (\<lambda>vg. \<not> has_claim pvc vg \<and> selects_claim env pvc vg) vgs)))"
proof (induction vgs arbitrary: a b)
  case Nil
  show ?case by (simp add: gives_def wp_returnG)
next
  case (Cons vg vgs)
  have choose: "gives (IsPVCMatchesVG env pvc vg) (\<lambda>x es. es = [] \<and> (\<forall>r. x = Ret r \<longrightarrow> (r = Inr True \<longleftrightarrow> selects_claim env pvc vg)))"
    unfolding gives_def wp_def
    by (auto simp: IsPVCMatchesVG_def selects_claim_def areLabelsMatchLabelSelector_def
        isSelectorMatchesLabels_def go_run split: option.split sum.splits)
  show ?case
    unfolding gives_def collectVGsForPVC.simps IsPVCInPVCList_iff has_claim_def [symmetric]
    apply (intro wp_if)
     apply (rule wp_use [OF Cons.IH], simp)
    apply (rule wp_bind_use [OF choose]; (simp; fail)?)
    apply (rule wp_use [OF Cons.IH], auto split: if_splits)
    done
qed

lemma IsPVCCanBeAddedToVG_spec:
  "gives (IsPVCCanBeAddedToVG env pvc vgs) (\<lambda>x es. es = [] \<and> (\<forall>err. x = Ret err \<longrightarrow> (err = None \<longleftrightarrow> admissible env pvc vgs)))"
  unfolding gives_def IsPVCCanBeAddedToVG_def
  apply (rule wp_bind_use [OF collectVGsForPVC_spec]; (simp; fail)?)
  apply (intro wp_split wp_returnG)
  apply (auto simp: checkIfPVCCanBeAddedToVG_None_iff admissible_def Let_def le_Suc_eq)
  done

text \<open>
  A claim taken into a group: the group's selector matches it, it is bound, its storage class is
  the driver's, and where a claim may be in one group only it is admissible among the driver's
  groups as they were listed.
\<close>

definition only_group :: "env \<Rightarrow> string \<Rightarrow> PersistentVolumeClaim \<Rightarrow> event list \<Rightarrow> bool" where
  "only_group env driver pvc es \<longleftrightarrow> (\<exists>all own. EvListVG (Inr all) \<in> set es \<and> set own \<subseteq> set all \<and>
     (\<forall>vg \<in> set own. own_group driver es vg) \<and>
     (\<forall>vg \<in> set all. vg \<notin> set own \<longrightarrow> foreign_group env driver es vg) \<and> admissible env pvc own)"

lemma only_group_mono: "only_group env driver pvc es \<Longrightarrow> set es \<subseteq> set es' \<Longrightarrow> only_group env driver pvc es'"
  unfolding only_group_def by (meson group_mono subsetD)

definition eligible :: "env \<Rightarrow> VolumeGroupReconciler \<Rightarrow> VolumeGroup \<Rightarrow> event list \<Rightarrow> PersistentVolumeClaim \<Rightarrow> bool" where
  "eligible env r vg es pvc \<longleftrightarrow> selects_claim env pvc vg \<and>
     (MultipleVGsToPVC (vgDriverConfig r) = ''true'' \<or> only_group env (DriverName (vgDriverConfig r)) pvc es)"

lemma eligible_mono: "eligible env r vg es pvc \<Longrightarrow> set es \<subseteq> set es' \<Longrightarrow> eligible env r vg es' pvc"
  unfolding eligible_def using only_group_mono by blast

lemma isPVCCanBeAddedToVG_spec:
  "gives (isPVCCanBeAddedToVG env r pvc) (\<lambda>x es. x = Ret None \<longrightarrow>
     MultipleVGsToPVC (vgDriverConfig r) = ''true'' \<or> only_group env (DriverName (vgDriverConfig r)) pvc es)"
  unfolding gives_def isPVCCanBeAddedToVG_def
  apply (intro wp_if wp_returnG, simp)
  apply (rule wp_bind_use [OF GetVGList_spec]; (simp; fail)?)
  apply (intro wp_split wp_returnG, simp)
  apply (rule wp_use [OF IsPVCCanBeAddedToVG_spec])
  apply (auto simp: only_group_def)
  done

lemma isPVCShouldBeInVg_spec:
  "gives (isPVCShouldBeInVg env r vg pvc) (\<lambda>x es. x = Ret (Inr True) \<longrightarrow> eligible env r vg es pvc)"
proof -
  have choose: "gives (IsPVCMatchesVG env pvc vg) (\<lambda>x es. es = [] \<and> (x = Ret (Inr True) \<longrightarrow> selects_claim env pvc vg))"
    unfolding gives_def wp_def
    by (auto simp: IsPVCMatchesVG_def selects_claim_def areLabelsMatchLabelSelector_def
        isSelectorMatchesLabels_def go_run split: option.split sum.splits)
  show ?thesis
    unfolding gives_def isPVCShouldBeInVg_def
    apply (rule wp_try_use [OF choose]; (simp; fail)?)
    apply (intro wp_split wp_returnG; (simp; fail)?)
    apply (rule wp_bind_use [OF isPVCCanBeAddedToVG_spec]; (simp; fail)?)
    apply (intro wp_split wp_returnG; simp add: eligible_def)
    done
qed

lemma collectMatchingPVCs_spec:
  "gives (collectMatchingPVCs env r vg pvcs acc) (\<lambda>x es. \<forall>ys. x = Ret (Inr ys) \<longrightarrow>
     (\<exists>zs. ys = acc @ zs \<and> subseq zs pvcs \<and> (distinct (map pvc_key acc) \<longrightarrow> distinct (map pvc_key ys)) \<and>
       (\<forall>pvc \<in> set zs. eligible env r vg es pvc)))"
proof (induction pvcs arbitrary: acc)
  case Nil
  show ?case by (simp add: gives_def wp_returnG)
next
  case (Cons pvc pvcs)
  have handled: "gives (IsPVCNeedToBeHandled env pvc d) (\<lambda>_ _. True)" for d
    by (rule gives_mono [OF does_IsPVCNeedToBeHandled [of UNIV, unfolded emits_def]]) simp_all
  have step: "\<exists>zs. ys = acc @ zs \<and> subseq zs (pvc # pvcs) \<and> (distinct (map pvc_key acc) \<longrightarrow> distinct (map pvc_key ys)) \<and>
      (\<forall>pvc \<in> set zs. eligible env r vg ((es @ es') @ es'') pvc)"
    if "b \<longrightarrow> eligible env r vg es pvc" "ys = (if b \<and> pvc_key pvc \<notin> pvc_key ` set acc \<and> h then acc @ [pvc] else acc) @ zs"
      "subseq zs pvcs" "\<forall>pvc \<in> set zs. eligible env r vg es'' pvc"
      "distinct (map pvc_key (if b \<and> pvc_key pvc \<notin> pvc_key ` set acc \<and> h then acc @ [pvc] else acc)) \<longrightarrow> distinct (map pvc_key ys)"
    for b h ys zs es es' es''
    using that
    by (intro exI [of _ "if b \<and> pvc_key pvc \<notin> pvc_key ` set acc \<and> h then pvc # zs else zs"])
      (auto intro: eligible_mono split: if_splits)
  show ?case
    unfolding gives_def collectMatchingPVCs.simps
    apply (rule wp_try_use [OF isPVCShouldBeInVg_spec]; (simp; fail)?)
    apply (rule wp_try_use [OF handled]; (simp; fail)?)
    apply (rule wp_use [OF Cons.IH])
    apply (intro allI impI)
    subgoal premises prems for b es h es' x es'' ys
    proof -
      from prems obtain zs where "ys = (if b \<and> pvc_key pvc \<notin> pvc_key ` set acc \<and> h then acc @ [pvc] else acc) @ zs"
          "subseq zs pvcs" "\<forall>pvc \<in> set zs. eligible env r vg es'' pvc"
          "distinct (map pvc_key (if b \<and> pvc_key pvc \<notin> pvc_key ` set acc \<and> h then acc @ [pvc] else acc)) \<longrightarrow> distinct (map pvc_key ys)"
        by auto
      moreover from prems have "b \<longrightarrow> eligible env r vg es pvc" by simp
      ultimately show ?thesis using step [of b es ys h zs es'' es'] by simp
    qed
    done
qed

lemma getMatchingPVCs_spec:
  "gives (getMatchingPVCs env r vg) (\<lambda>x es. \<forall>ys. x = Ret (Inr ys) \<longrightarrow> distinct (map pvc_key ys) \<and>
     (\<forall>pvc \<in> set ys. eligible env r vg es pvc \<and> PVCPhase pvc = ClaimBound \<and>
        own_claim (DriverName (vgDriverConfig r)) es pvc))"
  unfolding gives_def getMatchingPVCs_def
  apply (rule wp_try_use [OF GetPVCList_spec]; (simp; fail)?)
  apply (rule wp_use [OF collectMatchingPVCs_spec])
  apply (intro allI impI conjI ballI)
     apply force
    apply (force intro: eligible_mono)
   apply (fastforce dest: set_subseq)
  subgoal premises prems for pvcs es x es' ys pvc
  proof -
    have "own_claim (DriverName (vgDriverConfig r)) es pvc"
      using prems set_subseq by fastforce
    then show ?thesis by (rule own_claim_mono) simp
  qed
  done

section \<open>The content of a new group\<close>

lemma MakeVGName_iff:
  "MakeVGName VGNamePrefix uid = Inr name \<longleftrightarrow> uid \<noteq> '''' \<and> name = VGNamePrefix @ ''-'' @ uid"
  by (auto simp: MakeVGName_def VGNamePrefix_def)

text \<open>
  The content generated for a group refers back to it, names the class and its driver, takes the
  policy of the class or Delete, and has no handle yet.
\<close>

definition content_for :: "VolumeGroup \<Rightarrow> VolumeGroupClass \<Rightarrow> VolumeGroupContent \<Rightarrow> bool" where
  "content_for vg vgClass vgc \<longleftrightarrow>
     Namespace (vgcMeta vgc) = Namespace (vgMeta vg) \<and> DeletionTimestamp (vgcMeta vgc) = None \<and>
     vgcVolumeGroupClassName (vgcSpec vgc) = Some (className vg) \<and>
     (\<exists>ref. VolumeGroupRef (vgcSpec vgc) = Some ref \<and> refName ref = Name (vgMeta vg) \<and>
        refNamespace ref = Namespace (vgMeta vg) \<and> refUID ref = UID (vgMeta vg)) \<and>
     (\<exists>src. vgcSource (vgcSpec vgc) = Some src \<and> srcDriver src = Driver vgClass \<and> VolumeGroupHandle src = '''') \<and>
     vgcVolumeGroupDeletionPolicy (vgcSpec vgc) =
       Some (case classVolumeGroupDeletionPolicy vgClass of None \<Rightarrow> VolumeGroupContentDelete | Some p \<Rightarrow> p)"

lemma GenerateVGC_content:
  "GenerateVGC name vg vgClass n ns = Ret vgc \<Longrightarrow> content_for vg vgClass vgc \<and> Name (vgcMeta vgc) = name"
  by (auto simp: GenerateVGC_def generateVGCSpec_def content_for_def generateObjectReference_def
      generateVGCSource_def getVolumeGroupDeletionPolicy_def zero_values split: option.split)

section \<open>Start-up\<close>

text \<open>The history after \<open>n\<close> attempts to list a resource, and the answer to the next one.\<close>

fun listings :: "env \<Rightarrow> string \<Rightarrow> history \<Rightarrow> nat \<Rightarrow> history" where
  "listings env name t 0 = t"
| "listings env name t (Suc n) =
     listings env name (t @ [EvListCRD name (srv_List_CRD (api env) name t)]) n"

definition listing :: "env \<Rightarrow> string \<Rightarrow> history \<Rightarrow> nat \<Rightarrow> error option" where
  "listing env name t n = srv_List_CRD (api env) name (listings env name t n)"

definition still_missing :: "env \<Rightarrow> error option \<Rightarrow> bool" where
  "still_missing env err \<longleftrightarrow> (\<exists>e. err = Some e \<and> lib_IsNoMatchError (lib env) e)"

lemma waitForVGResource_run:
  assumes "\<forall>i < n. still_missing env (listing env name t i)" and "\<not> still_missing env (listing env name t n)"
  shows "waitForVGResource env (Suc n + k) name t = (Ret (Some (listing env name t n)), listings env name t (Suc n))"
  using assms
proof (induction n arbitrary: t)
  case 0
  then show ?case
    by (auto simp: listing_def still_missing_def client_calls go_run split: option.split)
next
  case (Suc n)
  have "still_missing env (srv_List_CRD (api env) name t)" using Suc.prems(1) by (force simp: listing_def)
  moreover have "waitForVGResource env (Suc n + k) name (t @ [EvListCRD name (srv_List_CRD (api env) name t)]) =
      (Ret (Some (listing env name t (Suc n))), listings env name t (Suc (Suc n)))"
    using Suc.IH [of "t @ [EvListCRD name (srv_List_CRD (api env) name t)]"] Suc.prems
    by (force simp: listing_def)
  ultimately show ?case
    by (auto simp: still_missing_def client_calls go_run)
qed

lemma waitForVGResource_spec:
  "gives (waitForVGResource env fuel name) (\<lambda>x es. list_all is_read es \<and> (x = Ret (Some None) \<longrightarrow> EvListCRD name None \<in> set es))"
proof (induction fuel)
  case 0
  show ?case by (simp add: gives_def wp_returnG)
next
  case (Suc fuel)
  show ?case
    unfolding gives_def waitForVGResource.simps client_calls
    apply (intro wp_bindG wp_callG, simp only: bind_post_simps)
    apply (intro wp_split wp_returnG; (simp; fail)?)
    apply (rule wp_use [OF Suc], simp)
    done
qed

lemma waitForCrds_from_spec:
  "gives (waitForCrds_from env fuel names) (\<lambda>x es. list_all is_read es \<and>
     (x = Ret (Some None) \<longrightarrow> (\<forall>name \<in> set names. EvListCRD name None \<in> set es)))"
proof (induction names)
  case Nil
  show ?case by (simp add: gives_def wp_returnG)
next
  case (Cons name names)
  show ?case
    unfolding gives_def waitForCrds_from.simps
    apply (rule wp_bind_use [OF waitForVGResource_spec]; (simp; fail)?)
    apply (intro wp_split wp_returnG; (simp; fail)?)
    apply (rule wp_use [OF Cons], simp)
    done
qed

end
