(* ===== verification/Sample_Cluster.thy ===== *)
theory Sample_Cluster
  imports VG_Spec
begin

text \<open>
  A concrete environment in which the operator runs: an API server that keeps every accepted
  write, answers reads from what it keeps and refuses writes of stale objects, a driver that
  accepts every request, and library functions as documented. The witnesses evaluate the model in it.
\<close>

section \<open>Library functions\<close>

fun sample_reason :: "error \<Rightarrow> string" where
  "sample_reason (StatusError reason m) = reason"
| "sample_reason (Wrapped p e) = sample_reason e"
| "sample_reason _ = ''''"

definition sample_IsConflict :: "error \<Rightarrow> bool" where
  "sample_IsConflict e \<longleftrightarrow> sample_reason e = ''Conflict''"

definition sample_requirement :: "gomap \<Rightarrow> LabelSelectorRequirement \<Rightarrow> bool" where
  "sample_requirement labels q =
     (if reqOperator q = ''In'' then (\<exists>v \<in> set (reqValues q). map_of labels (reqKey q) = Some v)
      else if reqOperator q = ''NotIn'' then (\<forall>v \<in> set (reqValues q). map_of labels (reqKey q) \<noteq> Some v)
      else if reqOperator q = ''Exists'' then map_of labels (reqKey q) \<noteq> None
      else map_of labels (reqKey q) = None)"

definition sample_selector :: "LabelSelector \<Rightarrow> error + (gomap \<Rightarrow> bool)" where
  "sample_selector sel =
     (if \<forall>q \<in> set (MatchExpressions sel). reqOperator q \<in> {''In'', ''NotIn'', ''Exists'', ''DoesNotExist''}
      then Inr (\<lambda>labels. (\<forall>(k, v) \<in> set (MatchLabels sel). map_of labels k = Some v) \<and>
             (\<forall>q \<in> set (MatchExpressions sel). sample_requirement labels q))
      else Inl (ErrorString ''not a valid label selector operator''))"

definition sample_library :: library where
  "sample_library = \<lparr>
     lib_IsNotFound = (\<lambda>e. sample_reason e = ''NotFound''),
     lib_IsConflict = sample_IsConflict,
     lib_IsAlreadyExists = (\<lambda>e. sample_reason e = ''AlreadyExists''),
     lib_IsNoMatchError = (\<lambda>e. sample_reason e = ''NoMatch''),
     lib_FromError = (\<lambda>e. case e of GRPCError code m text \<Rightarrow> Some (code, m) | _ \<Rightarrow> None),
     lib_LabelSelectorAsSelector = sample_selector,
     lib_Diff_SortSlices = (\<lambda>less x y. if length x = length y \<and> fold remove1 x y = [] then '''' else ''diff''),
     lib_Version = (\<lambda>tm. ''v1''),
     lib_ObjectKind_String = Kind,
     lib_RetryOnConflict_VG = attempts (is_err sample_IsConflict) 4,
     lib_RetryOnConflict_VGC = attempts (is_err sample_IsConflict) 4,
     lib_RetryOnConflict_PVC = attempts (is_err sample_IsConflict) 4,
     lib_decode_in_place = (\<lambda>t. True),
     lib_Now = (\<lambda>t. 100 + length t),
     lib_Intn = (\<lambda>t n i. i mod n)\<rparr>"

section \<open>The API server\<close>

record cluster =
  clusterVGs :: "VolumeGroup list"
  clusterVGCs :: "VolumeGroupContent list"
  clusterPVCs :: "PersistentVolumeClaim list"
  clusterPVs :: "PersistentVolume list"
  clusterSCs :: "StorageClass list"
  clusterClasses :: "VolumeGroupClass list"
  clusterSecrets :: "(NamespacedName \<times> Secret) list"

definition vg_key :: "VolumeGroup \<Rightarrow> NamespacedName" where
  "vg_key vg = (Namespace (vgMeta vg), Name (vgMeta vg))"

definition vgc_key :: "VolumeGroupContent \<Rightarrow> NamespacedName" where
  "vgc_key vgc = (Namespace (vgcMeta vgc), Name (vgcMeta vgc))"

definition replace_by :: "('a \<Rightarrow> 'k) \<Rightarrow> 'a \<Rightarrow> 'a list \<Rightarrow> 'a list" where
  "replace_by key x xs = map (\<lambda>y. if key y = key x then x else y) xs"

text \<open>
  A write of an object under deletion whose last finalizer is gone removes it; a delete of an
  object with finalizers sets its deletion timestamp.
\<close>

definition gone :: "ObjectMeta \<Rightarrow> bool" where
  "gone m \<longleftrightarrow> DeletionTimestamp m \<noteq> None \<and> Finalizers m = []"

fun apply_event :: "event \<Rightarrow> cluster \<Rightarrow> cluster" where
  "apply_event (EvUpdateVG sent (None, ans)) c = c\<lparr>clusterVGs := filter (\<lambda>vg. \<not> gone (vgMeta vg)) (replace_by vg_key ans (clusterVGs c))\<rparr>"
| "apply_event (EvStatusVG sent (None, ans)) c = c\<lparr>clusterVGs := replace_by vg_key ans (clusterVGs c)\<rparr>"
| "apply_event (EvUpdateVGC sent (None, ans)) c = c\<lparr>clusterVGCs := filter (\<lambda>vgc. \<not> gone (vgcMeta vgc)) (replace_by vgc_key ans (clusterVGCs c))\<rparr>"
| "apply_event (EvStatusVGC sent (None, ans)) c = c\<lparr>clusterVGCs := replace_by vgc_key ans (clusterVGCs c)\<rparr>"
| "apply_event (EvCreateVGC sent (None, ans)) c = c\<lparr>clusterVGCs := clusterVGCs c @ [ans]\<rparr>"
| "apply_event (EvUpdatePVC sent (None, ans)) c = c\<lparr>clusterPVCs := filter (\<lambda>pvc. \<not> gone (PVCMeta pvc)) (replace_by pvc_key ans (clusterPVCs c))\<rparr>"
| "apply_event (EvDeletePVC pvc None) c = c\<lparr>clusterPVCs := filter (\<lambda>p. \<not> gone (PVCMeta p))
     (map (\<lambda>p. if pvc_key p = pvc_key pvc then p\<lparr>PVCMeta := (PVCMeta p)\<lparr>DeletionTimestamp := Some 1\<rparr>\<rparr> else p) (clusterPVCs c))\<rparr>"
| "apply_event (EvDeleteVGC vgc None) c = c\<lparr>clusterVGCs := filter (\<lambda>p. \<not> gone (vgcMeta p))
     (map (\<lambda>p. if vgc_key p = vgc_key vgc then p\<lparr>vgcMeta := (vgcMeta p)\<lparr>DeletionTimestamp := Some 1\<rparr>\<rparr> else p) (clusterVGCs c))\<rparr>"
| "apply_event _ c = c"

definition cluster_after :: "cluster \<Rightarrow> history \<Rightarrow> cluster" where
  "cluster_after c t = fold apply_event t c"

definition NotFound :: error where
  "NotFound = StatusError ''NotFound'' ''not found''"

definition answer_Get :: "('a \<Rightarrow> 'k) \<Rightarrow> 'k \<Rightarrow> 'a list \<Rightarrow> 'a \<Rightarrow> error option \<times> 'a" where
  "answer_Get key k xs obj = (case filter (\<lambda>x. key x = k) xs of [] \<Rightarrow> (Some NotFound, obj) | x # _ \<Rightarrow> (None, x))"

definition answer_Find :: "('a \<Rightarrow> 'k) \<Rightarrow> 'k \<Rightarrow> 'a list \<Rightarrow> error + 'a" where
  "answer_Find key k xs = (case filter (\<lambda>x. key x = k) xs of [] \<Rightarrow> Inl NotFound | x # _ \<Rightarrow> Inr x)"

text \<open>
  A write is refused when the object is unknown or its resource version is not the stored one. An
  accepted write that changes nothing keeps the resource version, any other one changes it; a
  write of the object leaves the status alone and a write of the status changes nothing else.
\<close>

definition answer_Update :: "('a \<Rightarrow> 'k) \<Rightarrow> ('a \<Rightarrow> ObjectMeta) \<Rightarrow> ((ObjectMeta \<Rightarrow> ObjectMeta) \<Rightarrow> 'a \<Rightarrow> 'a) \<Rightarrow>
    ('a \<Rightarrow> 'a \<Rightarrow> 'a) \<Rightarrow> 'a list \<Rightarrow> 'a \<Rightarrow> error option \<times> 'a" where
  "answer_Update key meta upd merge xs obj =
     (case filter (\<lambda>x. key x = key obj) xs of
        [] \<Rightarrow> (Some NotFound, obj)
      | x # _ \<Rightarrow>
          (if ResourceVersion (meta x) \<noteq> ResourceVersion (meta obj) then (Some (StatusError ''Conflict'' ''conflict''), obj)
           else if merge x obj = x then (None, x)
           else (None, upd (\<lambda>m. m\<lparr>ResourceVersion := CHR ''i'' # ResourceVersion m\<rparr>) (merge x obj))))"

definition upd_vg :: "(ObjectMeta \<Rightarrow> ObjectMeta) \<Rightarrow> VolumeGroup \<Rightarrow> VolumeGroup" where
  "upd_vg f vg = vg\<lparr>vgMeta := f (vgMeta vg)\<rparr>"

definition upd_vgc :: "(ObjectMeta \<Rightarrow> ObjectMeta) \<Rightarrow> VolumeGroupContent \<Rightarrow> VolumeGroupContent" where
  "upd_vgc f vgc = vgc\<lparr>vgcMeta := f (vgcMeta vgc)\<rparr>"

definition upd_pvc :: "(ObjectMeta \<Rightarrow> ObjectMeta) \<Rightarrow> PersistentVolumeClaim \<Rightarrow> PersistentVolumeClaim" where
  "upd_pvc f pvc = pvc\<lparr>PVCMeta := f (PVCMeta pvc)\<rparr>"

definition sample_server :: "cluster \<Rightarrow> api_server" where
  "sample_server c = \<lparr>
     srv_Get_VG = (\<lambda>k obj t. answer_Get vg_key k (clusterVGs (cluster_after c t)) obj),
     srv_Get_VGC = (\<lambda>k obj t. answer_Get vgc_key k (clusterVGCs (cluster_after c t)) obj),
     srv_Get_PVC = (\<lambda>k obj t. answer_Get pvc_key k (clusterPVCs (cluster_after c t)) obj),
     srv_Get_PV = (\<lambda>n t. answer_Find pv_name n (clusterPVs c)),
     srv_Get_SC = (\<lambda>n t. answer_Find SCName n (clusterSCs c)),
     srv_Get_VGClass = (\<lambda>n t. answer_Find (\<lambda>x. Name (classMeta x)) n (clusterClasses c)),
     srv_Get_Secret = (\<lambda>k t. case map_of (clusterSecrets c) k of None \<Rightarrow> Inl NotFound | Some s \<Rightarrow> Inr s),
     srv_List_VG = (\<lambda>t. Inr (clusterVGs (cluster_after c t))),
     srv_List_PVC = (\<lambda>t. Inr (clusterPVCs (cluster_after c t))),
     srv_List_CRD = (\<lambda>n t. None),
     srv_Update_VG = (\<lambda>obj t. answer_Update vg_key vgMeta upd_vg (\<lambda>x y. y\<lparr>vgStatus := vgStatus x\<rparr>) (clusterVGs (cluster_after c t)) obj),
     srv_Update_VGC = (\<lambda>obj t. answer_Update vgc_key vgcMeta upd_vgc (\<lambda>x y. y\<lparr>vgcStatus := vgcStatus x\<rparr>) (clusterVGCs (cluster_after c t)) obj),
     srv_Update_PVC = (\<lambda>obj t. answer_Update pvc_key PVCMeta upd_pvc (\<lambda>x y. y) (clusterPVCs (cluster_after c t)) obj),
     srv_Status_VG = (\<lambda>obj t. answer_Update vg_key vgMeta upd_vg (\<lambda>x y. x\<lparr>vgStatus := vgStatus y\<rparr>) (clusterVGs (cluster_after c t)) obj),
     srv_Status_VGC = (\<lambda>obj t. answer_Update vgc_key vgcMeta upd_vgc (\<lambda>x y. x\<lparr>vgcStatus := vgcStatus y\<rparr>) (clusterVGCs (cluster_after c t)) obj),
     srv_Create_VGC = (\<lambda>obj t. if vgc_key obj \<in> vgc_key ` set (clusterVGCs (cluster_after c t))
        then (Some (StatusError ''AlreadyExists'' ''''), obj) else (None, obj)),
     srv_Create_Event = (\<lambda>ev t. None),
     srv_Delete_VGC = (\<lambda>obj t. if vgc_key obj \<in> vgc_key ` set (clusterVGCs (cluster_after c t)) then None else Some NotFound),
     srv_Delete_PVC = (\<lambda>obj t. if pvc_key obj \<in> pvc_key ` set (clusterPVCs (cluster_after c t)) then None else Some NotFound)\<rparr>"

definition sample_driver :: csi_driver where
  "sample_driver = \<lparr>
     drv_CreateVolumeGroup = (\<lambda>timeout req t.
        (Some \<lparr>crespVolumeGroup = Some \<lparr>csiVolumeGroupId = ''id'', csiVolumeGroupContext = []\<rparr>\<rparr>, None)),
     drv_DeleteVolumeGroup = (\<lambda>timeout req t. None),
     drv_ModifyVolumeGroupMembership = (\<lambda>timeout req t. None)\<rparr>"

definition sample_env :: "cluster \<Rightarrow> env" where
  "sample_env c = \<lparr>api = sample_server c, csi = sample_driver, lib = sample_library\<rparr>"

lemma sample_retry: "retry_documented (sample_env c)"
  unfolding retry_documented_def retries_on_conflict_def sample_env_def sample_library_def
  by (simp, blast)

section \<open>Objects\<close>

definition meta :: "string \<Rightarrow> string list \<Rightarrow> ObjectMeta" where
  "meta name fs = ObjectMeta0\<lparr>Name := name, Namespace := ''n'', UID := name, Finalizers := fs, Labels := [(''l'', ''x'')]\<rparr>"

definition sample_class :: VolumeGroupClass where
  "sample_class = \<lparr>classTypeMeta = TypeMeta0, classMeta = meta ''c'' [], Driver = ''d'',
     classParameters = [(''p'', ''v'')], classVolumeGroupDeletionPolicy = None, classSupportVolumeGroupSnapshot = None\<rparr>"

definition sample_pv :: "string \<Rightarrow> string \<Rightarrow> PersistentVolume" where
  "sample_pv name claim = \<lparr>PVMeta = ObjectMeta0\<lparr>Name := name\<rparr>, PVCSI = Some (''h'' @ name),
     PVClaimRef = Some \<lparr>refKind = '''', refNamespace = ''n'', refName = claim, refUID = '''', refAPIVersion = '''', refResourceVersion = ''''\<rparr>,
     PVRest = ''''\<rparr>"

definition sample_pvc :: "string \<Rightarrow> string list \<Rightarrow> string \<Rightarrow> PersistentVolumeClaim" where
  "sample_pvc name fs volume = PersistentVolumeClaim0\<lparr>PVCMeta := meta name fs, PVCStorageClassName := Some ''s'',
     PVCVolumeName := volume, PVCPhase := ClaimBound\<rparr>"

definition sample_vg :: "string list \<Rightarrow> string option \<Rightarrow> PersistentVolumeClaim list \<Rightarrow> VolumeGroup" where
  "sample_vg fs content pvcs = VolumeGroup0\<lparr>vgMeta := meta ''g'' fs,
     vgSpec := \<lparr>vgVolumeGroupClassName = Some ''c'', vgSource = \<lparr>srcVolumeGroupContentName = content,
       Selector = Some \<lparr>MatchLabels = [(''l'', ''x'')], MatchExpressions = []\<rparr>\<rparr>\<rparr>,
     vgStatus := (vgStatus VolumeGroup0)\<lparr>PVCList := pvcs\<rparr>\<rparr>"

definition sample_vgc :: "string list \<Rightarrow> string \<Rightarrow> PersistentVolume list \<Rightarrow> VolumeGroupContent" where
  "sample_vgc fs handle pvs = VolumeGroupContent0\<lparr>vgcMeta := meta ''k'' fs,
     vgcSpec := \<lparr>vgcVolumeGroupClassName = Some ''c'',
       VolumeGroupRef = Some \<lparr>refKind = '''', refNamespace = ''n'', refName = ''g'', refUID = '''', refAPIVersion = '''', refResourceVersion = ''''\<rparr>,
       vgcSource = Some \<lparr>srcDriver = ''d'', VolumeGroupHandle = handle, VolumeGroupAttributes = []\<rparr>,
       vgcVolumeGroupDeletionPolicy = Some VolumeGroupContentDelete, SupportVolumeGroupSnapshot = None,
       VolumeGroupSecretRef = None\<rparr>,
     vgcStatus := (vgcStatus VolumeGroupContent0)\<lparr>PVList := pvs\<rparr>\<rparr>"

definition dying :: "VolumeGroupContent \<Rightarrow> VolumeGroupContent" where
  "dying vgc = vgc\<lparr>vgcMeta := (vgcMeta vgc)\<lparr>DeletionTimestamp := Some 1\<rparr>\<rparr>"

definition sample_cluster :: "VolumeGroup list \<Rightarrow> VolumeGroupContent list \<Rightarrow> PersistentVolumeClaim list \<Rightarrow> PersistentVolume list \<Rightarrow> cluster" where
  "sample_cluster vgs vgcs pvcs pvs = \<lparr>clusterVGs = vgs, clusterVGCs = vgcs, clusterPVCs = pvcs, clusterPVs = pvs,
     clusterSCs = [\<lparr>SCName = ''s'', Provisioner = ''d'', SCParameters = []\<rparr>], clusterClasses = [sample_class], clusterSecrets = []\<rparr>"

definition sample_config :: DriverConfig where
  "sample_config = \<lparr>DriverEndpoint = '''', DriverName = ''d'', RPCTimeout = 60, MultipleVGsToPVC = ''false'', DisableDeletePvcs = ''false''\<rparr>"

definition sample_VG_reconciler :: VolumeGroupReconciler where
  "sample_VG_reconciler = \<lparr>vgDriverConfig = sample_config, vgVGClient = NewVolumeGroupClient 60\<rparr>"

definition sample_VGC_reconciler :: VolumeGroupContentReconciler where
  "sample_VGC_reconciler = \<lparr>vgcDriverConfig = sample_config, vgcVGClient = NewVolumeGroupClient 60\<rparr>"

end
