(* ===== verification/Deletion_Spec.thy ===== *)
theory Deletion_Spec
  imports VGC_Spec
begin

text \<open>
  What exactly the content reconciler destroys: the storage group it asks the driver to delete is
  that of a content whose group is gone, under the handle that content has, and a claim it deletes
  is the one that a volume in that content's list is bound to.
\<close>

section \<open>Every run up to an event\<close>

lemma gives_from:
  assumes "emits \<Phi> m" and "\<And>pre. K pre \<Longrightarrow> wp m Q pre"
  shows "gives m (\<lambda>x es. list_all \<Phi> es \<and> (\<forall>pre. K pre \<longrightarrow> Q x (pre @ es)))"
  using assms unfolding emits_def gives_def wp_def by (metis append_Nil same_append_eq)

lemma guards_snoc:
  "guards G W es \<Longrightarrow> (W e \<Longrightarrow> G es) \<Longrightarrow> guards G W (es @ [e])"
  by (erule guards_append) (auto simp: Cons_eq_append_conv)

section \<open>The storage group\<close>

lemma seen_content_mono: "seen_content vgc es c \<Longrightarrow> set es \<subseteq> set es' \<Longrightarrow> seen_content vgc es' c"
  unfolding seen_content_def by blast

text \<open>The request names the handle of such a content, whose policy is Delete.\<close>

definition condemned ::
    "env \<Rightarrow> VolumeGroupContentReconciler \<Rightarrow> NamespacedName \<Rightarrow> DeleteVolumeGroupRequest \<Rightarrow> event list \<Rightarrow> bool" where
  "condemned env r req q es \<longleftrightarrow> (\<exists>vgc c src. orphaned env r req vgc es \<and> seen_content vgc es c \<and>
     vgcVolumeGroupDeletionPolicy (vgcSpec c) = Some VolumeGroupContentDelete \<and>
     vgcSource (vgcSpec c) = Some src \<and> dreqVolumeGroupId q = VolumeGroupHandle src)"

lemma condemned_mono: "condemned env r req q es \<Longrightarrow> set es \<subseteq> set es' \<Longrightarrow> condemned env r req q es'"
  unfolding condemned_def using orphaned_mono seen_content_mono by blast

section \<open>The claims\<close>

text \<open>The claim a volume is bound to: its claim reference, or else a listed claim that names the volume.\<close>

definition claim_of :: "PersistentVolume \<Rightarrow> event list \<Rightarrow> NamespacedName \<Rightarrow> bool" where
  "claim_of pv es key \<longleftrightarrow> (\<exists>ref. PVClaimRef pv = Some ref \<and> key = (refNamespace ref, refName ref)) \<or>
     (\<exists>pvcs pvc. EvListPVC (Inr pvcs) \<in> set es \<and> pvc \<in> set pvcs \<and> PVCVolumeName pvc = Name (PVMeta pv) \<and> key = pvc_key pvc)"

text \<open>The claim was read under the key of a volume of the content, or is the answer to an accepted update.\<close>

definition doomed_claim :: "VolumeGroupContent \<Rightarrow> PersistentVolumeClaim \<Rightarrow> event list \<Rightarrow> bool" where
  "doomed_claim vgc pvc es \<longleftrightarrow> (\<exists>c pv key p. seen_content vgc es c \<and> pv \<in> set (PVList (vgcStatus c)) \<and>
     claim_of pv es key \<and> EvGetPVC key (None, p) \<in> set es \<and>
     (pvc = p \<or> (\<exists>sent. EvUpdatePVC sent (None, pvc) \<in> set es)))"

definition condemned_claim ::
    "env \<Rightarrow> VolumeGroupContentReconciler \<Rightarrow> NamespacedName \<Rightarrow> PersistentVolumeClaim \<Rightarrow> event list \<Rightarrow> bool" where
  "condemned_claim env r req pvc es \<longleftrightarrow> (\<exists>vgc. orphaned env r req vgc es \<and> doomed_claim vgc pvc es)"

lemma claim_of_mono: "claim_of pv es key \<Longrightarrow> set es \<subseteq> set es' \<Longrightarrow> claim_of pv es' key"
  unfolding claim_of_def by blast

lemma RemoveFinalizerFromPVC_answer:
  assumes env: "retry_documented env"
  shows "gives (RemoveFinalizerFromPVC env driver pvc) (\<lambda>x es. \<forall>p. x = Ret (None, p) \<longrightarrow>
    p = pvc \<or> (\<exists>sent. EvUpdatePVC sent (None, p) \<in> set es))"
proof -
  have update: "gives (updateFinalizer env (PVC_object env) fs obj) (\<lambda>x es. \<forall>p. x = Ret (None, p) \<longrightarrow>
      (\<exists>sent. EvUpdatePVC sent (None, p) \<in> set es))" for fs obj
    unfolding updateFinalizer_def object_retry
    by (rule gives_mono [OF pvc_finalizers.retry_spec [OF retry_PVC [OF env]]])
      (auto simp: pvc_finalizers.write_spec_def)
  show ?thesis
    unfolding gives_def RemoveFinalizerFromPVC_def Let_def case_return_pair return_bindG
    apply (rule wp_bind_use [OF reads_isFinalizerShouldBeREmovedFromPVC [unfolded emits_def]]; (simp; fail)?)
    apply (intro wp_split wp_returnG; (simp; fail)?)
    apply (rule wp_bind_use [OF does_getNamespacedObject_PVC [of UNIV, unfolded emits_def]]; (simp; fail)?)
    apply (intro wp_split wp_returnG; (simp; fail)?)
    apply (rule wp_use [OF update], auto)
    done
qed

lemma deletePVC_doomed:
  assumes env: "retry_documented env"
    and pre: "guards (doomed_claim vgc p) (\<lambda>e. e = EvDeletePVC p a) pre"
    and pv: "seen_content vgc pre c" "pv \<in> set (PVList (vgcStatus c))" "claim_of pv pre (ns, name)"
  shows "wp (deletePVC env name ns driver) (\<lambda>_. guards (doomed_claim vgc p) (\<lambda>e. e = EvDeletePVC p a)) pre"
proof -
  let ?G = "guards (doomed_claim vgc p) (\<lambda>e. e = EvDeletePVC p a)"
  have quiet: "?G (pre @ es)" if "list_all (within {Reading, SpecPVC}) es" for es
    by (rule guards_quiet [OF pre]) (use that in \<open>auto simp: list_all_iff\<close>)
  have get: "gives (GetPVC env name ns) (\<lambda>x es. list_all (within {Reading, SpecPVC}) es \<and>
      (\<forall>q. x = Ret (Inr q) \<longrightarrow> es = [EvGetPVC (ns, name) (None, q)]))"
    by (rule gives_mono [OF gives_conj [OF does_reads(7) [of "{Reading, SpecPVC}", unfolded emits_def] GetPVC_spec]]) auto
  have release: "gives (RemoveFinalizerFromPVC env driver q) (\<lambda>x es. list_all (within {Reading, SpecPVC}) es \<and>
      (\<forall>p. x = Ret (None, p) \<longrightarrow> p = q \<or> (\<exists>sent. EvUpdatePVC sent (None, p) \<in> set es)))" for q
    by (rule gives_conj [OF does_finalizers_PVC(2) [OF env order_refl, unfolded emits_def] RemoveFinalizerFromPVC_answer [OF env]])
  have due: "doomed_claim vgc q' (pre @ EvGetPVC (ns, name) (None, q) # es)"
    if "q' = q \<or> (\<exists>sent. EvUpdatePVC sent (None, q') \<in> set es)" for q q' es
    unfolding doomed_claim_def
    using that pv by (intro exI [of _ c] exI [of _ pv] exI [of _ "(ns, name)"] exI [of _ q])
      (auto intro: seen_content_mono claim_of_mono)
  have last: "?G (pre @ EvGetPVC (ns, name) (None, q) # es @ [EvDeletePVC q' r])"
    if "list_all (within {Reading, SpecPVC}) es" "q' = q \<or> (\<exists>sent. EvUpdatePVC sent (None, q') \<in> set es)" for q q' r es
    using guards_snoc [OF quiet [of "EvGetPVC (ns, name) (None, q) # es"], of "EvDeletePVC q' r"] that due by auto
  show ?thesis
    unfolding deletePVC_def removePVCObject_def client_calls
    apply (rule wp_bind_use [OF get]; (simp add: quiet; fail)?)
    apply (intro wp_split wp_returnG; (simp add: quiet; fail)?)
    apply (rule wp_bind_use [OF release]; (simp add: quiet; fail)?)
    apply (intro wp_split wp_returnG; (simp add: quiet; fail)?)
    apply (auto intro!: wp_split wp_intro last)
    done
qed

section \<open>The loop over the claims\<close>

text \<open>
  While the loop runs, the content it holds and the array it reads come from contents it has seen.
\<close>

definition in_hand :: "VolumeGroupContent \<Rightarrow> PersistentVolume list \<Rightarrow> VolumeGroupContent \<Rightarrow> event list \<Rightarrow> bool" where
  "in_hand vgc arr c es \<longleftrightarrow> seen_content vgc es c \<and>
     (\<forall>pv \<in> set arr. \<exists>c. seen_content vgc es c \<and> pv \<in> set (PVList (vgcStatus c)))"

lemma in_hand_mono: "in_hand vgc arr c es \<Longrightarrow> set es \<subseteq> set es' \<Longrightarrow> in_hand vgc arr c es'"
  unfolding in_hand_def using seen_content_mono by blast

lemma length_overlay [simp]: "length (overlay xs arr) = length arr"
  by (simp add: overlay_def)

lemma set_overlay: "set (overlay xs arr) \<subseteq> set xs \<union> set arr"
  unfolding overlay_def by (auto dest!: in_set_takeD in_set_dropD)

lemma set_removeFromPVList: "set (removeFromPVList pv l) \<subseteq> set l"
  by (auto simp: removeFromPVList_def removeByIndexFromPVList_def split: option.splits dest: in_set_takeD in_set_dropD)

lemma in_hand_grow:
  "in_hand vgc arr c es \<Longrightarrow> set arr' \<subseteq> set (PVList (vgcStatus c)) \<union> set arr \<Longrightarrow> in_hand vgc arr' c es"
  unfolding in_hand_def by blast

lemma in_hand_overlay:
  assumes "in_hand vgc arr c es"
  shows "in_hand vgc (overlay (removeFromPVList pv (PVList (vgcStatus c))) arr) c es"
    "in_hand vgc (overlay (PVList (vgcStatus c)) arr) c es"
  by (rule in_hand_grow [OF assms order_trans [OF set_overlay Un_mono [OF set_removeFromPVList order_refl]]],
      rule in_hand_grow [OF assms set_overlay])

lemma in_hand_next: "in_hand vgc arr c es \<Longrightarrow> seen_content c es' d \<Longrightarrow> in_hand vgc arr d (es @ es')"
  using in_hand_mono [of vgc arr c es "es @ es'"] seen_content_append(2) unfolding in_hand_def by auto

lemma deletePVC_of_doomed:
  assumes env: "retry_documented env"
    and pre: "guards (doomed_claim vgc p) (\<lambda>e. e = EvDeletePVC p a) pre" "in_hand vgc arr c pre"
      "pv \<in> set arr" "claim_of pv pre (ns, name)"
    and k: "\<And>arr' shared c' pre'. guards (doomed_claim vgc p) (\<lambda>e. e = EvDeletePVC p a) pre' \<Longrightarrow>
      in_hand vgc arr' c' pre' \<Longrightarrow> length arr' = length arr \<Longrightarrow>
      wp (k arr' shared c') (\<lambda>_. guards (doomed_claim vgc p) (\<lambda>e. e = EvDeletePVC p a)) pre'"
  shows "wp (deletePVC_of env driver pv name ns arr shared c k)
    (\<lambda>_. guards (doomed_claim vgc p) (\<lambda>e. e = EvDeletePVC p a)) pre"
proof -
  let ?G = "guards (doomed_claim vgc p) (\<lambda>e. e = EvDeletePVC p a)"
  from pre(2,3) obtain c1 where c1: "seen_content vgc pre c1" "pv \<in> set (PVList (vgcStatus c1))"
    unfolding in_hand_def by blast
  have delete: "gives (deletePVC env name ns driver) (\<lambda>x es. list_all (within UNIV) es \<and> (\<forall>pre'. pre' = pre \<longrightarrow> ?G (pre' @ es)))"
    by (rule gives_from [OF does_deletePVC [OF env subset_UNIV]])
      (use deletePVC_doomed [OF env pre(1) c1 pre(4)] in simp)
  have quiet: "?G (pre @ es @ es')" if "?G (pre @ es)" "list_all (within {Reading, StatusVGC}) es'" for es es'
    by (rule guards_quiet [OF that(1), simplified]) (use that(2) in \<open>auto simp: list_all_iff\<close>)
  have remove: "gives (RemovePVFromVGC env pv c) (\<lambda>x es. list_all (within {Reading, StatusVGC}) es \<and>
      (\<forall>d. x = Ret (None, d) \<longrightarrow> seen_content c es d))"
    by (rule gives_conj [OF does_status_VGC(3) [OF env order_refl, unfolded emits_def] RemovePVFromVGC_seen [OF env]])
  have hand: "in_hand vgc arr' d ((pre @ es) @ es')" if "in_hand vgc arr' c pre" "seen_content c es' d" for arr' d es es'
    using in_hand_next [OF in_hand_mono [OF that(1), of "pre @ es"] that(2)] by auto
  show ?thesis
    unfolding deletePVC_of_def Let_def
    apply (rule wp_bind_use [OF delete]; (simp; fail)?)
    apply (intro wp_split wp_returnG; (simp; fail)?)
    apply (rule wp_bind_use [OF remove]; (simp add: quiet; fail)?)
    apply (intro wp_split wp_returnG; (simp add: quiet; fail)?)
    apply (rule wp_bindG, rule wp_readG, simp only: bind_post_simps)
    apply (rule k)
      apply (simp add: quiet)
     apply (auto intro!: in_hand_overlay(2) hand in_hand_overlay(1) pre(2) simp del: append_assoc)
    done
qed

lemma getMatchingPVC_claim:
  "gives (getMatchingPVCFromPVCListToPV env (Name (PVMeta pv)) driver) (\<lambda>x es. list_all (within {Reading}) es \<and>
     (\<forall>pvc. x = Ret (Inr pvc) \<longrightarrow> pvc = PersistentVolumeClaim0 \<or> claim_of pv es (pvc_key pvc)))"
proof -
  have find: "pvc = PersistentVolumeClaim0 \<or> pvc \<in> set pvcs \<and> PVCVolumeName pvc = name" if "pvcOfPV pvcs name = Ret pvc" for pvcs name pvc
    using that by (induction pvcs name rule: pvcOfPV.induct) (auto simp: getPVNameFromPVC_def split: if_splits)
  have "gives (getMatchingPVCFromPVCListToPV env (Name (PVMeta pv)) driver) (\<lambda>x es.
      \<forall>pvc. x = Ret (Inr pvc) \<longrightarrow> pvc = PersistentVolumeClaim0 \<or> claim_of pv es (pvc_key pvc))"
    unfolding gives_def getMatchingPVCFromPVCListToPV_def
    apply (rule wp_try_use [OF GetPVCList_spec]; (simp; fail)?)
    apply (rule wp_bindG, rule wp_liftG)
    apply (auto simp: bind_post_def claim_of_def split: outcome.split intro!: wp_returnG dest!: find set_subseq)
    apply blast
    done
  with does_getMatchingPVC [of "{Reading}", unfolded emits_def] show ?thesis by (intro gives_conj) auto
qed

lemma claim_of_ref:
  "(case PVClaimRef pv of None \<Rightarrow> '''' | Some x \<Rightarrow> refName x) \<noteq> '''' \<Longrightarrow>
   claim_of pv es (case PVClaimRef pv of None \<Rightarrow> '''' | Some x \<Rightarrow> refNamespace x, case PVClaimRef pv of None \<Rightarrow> '''' | Some x \<Rightarrow> refName x)"
  by (auto simp: claim_of_def split: option.splits)

lemma DeletePVCsUnderVGC_doomed:
  assumes env: "retry_documented env" and pre: "guards (doomed_claim vgc p) (\<lambda>e. e = EvDeletePVC p a) pre"
  shows "wp (DeletePVCsUnderVGC env vgc driver) (\<lambda>_. guards (doomed_claim vgc p) (\<lambda>e. e = EvDeletePVC p a)) pre"
proof -
  let ?G = "guards (doomed_claim vgc p) (\<lambda>e. e = EvDeletePVC p a)"
  have quiet: "?G (pre @ es)" if "?G pre" "list_all (within {Reading}) es" for pre es
    by (rule guards_quiet [OF that(1)]) (use that(2) in \<open>auto simp: list_all_iff\<close>)
  have "wp (deletePVCs_loop env driver k i arr shared c) (\<lambda>_. ?G) pre"
    if "?G pre" "in_hand vgc arr c pre" "i + k = length arr" for k i arr shared c pre
    using that
  proof (induction k arbitrary: i arr shared c pre)
    case 0
    then show ?case by (simp add: wp_returnG)
  next
    case (Suc k)
    let ?pv = "arr ! i"
    have pv: "?pv \<in> set arr" using Suc.prems(3) by simp
    have next_pv: "wp (deletePVCs_loop env driver k (i + 1) arr' shared' c') (\<lambda>_. ?G) pre'"
      if "?G pre'" "in_hand vgc arr' c' pre'" "length arr' = length arr" for arr' shared' c' pre'
      using Suc.IH [OF that(1,2)] Suc.prems(3) that(3) by simp
    have listed: "claim_of ?pv (pre @ es) (Namespace (PVCMeta pvc), Name (PVCMeta pvc))"
      if "pvc = PersistentVolumeClaim0 \<or> claim_of ?pv es (pvc_key pvc)" "Name (PVCMeta pvc) \<noteq> ''''" for es pvc
      using that by (auto simp: pvc_key_def PersistentVolumeClaim0_def ObjectMeta0_def intro: claim_of_mono)
    have hand: "in_hand vgc arr c (pre @ es)" for es using in_hand_mono [OF Suc.prems(2)] by simp
    show ?case
      unfolding deletePVCs_loop.simps Let_def getPVCNameFromPV_def getPVCNamespaceFromPV_def reflected_fields bindG_lift_Ret
      apply (intro wp_if)
       apply (rule wp_bind_use [OF getMatchingPVC_claim]; (simp add: quiet Suc.prems(1); fail)?)
       apply (intro wp_split wp_returnG; (simp add: quiet Suc.prems(1); fail)?)
        apply (rule next_pv; simp add: quiet Suc.prems(1) hand)
       apply (rule deletePVC_of_doomed [OF env _ hand pv listed next_pv]; simp add: quiet Suc.prems(1))
      apply (rule deletePVC_of_doomed [OF env Suc.prems(1,2) pv claim_of_ref next_pv]; simp)
      done
  qed
  note loop = this
  have "in_hand vgc (PVList (vgcStatus vgc)) vgc pre" by (auto simp: in_hand_def seen_content_def)
  from loop [OF pre this, of 0] show ?thesis unfolding DeletePVCsUnderVGC_def Let_def by simp
qed

section \<open>A content under deletion\<close>

definition own_handle :: "VolumeGroupContent \<Rightarrow> DeleteVolumeGroupRequest \<Rightarrow> event list \<Rightarrow> bool" where
  "own_handle vgc q es \<longleftrightarrow> (\<exists>c src. seen_content vgc es c \<and>
     vgcVolumeGroupDeletionPolicy (vgcSpec c) = Some VolumeGroupContentDelete \<and>
     vgcSource (vgcSpec c) = Some src \<and> dreqVolumeGroupId q = VolumeGroupHandle src)"

lemma doomed_claim_prepend: "doomed_claim vgc pvc es \<Longrightarrow> doomed_claim vgc pvc (es' @ es)"
  unfolding doomed_claim_def
  using seen_content_mono [of vgc es _ "es' @ es"] claim_of_mono [of _ es _ "es' @ es"] by auto (metis, metis)

lemma removeVGC_handle:
  assumes env: "retry_documented env" and pre: "guards G (\<lambda>e. e = EvRpcDelete q a) pre"
    and G: "\<And>src secrets. vgcVolumeGroupDeletionPolicy (vgcSpec c) = Some VolumeGroupContentDelete \<Longrightarrow>
      vgcSource (vgcSpec c) = Some src \<Longrightarrow> q = \<lparr>dreqVolumeGroupId = VolumeGroupHandle src, dreqSecrets = secret\<rparr> \<Longrightarrow> G pre"
  shows "wp (removeVGC env r c secret) (\<lambda>_. guards G (\<lambda>e. e = EvRpcDelete q a)) pre"
proof -
  have release: "wp (RemoveFinalizerFromVGC env c) (\<lambda>_. guards G (\<lambda>e. e = EvRpcDelete q a)) es"
    if "guards G (\<lambda>e. e = EvRpcDelete q a) es" for es
    by (rule wp_guards_quiet [OF does_finalizers_VGC(2) [OF env order_refl] _ that]) auto
  show ?thesis
    unfolding removeVGC_def deleteVG_def Let_def case_return_pair return_bindG NewVolumeGroupRequest_def
    by (auto intro!: wp_split wp_intro pre release guards_snoc G)
qed

lemma deletion_names_handle:
  assumes env: "retry_documented env"
  shows "gives (handleVGCWithDeletionTimestamp env r vgc secret)
    (\<lambda>_. guards (\<lambda>es. released_content env vgc es \<and> own_handle vgc q es) (\<lambda>e. e = EvRpcDelete q a))"
proof -
  let ?G = "\<lambda>es. released_content env vgc es \<and> own_handle vgc q es" and ?W = "\<lambda>e. e = EvRpcDelete q a"
  let ?S = "{Reading, SpecPVC, GonePVC, StatusVGC}"
  have claims: "gives (if b then DeletePVCsUnderVGC env vgc d else returnG (None, vgc))
      (\<lambda>x es. list_all (within ?S) es \<and> (\<forall>c. x = Ret (None, c) \<longrightarrow> seen_content vgc es c))" for b d
    using gives_conj [OF does_DeletePVCsUnderVGC [OF env order_refl, unfolded emits_def] DeletePVCsUnderVGC_seen [OF env]]
    by (auto simp: gives_def seen_content_def intro!: wp_returnG)
  have quiet: "guards ?G ?W (es @ es')" if "list_all is_read es" "list_all (within ?S) es'" for es es'
    by (rule guards_none) (use that in \<open>auto simp: list_all_iff\<close>)
  have gone: "?G (es @ es')"
    if "group_gone env vgc es" "VgcFinalizer \<in> set (Finalizers (vgcMeta vgc))" "\<not> IsContainOtherFinalizers (vgcMeta vgc)"
      "seen_content vgc es' c" "vgcVolumeGroupDeletionPolicy (vgcSpec c) = Some VolumeGroupContentDelete"
      "vgcSource (vgcSpec c) = Some src" "q = \<lparr>dreqVolumeGroupId = VolumeGroupHandle src, dreqSecrets = secret\<rparr>" for es es' c src
    unfolding released_content_def own_handle_def
    using that group_gone_mono [OF that(1), of "es @ es'"] seen_content_mono [OF that(4), of "es @ es'"] by auto
  show ?thesis
    unfolding gives_def handleVGCWithDeletionTimestamp_def
    apply (rule wp_bind_use [OF IsVgExist_spec]; (simp; fail)?)
    apply (intro wp_split wp_returnG)
       apply (use quiet [of _ "[]"] in \<open>auto\<close>)[2]
     apply (rule wp_bind_use [OF claims]; (simp add: quiet; fail)?)
     apply (intro wp_split wp_returnG; (simp add: quiet; fail)?)
     apply (simp only: case_return_pair return_bindG)
     apply (rule removeVGC_handle [OF env])
      apply (simp add: quiet)
     apply (auto dest: gone simp: Contains_iff)
    apply (use quiet [of _ "[]"] in auto)
    done
qed

lemma deletion_names_claims:
  assumes env: "retry_documented env"
  shows "gives (handleVGCWithDeletionTimestamp env r vgc secret)
    (\<lambda>_. guards (\<lambda>es. released_content env vgc es \<and> doomed_claim vgc p es) (\<lambda>e. e = EvDeletePVC p a))"
proof -
  let ?G = "\<lambda>es. released_content env vgc es \<and> doomed_claim vgc p es" and ?W = "\<lambda>e. e = EvDeletePVC p a"
  have claims: "gives (if b then DeletePVCsUnderVGC env vgc d else returnG (None, vgc)) (\<lambda>_. guards (doomed_claim vgc p) ?W)" for b d
    using DeletePVCsUnderVGC_doomed [OF env, of vgc p a "[]"] by (simp add: gives_def wp_returnG)
  have quiet: "guards ?G ?W es" if "list_all is_read es" for es
    by (rule guards_none) (use that in \<open>auto simp: list_all_iff\<close>)
  have gone: "guards ?G ?W (es @ es')"
    if "group_gone env vgc es" "VgcFinalizer \<in> set (Finalizers (vgcMeta vgc))" "\<not> IsContainOtherFinalizers (vgcMeta vgc)"
      "list_all is_read es" "guards (doomed_claim vgc p) ?W es'" for es es'
    using quiet [OF that(4)] that(5)
    by (rule guards_history) (use that(1-3) in \<open>auto simp: released_content_def doomed_claim_prepend intro: group_gone_mono\<close>)
  have release: "wp (removeVGC env r c secret) (\<lambda>_. guards ?G ?W) es" if "guards ?G ?W es" for c es
    by (rule wp_guards_quiet [OF does_removeVGC [OF env order_refl] _ that]) auto
  show ?thesis
    unfolding gives_def handleVGCWithDeletionTimestamp_def
    apply (rule wp_bind_use [OF IsVgExist_spec]; (simp; fail)?)
    apply (intro wp_split wp_returnG)
       apply (auto simp: quiet)[2]
     apply (rule wp_bind_use [OF claims]; (simp add: gone Contains_iff; fail)?)
     apply (intro wp_split wp_returnG; (simp add: gone Contains_iff; fail)?)
     apply (simp only: case_return_pair return_bindG)
     apply (rule release, simp add: gone Contains_iff)
    apply (auto simp: quiet)
    done
qed

lemma VGC_Reconcile_condemned:
  assumes env: "retry_documented env"
  shows "gives (VGC_Reconcile env r req) (\<lambda>_. guards (condemned env r req q) (\<lambda>e. e = EvRpcDelete q a))"
    "gives (VGC_Reconcile env r req) (\<lambda>_. guards (condemned_claim env r req p) (\<lambda>e. e = EvDeletePVC p b))"
proof -
  show "gives (VGC_Reconcile env r req) (\<lambda>_. guards (condemned env r req q) (\<lambda>e. e = EvRpcDelete q a))"
  proof (rule VGC_Reconcile_deletion [OF env _ deletion_names_handle [OF env]])
    fix vgc vgClass pre es
    assume "EvGetVGC req (None, vgc) \<in> set pre" "\<not> IsZero (DeletionTimestamp (vgcMeta vgc))"
      "EvGetVGClass (deref (vgcVolumeGroupClassName (vgcSpec vgc))) (Inr vgClass) \<in> set pre"
      "Driver vgClass = DriverName (vgcDriverConfig r)" and es: "released_content env vgc es \<and> own_handle vgc q es"
    then have "orphaned env r req vgc (pre @ es)" by (intro released_orphaned) auto
    with es show "condemned env r req q (pre @ es)"
      unfolding condemned_def own_handle_def by (metis seen_content_mono set_append sup_ge2)
  qed simp
  show "gives (VGC_Reconcile env r req) (\<lambda>_. guards (condemned_claim env r req p) (\<lambda>e. e = EvDeletePVC p b))"
  proof (rule VGC_Reconcile_deletion [OF env _ deletion_names_claims [OF env]])
    fix vgc vgClass pre es
    assume "EvGetVGC req (None, vgc) \<in> set pre" "\<not> IsZero (DeletionTimestamp (vgcMeta vgc))"
      "EvGetVGClass (deref (vgcVolumeGroupClassName (vgcSpec vgc))) (Inr vgClass) \<in> set pre"
      "Driver vgClass = DriverName (vgcDriverConfig r)" and es: "released_content env vgc es \<and> doomed_claim vgc p es"
    then have "orphaned env r req vgc (pre @ es)" by (intro released_orphaned) auto
    with es show "condemned_claim env r req p (pre @ es)"
      unfolding condemned_claim_def using doomed_claim_prepend by blast
  qed simp
qed

section \<open>Accepted writes\<close>

lemma RemoveFinalizerFromVGC_accepted:
  assumes env: "retry_documented env" and "VgcFinalizer \<in> set (Finalizers (vgcMeta vgc))"
    and accepted: "\<And>sent u. fst (srv_Update_VGC (api env) sent u) = None"
  shows "\<exists>sent ans. RemoveFinalizerFromVGC env vgc t = (Ret (None, ans), t @ [EvUpdateVGC sent (None, ans)]) \<and>
    Finalizers (vgcMeta sent) = filter (\<lambda>f. f \<noteq> VgcFinalizer) (Finalizers (vgcMeta vgc))"
proof -
  let ?fs = "filter (\<lambda>f. f \<noteq> VgcFinalizer) (Finalizers (vgcMeta vgc))"
  let ?sent = "SetFinalizers (VGC_object env) ?fs vgc"
  obtain ans where ans: "srv_Update_VGC (api env) ?sent t = (None, ans)" using accepted by (metis prod.collapse)
  have once: "finalizerRetryOnConflictFunc env (VGC_object env) ?fs ?sent t = (Ret (None, ans), t @ [EvUpdateVGC ?sent (None, ans)])"
    using ans by (simp add: finalizerRetryOnConflictFunc_def Let_def write_run object_defs client_calls)
  have "updateFinalizer env (VGC_object env) ?fs ?sent t = (Ret (None, ans), t @ [EvUpdateVGC ?sent (None, ans)])"
    unfolding updateFinalizer_def object_retry by (rule retry_once [OF retry_VGC [OF env]]) (use once in auto)
  then have "RemoveFinalizerFromVGC env vgc t = (Ret (None, ans), t @ [EvUpdateVGC ?sent (None, ans)])"
    using assms(2) by (simp add: RemoveFinalizerFromVGC_def Let_def object_defs)
  then show ?thesis by (intro exI conjI) (auto simp: object_defs)
qed

end
