(* ===== verification/Content_Properties.thy ===== *)
theory Content_Properties
  imports Sample_Cluster Deletion_Spec
begin

text \<open>
  Properties of the content reconciler, stated over runs: from any history \<open>t\<close> a run ends in a
  history \<open>t'\<close> that extends it by the events of the run. Each has a run in the sample cluster as
  its witness.
\<close>

section \<open>Sample runs\<close>

text \<open>A content under deletion whose group is gone, with two volumes and their claims.\<close>

definition dying_cluster :: cluster where
  "dying_cluster = sample_cluster []
     [dying (sample_vgc [VgcFinalizer] ''id'' [sample_pv ''a'' ''A'', sample_pv ''b'' ''B''])]
     [sample_pvc ''A'' [pvcVGFinalizer] ''a'', sample_pvc ''B'' [pvcVGFinalizer] ''b'']
     [sample_pv ''a'' ''A'', sample_pv ''b'' ''B'']"

text \<open>A new content, without finalizer and handle.\<close>

definition fresh_cluster :: cluster where
  "fresh_cluster = sample_cluster [sample_vg [VGFinalizer] None []] [sample_vgc [] '''' []] [] []"

abbreviation dying_run :: "event list" where
  "dying_run \<equiv> snd (VGC_Reconcile (sample_env dying_cluster) sample_VGC_reconciler (''n'', ''k'') [])"

abbreviation dying_content :: VolumeGroupContent where
  "dying_content \<equiv> hd (clusterVGCs dying_cluster)"

abbreviation dying_rest :: "event list" where
  "dying_rest \<equiv> snd (handleVGCWithDeletionTimestamp (sample_env dying_cluster) sample_VGC_reconciler dying_content [] [])"


section \<open>Deletion\<close>

text \<open>
  C2. When the content reconciler lets go of a content under deletion (it writes the content to
  remove its finalizer), the storage group has been deleted under the handle of the content, with
  the driver's agreement, or the content's policy is not Delete. The content meant is the one read
  or as the last accepted status update returned it.
\<close>

theorem content_outlives_storage:
  assumes "retry_documented env" and "handleVGCWithDeletionTimestamp env r vgc secret t = (x, t')"
  shows "\<exists>es. t' = t @ es \<and> guards (storage_settled vgc) (within {SpecVGC}) es"
  using gives_run [OF handleVGCWithDeletionTimestamp_settled [OF assms(1)] assms(2)] by metis

theorem content_outlives_storage_witness:
  "guards (storage_settled dying_content) (within {SpecVGC}) dying_rest \<and>
   map touches (filter (\<lambda>e. touches e \<in> {RpcDelete, SpecVGC}) dying_rest) = [RpcDelete, SpecVGC]"
proof
  show "guards (storage_settled dying_content) (within {SpecVGC}) dying_rest"
    using content_outlives_storage [OF sample_retry surjective_pairing,
      of dying_cluster sample_VGC_reconciler dying_content "[]" "[]"] by simp
  show "map touches (filter (\<lambda>e. touches e \<in> {RpcDelete, SpecVGC}) dying_rest) = [RpcDelete, SpecVGC]"
    by code_simp
qed

section \<open>Creation\<close>



text \<open>
  C15. A content that has a handle, whether given by a user or recorded by an earlier run, never
  makes the reconciler ask the driver to create a storage group: its reconciliation reads, updates
  the content and its status, and does nothing else.
\<close>

theorem created_once:
  assumes "vgcSource (vgcSpec vgc) = Some src" and "VolumeGroupHandle src \<noteq> ''''"
    and "reconcileLiveVGC env r vgc vgClass secret t = (x, t')"
  shows "\<exists>es. t' = t @ es \<and> list_all (within {Reading, SpecVGC, StatusVGC}) es"
  using emits_run [OF static_no_rpc [OF assms(1,2)] assms(3)] by metis

theorem created_once_witness:
  "list_all (within {Reading, SpecVGC, StatusVGC})
     (snd (reconcileLiveVGC (sample_env dying_cluster) sample_VGC_reconciler (sample_vgc [] ''id'' []) sample_class [] []))"
  using created_once [OF _ _ surjective_pairing,
    of "sample_vgc [] ''id'' []" _ "sample_env dying_cluster" sample_VGC_reconciler sample_class "[]" "[]"]
  by (simp add: sample_vgc_def)

section \<open>Deletion comes to its end\<close>

text \<open>An API server that accepts every write of a content, and a content that waits to be deleted.\<close>

definition willing_content :: VolumeGroupContent where
  "willing_content = dying (sample_vgc [VgcFinalizer] ''id'' [])"

definition willing_env :: env where
  "willing_env = (sample_env (sample_cluster [] [] [] []))\<lparr>api := (sample_server (sample_cluster [] [] [] []))\<lparr>
     srv_Get_VGC := (\<lambda>k obj t. (None, willing_content)), srv_Get_VG := (\<lambda>k obj t. (Some NotFound, obj)),
     srv_Update_VGC := (\<lambda>obj t. (None, obj))\<rparr>\<rparr>"

definition keeping_reconciler :: VolumeGroupContentReconciler where
  "keeping_reconciler = sample_VGC_reconciler\<lparr>vgcDriverConfig := sample_config\<lparr>DisableDeletePvcs := ''true''\<rparr>\<rparr>"

lemma willing_retry: "retry_documented willing_env"
  using sample_retry [of "sample_cluster [] [] [] []"] by (simp add: retry_documented_def willing_env_def)

text \<open>
  C24. When the outside is willing, one reconcile finishes the deletion of a content: the driver
  agrees, writes of the content are accepted, its class is the operator's with readable secrets, its
  group is gone, its finalizer is the last one, its policy is Delete, and claims are to be kept. Then
  the reconcile reads, asks the driver to delete the storage group under the content's handle, takes
  the finalizer away and returns without error and without asking to be run again.
\<close>

theorem deletion_completes:
  assumes env: "retry_documented env" and agree: "\<And>q u. drv_DeleteVolumeGroup (csi env) (timeout (vgcVGClient r)) q u = None"
    and accepted: "\<And>sent u. fst (srv_Update_VGC (api env) sent u) = None"
    and read: "srv_Get_VGC (api env) req VolumeGroupContent0 t = (None, vgc)"
    and cls: "vgcVolumeGroupClassName (vgcSpec vgc) = Some name" "name \<noteq> ''''" "\<And>u. srv_Get_VGClass (api env) name u = Inr vgClass"
      "Driver vgClass = DriverName (vgcDriverConfig r)" "ValidatePrefixedParameters (classParameters vgClass) = None"
      "\<And>u. fst (GetSecretDataFromClass env vgClass u) = Ret (Inr secret)"
    and orphan: "\<not> IsZero (DeletionTimestamp (vgcMeta vgc))" "VgcFinalizer \<in> set (Finalizers (vgcMeta vgc))"
      "\<not> IsContainOtherFinalizers (vgcMeta vgc)" "\<And>u. fst (IsVgExist env vgc u) = Ret (Inr False)"
    and policy: "DisableDeletePvcs (vgcDriverConfig r) \<noteq> ''false''" "vgcVolumeGroupDeletionPolicy (vgcSpec vgc) = Some VolumeGroupContentDelete"
      "vgcSource (vgcSpec vgc) = Some src"
  shows "\<exists>es sent ans. VGC_Reconcile env r req t = (Ret (Result0, None), t @ es @
     [EvRpcDelete \<lparr>dreqVolumeGroupId = VolumeGroupHandle src, dreqSecrets = secret\<rparr> None, EvUpdateVGC sent (None, ans)]) \<and>
     list_all is_read es \<and> Finalizers (vgcMeta sent) = filter (\<lambda>f. f \<noteq> VgcFinalizer) (Finalizers (vgcMeta vgc))"
proof -
  let ?t1 = "t @ [EvGetVGC req (None, vgc), EvGetVGClass name (Inr vgClass)]"
  obtain es1 where es1: "GetSecretDataFromClass env vgClass ?t1 = (Ret (Inr secret), ?t1 @ es1)" "list_all is_read es1"
    by (rule gives_run [OF GetSecretDataFromClass_spec surjective_pairing, of env vgClass ?t1])
      (use cls(6) [of ?t1] in \<open>metis prod.collapse\<close>)
  obtain es2 where es2: "IsVgExist env vgc (?t1 @ es1) = (Ret (Inr False), (?t1 @ es1) @ es2)" "list_all is_read es2"
    by (rule gives_run [OF IsVgExist_spec surjective_pairing, of env vgc "?t1 @ es1"])
      (use orphan(4) [of "?t1 @ es1"] in \<open>metis prod.collapse\<close>)
  let ?rpc = "EvRpcDelete \<lparr>dreqVolumeGroupId = VolumeGroupHandle src, dreqSecrets = secret\<rparr> None"
  obtain sent ans where release: "RemoveFinalizerFromVGC env vgc (((?t1 @ es1) @ es2) @ [?rpc]) =
      (Ret (None, ans), (((?t1 @ es1) @ es2) @ [?rpc]) @ [EvUpdateVGC sent (None, ans)])"
      "Finalizers (vgcMeta sent) = filter (\<lambda>f. f \<noteq> VgcFinalizer) (Finalizers (vgcMeta vgc))"
    using RemoveFinalizerFromVGC_accepted [OF env orphan(2) accepted] by blast
  have "VGC_Reconcile env r req t = (Ret (Result0, None), t @ ([EvGetVGC req (None, vgc), EvGetVGClass name (Inr vgClass)] @ es1 @ es2) @
      [?rpc, EvUpdateVGC sent (None, ans)])"
    using read cls(1-5) es1(1) es2(1) orphan(1-3) policy release(1) agree
    by (simp add: VGC_Reconcile_def GetVGC_def GetVGClass_def client_calls go_run reconcileOwnVGC_def
        handleVGCWithDeletionTimestamp_def removeVGC_def deleteVG_def Delete_run NewVolumeGroupRequest_def Let_def)
  moreover have "list_all is_read ([EvGetVGC req (None, vgc), EvGetVGClass name (Inr vgClass)] @ es1 @ es2)"
    using es1(2) es2(2) by simp
  ultimately show ?thesis using release(2) by blast
qed

theorem deletion_completes_witness:
  "\<exists>es sent ans. VGC_Reconcile willing_env keeping_reconciler (''n'', ''k'') [] = (Ret (Result0, None), es @
     [EvRpcDelete \<lparr>dreqVolumeGroupId = ''id'', dreqSecrets = []\<rparr> None, EvUpdateVGC sent (None, ans)]) \<and>
     list_all is_read es \<and> Finalizers (vgcMeta sent) = []"
proof -
  have content: "\<not> IsZero (DeletionTimestamp (vgcMeta willing_content))" "VgcFinalizer \<in> set (Finalizers (vgcMeta willing_content))"
    "\<not> IsContainOtherFinalizers (vgcMeta willing_content)"
    "vgcVolumeGroupDeletionPolicy (vgcSpec willing_content) = Some VolumeGroupContentDelete"
    "filter (\<lambda>f. f \<noteq> VgcFinalizer) (Finalizers (vgcMeta willing_content)) = []"
    "ValidatePrefixedParameters (classParameters sample_class) = None" "GetSecretCred sample_class = ('''', '''')" by code_simp+
  have library: "lib_IsNotFound (lib willing_env) NotFound"
    "answer_Find (\<lambda>x. Name (classMeta x)) ''c'' (clusterClasses (sample_cluster [] [] [] [])) = Inr sample_class" by code_simp+
  have answers: "drv_DeleteVolumeGroup (csi willing_env) (timeout (vgcVGClient keeping_reconciler)) q u = None"
    "fst (srv_Update_VGC (api willing_env) sent u) = None" "srv_Get_VGC (api willing_env) k obj u = (None, willing_content)"
    "srv_Get_VGClass (api willing_env) ''c'' u = Inr sample_class" for q u sent k obj
    using library(2) by (simp_all add: willing_env_def sample_env_def sample_server_def sample_driver_def)
  have group: "srv_Get_VG (api willing_env) k obj u = (Some NotFound, obj)" for k obj u by (simp add: willing_env_def)
  have gone: "fst (IsVgExist willing_env willing_content u) = Ret (Inr False)" for u
    using library(1) by (simp add: IsVgExist_def GetVG_def client_calls go_run group split: option.split)
  have secret: "fst (GetSecretDataFromClass willing_env sample_class u) = Ret (Inr [])" for u
    by (simp add: GetSecretDataFromClass_def content go_run)
  have spec: "vgcVolumeGroupClassName (vgcSpec willing_content) = Some ''c''" "''c'' \<noteq> []" "Driver sample_class = DriverName (vgcDriverConfig keeping_reconciler)"
    "DisableDeletePvcs (vgcDriverConfig keeping_reconciler) \<noteq> ''false''"
    "vgcSource (vgcSpec willing_content) = Some \<lparr>srcDriver = ''d'', VolumeGroupHandle = ''id'', VolumeGroupAttributes = []\<rparr>" by code_simp+
  note deletion_completes [OF willing_retry answers(1-3) spec(1,2) answers(4) spec(3) content(6) secret content(1-3) gone spec(4) content(4) spec(5),
    of "(''n'', ''k'')" "[]"]
  then show ?thesis unfolding content by simp
qed

section \<open>Where the reconciler breaks\<close>

abbreviation nil_dereference :: string where
  "nil_dereference \<equiv> ''invalid memory address or nil pointer dereference''"

text \<open>
  C37. Two panics of the content reconciler. When the content cannot be read for another reason than
  its absence, it reports the error on the nil content that \<open>GetVGC\<close> returned, and the error itself is
  lost. A content without a source makes it create a storage group and then panic before the handle is
  recorded: the driver has a group that no content names.
\<close>

theorem content_panics:
  assumes "srv_Get_VGC (api env) req VolumeGroupContent0 t = (Some e, obj)" and "\<not> IsNotFound env e"
    and "vgcSource (vgcSpec vgc) = None" and "drv_CreateVolumeGroup (csi env) (timeout (vgcVGClient r)) creq u = (resp, None)"
    and "creq = \<lparr>creqName = Name (vgcMeta vgc),
      creqParameters = FilterPrefixedParameters VGAsPrefix (classParameters vgClass), creqSecrets = secret\<rparr>"
  shows "VGC_Reconcile env r req t = (Panic nil_dereference, t @ [EvGetVGC req (Some e, obj)]) \<and>
    handleCreateVG env r vgc vgClass secret u = (Panic nil_dereference, u @ [EvRpcCreate creq (resp, None)])"
proof
  show "VGC_Reconcile env r req t = (Panic nil_dereference, t @ [EvGetVGC req (Some e, obj)])"
    using assms(1,2) by (simp add: VGC_Reconcile_def GetVGC_def client_calls failVGC_def HandleVGCErrorMessage_def go_run)
  show "handleCreateVG env r vgc vgClass secret u = (Panic nil_dereference, u @ [EvRpcCreate creq (resp, None)])"
    using assms(3-5) by (simp add: handleCreateVG_def createVG_def NewVolumeGroupRequest_def Create_run
      UpdateVGCByResponse_def go_run split: option.split)
qed

definition failing_env :: env where
  "failing_env = (sample_env fresh_cluster)\<lparr>api := (sample_server fresh_cluster)\<lparr>
     srv_Get_VGC := (\<lambda>k obj t. (Some (StatusError ''Timeout'' ''timeout''), obj))\<rparr>\<rparr>"

theorem content_panics_witness:
  "\<exists>e e'. VGC_Reconcile failing_env sample_VGC_reconciler (''n'', ''k'') [] = (Panic nil_dereference, [e]) \<and>
     handleCreateVG failing_env sample_VGC_reconciler VolumeGroupContent0 sample_class [] [] = (Panic nil_dereference, [e']) \<and>
     touches e' = RpcCreate"
  using content_panics [of failing_env "(''n'', ''k'')" "[]" _ _ VolumeGroupContent0 sample_VGC_reconciler _ "[]" _ sample_class "[]"]
  by (simp add: failing_env_def VolumeGroupContent0_def sample_env_def sample_driver_def sample_library_def)


end
