(* ===== verification/Group_Properties.thy ===== *)
theory Group_Properties
  imports Sample_Cluster
begin

text \<open>
  Properties of the group reconciler and of the claims it takes into a group, stated over runs,
  with runs in the sample cluster as witnesses.
\<close>

section \<open>Sample runs\<close>

text \<open>A group under deletion, with its content.\<close>

definition leaving_cluster :: cluster where
  "leaving_cluster = sample_cluster [upd_vg (\<lambda>m. m\<lparr>DeletionTimestamp := Some 1\<rparr>) (sample_vg [VGFinalizer] (Some ''k'') [])]
     [sample_vgc [VgcFinalizer] ''id'' []] [] []"

abbreviation leaving_run :: "event list" where
  "leaving_run \<equiv> snd (VG_Reconcile (sample_env leaving_cluster) sample_VG_reconciler (''n'', ''g'') [])"




section \<open>Deleting a group\<close>

text \<open>
  C10. A group under deletion loses the operator's finalizer only after its content was found to be
  absent, or was found with another policy than Delete, or its deletion was accepted.
\<close>

theorem group_outlives_content:
  assumes "retry_documented env" and "removeInstance env vg t = (x, t')"
  shows "\<exists>es. t' = t @ es \<and> guards (content_settled env vg) (within {SpecVG}) es"
  using gives_run [OF removeInstance_order [OF assms(1)] assms(2)] by metis

theorem group_outlives_content_witness:
  "(let vg = hd (clusterVGs leaving_cluster); run = snd (removeInstance (sample_env leaving_cluster) vg [])
    in guards (content_settled (sample_env leaving_cluster) vg) (within {SpecVG}) run)"
  using group_outlives_content [OF sample_retry surjective_pairing,
    of leaving_cluster "hd (clusterVGs leaving_cluster)" "[]"] by simp

section \<open>A new group\<close>



text \<open>
  C16. The content generated for a group carries the name \<open>volumegroup-UID\<close>, so groups with
  different UIDs have different contents; it refers back to the group, takes the class's driver and
  policy (Delete when the class has none) and has no handle yet, so that the content reconciler
  will create its storage group.
\<close>

theorem generated_content:
  assumes "MakeVGName VGNamePrefix (UID (vgMeta vg)) = Inr name" and "GenerateVGC name vg vgClass n ns = Ret vgc"
  shows "content_for vg vgClass vgc \<and> Name (vgcMeta vgc) = name \<and>
    (\<forall>vg'. MakeVGName VGNamePrefix (UID (vgMeta vg')) = Inr name \<longrightarrow> UID (vgMeta vg') = UID (vgMeta vg))"
  using GenerateVGC_content [OF assms(2)] assms(1) by (auto simp: MakeVGName_iff)

theorem generated_content_witness:
  "\<exists>vgc. GenerateVGC ''volumegroup-g'' (sample_vg [] None []) sample_class '''' '''' = Ret vgc \<and>
     content_for (sample_vg [] None []) sample_class vgc"
proof -
  obtain vgc where vgc: "GenerateVGC ''volumegroup-g'' (sample_vg [] None []) sample_class '''' '''' = Ret vgc"
    using GenerateVGC_run by blast
  have "MakeVGName VGNamePrefix (UID (vgMeta (sample_vg [] None []))) = Inr ''volumegroup-g''" by code_simp
  from generated_content [OF this vgc] vgc show ?thesis by blast
qed

end
