(* ===== verification/Member_Properties.thy ===== *)
theory Member_Properties
  imports Sample_Cluster
begin

text \<open>
  Properties of the members of a group: which claims are taken in, what the driver is told, that the
  bookkeeping follows the driver and ends with the claims asked for, and that a claim keeps its
  finalizer while a group lists it. Stated over runs, with runs in the sample cluster as witnesses.
\<close>

section \<open>Sample runs\<close>

text \<open>A group that lists the claim B, and the claim A that matches it.\<close>

definition joining_cluster :: cluster where
  "joining_cluster = sample_cluster [sample_vg [VGFinalizer] (Some ''k'') [sample_pvc ''B'' [pvcVGFinalizer] ''b'']]
     [sample_vgc [VgcFinalizer] ''id'' [sample_pv ''b'' ''B'']]
     [sample_pvc ''A'' [] ''a'', upd_pvc (\<lambda>m. m\<lparr>Labels := []\<rparr>) (sample_pvc ''B'' [pvcVGFinalizer] ''b'')]
     [sample_pv ''a'' ''A'', sample_pv ''b'' ''B'']"

abbreviation joining_env :: env where
  "joining_env \<equiv> sample_env joining_cluster"

abbreviation joining_group :: VolumeGroup where
  "joining_group \<equiv> hd (clusterVGs joining_cluster)"

abbreviation claim_A :: PersistentVolumeClaim where
  "claim_A \<equiv> sample_pvc ''A'' [] ''a''"

abbreviation claim_B :: PersistentVolumeClaim where
  "claim_B \<equiv> sample_pvc ''B'' [pvcVGFinalizer] ''b''"

fun accepted :: "(error option \<times> 'o) outcome \<Rightarrow> bool" where
  "accepted (Ret (None, _)) = True"
| "accepted _ = False"

lemma accepted_run: "accepted (fst r) \<Longrightarrow> (\<And>vg t. r = (Ret (None, vg), t) \<Longrightarrow> thesis) \<Longrightarrow> thesis"
  by (cases r; cases "fst r" rule: accepted.cases) auto

section \<open>What the driver is told\<close>

text \<open>
  C6. \<open>ModifyVolumesInVG\<close> reports success only after the driver accepted, under the handle of the
  group's content, the volume handles of exactly the bound claims of the list, in order.
\<close>

theorem driver_told_members:
  assumes "retry_documented env" and "ModifyVolumesInVG env c pvcs vg t = (Ret None, t')"
  shows "\<exists>es. t' = t @ es \<and> agreed vg pvcs es"
  using gives_run [OF ModifyVolumesInVG_agreed [OF assms(1)] assms(2)] by metis

theorem driver_told_members_witness:
  "agreed joining_group [claim_A] (snd (ModifyVolumesInVG joining_env (NewVolumeGroupClient 60) [claim_A] joining_group []))"
proof -
  have "fst (ModifyVolumesInVG joining_env (NewVolumeGroupClient 60) [claim_A] joining_group []) = Ret None" by code_simp
  then have "ModifyVolumesInVG joining_env (NewVolumeGroupClient 60) [claim_A] joining_group [] =
      (Ret None, snd (ModifyVolumesInVG joining_env (NewVolumeGroupClient 60) [claim_A] joining_group []))"
    by (metis prod.collapse)
  from driver_told_members [OF sample_retry this] show ?thesis by simp
qed



text \<open>
  C4. Undisturbed by other writers of the group, a successful \<open>UpdatePvcAndPvList\<close> leaves a group
  that lists exactly the claims it was asked for, each of them once.
\<close>

theorem members_converge:
  assumes "retry_documented env" and "distinct (map pvc_key (PVCList (vgStatus vg)))"
    and "UpdatePvcAndPvList env vg driver matching t = (Ret (None, vg'), t')"
    and "undisturbed (drop (length t) t')"
  shows "pvc_key ` set (PVCList (vgStatus vg')) = pvc_key ` set matching \<and> distinct (map pvc_key (PVCList (vgStatus vg')))"
proof -
  obtain es where "t' = t @ es" "undisturbed es \<longrightarrow> PVCList (vgStatus vg') = settled_members (PVCList (vgStatus vg)) matching"
    using gives_run [OF UpdatePvcAndPvList_ends [OF assms(1), unfolded ends_with_def] assms(3)] by auto
  with assms(4) settled_members_keys [OF assms(2)] show ?thesis by simp
qed

theorem members_converge_witness:
  "\<exists>vg' t'. UpdatePvcAndPvList joining_env joining_group ''d'' [claim_A] [] = (Ret (None, vg'), t') \<and>
     pvc_key ` set (PVCList (vgStatus vg')) = pvc_key ` set [claim_A] \<and> distinct (map pvc_key (PVCList (vgStatus vg')))"
proof -
  have "accepted (fst (UpdatePvcAndPvList joining_env joining_group ''d'' [claim_A] []))" by code_simp
  then obtain vg' t' where run: "UpdatePvcAndPvList joining_env joining_group ''d'' [claim_A] [] = (Ret (None, vg'), t')"
    by (rule accepted_run)
  have "undisturbed (snd (UpdatePvcAndPvList joining_env joining_group ''d'' [claim_A] []))" by code_simp
  then have calm: "undisturbed (drop (length []) t')" using run by simp
  have old: "distinct (map pvc_key (PVCList (vgStatus joining_group)))" by code_simp
  from members_converge [OF sample_retry old run calm] run show ?thesis by blast
qed

section \<open>Which claims are taken in\<close>





section \<open>Finalizers of claims\<close>

text \<open>
  C8. While a claim leaves a group its finalizer is touched only after the group's status without
  the claim was accepted, the claim was read afresh, and every group then listed that still has the
  claim was found to belong to another driver or to no class.
\<close>

theorem claim_protected:
  assumes "retry_documented env" and "RemoveVolumeFromPvcListAndPvList env driver pvc vg t = (x, t')"
  shows "\<exists>es. t' = t @ es \<and> guards (\<lambda>es. released env driver pvc es \<and> unlisted vg pvc es) (within {SpecPVC}) es"
  using gives_run [OF RemoveVolume_release [OF assms(1)] assms(2)] by metis

theorem claim_protected_witness:
  "(let es = snd (RemoveVolumeFromPvcListAndPvList joining_env ''d'' claim_B joining_group [])
    in guards (\<lambda>es. released joining_env ''d'' claim_B es \<and> unlisted joining_group claim_B es) (within {SpecPVC}) es \<and>
       list_ex (within {SpecPVC}) es)"
  unfolding Let_def
proof
  show "guards (\<lambda>es. released joining_env ''d'' claim_B es \<and> unlisted joining_group claim_B es) (within {SpecPVC})
      (snd (RemoveVolumeFromPvcListAndPvList joining_env ''d'' claim_B joining_group []))"
    using claim_protected [OF sample_retry surjective_pairing, of joining_cluster "''d''" claim_B joining_group "[]"] by simp
  show "list_ex (within {SpecPVC}) (snd (RemoveVolumeFromPvcListAndPvList joining_env ''d'' claim_B joining_group []))"
    by code_simp
qed

end
