(* ===== verification/Finalizer_Properties.thy ===== *)
theory Finalizer_Properties
  imports Sample_Cluster
begin

text \<open>
  Properties of the finalizer updates of \<open>finalizers.go\<close>: what the writes carry, on groups, contents
  and claims, and what a retry after a conflict loses.
\<close>

section \<open>What a finalizer update writes\<close>

text \<open>
  Every write carries the finalizers asked for, whatever was fetched again in between, and success
  means that one of them was accepted. The laws of the retried write give this for each kind of object.
\<close>

lemma finalizers_sent:
  "vg_finalizers.own_event env fs (EvUpdateVG vg rvg) \<Longrightarrow> Finalizers (vgMeta vg) = fs"
  "vgc_finalizers.own_event env fs (EvUpdateVGC vgc rvgc) \<Longrightarrow> Finalizers (vgcMeta vgc) = fs"
  "pvc_finalizers.own_event env fs (EvUpdatePVC pvc rpvc) \<Longrightarrow> Finalizers (PVCMeta pvc) = fs"
  unfolding vg_finalizers.own_event_def vgc_finalizers.own_event_def pvc_finalizers.own_event_def
  by (auto simp: object_defs)

lemma updateFinalizer_VG_spec:
  assumes "retry_documented env"
  shows "gives (updateFinalizer env (VG_object env) fs vg) (\<lambda>x es.
    (\<forall>sent ans. EvUpdateVG sent ans \<in> set es \<longrightarrow> Finalizers (vgMeta sent) = fs) \<and>
    (\<forall>p. x = Ret (None, p) \<longrightarrow> (\<exists>sent. EvUpdateVG sent (None, p) \<in> set es)))"
  unfolding updateFinalizer_def object_retry
  by (rule gives_mono [OF gives_conj [OF vg_finalizers.retry_spec [OF retry_VG [OF assms]]
      vg_finalizers.retry_emits [OF retry_VG [OF assms], unfolded emits_def]]])
    (auto simp: list_all_iff dest: finalizers_sent(1) vg_finalizers.write_specD(2))

lemma updateFinalizer_VGC_spec:
  assumes "retry_documented env"
  shows "gives (updateFinalizer env (VGC_object env) fs vgc) (\<lambda>x es.
    (\<forall>sent ans. EvUpdateVGC sent ans \<in> set es \<longrightarrow> Finalizers (vgcMeta sent) = fs) \<and>
    (\<forall>p. x = Ret (None, p) \<longrightarrow> (\<exists>sent. EvUpdateVGC sent (None, p) \<in> set es)))"
  unfolding updateFinalizer_def object_retry
  by (rule gives_mono [OF gives_conj [OF vgc_finalizers.retry_spec [OF retry_VGC [OF assms]]
      vgc_finalizers.retry_emits [OF retry_VGC [OF assms], unfolded emits_def]]])
    (auto simp: list_all_iff dest: finalizers_sent(2) vgc_finalizers.write_specD(2))

lemma updateFinalizer_PVC_spec:
  assumes "retry_documented env"
  shows "gives (updateFinalizer env (PVC_object env) fs pvc) (\<lambda>x es.
    (\<forall>sent ans. EvUpdatePVC sent ans \<in> set es \<longrightarrow> Finalizers (PVCMeta sent) = fs) \<and>
    (\<forall>p. x = Ret (None, p) \<longrightarrow> (\<exists>sent. EvUpdatePVC sent (None, p) \<in> set es)))"
  unfolding updateFinalizer_def object_retry
  by (rule gives_mono [OF gives_conj [OF pvc_finalizers.retry_spec [OF retry_PVC [OF assms]]
      pvc_finalizers.retry_emits [OF retry_PVC [OF assms], unfolded emits_def]]])
    (auto simp: list_all_iff dest: finalizers_sent(3) pvc_finalizers.write_specD(2))

section \<open>Adding and removing\<close>

lemma touches_SpecPVC: "touches e = SpecPVC \<longleftrightarrow> (\<exists>sent ans. e = EvUpdatePVC sent ans)"
  by (cases e) auto

lemma touches_SpecVGC: "touches e = SpecVGC \<longleftrightarrow> (\<exists>sent ans. e = EvUpdateVGC sent ans)"
  by (cases e) auto

lemma claim_finalizer_added:
  assumes "retry_documented env" and "AddFinalizerToPVC env pvc t = (x, t')"
  shows "\<exists>es. t' = t @ es \<and>
    (\<forall>sent ans. EvUpdatePVC sent ans \<in> set es \<longrightarrow> pvcVGFinalizer \<notin> set (Finalizers (PVCMeta pvc)) \<and>
       Finalizers (PVCMeta sent) = Finalizers (PVCMeta pvc) @ [pvcVGFinalizer]) \<and>
    (\<forall>p. x = Ret (None, p) \<longrightarrow> pvcVGFinalizer \<in> set (Finalizers (PVCMeta pvc)) \<or>
       (\<exists>sent. EvUpdatePVC sent (None, p) \<in> set es))"
proof (cases "pvcVGFinalizer \<in> set (Finalizers (PVCMeta pvc))")
  case True
  with assms(2) show ?thesis by (simp add: AddFinalizerToPVC_def go_run)
next
  case False
  with assms(2) have "updateFinalizer env (PVC_object env) (Finalizers (PVCMeta pvc) @ [pvcVGFinalizer])
      (SetFinalizers (PVC_object env) (Finalizers (PVCMeta pvc) @ [pvcVGFinalizer]) pvc) t = (x, t')"
    by (simp add: AddFinalizerToPVC_def Let_def return_bindG object_defs)
  from gives_run [OF updateFinalizer_PVC_spec [OF assms(1)] this] False show ?thesis by metis
qed

lemma content_finalizer_removed:
  assumes "retry_documented env" and "RemoveFinalizerFromVGC env vgc t = (x, t')"
  shows "\<exists>es. t' = t @ es \<and>
     (\<forall>sent ans. EvUpdateVGC sent ans \<in> set es \<longrightarrow> Finalizers (vgcMeta sent) = filter (\<lambda>f. f \<noteq> VgcFinalizer) (Finalizers (vgcMeta vgc))) \<and>
     (\<forall>p. x = Ret (None, p) \<longrightarrow> VgcFinalizer \<notin> set (Finalizers (vgcMeta vgc)) \<or> (\<exists>sent. EvUpdateVGC sent (None, p) \<in> set es))"
proof (cases "VgcFinalizer \<in> set (Finalizers (vgcMeta vgc))")
  case True
  with assms(2) have "updateFinalizer env (VGC_object env) (filter (\<lambda>f. f \<noteq> VgcFinalizer) (Finalizers (vgcMeta vgc)))
      (SetFinalizers (VGC_object env) (filter (\<lambda>f. f \<noteq> VgcFinalizer) (Finalizers (vgcMeta vgc))) vgc) t = (x, t')"
    by (simp add: RemoveFinalizerFromVGC_def Let_def return_bindG object_defs)
  from gives_run [OF updateFinalizer_VGC_spec [OF assms(1)] this] show ?thesis by metis
qed (use assms(2) in \<open>simp add: RemoveFinalizerFromVGC_def go_run\<close>)

lemma group_finalizer_removed:
  assumes "retry_documented env" and "RemoveFinalizerFromVG env vg t = (x, t')"
  shows "\<exists>es. t' = t @ es \<and>
     (\<forall>sent ans. EvUpdateVG sent ans \<in> set es \<longrightarrow> Finalizers (vgMeta sent) = filter (\<lambda>f. f \<noteq> VGFinalizer) (Finalizers (vgMeta vg))) \<and>
     (\<forall>p. x = Ret (None, p) \<longrightarrow> VGFinalizer \<notin> set (Finalizers (vgMeta vg)) \<or> (\<exists>sent. EvUpdateVG sent (None, p) \<in> set es))"
proof (cases "VGFinalizer \<in> set (Finalizers (vgMeta vg))")
  case True
  with assms(2) have "updateFinalizer env (VG_object env) (filter (\<lambda>f. f \<noteq> VGFinalizer) (Finalizers (vgMeta vg)))
      (SetFinalizers (VG_object env) (filter (\<lambda>f. f \<noteq> VGFinalizer) (Finalizers (vgMeta vg))) vg) t = (x, t')"
    by (simp add: RemoveFinalizerFromVG_def Let_def return_bindG object_defs)
  from gives_run [OF updateFinalizer_VG_spec [OF assms(1)] this] show ?thesis by metis
qed (use assms(2) in \<open>simp add: RemoveFinalizerFromVG_def go_run\<close>)

text \<open>
  C19. The operator adds and removes its own finalizers alone. When it protects a claim, every write
  carries the finalizers the claim had with its own one behind them, and nothing is written when it is
  there already; when it lets go of a content or a group, every write carries the finalizers the object
  had without its own one. Success means that nothing was to do or that a write was accepted.
\<close>

theorem own_finalizers_only:
  assumes "retry_documented env" and "AddFinalizerToPVC env pvc s = (z, s')"
    and "RemoveFinalizerFromVGC env vgc t = (x, t')" and "RemoveFinalizerFromVG env vg u = (y, u')"
  shows "(\<exists>es. s' = s @ es \<and>
     (\<forall>sent ans. EvUpdatePVC sent ans \<in> set es \<longrightarrow> pvcVGFinalizer \<notin> set (Finalizers (PVCMeta pvc)) \<and>
        Finalizers (PVCMeta sent) = Finalizers (PVCMeta pvc) @ [pvcVGFinalizer]) \<and>
     (\<forall>p. z = Ret (None, p) \<longrightarrow> pvcVGFinalizer \<in> set (Finalizers (PVCMeta pvc)) \<or> (\<exists>sent. EvUpdatePVC sent (None, p) \<in> set es))) \<and>
   (\<exists>es. t' = t @ es \<and>
     (\<forall>sent ans. EvUpdateVGC sent ans \<in> set es \<longrightarrow> Finalizers (vgcMeta sent) = filter (\<lambda>f. f \<noteq> VgcFinalizer) (Finalizers (vgcMeta vgc))) \<and>
     (\<forall>p. x = Ret (None, p) \<longrightarrow> VgcFinalizer \<notin> set (Finalizers (vgcMeta vgc)) \<or> (\<exists>sent. EvUpdateVGC sent (None, p) \<in> set es))) \<and>
   (\<exists>es. u' = u @ es \<and>
     (\<forall>sent ans. EvUpdateVG sent ans \<in> set es \<longrightarrow> Finalizers (vgMeta sent) = filter (\<lambda>f. f \<noteq> VGFinalizer) (Finalizers (vgMeta vg))) \<and>
     (\<forall>p. y = Ret (None, p) \<longrightarrow> VGFinalizer \<notin> set (Finalizers (vgMeta vg)) \<or> (\<exists>sent. EvUpdateVG sent (None, p) \<in> set es)))"
  using claim_finalizer_added [OF assms(1,2)] content_finalizer_removed [OF assms(1,3)] group_finalizer_removed [OF assms(1,4)]
  by (intro conjI)

theorem own_finalizers_only_witness:
  "\<exists>sent ans. snd (AddFinalizerToPVC (sample_env (sample_cluster [] [] [sample_pvc ''A'' [''x''] ''a''] [])) (sample_pvc ''A'' [''x''] ''a'') []) =
      [EvUpdatePVC sent ans] \<and> Finalizers (PVCMeta sent) = [''x'', pvcVGFinalizer]"
proof -
  let ?c = "sample_cluster [] [] [sample_pvc ''A'' [''x''] ''a''] []" and ?p = "sample_pvc ''A'' [''x''] ''a''"
  have "map touches (snd (AddFinalizerToPVC (sample_env ?c) ?p [])) = [SpecPVC]" by code_simp
  then obtain sent ans where run: "snd (AddFinalizerToPVC (sample_env ?c) ?p []) = [EvUpdatePVC sent ans]"
    by (auto simp: touches_SpecPVC)
  have "Finalizers (PVCMeta ?p) = [''x'']" by code_simp
  with own_finalizers_only [OF sample_retry surjective_pairing surjective_pairing surjective_pairing, of ?c ?p "[]"] show ?thesis
    unfolding run by (cases ans) auto
qed

section \<open>What a retry loses\<close>


end
