(* ===== verification/Panic_Spec.thy ===== *)
theory Panic_Spec
  imports VG_Spec
begin

text \<open>
  Where the operator can panic. A small logic for returning: \<open>returns F m R\<close> says that \<open>m\<close> returns a
  value with \<open>R\<close> as long as every answer it gets satisfies \<open>F\<close>. Most operations return whatever they
  are answered; the few that dereference a pointer unchecked return on the answers that have it.
\<close>

section \<open>A logic for returning\<close>

definition returns :: "(event \<Rightarrow> bool) \<Rightarrow> 'a go \<Rightarrow> ('a \<Rightarrow> bool) \<Rightarrow> bool" where
  "returns F m R \<longleftrightarrow> gives m (\<lambda>x es. list_all F es \<longrightarrow> (\<exists>a. x = Ret a \<and> R a))"

abbreviation safe :: "(event \<Rightarrow> bool) \<Rightarrow> 'a go \<Rightarrow> bool" where
  "safe F m \<equiv> returns F m (\<lambda>_. True)"

named_theorems safe_intro \<open>rules of the logic for returning\<close>
named_theorems safes \<open>operations that return whatever they are answered\<close>

lemma returns_returnG [safe_intro]: "R a \<Longrightarrow> returns F (returnG a) R"
  by (simp add: returns_def gives_def wp_def go_run)

lemma returns_liftG: "(\<exists>a. x = Ret a \<and> R a) \<Longrightarrow> returns F (liftG x) R"
  by (simp add: returns_def gives_def wp_def go_run)

lemma returns_readG [safe_intro]: "(\<And>r. R r) \<Longrightarrow> returns F (readG f) R"
  by (simp add: returns_def gives_def wp_def go_run)

lemma returns_callG [safe_intro]: "(\<And>r. F (ev r) \<Longrightarrow> R r) \<Longrightarrow> returns F (callG ev f) R"
  by (simp add: returns_def gives_def wp_def go_run)

text \<open>Sequencing, with and without a fact about the value in between.\<close>

lemma returns_bind_value:
  assumes "returns F m Q" and "\<And>a. emits (\<lambda>_. True) (f a)" and "\<And>a. Q a \<Longrightarrow> returns F (f a) R"
  shows "returns F (bindG m f) R"
  unfolding returns_def gives_def
proof (rule wp_bind_use [OF assms(1) [unfolded returns_def]])
  fix a es
  assume a: "list_all F es \<longrightarrow> (\<exists>b. Ret a = Ret b \<and> Q b)"
  show "wp (f a) (\<lambda>x es. list_all F es \<longrightarrow> (\<exists>a. x = Ret a \<and> R a)) ([] @ es)"
  proof (cases "list_all F es")
    case True
    with a have "returns F (f a) R" by (intro assms(3)) simp
    then show ?thesis unfolding returns_def by (rule wp_use) simp
  next
    case False
    show ?thesis by (rule wp_emits [OF assms(2)]) (use False in simp)
  qed
qed simp

lemma returns_emits: "returns F m R \<Longrightarrow> emits (\<lambda>_. True) m"
  unfolding returns_def emits_def by (erule gives_mono) (simp add: list_all_iff)

lemma returns_bindG [safe_intro]:
  "safe F m \<Longrightarrow> (\<And>a. returns F (f a) R) \<Longrightarrow> returns F (bindG m f) R"
  by (rule returns_bind_value) (auto dest: returns_emits)

lemma returns_mono: "returns F m Q \<Longrightarrow> (\<And>a. Q a \<Longrightarrow> R a) \<Longrightarrow> returns F m R"
  unfolding returns_def by (erule gives_mono) auto

lemma returns_tryG [safe_intro]:
  "safe F m \<Longrightarrow> (\<And>a. returns F (f a) R) \<Longrightarrow> (\<And>e. R (Inl e)) \<Longrightarrow> returns F (tryG m f) R"
  unfolding tryG_def by (rule returns_bindG) (auto intro: returns_returnG split: sum.split)

lemma returns_try_value:
  assumes "returns F m Q" and "\<And>a. emits (\<lambda>_. True) (f a)" and "\<And>a. Q (Inr a) \<Longrightarrow> returns F (f a) R" and "\<And>e. R (Inl e)"
  shows "returns F (tryG m f) R"
  unfolding tryG_def using assms(1)
  by (rule returns_bind_value) (auto intro: returns_returnG emits_returnG assms(2-4) split: sum.split)

lemma returns_if [safe_intro]:
  "(b \<Longrightarrow> returns F m R) \<Longrightarrow> (\<not> b \<Longrightarrow> returns F n R) \<Longrightarrow> returns F (if b then m else n) R"
  by simp

lemma returns_option [safe_intro]:
  "(x = None \<Longrightarrow> returns F m R) \<Longrightarrow> (\<And>a. x = Some a \<Longrightarrow> returns F (f a) R) \<Longrightarrow>
     returns F (case x of None \<Rightarrow> m | Some a \<Rightarrow> f a) R"
  by (cases x) auto

lemma returns_sum [safe_intro]:
  "(\<And>a. x = Inl a \<Longrightarrow> returns F (f a) R) \<Longrightarrow> (\<And>b. x = Inr b \<Longrightarrow> returns F (g b) R) \<Longrightarrow>
     returns F (case x of Inl a \<Rightarrow> f a | Inr b \<Rightarrow> g b) R"
  by (cases x) auto

lemma returns_prod [safe_intro]:
  "(\<And>a b. x = (a, b) \<Longrightarrow> returns F (f a b) R) \<Longrightarrow> returns F (case x of (a, b) \<Rightarrow> f a b) R"
  by (cases x) auto

section \<open>Operations that always return\<close>

text \<open>\<open>rand.Intn(n)\<close> draws a number below \<open>n\<close>.\<close>

definition rand_documented :: "env \<Rightarrow> bool" where
  "rand_documented env \<longleftrightarrow> (\<forall>t n i. 0 < n \<longrightarrow> lib_Intn (lib env) t n i < n)"

lemma random_letters_return: "(\<And>i. draw i < length letterBytes) \<Longrightarrow> \<exists>s. random_letters draw i n = Ret s"
proof (induction n arbitrary: i)
  case (Suc n)
  then obtain s where "random_letters draw (i + 1) n = Ret s" by blast
  with Suc.prems show ?case by simp
qed simp

lemma safe_generateString [safes]:
  assumes "rand_documented env"
  shows "safe F (generateString env)"
  unfolding returns_def gives_def generateString_def
proof (intro wp_bindG)
  have "lib_Intn (lib env) t (length letterBytes) i < length letterBytes" for t i
    using assms by (auto simp: rand_documented_def letterBytes_def)
  then show "wp (readG (\<lambda>t. lib_Intn (lib env) t (length letterBytes)))
      (bind_post (\<lambda>draw. liftG (random_letters draw 0 16)) (\<lambda>x es. list_all F es \<longrightarrow> (\<exists>a. x = Ret a \<and> True))) []"
    by (auto simp: wp_def readG_def go_run intro!: random_letters_return)
qed

lemma safe_reads [safes]:
  "safe F (GetVGClass env name)" "safe F (GetVG env name ns)" "safe F (isVGHasMatchingDriver env vg driver)"
  "safe F (GetVGC env name ns)" "safe F (GetVGC_of env vg)" "safe F (IsVgExist env vgc)"
  "safe F (IsPVCHasMatchingDriver env pvc driver)" "safe F (IsPVCInStaticVG env pvc)"
  "safe F (getPV env name)" "safe F (GetPVFromPVC env pvc)" "safe F (getPVCList env)" "safe F (GetPVC env name ns)"
  "safe F (GetSecretDataFromClass env c)"
  unfolding read_defs getSecretData_def GetSecretDataFromClass_def client_calls reflected_fields bindG_lift_Ret
  by (auto intro!: safe_intro)

lemma safe_loops_of_reads [safes]:
  "safe F (getProvisionedVGs env vgs driver acc)" "safe F (getProvisionedPVCList env driver pvcs acc')"
  "safe F (GetVGList env driver)" "safe F (GetPVCList env driver)" "safe F (getMatchingPVCFromPVCListToPV env name driver)"
  "safe F (isFinalizerShouldBeREmovedFromPVC env driver pvc)"
proof -
  show groups: "safe F (getProvisionedVGs env vgs driver acc)" for vgs acc
    by (induction vgs arbitrary: acc) (auto intro!: safe_intro safes)
  show claims: "safe F (getProvisionedPVCList env driver pvcs acc')" for pvcs acc'
    by (induction pvcs arbitrary: acc') (auto intro!: safe_intro safes)
  show vgs: "safe F (GetVGList env driver)"
    unfolding GetVGList_def client_calls by (auto intro!: safe_intro groups)
  show pvcs: "safe F (GetPVCList env driver)"
    unfolding GetPVCList_def by (auto intro!: safe_intro safes claims)
  have "\<exists>a. pvcOfPV l name = Ret a" for l
    by (induction l) (auto simp: getPVNameFromPVC_def)
  then show "safe F (getMatchingPVCFromPVCListToPV env name driver)"
    unfolding getMatchingPVCFromPVCListToPV_def by (auto intro!: safe_intro pvcs returns_liftG)
  show "safe F (isFinalizerShouldBeREmovedFromPVC env driver pvc)"
    unfolding isFinalizerShouldBeREmovedFromPVC_def by (auto intro!: safe_intro safes vgs)
qed

text \<open>A retried write returns, and its success leaves the answer to an accepted write.\<close>

lemma returns_retry:
  assumes "retry_documented env"
  shows "returns F (lib_RetryOnConflict_VG (lib env) (\<lambda>vg. vgRetryOnConflictFunc env (prep vg)) vg)
      (\<lambda>(err, vg'). err = None \<longrightarrow> (\<exists>sent. F (EvStatusVG (prep sent) (None, vg'))))"
    "returns F (lib_RetryOnConflict_VGC (lib env) (\<lambda>vgc. vgcRetryOnConflictFunc env (prep' vgc)) vgc)
      (\<lambda>(err, vgc'). err = None \<longrightarrow> (\<exists>sent. F (EvStatusVGC sent (None, vgc'))))"
    "returns F (updateFinalizer env (VG_object env) fs vg)
      (\<lambda>(err, vg'). err = None \<longrightarrow> (\<exists>sent. F (EvUpdateVG sent (None, vg'))))"
    "returns F (updateFinalizer env (VGC_object env) fs vgc)
      (\<lambda>(err, vgc'). err = None \<longrightarrow> (\<exists>sent. F (EvUpdateVGC sent (None, vgc'))))"
    "safe F (updateFinalizer env (PVC_object env) fs pvc)"
proof -
  note specs = vg_status.retry_spec [OF retry_VG [OF assms]] vgc_status.retry_spec [OF retry_VGC [OF assms]]
    vg_finalizers.retry_spec [OF retry_VG [OF assms]] vgc_finalizers.retry_spec [OF retry_VGC [OF assms]]
    pvc_finalizers.retry_spec [OF retry_PVC [OF assms]]
  show "returns F (lib_RetryOnConflict_VG (lib env) (\<lambda>vg. vgRetryOnConflictFunc env (prep vg)) vg)
      (\<lambda>(err, vg'). err = None \<longrightarrow> (\<exists>sent. F (EvStatusVG (prep sent) (None, vg'))))"
    unfolding returns_def by (rule gives_mono [OF specs(1)]) (auto simp: vg_status.write_spec_def)
  show "returns F (lib_RetryOnConflict_VGC (lib env) (\<lambda>vgc. vgcRetryOnConflictFunc env (prep' vgc)) vgc)
      (\<lambda>(err, vgc'). err = None \<longrightarrow> (\<exists>sent. F (EvStatusVGC sent (None, vgc'))))"
    unfolding returns_def by (rule gives_mono [OF specs(2)]) (auto simp: vgc_status.write_spec_def)
  show "returns F (updateFinalizer env (VG_object env) fs vg)
      (\<lambda>(err, vg'). err = None \<longrightarrow> (\<exists>sent. F (EvUpdateVG sent (None, vg'))))"
    unfolding returns_def updateFinalizer_def object_retry
    by (rule gives_mono [OF specs(3)]) (auto simp: vg_finalizers.write_spec_def)
  show "returns F (updateFinalizer env (VGC_object env) fs vgc)
      (\<lambda>(err, vgc'). err = None \<longrightarrow> (\<exists>sent. F (EvUpdateVGC sent (None, vgc'))))"
    unfolding returns_def updateFinalizer_def object_retry
    by (rule gives_mono [OF specs(4)]) (auto simp: vgc_finalizers.write_spec_def)
  show "safe F (updateFinalizer env (PVC_object env) fs pvc)"
    unfolding returns_def updateFinalizer_def object_retry
    by (rule gives_mono [OF specs(5)]) (auto simp: pvc_finalizers.write_spec_def)
qed

lemma safe_retry [safes]:
  assumes "retry_documented env"
  shows "safe F (lib_RetryOnConflict_VG (lib env) (\<lambda>vg. vgRetryOnConflictFunc env (prep vg)) vg)"
    "safe F (lib_RetryOnConflict_VGC (lib env) (\<lambda>vgc. vgcRetryOnConflictFunc env (prep' vgc)) vgc)"
    "safe F (updateFinalizer env (VG_object env) fs vg)" "safe F (updateFinalizer env (VGC_object env) fs vgc)"
    "safe F (updateFinalizer env (PVC_object env) fs pvc)"
  by (rule returns_retry [OF assms, THEN returns_mono]; simp)+

text \<open>Writes without a retry.\<close>

lemma returns_update:
  "returns F (UpdateObject env (VG_object env) vg) (\<lambda>(err, vg'). err = None \<longrightarrow> F (EvUpdateVG vg (None, vg')))"
  "returns F (UpdateObject env (VGC_object env) vgc) (\<lambda>(err, vgc'). err = None \<longrightarrow> F (EvUpdateVGC vgc (None, vgc')))"
  "returns F (UpdateObjectStatus env (VG_object env) vg) (\<lambda>(err, vg'). err = None \<longrightarrow> F (EvStatusVG vg (None, vg')))"
  "returns F (UpdateObjectStatus env (VGC_object env) vgc) (\<lambda>(err, vgc'). err = None \<longrightarrow> F (EvStatusVGC vgc (None, vgc')))"
  unfolding returns_def gives_def wp_def
  by (auto simp: UpdateObject_run UpdateObjectStatus_run object_defs client_calls go_run split: prod.split option.split)

lemma safe_update [safes]:
  "safe F (UpdateObject env (VG_object env) vg)" "safe F (UpdateObject env (VGC_object env) vgc)"
  "safe F (UpdateObjectStatus env (VG_object env) vg)" "safe F (UpdateObjectStatus env (VGC_object env) vgc)"
  "safe F (getNamespacedObject env (PVC_object env) pvc)"
  by ((rule returns_update [THEN returns_mono]; simp)+)
    (auto simp: getNamespacedObject_def object_defs client_calls intro!: safe_intro)

lemma safe_events [safes]:
  assumes "rand_documented env"
  shows "safe F (createSuccessNamespacedObjectEvent env tm obj m r)" "safe F (createNamespacedObjectErrorEvent env tm obj m r)"
    "safe F (HandlePVCErrorMessage env pvc err r)" "safe F (HandleVGCErrorMessage env (Some vgc) err r)"
    "safe F (CreateSuccessVGCEvent env vgc)"
proof -
  show ok: "safe F (createSuccessNamespacedObjectEvent env tm obj m r)" "safe F (createNamespacedObjectErrorEvent env tm obj m r)" for tm obj m r
    unfolding createSuccessNamespacedObjectEvent_def createNamespacedObjectErrorEvent_def generateEvent_def createEvent_def
      GetCurrentTime_def client_calls using assms by (auto intro!: safe_intro safes)
  show "safe F (HandlePVCErrorMessage env pvc err r)" "safe F (HandleVGCErrorMessage env (Some vgc) err r)"
    "safe F (CreateSuccessVGCEvent env vgc)"
    unfolding HandlePVCErrorMessage_def HandleVGCErrorMessage_def CreateSuccessVGCEvent_def Let_def
    by (auto intro!: safe_intro ok)
qed

lemma safe_status [safes]:
  assumes "retry_documented env"
  shows "safe F (UpdateVGStatusError env vg message)" "safe F (updateVGStatusPVCList env vg pvcList)"
    "safe F (UpdateVGStatus env vg vgcName now ready)" "safe F (AddPVCToVG env pvc vg)" "safe F (RemovePVCFromVG env pvc vg)"
    "safe F (UpdateVGCStatusError env vgc message)" "safe F (updateVGCStatusPVList env vgc pvList)"
    "safe F (RemovePVFromVGC env pv vgc)" "safe F (addPVToVGC env pv vgc)" "safe F (UpdateVGCStatus env vgc now ready)"
  unfolding UpdateVGStatusError_def updateVGStatusPVCList_def UpdateVGStatus_def updateVGStatus_eq AddPVCToVG_def RemovePVCFromVG_def
    UpdateVGCStatusError_def updateVGCStatusPVList_def RemovePVFromVGC_def addPVToVGC_def UpdateVGCStatus_def Let_def
  using assms by (auto intro!: safe_intro safes)

lemma safe_messages [safes]:
  assumes "retry_documented env" and "rand_documented env"
  shows "safe F (HandleErrorMessage env vg err reason)" "safe F (HandleSuccessMessage env vg message reason)"
    "safe F (failVG env vg e reason)" "safe F (createSuccessVGEvent env vg)" "safe F (failVGC env (Some vgc) e reason)"
  unfolding failVG_def createSuccessVGEvent_def failVGC_def HandleErrorMessage_def HandleSuccessMessage_def Let_def
  using assms by (auto intro!: safe_intro safes)

lemma safe_finalizers [safes]:
  assumes "retry_documented env"
  shows "safe F (AddFinalizerToVG env vg)" "safe F (RemoveFinalizerFromVG env vg)"
    "safe F (AddFinalizerToVGC env vgc)" "safe F (RemoveFinalizerFromVGC env vgc)"
    "safe F (AddFinalizerToPVC env pvc)" "safe F (RemoveFinalizerFromPVC env driver pvc)" "safe F (deletePVC env name ns driver)"
proof -
  show pvc: "safe F (RemoveFinalizerFromPVC env driver pvc)" for pvc
    unfolding RemoveFinalizerFromPVC_def Let_def using assms by (auto intro!: safe_intro safes)
  show "safe F (deletePVC env name ns driver)"
    unfolding deletePVC_def removePVCObject_def client_calls by (auto intro!: safe_intro safes pvc)
qed (use assms in \<open>auto simp: AddFinalizerToVG_def RemoveFinalizerFromVG_def AddFinalizerToVGC_def RemoveFinalizerFromVGC_def
  AddFinalizerToPVC_def Let_def intro!: safe_intro safes\<close>)

lemma safe_members [safes]:
  assumes "retry_documented env" and "rand_documented env"
  shows "safe F (AddMatchingPVToMatchingVGC env pvc vg)" "safe F (AddVolumeToPvcListAndPvList env pvc vg)"
    "safe F (RemoveVolumeFromPvcListAndPvList env driver pvc vg)" "safe F (UpdatePvcAndPvList env vg driver pvcs)"
    "safe F (IsPVCNeedToBeHandled env pvc driver)"
proof -
  show "safe F (AddMatchingPVToMatchingVGC env pvc vg)" for pvc vg
    unfolding AddMatchingPVToMatchingVGC_def using assms by (auto intro!: safe_intro safes)
  then show add: "safe F (AddVolumeToPvcListAndPvList env pvc vg)" for pvc vg
    unfolding AddVolumeToPvcListAndPvList_def Let_def using assms by (auto intro!: safe_intro safes)
  show remove: "safe F (RemoveVolumeFromPvcListAndPvList env driver pvc vg)" for pvc vg
    unfolding RemoveVolumeFromPvcListAndPvList_def Let_def using assms by (auto intro!: safe_intro safes)
  have "safe F (removeVolumes env driver pvcs xs vg)" for xs vg
    using assms by (induction xs arbitrary: vg) (auto intro!: safe_intro safes remove)
  moreover have "safe F (addVolumes env xs ys vg)" for xs ys vg
    using assms by (induction ys arbitrary: vg) (auto intro!: safe_intro safes add)
  ultimately show "safe F (UpdatePvcAndPvList env vg driver pvcs)"
    unfolding UpdatePvcAndPvList_def Let_def by (auto intro!: safe_intro)
  show "safe F (IsPVCNeedToBeHandled env pvc driver)"
    unfolding IsPVCNeedToBeHandled_def Let_def using assms by (auto intro!: safe_intro safes)
qed

lemma safe_contents [safes]:
  "safe F (CreateVGC env vgc)" "safe F (UpdateStaticVGC env ns name c)" "safe F (UpdateThinVGC env ns name)"
  "safe F (isVGCReady env vgc)" "safe F (GetCurrentTime env)" "safe F (UpdateVGSourceContent env vg name)"
  unfolding CreateVGC_def UpdateStaticVGC_def UpdateThinVGC_def updateThinVGCSpec_def isVGCReady_def GetCurrentTime_def
    UpdateVGSourceContent_def Let_def client_calls
  by (auto intro!: safe_intro safes)

section \<open>The group reconciler\<close>

text \<open>
  Answers the group reconciler is not prepared for: a group without a selector, a content without a
  deletion policy or a source, a volume that is no CSI volume.
\<close>

fun unsound :: "event \<Rightarrow> bool" where
  "unsound (EvGetVG k (None, vg)) = (\<not> has_selector vg)"
| "unsound (EvUpdateVG sent (None, vg)) = (\<not> has_selector vg)"
| "unsound (EvStatusVG sent (None, vg)) = (\<not> has_selector vg)"
| "unsound (EvListVG (Inr vgs)) = list_ex (\<lambda>vg. \<not> has_selector vg) vgs"
| "unsound (EvGetVGC k (None, c)) = (vgcVolumeGroupDeletionPolicy (vgcSpec c) = None \<or> vgcSource (vgcSpec c) = None)"
| "unsound (EvGetPV name (Inr pv)) = (PVCSI pv = None)"
| "unsound _ = False"

lemma returns_GetVGList:
  assumes F: "\<And>e. F e \<Longrightarrow> \<not> unsound e"
  shows "returns F (GetVGList env driver) (\<lambda>r. \<forall>vgs. r = Inr vgs \<longrightarrow> (\<forall>vg \<in> set vgs. has_selector vg))"
proof -
  have loop: "returns F (getProvisionedVGs env vgs driver acc) (\<lambda>r. \<forall>vgs. r = Inr vgs \<longrightarrow> (\<forall>vg \<in> set vgs. has_selector vg))"
    if "\<forall>vg \<in> set vgs \<union> set acc. has_selector vg" for vgs acc
    using that by (induction vgs arbitrary: acc) (auto intro!: safe_intro safes)
  have list: "returns F (client_List_VG env) (\<lambda>r. \<forall>vgs. r = Inr vgs \<longrightarrow> (\<forall>vg \<in> set vgs. has_selector vg))"
    unfolding client_calls by (rule returns_callG, drule F) (auto simp: list_ex_iff)
  show ?thesis
    unfolding GetVGList_def using list
    by (rule returns_try_value) (auto intro: loop returns_emits [OF safe_loops_of_reads(1)])
qed

lemma safe_matching:
  assumes F: "\<And>e. F e \<Longrightarrow> \<not> unsound e" and env: "rand_documented env" "retry_documented env" and vg: "has_selector vg"
  shows "safe F (getMatchingPVCs env r vg)"
proof -
  have one: "safe F (IsPVCMatchesVG env pvc vg)" if "has_selector vg" for pvc vg
    unfolding IsPVCMatchesVG_def using that by (auto simp: has_selector_def intro!: safe_intro)
  have collect: "safe F (collectVGsForPVC env pvc vgs xs ys)" if "\<forall>vg \<in> set vgs. has_selector vg" for pvc vgs xs ys
    using that by (induction vgs arbitrary: xs ys) (auto intro!: safe_intro one)
  have reads: "emits (\<lambda>_. True) (IsPVCCanBeAddedToVG env pvc vgs)" for pvc vgs
    by (rule emits_mono [OF reads_IsPVCCanBeAddedToVG]) simp
  have admit: "safe F (isPVCCanBeAddedToVG env r pvc)" for pvc
    unfolding isPVCCanBeAddedToVG_def
    apply (rule returns_if, rule returns_returnG, simp)
    apply (rule returns_bind_value [OF returns_GetVGList [OF F]], assumption)
     apply (auto intro!: emits_intro reads split: sum.split)[1]
    apply (auto simp: IsPVCCanBeAddedToVG_def intro!: safe_intro collect)
    done
  have "safe F (collectMatchingPVCs env r vg pvcs acc)" for pvcs acc
    using env by (induction pvcs arbitrary: acc)
      (auto simp: isPVCShouldBeInVg_def intro!: safe_intro one [OF vg] admit safes)
  then show ?thesis
    unfolding getMatchingPVCs_def by (auto intro!: safe_intro safes)
qed

lemma safe_modify:
  assumes F: "\<And>e. F e \<Longrightarrow> \<not> unsound e" and env: "rand_documented env" "retry_documented env"
  shows "safe F (ModifyVolumesInVG env c pvcs vg)"
proof -
  have content: "returns F (GetVGC_of env vg) (\<lambda>r. \<forall>c. r = Inr c \<longrightarrow> vgcSource (vgcSpec c) \<noteq> None)" for vg
    unfolding GetVGC_of_def GetVGC_def vgcNameOf_def reflected_fields bindG_lift_Ret client_calls
    apply (rule returns_bind_value [where Q = "\<lambda>(err, c). err = None \<longrightarrow> vgcSource (vgcSpec c) \<noteq> None"])
      apply (rule returns_callG, drule F)
      apply (auto intro!: safe_intro emits_intro split: option.split)
    done
  have handle: "safe F (getVgId env vg)" for vg
    unfolding getVgId_def
    by (rule returns_try_value [OF content]) (auto intro!: safe_intro emits_intro split: option.split)
  have volume: "returns F (GetPVFromPVC env pvc) (\<lambda>r. \<forall>pv. r = Inr (Some pv) \<longrightarrow> PVCSI pv \<noteq> None)" for pvc
    unfolding GetPVFromPVC_def getPVNameFromPVC_def reflected_fields bindG_lift_Ret getPV_def client_calls
    apply (rule returns_if, rule returns_returnG, simp)
    apply (rule returns_bind_value [where Q = "\<lambda>r. \<forall>pv. r = Inr pv \<longrightarrow> PVCSI pv \<noteq> None"])
      apply (rule returns_try_value [where Q = "\<lambda>r. \<forall>pv. r = Inr pv \<longrightarrow> PVCSI pv \<noteq> None"])
         apply (rule returns_callG, drule F)
         apply (auto intro!: safe_intro emits_intro split: sum.split)
    done
  have ids: "safe F (getPVCListVolumeIds env pvcs acc)" for pvcs acc
  proof (induction pvcs arbitrary: acc)
    case (Cons pvc pvcs)
    show ?case
      unfolding getPVCListVolumeIds.simps
      apply (rule returns_try_value [OF volume])
        apply (auto intro!: safe_intro Cons.IH emits_intro returns_emits [OF Cons.IH] split: option.split)
      done
  qed (simp add: returns_returnG)
  have "safe F (ModifyVG env vg c)" for vg
    unfolding ModifyVG_def generateModifyVGParams_def getSecrets_def request_defs reflected_fields bindG_lift_Ret
    using env by (auto intro!: safe_intro safes handle ids)
  then show ?thesis unfolding ModifyVolumesInVG_def Let_def by (auto intro!: safe_intro)
qed

lemma safe_updatePVCs:
  assumes "\<And>e. F e \<Longrightarrow> \<not> unsound e" and "rand_documented env" and "retry_documented env" and "has_selector vg"
  shows "safe F (updatePVCs env r vg)"
  unfolding updatePVCs_def
  by (intro safe_intro safe_matching safe_modify safe_messages safe_members assms TrueI)

text \<open>The group that an answer carries, and whether it names a content.\<close>

fun answered_group :: "event \<Rightarrow> VolumeGroup option" where
  "answered_group (EvGetVG k (None, vg)) = Some vg"
| "answered_group (EvUpdateVG sent (None, vg)) = Some vg"
| "answered_group (EvStatusVG sent (None, vg)) = Some vg"
| "answered_group _ = None"

abbreviation has_content :: "VolumeGroup \<Rightarrow> bool" where
  "has_content vg \<equiv> srcVolumeGroupContentName (vgSource (vgSpec vg)) \<noteq> None"

definition named :: "event \<Rightarrow> bool" where
  "named e \<longleftrightarrow> (\<exists>vg. answered_group e = Some vg \<and> has_content vg)"

definition unnamed :: "event \<Rightarrow> bool" where
  "unnamed e \<longleftrightarrow> (\<exists>vg. answered_group e = Some vg \<and> \<not> has_content vg)"

lemma unnamed_code [code]: "unnamed e = (case answered_group e of None \<Rightarrow> False | Some vg \<Rightarrow> \<not> has_content vg)"
  by (simp add: unnamed_def split: option.split)

text \<open>A group that named a content was answered without one later.\<close>

definition content_lost :: "event list \<Rightarrow> bool" where
  "content_lost es \<longleftrightarrow> (\<exists>es1 e es2. es = es1 @ e # es2 \<and> named e \<and> list_ex unnamed es2)"

lemma content_lost_append: "list_ex named es \<Longrightarrow> list_ex unnamed es' \<Longrightarrow> content_lost (es @ es')"
  unfolding content_lost_def list_ex_iff by (metis append.assoc append_Cons list.set_intros(1) Un_iff set_append split_list)

lemma returns_updateItems:
  assumes env: "rand_documented env" "retry_documented env"
  shows "returns F (updateItems env vg now name)
    (\<lambda>(err, vg'). err = None \<longrightarrow> (\<exists>e. F e \<and> answered_group e = Some vg'))"
proof -
  have twice: "returns F (UpdateVGStatus env vg name now True)
      (\<lambda>(err, vg'). err = None \<longrightarrow> (\<exists>e. F e \<and> answered_group e = Some vg'))" for vg
    unfolding UpdateVGStatus_def updateVGStatus_eq
    apply (rule returns_bindG [OF safe_retry(1) [OF env(2)]])
    apply (intro returns_prod returns_option returns_returnG, simp)
    apply (rule returns_mono [OF returns_update(3)], auto intro: exI [of _ "EvStatusVG _ (None, _)"])
    done
  have fail: "returns F (HandleErrorMessage env vg (Some e) reason) (\<lambda>(err, vg'). err \<noteq> None)" for vg e reason
    unfolding returns_def
    by (rule gives_mono [OF gives_conj [OF safe_messages(1) [OF env(2,1), unfolded returns_def] HandleErrorMessage_fails [OF env(2), unfolded fails_def]]])
      auto
  show ?thesis
    unfolding updateItems_def
    apply (rule returns_bindG [OF safe_contents(6)])
    apply (intro returns_prod returns_option)
     apply (rule returns_bind_value [OF twice])
      apply (auto intro!: emits_intro does_any [OF does_messages_VG(1) [OF env(2) subset_UNIV]] split: option.split)[1]
     apply (auto intro!: safe_intro intro: returns_mono [OF fail])
    done
qed

lemma safe_dynamic:
  assumes F: "\<And>e. F e \<Longrightarrow> \<not> unsound e" and env: "rand_documented env" "retry_documented env"
  shows "safe F (reconcileDynamic env r vg now c)"
proof -
  have sel: "has_selector vg'" if "F e" "answered_group e = Some vg'" for e vg'
    using F [OF that(1)] that(2) by (cases e rule: unsound.cases) auto
  have items: "returns F (updateItems env vg now name) (\<lambda>(err, vg'). err = None \<longrightarrow> has_selector vg')" for vg name
    by (rule returns_mono [OF returns_updateItems [OF env]]) (auto dest: sel)
  have rest: "emits (\<lambda>_. True) (updatePVCs env r vg)" for vg
    by (rule does_any [OF does_updatePVCs [OF env(2) subset_UNIV]])
  show ?thesis
    unfolding reconcileDynamic_def Let_def GenerateVGC_def generateVGCSpec_def reflected_fields outcome.case bindG_lift_Ret
    apply (intro returns_sum returns_prod safe_messages env)
    apply (rule returns_bindG [OF safe_contents(1)])
    apply (intro returns_prod returns_option safe_messages env)
    apply (rule returns_bindG [OF safe_contents(4)])
    apply (intro returns_sum returns_if returns_returnG safe_messages env TrueI)
    apply (rule returns_bind_value [OF items])
     apply (auto intro!: emits_intro rest does_any [OF does_failVG(1) [OF env(2) subset_UNIV]]
        does_any [OF does_failVG(2) [OF env(2) subset_UNIV]] split: option.split)[1]
    apply (auto intro!: safe_intro safe_updatePVCs [OF F] safes env)
    done
qed

lemma safe_static:
  assumes F: "\<And>e. F e \<Longrightarrow> \<not> unsound e \<and> \<not> unnamed e" and env: "rand_documented env" "retry_documented env"
  shows "safe F (handleStaticProvisionedVG env r vg now c)"
proof -
  have sel: "has_selector vg' \<and> has_content vg'" if "F e" "answered_group e = Some vg'" for e vg'
    using F [OF that(1)] that(2) by (cases e rule: unsound.cases) (auto simp: unnamed_def)
  have items: "returns F (updateItems env vg now name) (\<lambda>(err, vg'). err = None \<longrightarrow> has_selector vg' \<and> has_content vg')" for vg name
    by (rule returns_mono [OF returns_updateItems [OF env]]) (auto dest: sel)
  have claims: "emits (\<lambda>_. True) (updatePVCs env r vg)" for vg
    by (rule does_any [OF does_updatePVCs [OF env(2) subset_UNIV]])
  have content: "emits (\<lambda>_. True) (UpdateStaticVGCFromVG env vg c)" for vg
    by (rule does_any [OF does_contents(1) [OF subset_UNIV]])
  have static: "safe F (UpdateStaticVGCFromVG env vg c)" if "has_content vg" for vg
    unfolding UpdateStaticVGCFromVG_def Let_def using that by (auto intro!: safe_intro safes)
  show ?thesis
    unfolding handleStaticProvisionedVG_def
    apply (intro returns_option returns_returnG TrueI)
    apply (rule returns_bind_value [OF items])
     apply (auto intro!: emits_intro claims content split: option.split)[1]
    apply (auto intro!: safe_intro safe_updatePVCs [OF F [THEN conjunct1]] static env)
    done
qed

lemma safe_live:
  assumes F: "\<And>e. F e \<Longrightarrow> \<not> unsound e" and named: "\<And>e. has_content vg \<Longrightarrow> F e \<Longrightarrow> \<not> unnamed e"
    and env: "rand_documented env" "retry_documented env"
  shows "safe F (reconcileLive env r vg c)"
proof -
  have "safe F (handleStaticProvisionedVG env r vg now c)" for now
  proof (cases "has_content vg")
    case True
    with F named env show ?thesis by (intro safe_static) auto
  next
    case False
    then show ?thesis unfolding handleStaticProvisionedVG_def by (auto intro!: safe_intro)
  qed
  then show ?thesis
    unfolding reconcileLive_def using env by (auto intro!: safe_intro safes safe_dynamic [OF F])
qed

lemma AddFinalizerToVG_answer:
  assumes "retry_documented env"
  shows "gives (AddFinalizerToVG env vg) (\<lambda>x es. \<exists>err vg'. x = Ret (err, vg') \<and>
    (err = None \<longrightarrow> vg' = vg \<or> (\<exists>sent. EvUpdateVG sent (None, vg') \<in> set es)))"
proof -
  have update: "gives (updateFinalizer env (VG_object env) fs obj) (\<lambda>x es. \<exists>err vg'. x = Ret (err, vg') \<and>
      (err = None \<longrightarrow> vg' = vg \<or> (\<exists>sent. EvUpdateVG sent (None, vg') \<in> set es)))" for fs obj
    unfolding updateFinalizer_def object_retry
    by (rule gives_mono [OF vg_finalizers.retry_spec [OF retry_VG [OF assms]]])
      (auto simp: vg_finalizers.write_spec_def)
  show ?thesis
    using update unfolding AddFinalizerToVG_def Let_def case_return_pair return_bindG
    by (auto simp: gives_def intro: wp_returnG)
qed

lemma safe_removeInstance:
  assumes F: "\<And>e. F e \<Longrightarrow> \<not> unsound e" and env: "retry_documented env"
  shows "safe F (removeInstance env vg)"
proof -
  have content: "returns F (GetVGC_of env vg) (\<lambda>r. \<forall>c. r = Inr c \<longrightarrow> vgcVolumeGroupDeletionPolicy (vgcSpec c) \<noteq> None)"
    unfolding GetVGC_of_def GetVGC_def vgcNameOf_def reflected_fields bindG_lift_Ret client_calls
    apply (rule returns_bind_value [where Q = "\<lambda>(err, c). err = None \<longrightarrow> vgcVolumeGroupDeletionPolicy (vgcSpec c) \<noteq> None"])
      apply (rule returns_callG, drule F)
      apply (auto intro!: safe_intro emits_intro split: option.split)
    done
  show ?thesis
    unfolding removeInstance_def removeVGCObject_def client_calls
    apply (rule returns_bind_value [OF content])
     apply (auto intro!: emits_intro does_any [OF does_finalizers_VG(2) [OF env subset_UNIV]] split: sum.split option.split)[1]
    using env by (auto intro!: safe_intro safes)
qed

lemma content_lost_unnamed: "content_lost es \<Longrightarrow> list_ex unnamed es"
  unfolding content_lost_def by auto

definition group_answers :: "event list \<Rightarrow> bool" where
  "group_answers es \<longleftrightarrow> \<not> list_ex unsound es \<and> \<not> content_lost es"

lemma reconcileOwn_returns:
  assumes env: "rand_documented env" "retry_documented env" and vg: "answered_group e = Some vg" "e \<in> set pre"
  shows "wp (reconcileOwn env r vg c) (\<lambda>x es. group_answers es \<longrightarrow> (\<forall>s. x \<noteq> Panic s)) pre"
proof -
  let ?Q = "\<lambda>(x :: (Result \<times> error option) outcome) es. group_answers es \<longrightarrow> (\<forall>s. x \<noteq> Panic s)"
  let ?F = "\<lambda>e. \<not> unsound e"
  have returns: "wp m ?Q es" if "safe ?F m" for m es
    by (rule wp_use [OF that [unfolded returns_def]]) (auto simp: group_answers_def list_all_iff list_ex_iff)
  have live: "wp (reconcileLive env r vg' c) ?Q es" if e: "answered_group e = Some vg'" "e \<in> set es" for vg' e es
  proof (cases "has_content vg'")
    case True
    have "list_ex named es" using e True by (auto simp: list_ex_iff named_def)
    from content_lost_append [OF this] have kept: "\<forall>e \<in> set es'. \<not> unnamed e" if "\<not> content_lost (es @ es')" for es'
      using that by (auto simp: list_ex_iff)
    have "safe (\<lambda>e. \<not> unsound e \<and> \<not> unnamed e) (reconcileLive env r vg' c)"
      using env by (intro safe_live) auto
    then show ?thesis unfolding returns_def
      by (rule wp_use) (auto simp: group_answers_def list_all_iff list_ex_iff dest: kept)
  next
    case False
    then show ?thesis using env by (intro returns safe_live) auto
  qed
  have add: "wp (bindG (AddFinalizerToVG env vg) (\<lambda>(err, vg). case err of Some e \<Rightarrow> failVG env vg e creatingVG
      | None \<Rightarrow> reconcileLive env r vg c)) ?Q pre"
    apply (rule wp_bind_use [OF AddFinalizerToVG_answer [OF env(2)]]; (simp; fail)?)
    apply (intro wp_split)
    using vg by (auto intro: live [of "EvUpdateVG _ (None, _)"] live returns [OF safe_messages(3) [OF env(2,1)]])
  show ?thesis
    unfolding reconcileOwn_def
    by (intro wp_option wp_if add returns; (intro safe_intro safes env TrueI safe_removeInstance)?)
qed

lemma VG_Reconcile_returns:
  assumes env: "rand_documented env" "retry_documented env"
  shows "gives (VG_Reconcile env r req) (\<lambda>x es. group_answers es \<longrightarrow> (\<forall>s. x \<noteq> Panic s))"
proof -
  have fail: "wp (failVG env vg e reason) (\<lambda>x es. group_answers es \<longrightarrow> (\<forall>s. x \<noteq> Panic s)) es" for vg e reason es
    by (rule wp_use [OF safe_messages(3) [OF env(2,1), of "\<lambda>_. True", unfolded returns_def]]) (auto simp: list_all_iff)
  show ?thesis
    unfolding gives_def VG_Reconcile_def client_calls
    apply (intro wp_bindG wp_callG, simp only: bind_post_simps)
    apply (intro wp_split wp_returnG fail; (simp; fail)?)
    apply (simp only: reflected_fields bindG_lift_Ret)
    apply (rule wp_bind_use [OF GetVGClass_spec]; (simp; fail)?)
    apply (intro wp_split wp_returnG fail; (simp; fail)?)
    apply (rule reconcileOwn_returns [OF env, of "EvGetVG req (None, _)"]; simp)
    done
qed

section \<open>The content reconciler\<close>

text \<open>
  Answers the content reconciler is not prepared for: an error other than the absence of a content, a
  content without a policy, a source or a class, and a created storage group that is not described.
\<close>

definition fit :: "VolumeGroupContent \<Rightarrow> bool" where
  "fit c \<longleftrightarrow> vgcVolumeGroupDeletionPolicy (vgcSpec c) \<noteq> None \<and> vgcSource (vgcSpec c) \<noteq> None \<and>
     vgcVolumeGroupClassName (vgcSpec c) \<noteq> None"

fun unsound_content :: "env \<Rightarrow> event \<Rightarrow> bool" where
  "unsound_content env (EvGetVGC k (Some e, c)) = (\<not> IsNotFound env e)"
| "unsound_content env (EvGetVGC k (None, c)) = (\<not> fit c)"
| "unsound_content env (EvUpdateVGC sent (None, c)) = (\<not> fit c)"
| "unsound_content env (EvStatusVGC sent (None, c)) = (\<not> fit c)"
| "unsound_content env (EvRpcCreate q (resp, None)) = (Option.bind resp crespVolumeGroup = None)"
| "unsound_content env _ = False"

lemma returns_DeletePVCsUnderVGC:
  assumes F: "\<And>e. F e \<Longrightarrow> \<not> unsound_content env e" and env: "retry_documented env" and "fit vgc"
  shows "returns F (DeletePVCsUnderVGC env vgc driver) (\<lambda>(err, c). err = None \<longrightarrow> fit c)"
proof -
  let ?R = "\<lambda>(err :: error option, c). err = None \<longrightarrow> fit c"
  have "fit c" if "F (EvStatusVGC sent (None, c))" for sent c using F [OF that] by simp
  then have update: "returns F (updateVGCStatusPVList env c pvs) ?R" for c pvs
    unfolding updateVGCStatusPVList_def case_return_pair return_bindG
    by (intro returns_mono [OF returns_retry(2) [OF env]]) auto
  have remove: "returns F (RemovePVFromVGC env pv c) ?R" for pv c
    unfolding RemovePVFromVGC_def Let_def
    by (rule returns_bind_value [OF update]) (auto intro!: safe_intro emits_intro split: option.split)
  have loop: "emits (\<lambda>_. True) (deletePVCs_loop env driver k i arr shared c) \<and>
      (fit c \<longrightarrow> returns F (deletePVCs_loop env driver k i arr shared c) ?R)" for k i arr shared c
  proof (induction k arbitrary: i arr shared c)
    case (Suc k)
    then have IH: "\<And>i arr shared c. emits (\<lambda>_. True) (deletePVCs_loop env driver k i arr shared c)"
        "\<And>i arr shared c. fit c \<Longrightarrow> returns F (deletePVCs_loop env driver k i arr shared c) ?R" by auto
    have of_emits: "emits (\<lambda>_. True) (deletePVC_of env driver pv name ns arr shared c (deletePVCs_loop env driver k j))"
      for pv name ns arr shared c j
      unfolding deletePVC_of_def Let_def
      by (auto intro!: emits_intro IH(1) returns_emits [OF safe_finalizers(7) [OF env]] returns_emits [OF safe_status(8) [OF env]])
    have of_fit: "returns F (deletePVC_of env driver pv name ns arr shared c (deletePVCs_loop env driver k j)) ?R"
      for pv name ns arr shared c j
      unfolding deletePVC_of_def Let_def
      apply (rule returns_bindG [OF safe_finalizers(7) [OF env]])
      apply (rule returns_option)
       prefer 2
       apply (rule returns_returnG, simp)
      apply (rule returns_bind_value [OF remove])
       apply (auto intro!: emits_intro IH(1) split: option.split)[1]
      apply (auto intro!: safe_intro IH(2))
      done
    have list: "emits (\<lambda>_. True) (getMatchingPVCFromPVCListToPV env name driver)" for name
      by (rule returns_emits [OF safe_loops_of_reads(5)])
    show ?case
      unfolding deletePVCs_loop.simps Let_def getPVCNameFromPV_def getPVCNamespaceFromPV_def reflected_fields bindG_lift_Ret
      by (auto intro!: emits_intro of_emits list IH safe_intro safes of_fit)
  qed (auto intro!: emits_intro safe_intro)
  with assms(3) show ?thesis unfolding DeletePVCsUnderVGC_def Let_def by blast
qed

lemma safe_deletion:
  assumes F: "\<And>e. F e \<Longrightarrow> \<not> unsound_content env e" and env: "retry_documented env" and vgc: "fit vgc"
  shows "safe F (handleVGCWithDeletionTimestamp env r vgc secret)"
proof -
  have claims: "returns F (if b then DeletePVCsUnderVGC env vgc d else returnG (None, vgc)) (\<lambda>(err, c). err = None \<longrightarrow> fit c)" for b d
    using returns_DeletePVCsUnderVGC [OF F env vgc] vgc by (auto intro: returns_returnG)
  have remove: "safe F (removeVGC env r c secret)" if "fit c" for c
    unfolding removeVGC_def deleteVG_def request_defs
    using that env by (auto simp: fit_def intro!: safe_intro safes)
  have removes: "emits (\<lambda>_. True) (removeVGC env r c secret)" for c
    by (rule does_any [OF does_removeVGC [OF env subset_UNIV]])
  show ?thesis
    unfolding handleVGCWithDeletionTimestamp_def
    apply (rule returns_bindG [OF safe_reads(6)])
    apply (intro returns_sum returns_if returns_returnG TrueI)
    apply (rule returns_bind_value [OF claims])
     apply (auto intro!: emits_intro removes split: option.split)[1]
    apply (auto intro!: safe_intro remove)
    done
qed

lemma safe_creation:
  assumes F: "\<And>e. F e \<Longrightarrow> \<not> unsound_content env e" and env: "rand_documented env" "retry_documented env" and vgc: "fit vgc"
  shows "safe F (reconcileLiveVGC env r vgc c secret)"
proof -
  have created: "returns F (createVG env r name params secret)
      (\<lambda>resp. ResponseError resp = None \<longrightarrow> (\<exists>a g. Response resp = Some a \<and> crespVolumeGroup a = Some g))" for name params
    unfolding createVG_def request_defs
    apply (rule returns_bind_value [where Q = "\<lambda>(resp, err). err = None \<longrightarrow> (\<exists>a g. resp = Some a \<and> crespVolumeGroup a = Some g)"])
      apply (rule returns_callG, drule F)
      apply (auto intro!: safe_intro emits_intro simp: bind_eq_Some_conv)
    done
  have recorded: "safe F (UpdateVGCByResponse env vgc resp)" if "\<exists>a g. Response resp = Some a \<and> crespVolumeGroup a = Some g" for resp
    unfolding UpdateVGCByResponse_def Let_def using that vgc by (auto simp: fit_def intro!: safe_intro safes)
  have create: "safe F (handleCreateVG env r vgc c secret)"
    unfolding handleCreateVG_def Let_def
    apply (rule returns_bind_value [OF created])
     apply (auto intro!: emits_intro does_any [OF does_contents(4) [OF subset_UNIV]] returns_emits [OF safe_contents(5)]
        returns_emits [OF safe_status(10) [OF env(2)]] returns_emits [OF safe_events(4) [OF env(1)]] split: option.split)[1]
    using env by (auto intro!: safe_intro safes recorded)
  have spec: "safe F (reconciler_updateStaticVGCSpec env vgc)"
    unfolding reconciler_updateStaticVGCSpec_def using vgc by (auto simp: fit_def intro!: safe_intro safes)
  have static: "returns F (handleStaticProvisionedVGC env vgc) (\<lambda>(err, st, c). \<not> st \<longrightarrow> c = vgc)"
    unfolding handleStaticProvisionedVGC_def updateStaticVGC_def reflected_fields bindG_lift_Ret
    using env by (auto intro!: safe_intro safes spec split: option.split)
  show ?thesis
    unfolding reconcileLiveVGC_def
    apply (rule returns_bind_value [OF static])
     apply (auto intro!: emits_intro does_any [OF does_handleCreateVG [OF subset_UNIV]] does_any [OF does_failVGC]
        returns_emits [OF safe_events(5) [OF env(1)]] split: option.split)[1]
    using env by (auto intro!: safe_intro safes create)
qed

lemma VGC_Reconcile_returns:
  assumes env: "rand_documented env" "retry_documented env"
  shows "gives (VGC_Reconcile env r req) (\<lambda>x es. \<not> list_ex (unsound_content env) es \<longrightarrow> (\<forall>s. x \<noteq> Panic s))"
proof -
  let ?F = "\<lambda>e. \<not> unsound_content env e"
  have read: "returns ?F (GetVGC env name ns) (\<lambda>res. (\<forall>c. res = Inr c \<longrightarrow> fit c) \<and> (\<forall>e. res = Inl e \<longrightarrow> IsNotFound env e))" for name ns
    unfolding GetVGC_def client_calls
    apply (rule returns_bind_value [where Q = "\<lambda>(err, c). (err = None \<longrightarrow> fit c) \<and> (\<forall>e. err = Some e \<longrightarrow> IsNotFound env e)"])
      apply (rule returns_callG)
    subgoal for q by (cases "fst q"; cases q) auto
     apply (auto intro!: safe_intro emits_intro split: option.split)
    done
  have add: "returns ?F (AddFinalizerToVGC env vgc) (\<lambda>(err, c). err = None \<longrightarrow> fit c)" if "fit vgc" for vgc
    unfolding AddFinalizerToVGC_def Let_def case_return_pair return_bindG
    by (auto intro!: safe_intro returns_mono [OF returns_retry(4) [OF env(2)]] simp: that)
  have live: "emits (\<lambda>_. True) (reconcileLiveVGC env r vgc c secret)" for vgc c secret
    by (rule does_any [OF does_reconcileLiveVGC [OF subset_UNIV]])
  have own: "safe ?F (reconcileOwnVGC env r vgc c)" if "fit vgc" for vgc c
  proof -
    have "safe ?F (bindG (AddFinalizerToVGC env vgc) (\<lambda>(err, vgc). case err of Some e \<Rightarrow> failVGC env (Some vgc) e creatingVG
        | None \<Rightarrow> reconcileLiveVGC env r vgc c secret))" for secret
      apply (rule returns_bind_value [OF add [OF that]])
       apply (auto intro!: emits_intro live does_any [OF does_failVGC] split: option.split)[1]
      using env by (auto intro!: safe_intro safes safe_creation)
    moreover have "safe ?F (handleVGCWithDeletionTimestamp env r vgc secret)" for secret
      using env that by (intro safe_deletion) auto
    ultimately show ?thesis
      unfolding reconcileOwnVGC_def
      apply (intro returns_option)
       apply (rule returns_bindG [OF safe_reads(13)])
       apply (intro returns_sum returns_if)
      using env by (auto intro!: safe_messages safe_status safe_intro)
  qed
  have "safe ?F (VGC_Reconcile env r req)"
    unfolding VGC_Reconcile_def reconcileThin_def
    apply (rule returns_bind_value [OF read])
     apply (auto intro!: emits_intro returns_emits [OF safe_contents(3)] returns_emits [OF safe_contents(5)]
        returns_emits [OF safe_status(10) [OF env(2)]] returns_emits [OF safe_reads(1)] does_any [OF does_failVGC]
        does_any [OF does_reconcileOwnVGC [OF env(2) subset_UNIV]] split: sum.split)[1]
    using env by (auto intro!: safe_intro safes own returns_liftG)
  then show ?thesis
    unfolding returns_def by (rule gives_mono) (auto simp: list_all_iff list_ex_iff)
qed

end
