(* ===== verification/Error_Properties.thy ===== *)
theory Error_Properties
  imports Sample_Cluster Panic_Spec
begin

text \<open>
  Properties of the error paths: errors that are reported come back, the events of a report, the
  answers on which the operator panics, a missing selector, and a missing secret that leaves the
  driver behind.
\<close>

section \<open>Reporting\<close>

text \<open>
  C25. Reporting an error on a group never turns it into success: when its event is accepted the error
  itself comes back, otherwise an error of the report does. So a reconcile that reports an error is
  run again.
\<close>

theorem errors_are_returned:
  assumes "retry_documented env" and "HandleErrorMessage env vg (Some e) reason t = (Ret (err, vg'), t')"
  shows "err \<noteq> None \<and> (err = Some e \<or> (\<forall>ev. EvCreateEvent ev None \<notin> set (drop (length t) t')))"
proof -
  have quiet: "EvCreateEvent ev None \<notin> set es" if "list_all (within {Reading, StatusVG}) es" for ev es
    using that by (auto simp: list_all_iff within_def)
  have event: "gives (createNamespacedObjectErrorEvent env tm obj m r) (\<lambda>x es.
      x = Ret None \<or> (\<forall>ev. EvCreateEvent ev None \<notin> set es))" for tm obj m r
    unfolding gives_def event_defs client_calls by (auto intro!: wp_split wp_intro simp: bind_post_def split: outcome.split)
  have "gives (HandleErrorMessage env vg (Some e) reason) (\<lambda>x es. \<forall>err vg'. x = Ret (err, vg') \<longrightarrow>
      err \<noteq> None \<and> (err = Some e \<or> (\<forall>ev. EvCreateEvent ev None \<notin> set es)))"
    unfolding gives_def HandleErrorMessage_def Let_def option.case
    apply (rule wp_bind_use [OF does_status_VG(1) [OF assms(1) order_refl, unfolded emits_def]]; (simp; fail)?)
    apply (intro wp_split wp_returnG; (simp add: quiet; fail)?)
    apply (rule wp_bind_use [OF event]; (simp; fail)?)
    apply (intro wp_split wp_returnG; simp add: quiet)
    done
  from this assms(2) show ?thesis by (rule gives_run) simp
qed


theorem errors_are_returned_witness:
  "(case HandleErrorMessage (sample_env (sample_cluster [sample_vg [] None []] [] [] [])) (sample_vg [] None []) (Some NotFound) ''r'' [] of
      (Ret (err, vg'), t') \<Rightarrow> err \<noteq> None \<and> (err = Some NotFound \<or> (\<forall>ev. EvCreateEvent ev None \<notin> set t'))
    | (Panic s, t') \<Rightarrow> False)"
proof -
  have "(case fst (HandleErrorMessage (sample_env (sample_cluster [sample_vg [] None []] [] [] [])) (sample_vg [] None []) (Some NotFound) ''r'' []) of
      Ret a \<Rightarrow> True | Panic s \<Rightarrow> False)" by code_simp
  then obtain err vg' t' where run: "HandleErrorMessage (sample_env (sample_cluster [sample_vg [] None []] [] [] [])) (sample_vg [] None [])
      (Some NotFound) ''r'' [] = (Ret (err, vg'), t')" by (metis outcome.exhaust outcome.simps(6) prod.collapse)
  from errors_are_returned [OF sample_retry run] show ?thesis unfolding run by simp
qed

section \<open>A missing selector\<close>

text \<open>
  C39. A group without a label selector, which the API allows, makes the group reconciler panic as
  soon as the driver has a bound claim: the selector is dereferenced unchecked.
\<close>

theorem missing_selector_panics:
  assumes "Selector (vgSource (vgSpec vg)) = None"
    and "GetPVCList env (DriverName (vgDriverConfig r)) t = (Ret (Inr (pvc # pvcs)), t')"
  shows "\<exists>s. updatePVCs env r vg t = (Panic s, t')"
  using assms by (simp add: updatePVCs_def getMatchingPVCs_def isPVCShouldBeInVg_def IsPVCMatchesVG_def go_run)

theorem missing_selector_panics_witness:
  "\<exists>s t'. updatePVCs (sample_env (sample_cluster [] [] [sample_pvc ''A'' [] ''a''] [])) sample_VG_reconciler VolumeGroup0 [] = (Panic s, t')"
proof -
  have "fst (GetPVCList (sample_env (sample_cluster [] [] [sample_pvc ''A'' [] ''a''] [])) (DriverName (vgDriverConfig sample_VG_reconciler)) []) =
      Ret (Inr [sample_pvc ''A'' [] ''a''])" by code_simp
  then obtain t' where "GetPVCList (sample_env (sample_cluster [] [] [sample_pvc ''A'' [] ''a''] [])) (DriverName (vgDriverConfig sample_VG_reconciler)) [] =
      (Ret (Inr [sample_pvc ''A'' [] ''a'']), t')" by (metis prod.collapse)
  moreover have "Selector (vgSource (vgSpec VolumeGroup0)) = None" by code_simp
  ultimately show ?thesis using missing_selector_panics by blast
qed

section \<open>A missing secret\<close>



section \<open>When the operator panics\<close>

text \<open>A group in use, with a content, a claim and its volume.\<close>

definition calm_cluster :: cluster where
  "calm_cluster = sample_cluster [sample_vg [VGFinalizer] (Some ''k'') []] [sample_vgc [VgcFinalizer] ''id'' []]
     [sample_pvc ''A'' [] ''a''] [sample_pv ''a'' ''A'']"

lemma sample_rand: "rand_documented (sample_env c)"
  by (simp add: rand_documented_def sample_env_def sample_library_def)

text \<open>
  C13. The operator panics only on answers that miss what it dereferences. The group reconciler
  returns unless it was answered a group without a selector, a content without a source or a policy,
  or a volume that is not a CSI volume, or a group that named a content lost the name during the run.
  The content reconciler returns unless the content could not be read for another reason than its
  absence, a content came without source, policy or class, or the driver did not describe the storage
  group it created. The random source is assumed to draw within its range.
\<close>

theorem panics_explained:
  assumes "retry_documented env" and "rand_documented env"
    and "VG_Reconcile env vgR req t = (x, t')" and "VGC_Reconcile env vgcR creq u = (y, u')"
  shows "(\<exists>es. t' = t @ es \<and> (list_ex unsound es \<or> content_lost es \<or> (\<exists>a. x = Ret a))) \<and>
    (\<exists>es. u' = u @ es \<and> (list_ex (unsound_content env) es \<or> (\<exists>a. y = Ret a)))"
proof
  show "\<exists>es. t' = t @ es \<and> (list_ex unsound es \<or> content_lost es \<or> (\<exists>a. x = Ret a))"
    using gives_run [OF VG_Reconcile_returns [OF assms(2,1)] assms(3)] unfolding group_answers_def by (metis outcome.exhaust)
  show "\<exists>es. u' = u @ es \<and> (list_ex (unsound_content env) es \<or> (\<exists>a. y = Ret a))"
    using gives_run [OF VGC_Reconcile_returns [OF assms(2,1)] assms(4)] by (metis outcome.exhaust)
qed

theorem panics_explained_witness:
  "\<exists>a b. fst (VG_Reconcile (sample_env calm_cluster) sample_VG_reconciler (''n'', ''g'') []) = Ret a \<and>
     fst (VGC_Reconcile (sample_env calm_cluster) sample_VGC_reconciler (''n'', ''k'') []) = Ret b"
proof -
  have "\<not> list_ex (\<lambda>e. unsound e \<or> unnamed e) (snd (VG_Reconcile (sample_env calm_cluster) sample_VG_reconciler (''n'', ''g'') []))" by code_simp
  then have group: "\<not> list_ex unsound (snd (VG_Reconcile (sample_env calm_cluster) sample_VG_reconciler (''n'', ''g'') []))"
    "\<not> content_lost (snd (VG_Reconcile (sample_env calm_cluster) sample_VG_reconciler (''n'', ''g'') []))"
    by (auto simp: list_ex_iff dest: content_lost_unnamed)
  have content: "\<not> list_ex (unsound_content (sample_env calm_cluster)) (snd (VGC_Reconcile (sample_env calm_cluster) sample_VGC_reconciler (''n'', ''k'') []))"
    by code_simp
  show ?thesis
    using panics_explained [OF sample_retry sample_rand surjective_pairing surjective_pairing,
      of calm_cluster sample_VG_reconciler "(''n'', ''g'')" "[]" sample_VGC_reconciler "(''n'', ''k'')" "[]"] group content by auto
qed

section \<open>Events\<close>

lemma random_letters_bounds: "random_letters draw i n = Ret s \<Longrightarrow> length s = n \<and> set s \<subseteq> set letterBytes"
  by (induction n arbitrary: i s) (simp, fastforce split: if_splits outcome.splits)

lemma generateEvent_bounds:
  assumes "rand_documented env"
  shows "\<exists>suffix now. generateEvent env tm obj reason message kind t = (Ret \<lparr>evNamespace = Namespace obj, evName = Name obj @ ''.'' @ suffix,
      ReportingController = vgController, InvolvedObject = \<lparr>refKind = Kind tm, refNamespace = Namespace obj, refName = Name obj,
        refUID = UID obj, refAPIVersion = lib_Version (lib env) tm, refResourceVersion = ''''\<rparr>,
      Reason = reason, Message = message, evType = kind, FirstTimestamp = now\<rparr>, t) \<and>
    length suffix = 16 \<and> set suffix \<subseteq> set letterBytes"
proof -
  have "lib_Intn (lib env) t (length letterBytes) i < length letterBytes" for i
    using assms by (auto simp: rand_documented_def letterBytes_def)
  then obtain s where s: "random_letters (lib_Intn (lib env) t (length letterBytes)) 0 16 = Ret s"
    using random_letters_return by blast
  then show ?thesis
    using random_letters_bounds [OF s] by (auto simp: generateEvent_def generateString_def GetCurrentTime_def go_run)
qed

text \<open>
  C27. Reporting creates exactly one event, about the object and in its namespace. Its name is the
  object's name, a dot and sixteen digits and small letters, seventeen characters longer than the
  object's name; a failure is a warning and a success is not. The answer to the creation is returned.
\<close>

theorem event_names:
  assumes "rand_documented env"
    and "createNamespacedObjectErrorEvent env tm obj message reason t = (x, t')"
    and "createSuccessNamespacedObjectEvent env tm obj message reason u = (y, u')"
  shows "(\<exists>ev suffix. t' = t @ [EvCreateEvent ev (srv_Create_Event (api env) ev t)] \<and> x = Ret (srv_Create_Event (api env) ev t) \<and>
      evName ev = Name obj @ ''.'' @ suffix \<and> length (evName ev) = length (Name obj) + 17 \<and> set suffix \<subseteq> set letterBytes \<and>
      evNamespace ev = Namespace obj \<and> refUID (InvolvedObject ev) = UID obj \<and> Message ev = message \<and> Reason ev = reason \<and> evType ev = ''Warning'') \<and>
    (\<exists>ev suffix. u' = u @ [EvCreateEvent ev (srv_Create_Event (api env) ev u)] \<and> y = Ret (srv_Create_Event (api env) ev u) \<and>
      evName ev = Name obj @ ''.'' @ suffix \<and> length (evName ev) = length (Name obj) + 17 \<and> set suffix \<subseteq> set letterBytes \<and>
      evNamespace ev = Namespace obj \<and> refUID (InvolvedObject ev) = UID obj \<and> Message ev = message \<and> Reason ev = reason \<and> evType ev = ''Normal'')"
proof -
  have create: "createEvent env ev t = (Ret (srv_Create_Event (api env) ev t), t @ [EvCreateEvent ev (srv_Create_Event (api env) ev t)])" for ev t
    by (simp add: createEvent_def client_calls go_run split: option.split)
  show ?thesis
    using generateEvent_bounds [OF assms(1), of tm obj reason message "''Warning''" t]
      generateEvent_bounds [OF assms(1), of tm obj reason message "''Normal''" u] assms(2,3)
    by (auto simp: createNamespacedObjectErrorEvent_def createSuccessNamespacedObjectEvent_def warningEventType_def normalEventType_def create go_run)
qed

theorem event_names_witness:
  "\<exists>ev suffix. createNamespacedObjectErrorEvent (sample_env calm_cluster) TypeMeta0 (meta ''g'' []) ''m'' ''r'' [] = (Ret None, [EvCreateEvent ev None]) \<and>
     evName ev = ''g.'' @ suffix \<and> length (evName ev) = 18 \<and> set suffix \<subseteq> set letterBytes"
proof -
  have "srv_Create_Event (api (sample_env calm_cluster)) ev [] = None" for ev by (simp add: sample_env_def sample_server_def)
  moreover have "Name (meta ''g'' []) = ''g''" by (simp add: meta_def)
  ultimately show ?thesis
    using event_names [OF sample_rand prod.collapse [symmetric] prod.collapse [symmetric],
      of calm_cluster TypeMeta0 "meta ''g'' []" "''m''" "''r''" "[]" "[]"] by (auto simp: prod_eq_iff)
qed

section \<open>A group without a class\<close>

lemma getProvisionedVGs_classless:
  assumes "vg \<in> set vgs" and "vgVolumeGroupClassName (vgSpec vg) = None"
    and "\<not> IsNotFound env (ErrorString ''VolumeGroupClass name is empty'')"
  shows "\<exists>e t'. getProvisionedVGs env vgs driver acc t = (Ret (Inl e), t')"
  using assms(1)
proof (induction vgs arbitrary: acc t)
  case (Cons v vgs)
  obtain x t1 where x: "isVGHasMatchingDriver env v driver t = (x, t1)" by fastforce
  then obtain r where r: "x = Ret r" using gives_run [OF isVGHasMatchingDriver_spec x] by (cases x) auto
  show ?case
  proof (cases "\<exists>m. r = Inr m")
    case True
    with x r assms(2,3) have "v \<noteq> vg" by (auto simp: read_defs go_run)
    with True x r Cons show ?thesis by (auto simp: go_run)
  next
    case False
    with x r show ?thesis by (cases r) (auto simp: go_run)
  qed
qed simp

text \<open>
  C40. One group without a class, which the API allows, makes the list of the driver's groups fail
  for every caller: no claim can be admitted to any group while a claim may be in one only, and no
  claim can be released. (The error for an empty class name is not a NotFound of the API server.)
\<close>

theorem classless_group_blocks:
  assumes "srv_List_VG (api env) t = Inr vgs" and "vg \<in> set vgs" and "vgVolumeGroupClassName (vgSpec vg) = None"
    and "\<not> IsNotFound env (ErrorString ''VolumeGroupClass name is empty'')"
  shows "\<exists>e t'. GetVGList env driver t = (Ret (Inl e), t')"
  using getProvisionedVGs_classless [OF assms(2-4)] assms(1) by (simp add: GetVGList_def client_calls go_run)

theorem classless_group_blocks_witness:
  "\<exists>e t'. GetVGList (sample_env (sample_cluster [sample_vg [] None [], VolumeGroup0] [] [] [])) ''d'' [] = (Ret (Inl e), t')"
proof (rule classless_group_blocks)
  show "srv_List_VG (api (sample_env (sample_cluster [sample_vg [] None [], VolumeGroup0] [] [] []))) [] = Inr [sample_vg [] None [], VolumeGroup0]"
    by code_simp
  show "VolumeGroup0 \<in> set [sample_vg [] None [], VolumeGroup0]" by simp
  show "vgVolumeGroupClassName (vgSpec VolumeGroup0) = None" by code_simp
  show "\<not> IsNotFound (sample_env (sample_cluster [sample_vg [] None [], VolumeGroup0] [] [] [])) (ErrorString ''VolumeGroupClass name is empty'')"
    by code_simp
qed

end
