(* ===== verification/Startup.thy ===== *)
theory Startup
  imports VG_Spec
begin

text \<open>
  The start of the operator: the flags and the sequence of \<open>src/main.go\<close>, the connection to the
  driver (\<open>src/pkg/client/client.go\<close>) and \<open>SetupWithManager\<close> of both reconcilers. The connection
  library and the controller manager are parameters, the record \<open>platform\<close>.
\<close>

section \<open>The platform\<close>

record platform =
  plat_Connect :: "string \<Rightarrow> nat \<Rightarrow> error option"
  plat_ProbeForever :: "nat \<Rightarrow> error option"
  plat_GetDriverName :: "error + string"
  plat_NewManager :: "error option"
  plat_Complete_VG :: "error option"
  plat_Complete_VGC :: "error option"
  plat_AddHealthzCheck :: "error option"
  plat_AddReadyzCheck :: "error option"
  plat_Start :: "error option"

section \<open>client.go\<close>

record grpc_Client =
  Connected :: bool
  Timeout :: nat

text \<open>The client comes back beside the error, unconnected.\<close>

definition New :: "platform \<Rightarrow> string \<Rightarrow> nat \<Rightarrow> grpc_Client \<times> error option" where
  "New p address t =
     (case plat_Connect p address t of
        Some err \<Rightarrow> (\<lparr>Connected = False, Timeout = 0\<rparr>, Some err)
      | None \<Rightarrow> (\<lparr>Connected = True, Timeout = t\<rparr>, None))"

definition Probe :: "platform \<Rightarrow> grpc_Client \<Rightarrow> error option" where
  "Probe p c = plat_ProbeForever p (Timeout c)"

definition GetDriverName :: "platform \<Rightarrow> grpc_Client \<Rightarrow> error + string" where
  "GetDriverName p c = plat_GetDriverName p"

section \<open>main.go\<close>

text \<open>A duration counts nanoseconds.\<close>

definition defaultTimeout :: nat where
  "defaultTimeout = 60 * 1000000000"

definition defineFlags :: "DriverConfig \<Rightarrow> DriverConfig" where
  "defineFlags cfg = cfg\<lparr>DriverName := '''', DriverEndpoint := ''/run/csi/socket'', RPCTimeout := defaultTimeout,
     MultipleVGsToPVC := ''true'', DisableDeletePvcs := ''false''\<rparr>"

text \<open>A flag on the command line, its value parsed; a later one overrides an earlier one.\<close>

datatype cmd_flag = driver_name string | csi_address string | rpc_timeout nat
  | multiple_vgs_to_pvc string | disable_delete_pvcs string

fun set_flag :: "cmd_flag \<Rightarrow> DriverConfig \<Rightarrow> DriverConfig" where
  "set_flag (driver_name s) cfg = cfg\<lparr>DriverName := s\<rparr>"
| "set_flag (csi_address s) cfg = cfg\<lparr>DriverEndpoint := s\<rparr>"
| "set_flag (rpc_timeout n) cfg = cfg\<lparr>RPCTimeout := n\<rparr>"
| "set_flag (multiple_vgs_to_pvc s) cfg = cfg\<lparr>MultipleVGsToPVC := s\<rparr>"
| "set_flag (disable_delete_pvcs s) cfg = cfg\<lparr>DisableDeletePvcs := s\<rparr>"

definition flag_Parse :: "cmd_flag list \<Rightarrow> DriverConfig \<Rightarrow> DriverConfig" where
  "flag_Parse flags cfg = fold set_flag flags cfg"

definition getControllerGrpcClient :: "platform \<Rightarrow> DriverConfig \<Rightarrow> error + grpc_Client" where
  "getControllerGrpcClient p cfg =
     (let (grpcClientInstance, err) = New p (DriverEndpoint cfg) (RPCTimeout cfg)
      in case err of
           Some e \<Rightarrow> Inl e
         | None \<Rightarrow> (case Probe p grpcClientInstance of Some e \<Rightarrow> Inl e | None \<Rightarrow> Inr grpcClientInstance))"

section \<open>SetupWithManager\<close>

text \<open>The reconciler is built with its configuration; its client is set here. \<open>None\<close> stands for still waiting.\<close>

definition VG_SetupWithManager ::
    "env \<Rightarrow> platform \<Rightarrow> nat \<Rightarrow> DriverConfig \<Rightarrow> (error + VolumeGroupReconciler) option go" where
  "VG_SetupWithManager env p fuel cfg =
     bindG (waitForCrds env fuel) (\<lambda>res.
     case res of
       None \<Rightarrow> returnG None
     | Some (Some err) \<Rightarrow> returnG (Some (Inl err))
     | Some None \<Rightarrow>
         (case plat_Complete_VG p of
            Some err \<Rightarrow> returnG (Some (Inl err))
          | None \<Rightarrow> returnG (Some (Inr \<lparr>vgDriverConfig = cfg, vgVGClient = NewVolumeGroupClient (RPCTimeout cfg)\<rparr>))))"

text \<open>
  The watch of claims that \<open>SetupWithManager\<close> registers: an event that passes the filter goes to the
  handler \<open>enqueue\<close>, controller-runtime's \<open>EnqueueRequestsFromMapFunc\<close>, with the mapping to groups.
\<close>

type_synonym map_handler = "(ObjectMeta \<Rightarrow> NamespacedName list go) \<Rightarrow> PersistentVolumeClaim watch_event \<Rightarrow> NamespacedName list go"

definition claim_watch :: "env \<Rightarrow> map_handler \<Rightarrow> PersistentVolumeClaim watch_event \<Rightarrow> NamespacedName list go" where
  "claim_watch env enqueue e = (if PvcPredicate e then enqueue (CreateRequests env) e else returnG [])"

text \<open>Documented of the handler: on an update the mapping is run on the old and on the new object, and both sets of requests are enqueued.\<close>

definition enqueue_documented :: "map_handler \<Rightarrow> bool" where
  "enqueue_documented enqueue \<longleftrightarrow> (\<forall>f old new. \<exists>join. (\<forall>a b. set (join a b) = set a \<union> set b) \<and>
     enqueue f (UpdateEvent old new) = bindG (f (PVCMeta old)) (\<lambda>a. bindG (f (PVCMeta new)) (\<lambda>b. returnG (join a b))))"

definition VGC_SetupWithManager :: "platform \<Rightarrow> DriverConfig \<Rightarrow> error + VolumeGroupContentReconciler" where
  "VGC_SetupWithManager p cfg =
     (case plat_Complete_VGC p of
        Some err \<Rightarrow> Inl err
      | None \<Rightarrow> Inr \<lparr>vgcDriverConfig = cfg, vgcVGClient = NewVolumeGroupClient (RPCTimeout cfg)\<rparr>)"

definition UnableToCreateVGController :: string where "UnableToCreateVGController = ''Unable to create VolumeGroup controller''"
definition UnableToCreateVGCController :: string where "UnableToCreateVGCController = ''Unable to create VolumeGroupContent controller''"

text \<open>
  How \<open>main\<close> ends: it exits before the manager runs, with an error and the message logged, or the
  manager was started with both reconcilers; when the manager stops with an error the message
  \<open>problem running manager\<close> is logged.
\<close>

datatype main_result = Exit error string
  | Started VolumeGroupReconciler VolumeGroupContentReconciler "(error \<times> string) option"

definition main :: "env \<Rightarrow> platform \<Rightarrow> nat \<Rightarrow> cmd_flag list \<Rightarrow> main_result option go" where
  "main env p fuel flags =
     (let cfg = flag_Parse flags (defineFlags NewDriverConfig)
      in case Validate cfg of Some err \<Rightarrow> returnG (Some (Exit err ''error in driver configuration'')) | None \<Rightarrow>
         (case plat_NewManager p of Some err \<Rightarrow> returnG (Some (Exit err ''unable to start manager'')) | None \<Rightarrow>
         (case getControllerGrpcClient p cfg of Inl err \<Rightarrow> returnG (Some (Exit err ''failed to get controller GRPC client''))
          | Inr grpcClientInstance \<Rightarrow>
              bindG (VG_SetupWithManager env p fuel cfg) (\<lambda>res.
              case res of
                None \<Rightarrow> returnG None
              | Some (Inl err) \<Rightarrow> returnG (Some (Exit err UnableToCreateVGController))
              | Some (Inr vgR) \<Rightarrow>
                  (case VGC_SetupWithManager p cfg of
                     Inl err \<Rightarrow> returnG (Some (Exit err UnableToCreateVGCController))
                   | Inr vgcR \<Rightarrow>
                       (case plat_AddHealthzCheck p of Some err \<Rightarrow> returnG (Some (Exit err ''unable to set up health check'')) | None \<Rightarrow>
                       (case plat_AddReadyzCheck p of Some err \<Rightarrow> returnG (Some (Exit err ''unable to set up ready check'')) | None \<Rightarrow>
                       returnG (Some (Started vgR vgcR (map_option (\<lambda>err. (err, ''problem running manager'')) (plat_Start p)))))))))))"

section \<open>What a running operator has seen\<close>

lemma VG_SetupWithManager_spec:
  "gives (VG_SetupWithManager env p fuel cfg) (\<lambda>x es. list_all is_read es \<and>
     (\<forall>r. x = Ret (Some (Inr r)) \<longrightarrow> vgDriverConfig r = cfg \<and> timeout (vgVGClient r) = RPCTimeout cfg \<and>
        (\<forall>name \<in> {''VolumeGroup'', ''VolumeGroupClass'', ''VolumeGroupContent''}. EvListCRD name None \<in> set es)))"
  unfolding gives_def VG_SetupWithManager_def waitForCrds_def
  by (rule wp_bind_use [OF waitForCrds_from_spec])
    (auto intro!: wp_split wp_returnG simp: NewVolumeGroupClient_def)

definition well_started :: "VolumeGroupReconciler \<Rightarrow> VolumeGroupContentReconciler \<Rightarrow> event list \<Rightarrow> bool" where
  "well_started vgR vgcR es \<longleftrightarrow> vgDriverConfig vgR = vgcDriverConfig vgcR \<and> vgVGClient vgR = vgcVGClient vgcR \<and>
     timeout (vgVGClient vgR) = RPCTimeout (vgDriverConfig vgR) \<and> DriverName (vgDriverConfig vgR) \<noteq> '''' \<and>
     (\<forall>name \<in> {''VolumeGroup'', ''VolumeGroupClass'', ''VolumeGroupContent''}. EvListCRD name None \<in> set es)"

lemma main_spec:
  "gives (main env p fuel flags) (\<lambda>x es. list_all is_read es \<and>
     (\<forall>vgR vgcR err. x = Ret (Some (Started vgR vgcR err)) \<longrightarrow> well_started vgR vgcR es))"
  unfolding gives_def main_def Let_def Validate_def
  apply (intro wp_split wp_returnG; (simp; fail)?)
  apply (rule wp_bind_use [OF VG_SetupWithManager_spec]; (simp; fail)?)
  apply (intro wp_split wp_returnG)
  apply (auto simp: well_started_def VGC_SetupWithManager_def NewVolumeGroupClient_def split: option.splits if_splits)
  done

text \<open>The last occurrence of a flag decides, and a flag that is not given has its default.\<close>

lemma flag_Parse_snoc: "flag_Parse (flags @ [f]) cfg = set_flag f (flag_Parse flags cfg)"
  by (simp add: flag_Parse_def)

end
