(* ===== verification/Helper_Properties.thy ===== *)
theory Helper_Properties
  imports Sample_Cluster Startup
begin

text \<open>
  Properties of the helpers the reconcilers share: reserved parameters, the member lists, the
  mapping of claim events to groups, the defaults of a content and the start of the operator.
\<close>

section \<open>Parameters\<close>

text \<open>
  C28. The parameters of a class are accepted exactly when every key with the reserved prefix is one
  of the two secret keys and has a value; what the driver is sent has exactly the other keys, with
  their values.
\<close>

theorem reserved_parameters:
  "(ValidatePrefixedParameters m = None \<longleftrightarrow> (\<forall>(k, v) \<in> set m. HasPrefix k VGAsPrefix \<longrightarrow>
      (k = PrefixedVGSecretNameKey \<or> k = PrefixedVGSecretNamespaceKey) \<and> v \<noteq> '''')) \<and>
   map_of (FilterPrefixedParameters VGAsPrefix m) key = (if HasPrefix key VGAsPrefix then None else map_of m key)"
  by (simp add: ValidatePrefixedParameters_None_iff map_of_FilterPrefixedParameters)

theorem reserved_parameters_witness:
  "ValidatePrefixedParameters [(''p'', ''v''), (PrefixedVGSecretNameKey, ''s'')] = None \<and>
   ValidatePrefixedParameters [(PrefixedVGSecretNameKey, '''')] \<noteq> None \<and>
   map_of (FilterPrefixedParameters VGAsPrefix [(''p'', ''v''), (PrefixedVGSecretNameKey, ''s'')]) ''p'' = Some ''v''"
proof (intro conjI)
  show "ValidatePrefixedParameters [(''p'', ''v''), (PrefixedVGSecretNameKey, ''s'')] = None"
    using reserved_parameters [of "[(''p'', ''v''), (PrefixedVGSecretNameKey, ''s'')]"]
    by (simp add: HasPrefix_def VGAsPrefix_def vgGroupName_def)
  show "ValidatePrefixedParameters [(PrefixedVGSecretNameKey, '''')] \<noteq> None" by code_simp
  show "map_of (FilterPrefixedParameters VGAsPrefix [(''p'', ''v''), (PrefixedVGSecretNameKey, ''s'')]) ''p'' = Some ''v''"
    by code_simp
qed

section \<open>Member lists\<close>

lemma volume_list_filter:
  assumes "\<forall>p \<in> insert pv (set l). Namespace (PVMeta p) = ''''" and "distinct (map pv_name l)"
  shows "removeFromPVList pv l = filter (\<lambda>p. pv_name p \<noteq> pv_name pv) l"
    and "pv_name pv \<notin> pv_name ` set l \<Longrightarrow> removeFromPVList pv (appendPV l pv) = l"
proof -
  have keys: "distinct (map pv_key l)" using assms distinct_pv_key [of l "''''"] by simp
  show "removeFromPVList pv l = filter (\<lambda>p. pv_name p \<noteq> pv_name pv) l"
    using assms(1) by (auto simp: pv_remove.remove_distinct_filter [OF keys] pv_key_def intro!: filter_cong)
  show "removeFromPVList pv (appendPV l pv) = l" if "pv_name pv \<notin> pv_name ` set l"
    using pv_remove.remove_first [of pv l pv "[]"] pv_key_one_namespace [OF assms(1)] that by (simp add: pv_append.append_new)
qed

text \<open>
  C26. The lists of a group and of a content, without duplicates, behave as sets: appending adds
  exactly the key of the claim or volume, removing takes exactly it away, and removing what was just
  appended gives the list back. Volumes are appended by name alone and removed by name and namespace;
  since they have no namespace, the two agree.
\<close>

theorem list_operations:
  assumes "distinct (map pvc_key l)" and "distinct (map pv_name vs)" and "\<forall>v \<in> insert pv (set vs). Namespace (PVMeta v) = ''''"
  shows "(IsPVCInPVCList p (appendPVC l pvc) \<longleftrightarrow> IsPVCInPVCList p l \<or> pvc_key p = pvc_key pvc) \<and>
    (IsPVCInPVCList p (removeFromPVCList pvc l) \<longleftrightarrow> IsPVCInPVCList p l \<and> pvc_key p \<noteq> pvc_key pvc) \<and>
    (\<not> IsPVCInPVCList pvc l \<longrightarrow> removeFromPVCList pvc (appendPVC l pvc) = l) \<and>
    pv_name ` set (appendPV vs pv) = insert (pv_name pv) (pv_name ` set vs) \<and>
    pv_name ` set (removeFromPVList pv vs) = pv_name ` set vs - {pv_name pv} \<and>
    (pv_name pv \<notin> pv_name ` set vs \<longrightarrow> removeFromPVList pv (appendPV vs pv) = vs)"
  using pvcs.keys_remove [OF assms(1)] volume_list_filter [OF assms(3,2)]
  by (auto simp: pvcs.keys_append pv_append.keys_append intro: pvcs.remove_append)

theorem list_operations_witness:
  "removeFromPVCList (sample_pvc ''B'' [] '''') (appendPVC [sample_pvc ''A'' [] ''''] (sample_pvc ''B'' [] '''')) = [sample_pvc ''A'' [] ''''] \<and>
   removeFromPVList (sample_pv ''b'' ''B'') (appendPV [sample_pv ''a'' ''A''] (sample_pv ''b'' ''B'')) = [sample_pv ''a'' ''A'']"
proof -
  have "\<not> IsPVCInPVCList (sample_pvc ''B'' [] '''') [sample_pvc ''A'' [] '''']"
    "\<forall>p \<in> insert (sample_pv ''b'' ''B'') (set [sample_pv ''a'' ''A'']). Namespace (PVMeta p) = ''''"
    "distinct (map pvc_key [sample_pvc ''A'' [] ''''])" "distinct (map pv_name [sample_pv ''a'' ''A''])"
    "pv_name (sample_pv ''b'' ''B'') \<notin> pv_name ` set [sample_pv ''a'' ''A'']" by code_simp+
  with list_operations [of "[sample_pvc ''A'' [] '''']" "[sample_pv ''a'' ''A'']" "sample_pv ''b'' ''B''" _ "sample_pvc ''B'' [] ''''"]
  show ?thesis by blast
qed

section \<open>Which groups a claim event wakes\<close>

definition matches_labels :: "env \<Rightarrow> gomap \<Rightarrow> VolumeGroup \<Rightarrow> bool" where
  "matches_labels env labels vg = (case Selector (vgSource (vgSpec vg)) of None \<Rightarrow> False
     | Some sel \<Rightarrow> (case lib_LabelSelectorAsSelector (lib env) sel of Inl e \<Rightarrow> False | Inr f \<Rightarrow> f labels))"

definition invalid_selector :: "env \<Rightarrow> VolumeGroup \<Rightarrow> bool" where
  "invalid_selector env vg = (case Selector (vgSource (vgSpec vg)) of None \<Rightarrow> False
     | Some sel \<Rightarrow> isl (lib_LabelSelectorAsSelector (lib env) sel))"

lemma CreateRequests_result:
  "CreateRequests env obj t =
     (Ret (case srv_List_VG (api env) t of
         Inl e \<Rightarrow> []
       | Inr vgs \<Rightarrow> (if list_ex (invalid_selector env) vgs then []
           else map (\<lambda>vg. (Namespace (vgMeta vg), Name (vgMeta vg))) (filter (matches_labels env (Labels obj)) vgs))),
      t @ [EvListVG (srv_List_VG (api env) t)])"
proof -
  have "(\<exists>sel. Selector (vgSource (vgSpec vg)) = Some sel \<and> (\<exists>e. lib_LabelSelectorAsSelector (lib env) sel = Inl e)) \<longleftrightarrow>
      invalid_selector env vg" for vg
    by (auto simp: invalid_selector_def isl_def split: option.split)
  moreover have "(\<exists>sel f. Selector (vgSource (vgSpec vg)) = Some sel \<and> lib_LabelSelectorAsSelector (lib env) sel = Inr f \<and> f (Labels obj)) \<longleftrightarrow>
      matches_labels env (Labels obj) vg" for vg
    by (auto simp: matches_labels_def split: option.split sum.split)
  ultimately show ?thesis
    by (simp add: CreateRequests_def client_calls go_run createRequests_loop_acc list_ex_iff split: sum.split)
qed

definition selecting :: "env \<Rightarrow> gomap \<Rightarrow> history \<Rightarrow> NamespacedName set" where
  "selecting env labels t = (case srv_List_VG (api env) t of
     Inl e \<Rightarrow> {}
   | Inr vgs \<Rightarrow> (if list_ex (invalid_selector env) vgs then {}
       else (\<lambda>vg. (Namespace (vgMeta vg), Name (vgMeta vg))) ` {vg \<in> set vgs. matches_labels env labels vg}))"

lemma CreateRequests_selecting:
  obtains rs where "CreateRequests env obj t = (Ret rs, t @ [EvListVG (srv_List_VG (api env) t)])" "set rs = selecting env (Labels obj) t"
proof (rule that [OF CreateRequests_result])
  show "set (case srv_List_VG (api env) t of Inl e \<Rightarrow> []
      | Inr vgs \<Rightarrow> (if list_ex (invalid_selector env) vgs then []
          else map (\<lambda>vg. (Namespace (vgMeta vg), Name (vgMeta vg))) (filter (matches_labels env (Labels obj)) vgs))) = selecting env (Labels obj) t"
    unfolding selecting_def by (cases "srv_List_VG (api env) t") (auto split: if_split)
qed

definition sample_enqueue :: map_handler where
  "sample_enqueue f e = (case e of
     CreateEvent obj \<Rightarrow> f (PVCMeta obj)
   | DeleteEvent obj \<Rightarrow> f (PVCMeta obj)
   | UpdateEvent old new \<Rightarrow> bindG (f (PVCMeta old)) (\<lambda>a. bindG (f (PVCMeta new)) (\<lambda>b. returnG (remdups (a @ b))))
   | GenericEvent obj \<Rightarrow> f (PVCMeta obj))"

text \<open>
  C29. Which groups an update of a claim wakes. When neither its labels, as maps, nor its phase
  changed, none, and nothing is read. Otherwise exactly the groups that select the old or the new
  labels, in the lists of groups read for either, so that a claim that leaves a group wakes it; but one
  group with an invalid selector anywhere in a list, and that list yields none.
\<close>

theorem claim_events:
  assumes "distinct (map fst (Labels (PVCMeta old)))" and "distinct (map fst (Labels (PVCMeta new)))"
    and "enqueue_documented enqueue"
    and "changed \<longleftrightarrow> map_of (Labels (PVCMeta old)) \<noteq> map_of (Labels (PVCMeta new)) \<or> PVCPhase old \<noteq> PVCPhase new"
    and "t1 = t @ [EvListVG (srv_List_VG (api env) t)]"
  shows "\<exists>rs. claim_watch env enqueue (UpdateEvent old new) t = (Ret rs, if changed then t1 @ [EvListVG (srv_List_VG (api env) t1)] else t) \<and>
    set rs = (if changed then selecting env (Labels (PVCMeta old)) t \<union> selecting env (Labels (PVCMeta new)) t1 else {})"
proof (cases changed)
  case True
  with assms(4) have pass: "PvcPredicate (UpdateEvent old new)"
    by (simp add: isLabelsChanged_def isPhaseChanged_def map_DeepEqual_map_of [OF assms(1,2)])
  obtain join where join: "\<And>a b. set (join a b) = set a \<union> set b"
      "enqueue (CreateRequests env) (UpdateEvent old new) =
        bindG (CreateRequests env (PVCMeta old)) (\<lambda>a. bindG (CreateRequests env (PVCMeta new)) (\<lambda>b. returnG (join a b)))"
    using assms(3) unfolding enqueue_documented_def by blast
  obtain a where a: "CreateRequests env (PVCMeta old) t = (Ret a, t1)" "set a = selecting env (Labels (PVCMeta old)) t"
    unfolding assms(5) by (rule CreateRequests_selecting)
  obtain b where b: "CreateRequests env (PVCMeta new) t1 = (Ret b, t1 @ [EvListVG (srv_List_VG (api env) t1)])"
      "set b = selecting env (Labels (PVCMeta new)) t1" by (rule CreateRequests_selecting)
  from True pass show ?thesis by (simp add: claim_watch_def join go_run a b)
next
  case False
  with assms(4) have "\<not> PvcPredicate (UpdateEvent old new)"
    by (simp add: isLabelsChanged_def isPhaseChanged_def map_DeepEqual_map_of [OF assms(1,2)])
  with False show ?thesis by (simp add: claim_watch_def go_run)
qed

theorem claim_events_witness:
  "\<exists>rs t'. claim_watch (sample_env (sample_cluster [sample_vg [] None []] [] [] [])) sample_enqueue
      (UpdateEvent (sample_pvc ''A'' [] '''') (upd_pvc (\<lambda>m. m\<lparr>Labels := []\<rparr>) (sample_pvc ''A'' [] ''''))) [] = (Ret rs, t') \<and>
    set rs = {(''n'', ''g'')}"
proof -
  let ?env = "sample_env (sample_cluster [sample_vg [] None []] [] [] [])"
  let ?old = "sample_pvc ''A'' [] ''''" and ?new = "upd_pvc (\<lambda>m. m\<lparr>Labels := []\<rparr>) (sample_pvc ''A'' [] '''')"
  let ?t = "[EvListVG (srv_List_VG (api ?env) [])]"
  have "enqueue_documented sample_enqueue"
    unfolding enqueue_documented_def sample_enqueue_def by (intro allI exI [of _ "\<lambda>a b. remdups (a @ b)"]) simp
  moreover have "distinct (map fst (Labels (PVCMeta ?old)))" "distinct (map fst (Labels (PVCMeta ?new)))"
    and labels: "map_of (Labels (PVCMeta ?old)) \<noteq> map_of (Labels (PVCMeta ?new))"
    by (simp_all add: sample_pvc_def meta_def upd_pvc_def)
  moreover have "selecting ?env (Labels (PVCMeta ?old)) [] = {(''n'', ''g'')}" "selecting ?env (Labels (PVCMeta ?new)) ?t = {}"
    by code_simp+
  ultimately show ?thesis using claim_events [of ?old ?new sample_enqueue True ?t "[]" ?env] by auto
qed

section \<open>Defaults of a content\<close>

text \<open>
  C30. Filling in a content from a class gives every missing field a value, changes no field that
  had one, leaves everything but the spec alone, and doing it again changes nothing. A missing
  policy becomes that of the class, or Delete.
\<close>

theorem content_defaults:
  assumes "vgc' = updateStaticVGCSpec vgClass vgc"
  shows "vgc' = vgc\<lparr>vgcSpec := vgcSpec vgc'\<rparr> \<and> updateStaticVGCSpec vgClass vgc' = vgc' \<and>
    vgcVolumeGroupClassName (vgcSpec vgc') = Some (case vgcVolumeGroupClassName (vgcSpec vgc) of None \<Rightarrow> Name (classMeta vgClass) | Some n \<Rightarrow> n) \<and>
    vgcVolumeGroupDeletionPolicy (vgcSpec vgc') = Some (case vgcVolumeGroupDeletionPolicy (vgcSpec vgc) of
        Some p \<Rightarrow> p | None \<Rightarrow> (case classVolumeGroupDeletionPolicy vgClass of Some p \<Rightarrow> p | None \<Rightarrow> VolumeGroupContentDelete)) \<and>
    VolumeGroupSecretRef (vgcSpec vgc') = (case VolumeGroupSecretRef (vgcSpec vgc) of Some s \<Rightarrow> Some s
      | None \<Rightarrow> Some \<lparr>secretRefName = fst (GetSecretCred vgClass), secretRefNamespace = snd (GetSecretCred vgClass)\<rparr>) \<and>
    vgcSource (vgcSpec vgc') = vgcSource (vgcSpec vgc) \<and> VolumeGroupRef (vgcSpec vgc') = VolumeGroupRef (vgcSpec vgc)"
  unfolding assms
  by (cases "vgcVolumeGroupClassName (vgcSpec vgc)"; cases "vgcVolumeGroupDeletionPolicy (vgcSpec vgc)";
      cases "VolumeGroupSecretRef (vgcSpec vgc)"; cases "classVolumeGroupDeletionPolicy vgClass")
    (simp_all add: updateStaticVGCSpec_def case_prod_beta generateSecretReference_def getVolumeGroupDeletionPolicy_def)

theorem content_defaults_witness:
  "vgcVolumeGroupDeletionPolicy (vgcSpec (updateStaticVGCSpec sample_class VolumeGroupContent0)) = Some VolumeGroupContentDelete"
proof -
  have "vgcVolumeGroupDeletionPolicy (vgcSpec VolumeGroupContent0) = None" "classVolumeGroupDeletionPolicy sample_class = None" by code_simp+
  with content_defaults [OF refl, of sample_class VolumeGroupContent0] show ?thesis by simp
qed

section \<open>Start\<close>

text \<open>
  C31. The wait for a resource definition ends: when the first \<open>n\<close> listings answer that the kind is
  unknown and the next one does not, the loop returns after exactly \<open>n + 1\<close> listings, with the
  answer of the last.
\<close>

theorem wait_ends:
  assumes "\<forall>i < n. still_missing env (listing env name t i)" and "\<not> still_missing env (listing env name t n)"
    and "n < fuel"
  shows "waitForVGResource env fuel name t = (Ret (Some (listing env name t n)), listings env name t (Suc n))"
  using waitForVGResource_run [OF assms(1,2), of "fuel - Suc n"] assms(3) by simp

definition slow_env :: env where
  "slow_env = (sample_env (sample_cluster [] [] [] []))\<lparr>api := (sample_server (sample_cluster [] [] [] []))\<lparr>
     srv_List_CRD := (\<lambda>name t. if t = [] then Some (StatusError ''NoMatch'' '''') else None)\<rparr>\<rparr>"

theorem wait_ends_witness:
  "waitForVGResource slow_env 5 ''VolumeGroup'' [] = (Ret (Some None),
     [EvListCRD ''VolumeGroup'' (Some (StatusError ''NoMatch'' '''')), EvListCRD ''VolumeGroup'' None])"
proof -
  have one: "listing slow_env ''VolumeGroup'' [] 1 = None"
    "listings slow_env ''VolumeGroup'' [] (Suc 1) = [EvListCRD ''VolumeGroup'' (Some (StatusError ''NoMatch'' '''')), EvListCRD ''VolumeGroup'' None]"
    by (simp_all add: listing_def slow_env_def)
  have "\<forall>i < 1. still_missing slow_env (listing slow_env ''VolumeGroup'' [] i)"
    by (simp add: still_missing_def listing_def slow_env_def sample_env_def sample_library_def)
  moreover have "\<not> still_missing slow_env (listing slow_env ''VolumeGroup'' [] 1)"
    unfolding one by (simp add: still_missing_def)
  ultimately have "waitForVGResource slow_env 5 ''VolumeGroup'' [] =
      (Ret (Some (listing slow_env ''VolumeGroup'' [] 1)), listings slow_env ''VolumeGroup'' [] (Suc 1))"
    by (rule wait_ends) simp
  then show ?thesis unfolding one .
qed

text \<open>
  C32. The manager is started only with a driver name, after all three resource definitions could be
  listed, and with both reconcilers on the same configuration and the same request timeout; until
  then the operator only reads.
\<close>

theorem started_well:
  assumes "main env p fuel flags t = (x, t')"
  shows "\<exists>es. t' = t @ es \<and> list_all is_read es \<and>
    (\<forall>vgR vgcR err. x = Ret (Some (Started vgR vgcR err)) \<longrightarrow> well_started vgR vgcR es)"
  using gives_run [OF main_spec assms] by metis

definition calm_platform :: platform where
  "calm_platform = \<lparr>plat_Connect = (\<lambda>a n. None), plat_ProbeForever = (\<lambda>n. None), plat_GetDriverName = Inr ''d'', plat_NewManager = None,
     plat_Complete_VG = None, plat_Complete_VGC = None, plat_AddHealthzCheck = None, plat_AddReadyzCheck = None, plat_Start = None\<rparr>"

fun is_started :: "main_result option outcome \<Rightarrow> bool" where
  "is_started (Ret (Some (Started vgR vgcR err))) = True"
| "is_started _ = False"

lemma is_started_run: "is_started (fst r) \<Longrightarrow> \<exists>vgR vgcR err. r = (Ret (Some (Started vgR vgcR err)), snd r)"
  by (cases r; cases "fst r" rule: is_started.cases) auto

theorem started_well_witness:
  "\<exists>vgR vgcR. well_started vgR vgcR (snd (main slow_env calm_platform 5 [driver_name ''d''] []))"
proof -
  have "fst (waitForCrds slow_env 5 []) = Ret (Some None)" by code_simp
  then obtain u where "waitForCrds slow_env 5 [] = (Ret (Some None), u)" by (metis prod.collapse)
  then have "is_started (fst (main slow_env calm_platform 5 [driver_name ''d''] []))"
    by (simp add: main_def flag_Parse_def defineFlags_def Validate_def getControllerGrpcClient_def New_def Probe_def
        VG_SetupWithManager_def VGC_SetupWithManager_def calm_platform_def Let_def go_run)
  from is_started_run [OF this] obtain vgR vgcR err where
    run: "main slow_env calm_platform 5 [driver_name ''d''] [] = (Ret (Some (Started vgR vgcR err)), snd (main slow_env calm_platform 5 [driver_name ''d''] []))"
    by blast
  from started_well [OF run] show ?thesis by auto
qed

end
