(* ===== verification/Interference.thy ===== *)
theory Interference
  imports Frames
begin

text \<open>
  A rely-guarantee logic over answers and writes. \<open>keeps A W P m R\<close>: if \<open>P\<close> holds, then a write with
  \<open>W\<close> (a bad one) happens in \<open>m\<close> only after an answer with \<open>A\<close> (a bad one), and a value that \<open>m\<close>
  returns after good answers only satisfies \<open>R\<close>. Other actors may change the cluster at any moment,
  which shows in the answers; what the operator itself writes is the guarantee. Bad answers void the
  rest of a run, so a rule never has to look at what follows them.
\<close>

section \<open>The logic\<close>

definition keeps :: "(event \<Rightarrow> bool) \<Rightarrow> (event \<Rightarrow> bool) \<Rightarrow> bool \<Rightarrow> 'a go \<Rightarrow> ('a \<Rightarrow> bool) \<Rightarrow> bool" where
  "keeps A W P m R \<longleftrightarrow> gives m (\<lambda>x es. P \<longrightarrow> guards (list_ex A) W es \<and> (\<not> list_ex A es \<longrightarrow> (\<forall>a. x = Ret a \<longrightarrow> R a)))"

named_theorems keeps_intro \<open>rules of the logic, by the shape of the program\<close>

lemma keeps_returnG [keeps_intro]: "(P \<Longrightarrow> R a) \<Longrightarrow> keeps A W P (returnG a) R"
  by (simp add: keeps_def gives_def wp_def go_run)

lemma keeps_panicG [keeps_intro]: "keeps A W P (panicG s) R"
  by (simp add: keeps_def gives_def wp_def go_run)

lemma keeps_liftG [keeps_intro]: "(\<And>a. P \<Longrightarrow> x = Ret a \<Longrightarrow> R a) \<Longrightarrow> keeps A W P (liftG x) R"
  by (simp add: keeps_def gives_def wp_def go_run)

lemma keeps_readG [keeps_intro]: "(\<And>r. P \<Longrightarrow> R r) \<Longrightarrow> keeps A W P (readG f) R"
  by (simp add: keeps_def gives_def wp_def go_run)

lemma keeps_callG [keeps_intro]:
  "(\<And>r. P \<Longrightarrow> \<not> W (ev r)) \<Longrightarrow> (\<And>r. P \<Longrightarrow> \<not> A (ev r) \<Longrightarrow> R r) \<Longrightarrow> keeps A W P (callG ev f) R"
  by (simp add: keeps_def gives_def wp_def go_run guards_Cons)

lemma guards_list_ex_append:
  assumes "guards (list_ex A) W es" and "list_ex A es \<or> guards (list_ex A) W es'"
  shows "guards (list_ex A) W (es @ es')"
  by (rule guards_append [OF assms(1)]) (use assms(2) in \<open>auto simp: guards_def\<close>)

lemma keeps_bindG [keeps_intro]:
  assumes "keeps A W P m Q" and "\<And>a. keeps A W (P \<and> Q a) (f a) R"
  shows "keeps A W P (bindG m f) R"
  unfolding keeps_def gives_def
proof (rule wp_bind_use [OF assms(1) [unfolded keeps_def]])
  fix a es
  assume m: "P \<longrightarrow> guards (list_ex A) W es \<and> (\<not> list_ex A es \<longrightarrow> (\<forall>b. Ret a = Ret b \<longrightarrow> Q b))"
  show "wp (f a) (\<lambda>x es. P \<longrightarrow> guards (list_ex A) W es \<and> (\<not> list_ex A es \<longrightarrow> (\<forall>a. x = Ret a \<longrightarrow> R a))) ([] @ es)"
    by (rule wp_use [OF assms(2) [unfolded keeps_def]]) (use m guards_list_ex_append in auto)
qed simp

lemma keeps_tryG [keeps_intro]:
  assumes "keeps A W P m Q" and "\<And>a. keeps A W (P \<and> Q (Inr a)) (f a) R" and "\<And>e. P \<Longrightarrow> Q (Inl e) \<Longrightarrow> R (Inl e)"
  shows "keeps A W P (tryG m f) R"
  unfolding tryG_def using assms(1)
  by (rule keeps_bindG) (auto intro: keeps_returnG assms(2,3) split: sum.split)

lemma keeps_if [keeps_intro]:
  "(b \<Longrightarrow> keeps A W P m R) \<Longrightarrow> (\<not> b \<Longrightarrow> keeps A W P n R) \<Longrightarrow> keeps A W P (if b then m else n) R"
  by simp

lemma keeps_option [keeps_intro]:
  "(x = None \<Longrightarrow> keeps A W P m R) \<Longrightarrow> (\<And>a. x = Some a \<Longrightarrow> keeps A W P (f a) R) \<Longrightarrow>
     keeps A W P (case x of None \<Rightarrow> m | Some a \<Rightarrow> f a) R"
  by (cases x) auto

lemma keeps_sum [keeps_intro]:
  "(\<And>a. x = Inl a \<Longrightarrow> keeps A W P (f a) R) \<Longrightarrow> (\<And>b. x = Inr b \<Longrightarrow> keeps A W P (g b) R) \<Longrightarrow>
     keeps A W P (case x of Inl a \<Rightarrow> f a | Inr b \<Rightarrow> g b) R"
  by (cases x) auto

lemma keeps_prod [keeps_intro]:
  "(\<And>a b. x = (a, b) \<Longrightarrow> keeps A W P (f a b) R) \<Longrightarrow> keeps A W P (case x of (a, b) \<Rightarrow> f a b) R"
  by (cases x) auto

lemma keeps_conseq:
  "keeps A W P m Q \<Longrightarrow> (P' \<Longrightarrow> P) \<Longrightarrow> (\<And>a. P' \<Longrightarrow> Q a \<Longrightarrow> R a) \<Longrightarrow> keeps A W P' m R"
  unfolding keeps_def by (erule gives_mono) auto

text \<open>A program without bad writes, and a retried closure that keeps its object good.\<close>

lemma keeps_emits: "emits \<Phi> m \<Longrightarrow> (\<And>e. \<Phi> e \<Longrightarrow> \<not> W e) \<Longrightarrow> keeps A W P m (\<lambda>_. True)"
  unfolding keeps_def emits_def by (erule gives_mono) (auto intro!: guards_none simp: list_all_iff)

lemma keeps_attempts:
  assumes "\<And>obj. keeps A W (P \<and> I obj) (f obj) (\<lambda>(err, obj). I obj)"
  shows "keeps A W (P \<and> I obj) (attempts c n f obj) (\<lambda>(err, obj). I obj)"
proof (induction n arbitrary: obj)
  case 0
  show ?case using assms by simp
next
  case (Suc n)
  have step: "keeps A W ((P \<and> I obj) \<and> (case a of (err, obj) \<Rightarrow> I obj))
      (case a of (err, obj') \<Rightarrow> if c err then attempts c n f obj' else returnG (err, obj')) (\<lambda>(err, obj). I obj)" for a
    by (cases a) (auto intro: keeps_conseq [OF Suc.IH] keeps_returnG)
  show ?case unfolding attempts.simps by (rule keeps_bindG [OF assms step])
qed

lemma keeps_retry:
  assumes "retries_on_conflict c retry" and "\<And>obj. keeps A W (P \<and> I obj) (f obj) (\<lambda>(err, obj). I obj)" and "P \<Longrightarrow> I obj"
  shows "keeps A W P (retry f obj) (\<lambda>(err, obj). I obj)"
proof -
  have "keeps A W (P \<and> I obj) (retry f obj) (\<lambda>(err, obj). I obj)"
    unfolding keeps_def gives_def wp_def
  proof
    fix t
    obtain n where n: "retry f obj t = attempts c n f obj t" using assms(1) unfolding retries_on_conflict_def by blast
    show "\<exists>es. snd (retry f obj t) = t @ es \<and> (P \<and> I obj \<longrightarrow> guards (list_ex A) W ([] @ es) \<and>
        (\<not> list_ex A ([] @ es) \<longrightarrow> (\<forall>a. fst (retry f obj t) = Ret a \<longrightarrow> (case a of (err, obj) \<Rightarrow> I obj))))"
      unfolding n using keeps_attempts [OF assms(2), of obj c n] unfolding keeps_def gives_def wp_def by blast
  qed
  then show ?thesis by (rule keeps_conseq) (use assms(3) in auto)
qed

end
