(* ===== verification/Kept_Objects.thy ===== *)
theory Kept_Objects
  imports Interference
begin

text \<open>
  What the operator keeps true of the groups and contents it writes. The locale \<open>kept_objects\<close> takes
  a property \<open>I\<close> of groups and \<open>J\<close> of contents that each single change the operator makes preserves
  (and \<open>K\<close>, which a newly generated content has), and shows for both reconcilers as a whole: a group
  or a content without it is written only after the cluster answered with one.
\<close>

section \<open>Bad answers and bad writes\<close>

text \<open>The object an answer leaves behind counts also when the call failed: the code goes on with it.\<close>

fun bad_answer :: "(VolumeGroup \<Rightarrow> bool) \<Rightarrow> (VolumeGroupContent \<Rightarrow> bool) \<Rightarrow> event \<Rightarrow> bool" where
  "bad_answer I J (EvGetVG k a) = (\<not> I (snd a))"
| "bad_answer I J (EvUpdateVG sent a) = (\<not> I (snd a))"
| "bad_answer I J (EvStatusVG sent a) = (\<not> I (snd a))"
| "bad_answer I J (EvGetVGC k a) = (\<not> J (snd a))"
| "bad_answer I J (EvUpdateVGC sent a) = (\<not> J (snd a))"
| "bad_answer I J (EvStatusVGC sent a) = (\<not> J (snd a))"
| "bad_answer I J _ = False"

fun bad_write :: "(VolumeGroup \<Rightarrow> bool) \<Rightarrow> (VolumeGroupContent \<Rightarrow> bool) \<Rightarrow> (VolumeGroupContent \<Rightarrow> bool) \<Rightarrow> event \<Rightarrow> bool" where
  "bad_write I J K (EvUpdateVG sent a) = (\<not> I sent)"
| "bad_write I J K (EvStatusVG sent a) = (\<not> I sent)"
| "bad_write I J K (EvUpdateVGC sent a) = (\<not> J sent)"
| "bad_write I J K (EvStatusVGC sent a) = (\<not> J sent)"
| "bad_write I J K (EvCreateVGC sent a) = (\<not> K sent)"
| "bad_write I J K _ = False"

abbreviation quiet :: "touched set" where
  "quiet \<equiv> {Reading, GoneVGC, SpecPVC, GonePVC, Note, RpcCreate, RpcDelete, RpcModify}"

lemma quiet_writes: "within quiet e \<Longrightarrow> \<not> bad_write I J K e"
  by (cases e) auto

named_theorems kept \<open>operations under the logic\<close>

section \<open>Claims are chosen once\<close>

lemma keeps_collectMatchingPVCs:
  assumes "\<And>e. W e \<Longrightarrow> \<not> within quiet e" and "P \<Longrightarrow> distinct (map pvc_key acc)"
  shows "keeps A W P (collectMatchingPVCs env r vg pvcs acc) (\<lambda>res. \<forall>l. res = Inr l \<longrightarrow> distinct (map pvc_key l))"
  using assms(2)
proof (induction pvcs arbitrary: P acc)
  case (Cons pvc pvcs)
  have quiet: "keeps A W P m (\<lambda>_. True)" if "does quiet m" for P and m :: "(error + bool) go"
    using that by (rule keeps_emits) (use assms(1) in blast)
  have member: "does quiet (isPVCShouldBeInVg env r vg pvc)"
    unfolding isPVCShouldBeInVg_def isPVCCanBeAddedToVG_def by (auto intro!: emits_intro does_reads)
  have handled: "does quiet (IsPVCNeedToBeHandled env pvc driver)" for driver
    by (rule does_IsPVCNeedToBeHandled) simp
  show ?case
    unfolding collectMatchingPVCs.simps
    by (rule keeps_tryG [OF quiet [OF member]], rule keeps_tryG [OF quiet [OF handled]], rule Cons.IH)
      (use Cons.prems in auto)
qed (auto intro: keeps_returnG)

lemma keeps_getMatchingPVCs:
  assumes "\<And>e. W e \<Longrightarrow> \<not> within quiet e"
  shows "keeps A W P (getMatchingPVCs env r vg) (\<lambda>res. \<forall>l. res = Inr l \<longrightarrow> distinct (map pvc_key l))"
proof -
  have "keeps A W P (GetPVCList env driver) (\<lambda>_. True)" for driver
    by (rule keeps_emits [OF does_reads(12) [of quiet]]) (use assms in auto)
  then show ?thesis
    unfolding getMatchingPVCs_def by (rule keeps_tryG) (auto intro!: keeps_collectMatchingPVCs dest: assms)
qed

section \<open>The contract\<close>

locale kept_objects =
  fixes I :: "VolumeGroup \<Rightarrow> bool" and J K :: "VolumeGroupContent \<Rightarrow> bool"
  assumes group_status: "I vg \<Longrightarrow> I (set_VGStatus vgcName now ready vg)" "I vg \<Longrightarrow> I (set_VGError message vg)"
    and group_finalizers: "I vg \<Longrightarrow> I (vg\<lparr>vgMeta := (vgMeta vg)\<lparr>Finalizers := fs\<rparr>\<rparr>)"
    and group_content: "I vg \<Longrightarrow> I (set_ContentName vgcName vg)"
    and claims_append: "I vg \<Longrightarrow> I (set_PVCList (appendPVC (PVCList (vgStatus vg)) pvc) vg)"
    and claims_remove: "I vg \<Longrightarrow> I (set_PVCList (removeFromPVCList pvc (PVCList (vgStatus vg))) vg)"
    and claims_carried: "I vg \<Longrightarrow> I vg' \<Longrightarrow> I (set_PVCList (PVCList (vgStatus vg')) vg)"
    and claims_chosen: "I vg \<Longrightarrow> distinct (map pvc_key pvcs) \<Longrightarrow> I (set_PVCList pvcs vg)"
    and content_status: "J vgc \<Longrightarrow> J (updateVGCStatusFields vgc now ready)" "J vgc \<Longrightarrow> J (set_VGCError message vgc)"
    and content_finalizers: "J vgc \<Longrightarrow> J (vgc\<lparr>vgcMeta := (vgcMeta vgc)\<lparr>Finalizers := fs\<rparr>\<rparr>)"
    and content_spec: "J vgc \<Longrightarrow> J (vgc\<lparr>vgcSpec := spec\<rparr>)" "J vgc \<Longrightarrow> J (vgc\<lparr>vgcTypeMeta := tm\<rparr>)"
    and volumes_append: "J vgc \<Longrightarrow> J (set_PVList (appendPV (PVList (vgcStatus vgc)) pv) vgc)"
    and volumes_remove: "J vgc \<Longrightarrow> J (set_PVList (removeFromPVList pv (PVList (vgcStatus vgc))) vgc)"
    and volumes_carried: "J vgc \<Longrightarrow> J vgc' \<Longrightarrow> J (set_PVList (PVList (vgcStatus vgc')) vgc)"
    and generated: "GenerateVGC vgName vg vgClass secretName secretNamespace = Ret vgc \<Longrightarrow> K vgc"
begin

abbreviation keep :: "bool \<Rightarrow> 'a go \<Rightarrow> ('a \<Rightarrow> bool) \<Rightarrow> bool" where
  "keep \<equiv> keeps (bad_answer I J) (bad_write I J K)"

lemma keep_quiet: "does quiet m \<Longrightarrow> keep P m (\<lambda>_. True)"
  by (erule keeps_emits) (rule quiet_writes)

lemma keep_reads [kept]:
  "keep P (GetVGClass env name) (\<lambda>_. True)" "keep P (GetSecretDataFromClass env c) (\<lambda>_. True)"
  "keep P (GetPVFromPVC env pvc) (\<lambda>_. True)" "keep P (getPVCListVolumeIds env pvcs acc) (\<lambda>_. True)"
  "keep P (getVgId env vg) (\<lambda>_. True)" "keep P (IsVgExist env vgc) (\<lambda>_. True)"
  "keep P (getMatchingPVCFromPVCListToPV env name driver) (\<lambda>_. True)" "keep P (isVGCReady env vgc) (\<lambda>_. True)"
  "keep P (GetCurrentTime env) (\<lambda>_. True)"
  by (auto intro!: keep_quiet does_reads frames)

lemma keep_notes [kept]:
  "keep P (createNamespacedObjectErrorEvent env tm obj m reason) (\<lambda>_. True)"
  "keep P (createSuccessNamespacedObjectEvent env tm obj m reason) (\<lambda>_. True)"
  "keep P (HandleVGCErrorMessage env v err reason) (\<lambda>_. True)" "keep P (failVGC env v e reason) (\<lambda>_. True)"
  by (auto intro!: keep_quiet does_createEvent frames)

lemma keep_requests [kept]:
  "keep P (Modify env q) (\<lambda>_. True)" "keep P (deleteVG env r handle secret) (\<lambda>_. True)"
  "keep P (createVG env r name params secret) (\<lambda>_. True)" "keep P (removeVGCObject env vgc) (\<lambda>_. True)"
  unfolding deleteVG_def createVG_def request_defs removeVGCObject_def client_calls Let_def
  by (auto intro!: keep_quiet emits_intro)

lemma keep_claims [kept]:
  assumes "retry_documented env"
  shows "keep P (AddFinalizerToPVC env pvc) (\<lambda>_. True)" "keep P (RemoveFinalizerFromPVC env driver pvc) (\<lambda>_. True)"
    "keep P (deletePVC env name ns driver) (\<lambda>_. True)"
  using assms by (auto intro!: keep_quiet frames)

lemma keep_matching [kept]:
  "keep P (getMatchingPVCs env r vg) (\<lambda>res. \<forall>l. res = Inr l \<longrightarrow> distinct (map pvc_key l))"
  by (rule keeps_getMatchingPVCs) (metis quiet_writes)

section \<open>Single reads and writes\<close>

lemma keep_GetVGC [kept]: "keep P (GetVGC env name ns) (\<lambda>res. \<forall>c. res = Inr c \<longrightarrow> J c)"
  unfolding GetVGC_def client_calls
  by (rule keeps_bindG [where Q = "\<lambda>(err, c). J c"], rule keeps_callG) (auto intro!: keeps_intro)

lemma keep_GetVGC_of [kept]: "keep P (GetVGC_of env vg) (\<lambda>res. \<forall>c. res = Inr c \<longrightarrow> J c)"
  unfolding GetVGC_of_def vgcNameOf_def reflected_fields bindG_lift_Ret by (rule keep_GetVGC)

lemma keep_client:
  "(P \<Longrightarrow> I vg) \<Longrightarrow> keep P (client_Update_VG env vg) (\<lambda>(err, vg). I vg)"
  "(P \<Longrightarrow> I vg) \<Longrightarrow> keep P (client_Status_VG env vg) (\<lambda>(err, vg). I vg)"
  "keep P (client_Get_VG env k vg) (\<lambda>(err, vg). I vg)"
  "(P \<Longrightarrow> J vgc) \<Longrightarrow> keep P (client_Update_VGC env vgc) (\<lambda>(err, vgc). J vgc)"
  "(P \<Longrightarrow> J vgc) \<Longrightarrow> keep P (client_Status_VGC env vgc) (\<lambda>(err, vgc). J vgc)"
  "keep P (client_Get_VGC env k vgc) (\<lambda>(err, vgc). J vgc)"
  unfolding client_calls by (auto intro!: keeps_callG)

lemma keep_object:
  "keep P (obj_Update ops obj) (\<lambda>(err, obj). X obj) \<Longrightarrow> keep P (UpdateObject env ops obj) (\<lambda>(err, obj). X obj)"
  "keep P (obj_StatusUpdate sops obj) (\<lambda>(err, obj). X obj) \<Longrightarrow> keep P (UpdateObjectStatus env sops obj) (\<lambda>(err, obj). X obj)"
  "(\<And>k. keep P (obj_Get ops k obj) (\<lambda>(err, obj). X obj)) \<Longrightarrow> keep P (getNamespacedObject env ops obj) (\<lambda>(err, obj). X obj)"
  unfolding UpdateObject_def UpdateObjectStatus_def getNamespacedObject_def
  by (rule keeps_bindG, assumption, auto intro!: keeps_intro)+

lemma keep_update [kept]:
  "(P \<Longrightarrow> I vg) \<Longrightarrow> keep P (UpdateObject env (VG_object env) vg) (\<lambda>(err, vg). I vg)"
  "(P \<Longrightarrow> I vg) \<Longrightarrow> keep P (UpdateObjectStatus env (VG_object env) vg) (\<lambda>(err, vg). I vg)"
  "keep P (getNamespacedObject env (VG_object env) vg) (\<lambda>(err, vg). I vg)"
  "(P \<Longrightarrow> J vgc) \<Longrightarrow> keep P (UpdateObject env (VGC_object env) vgc) (\<lambda>(err, vgc). J vgc)"
  "(P \<Longrightarrow> J vgc) \<Longrightarrow> keep P (UpdateObjectStatus env (VGC_object env) vgc) (\<lambda>(err, vgc). J vgc)"
  "keep P (getNamespacedObject env (VGC_object env) vgc) (\<lambda>(err, vgc). J vgc)"
  by (auto simp: object_defs intro!: keep_object keep_client)

lemma keep_attempt [kept]:
  "(P \<Longrightarrow> I vg) \<Longrightarrow> keep P (vgRetryOnConflictFunc env vg) (\<lambda>(err, vg). I vg)"
  "(P \<Longrightarrow> J vgc) \<Longrightarrow> keep P (vgcRetryOnConflictFunc env vgc) (\<lambda>(err, vgc). J vgc)"
  "(P \<Longrightarrow> I vg) \<Longrightarrow> keep P (finalizerRetryOnConflictFunc env (VG_object env) fs vg) (\<lambda>(err, vg). I vg)"
  "(P \<Longrightarrow> J vgc) \<Longrightarrow> keep P (finalizerRetryOnConflictFunc env (VGC_object env) fs vgc) (\<lambda>(err, vgc). J vgc)"
proof -
  have fs: "P \<Longrightarrow> I (SetFinalizers (VG_object env) fs vg)" if "P \<Longrightarrow> I vg"
    using group_finalizers [OF that] by (simp add: object_defs)
  have gs: "P \<Longrightarrow> J (SetFinalizers (VGC_object env) fs vgc)" if "P \<Longrightarrow> J vgc"
    using content_finalizers [OF that] by (simp add: object_defs)
  show "(P \<Longrightarrow> I vg) \<Longrightarrow> keep P (vgRetryOnConflictFunc env vg) (\<lambda>(err, vg). I vg)"
    "(P \<Longrightarrow> J vgc) \<Longrightarrow> keep P (vgcRetryOnConflictFunc env vgc) (\<lambda>(err, vgc). J vgc)"
    "(P \<Longrightarrow> I vg) \<Longrightarrow> keep P (finalizerRetryOnConflictFunc env (VG_object env) fs vg) (\<lambda>(err, vg). I vg)"
    "(P \<Longrightarrow> J vgc) \<Longrightarrow> keep P (finalizerRetryOnConflictFunc env (VGC_object env) fs vgc) (\<lambda>(err, vgc). J vgc)"
    unfolding vgRetryOnConflictFunc_def updateVGStatus_eq vgcRetryOnConflictFunc_def finalizerRetryOnConflictFunc_def Let_def
    by - (rule kept keeps_intro | (simp add: fs gs; fail))+
qed

section \<open>Retried writes\<close>

lemma keep_retry_VG:
  "retry_documented env \<Longrightarrow> (\<And>vg. P \<Longrightarrow> I vg \<Longrightarrow> I (prep vg)) \<Longrightarrow> (P \<Longrightarrow> I vg) \<Longrightarrow>
     keep P (lib_RetryOnConflict_VG (lib env) (\<lambda>vg. vgRetryOnConflictFunc env (prep vg)) vg) (\<lambda>(err, vg). I vg)"
  by (rule keeps_retry [OF retry_VG]) (auto intro: kept)

lemma keep_retry_VGC:
  "retry_documented env \<Longrightarrow> (\<And>vgc. P \<Longrightarrow> J vgc \<Longrightarrow> J (prep vgc)) \<Longrightarrow> (P \<Longrightarrow> J vgc) \<Longrightarrow>
     keep P (lib_RetryOnConflict_VGC (lib env) (\<lambda>vgc. vgcRetryOnConflictFunc env (prep vgc)) vgc) (\<lambda>(err, vgc). J vgc)"
  by (rule keeps_retry [OF retry_VGC]) (auto intro: kept)

lemma keep_updateFinalizer [kept]:
  "retry_documented env \<Longrightarrow> (P \<Longrightarrow> I vg) \<Longrightarrow> keep P (updateFinalizer env (VG_object env) fs vg) (\<lambda>(err, vg). I vg)"
  "retry_documented env \<Longrightarrow> (P \<Longrightarrow> J vgc) \<Longrightarrow> keep P (updateFinalizer env (VGC_object env) fs vgc) (\<lambda>(err, vgc). J vgc)"
  unfolding updateFinalizer_def object_retry
  by (rule keeps_retry [OF retry_VG], auto intro: kept) (rule keeps_retry [OF retry_VGC], auto intro: kept)

section \<open>Status, messages and finalizers\<close>

lemmas kept_changes = group_status group_finalizers group_content claims_append claims_remove claims_carried claims_chosen
  content_status content_finalizers content_spec volumes_append volumes_remove volumes_carried

lemma keep_status_VG [kept]:
  assumes "retry_documented env" and "P \<Longrightarrow> I vg"
  shows "keep P (UpdateVGStatusError env vg message) (\<lambda>(err, vg). I vg)" "keep P (UpdateVGStatus env vg vgcName now ready) (\<lambda>(err, vg). I vg)"
    "(\<And>vg. P \<Longrightarrow> I vg \<Longrightarrow> I (set_PVCList pvcs vg)) \<Longrightarrow> keep P (updateVGStatusPVCList env vg pvcs) (\<lambda>(err, vg). I vg)"
  unfolding UpdateVGStatusError_def UpdateVGStatus_def updateVGStatusPVCList_def updateVGStatus_eq case_return_pair return_bindG
  using assms by - (rule keep_retry_VG kept keeps_intro | (simp add: kept_changes; fail))+

lemma keep_list_VG [kept]:
  assumes "retry_documented env" and "P \<Longrightarrow> I vg"
  shows "keep P (AddPVCToVG env pvc vg) (\<lambda>(err, vg). I vg)" "keep P (RemovePVCFromVG env pvc vg) (\<lambda>(err, vg). I vg)"
  unfolding AddPVCToVG_def RemovePVCFromVG_def Let_def
  using assms by - (rule kept keeps_intro | (simp add: kept_changes; fail))+

lemma keep_status_VGC [kept]:
  assumes "P \<Longrightarrow> J vgc"
  shows "retry_documented env \<Longrightarrow> keep P (UpdateVGCStatusError env vgc message) (\<lambda>(err, vgc). J vgc)"
    "keep P (UpdateVGCStatus env vgc now ready) (\<lambda>(err, vgc). J vgc)"
    "retry_documented env \<Longrightarrow> (\<And>vgc. P \<Longrightarrow> J vgc \<Longrightarrow> J (set_PVList pvs vgc)) \<Longrightarrow> keep P (updateVGCStatusPVList env vgc pvs) (\<lambda>(err, vgc). J vgc)"
  unfolding UpdateVGCStatusError_def UpdateVGCStatus_def updateVGCStatusPVList_def case_return_pair return_bindG
  using assms by - (rule keep_retry_VGC kept keeps_intro | (simp add: kept_changes; fail))+

lemma keep_list_VGC [kept]:
  assumes "retry_documented env" and "P \<Longrightarrow> J vgc"
  shows "keep P (addPVToVGC env pv vgc) (\<lambda>(err, vgc). J vgc)" "keep P (RemovePVFromVGC env pv vgc) (\<lambda>(err, vgc). J vgc)"
  unfolding addPVToVGC_def RemovePVFromVGC_def Let_def
  using assms by - (rule kept keeps_intro | (simp add: kept_changes; fail))+

lemma keep_messages [kept]:
  assumes "retry_documented env" and "P \<Longrightarrow> I vg"
  shows "keep P (HandleErrorMessage env vg err reason) (\<lambda>(err, vg). I vg)"
    "keep P (HandleSuccessMessage env vg message reason) (\<lambda>(err, vg). I vg)"
  unfolding HandleErrorMessage_def HandleSuccessMessage_def Let_def
  using assms by - (rule kept keeps_intro | (simp; fail))+

lemma keep_reports [kept]:
  assumes "retry_documented env" and "P \<Longrightarrow> I vg"
  shows "keep P (failVG env vg e reason) (\<lambda>_. True)" "keep P (createSuccessVGEvent env vg) (\<lambda>(err, vg). I vg)"
  unfolding failVG_def createSuccessVGEvent_def Let_def
  using assms by - (rule kept keeps_intro | (simp; fail))+

lemma keep_finalizers_VG [kept]:
  assumes "retry_documented env" and "P \<Longrightarrow> I vg"
  shows "keep P (AddFinalizerToVG env vg) (\<lambda>(err, vg). I vg)" "keep P (RemoveFinalizerFromVG env vg) (\<lambda>(err, vg). I vg)"
proof -
  have fs: "I (SetFinalizers (VG_object env) fs vg)" if P for fs
    using group_finalizers [OF assms(2) [OF that]] by (simp add: object_defs)
  show "keep P (AddFinalizerToVG env vg) (\<lambda>(err, vg). I vg)" "keep P (RemoveFinalizerFromVG env vg) (\<lambda>(err, vg). I vg)"
    unfolding AddFinalizerToVG_def RemoveFinalizerFromVG_def Let_def
    using assms by - (rule kept keeps_intro | (simp add: fs; fail))+
qed

lemma keep_finalizers_VGC [kept]:
  assumes "retry_documented env" and "P \<Longrightarrow> J vgc"
  shows "keep P (AddFinalizerToVGC env vgc) (\<lambda>(err, vgc). J vgc)" "keep P (RemoveFinalizerFromVGC env vgc) (\<lambda>(err, vgc). J vgc)"
proof -
  have fs: "J (SetFinalizers (VGC_object env) fs vgc)" if P for fs
    using content_finalizers [OF assms(2) [OF that]] by (simp add: object_defs)
  show "keep P (AddFinalizerToVGC env vgc) (\<lambda>(err, vgc). J vgc)" "keep P (RemoveFinalizerFromVGC env vgc) (\<lambda>(err, vgc). J vgc)"
    unfolding AddFinalizerToVGC_def RemoveFinalizerFromVGC_def Let_def
    using assms by - (rule kept keeps_intro | (simp add: fs; fail))+
qed

section \<open>The members of a group\<close>

lemma keep_modify [kept]:
  assumes "retry_documented env" and "P \<Longrightarrow> I vg" and "P \<Longrightarrow> distinct (map pvc_key pvcs)"
  shows "keep P (ModifyVolumesInVG env c pvcs vg) (\<lambda>_. True)"
proof -
  have secrets: "keep P (getSecrets env vg) (\<lambda>(r, vg). I vg)" if "P \<Longrightarrow> I vg" for P vg
    unfolding getSecrets_def reflected_fields bindG_lift_Ret
    using assms(1) that by - (rule kept keeps_intro | (simp; fail))+
  have params: "keep P (generateModifyVGParams env vg c) (\<lambda>(r, vg). I vg)" if "P \<Longrightarrow> I vg" for P vg
    unfolding generateModifyVGParams_def using that by - (rule kept secrets keeps_intro | (simp; fail))+
  show ?thesis
    unfolding ModifyVolumesInVG_def ModifyVG_def Let_def
    using assms by - (rule kept params keeps_intro | (simp add: kept_changes; fail))+
qed

lemma keep_members [kept]:
  assumes "retry_documented env" and "P \<Longrightarrow> I vg"
  shows "keep P (AddVolumeToPvcListAndPvList env pvc vg) (\<lambda>(err, vg). I vg)"
    "keep P (RemoveVolumeFromPvcListAndPvList env driver pvc vg) (\<lambda>(err, vg). I vg)"
proof -
  have volume: "keep P (AddMatchingPVToMatchingVGC env pvc vg) (\<lambda>_. True)" for P vg
    unfolding AddMatchingPVToMatchingVGC_def using assms(1) by - (rule kept keeps_intro | (simp; fail))+
  have removal: "keep P (case pv of None \<Rightarrow> returnG None | Some pv \<Rightarrow> bindG (RemovePVFromVGC env pv vgc) (\<lambda>(err, vgc). returnG err)) (\<lambda>_. True)"
    if "P \<Longrightarrow> J vgc" for P pv vgc
    using assms(1) that by - (rule kept keeps_intro | (simp; fail))+
  show "keep P (AddVolumeToPvcListAndPvList env pvc vg) (\<lambda>(err, vg). I vg)"
    "keep P (RemoveVolumeFromPvcListAndPvList env driver pvc vg) (\<lambda>(err, vg). I vg)"
    unfolding AddVolumeToPvcListAndPvList_def RemoveVolumeFromPvcListAndPvList_def Let_def
    using assms by - (rule kept volume removal keeps_intro | (simp; fail))+
qed

lemma keep_loops [kept]:
  assumes "retry_documented env" and "P \<Longrightarrow> I vg"
  shows "keep P (removeVolumes env driver pvcs xs vg) (\<lambda>(err, vg). I vg)" "keep P (addVolumes env xs pvcs vg) (\<lambda>(err, vg). I vg)"
proof -
  show "keep P (removeVolumes env driver pvcs xs vg) (\<lambda>(err, vg). I vg)"
    using assms(2)
  proof (induction xs arbitrary: P vg)
    case (Cons x xs)
    show ?case unfolding removeVolumes.simps
      using assms(1) Cons.prems by - (rule kept Cons.IH keeps_intro | (simp; fail))+
  qed (auto intro: keeps_returnG)
  show "keep P (addVolumes env xs pvcs vg) (\<lambda>(err, vg). I vg)"
    using assms(2)
  proof (induction pvcs arbitrary: P vg)
    case (Cons x pvcs)
    show ?case unfolding addVolumes.simps
      using assms(1) Cons.prems by - (rule kept Cons.IH keeps_intro | (simp; fail))+
  qed (auto intro: keeps_returnG)
qed

lemma keep_updatePVCs [kept]:
  assumes "retry_documented env" and "P \<Longrightarrow> I vg"
  shows "keep P (updatePVCs env r vg) (\<lambda>(err, vg). I vg)"
  unfolding updatePVCs_def UpdatePvcAndPvList_def Let_def bindG_return
  using assms by - (rule kept keeps_intro | (simp; fail))+

section \<open>Contents\<close>

lemma keep_CreateVGC [kept]: "(P \<Longrightarrow> K vgc) \<Longrightarrow> keep P (CreateVGC env vgc) (\<lambda>_. True)"
  unfolding CreateVGC_def client_calls
  by (rule keeps_bindG [where Q = "\<lambda>_. True"], rule keeps_callG) (auto intro!: keeps_intro)

lemma keep_spec [kept]:
  "keep P (UpdateStaticVGCFromVG env vg c) (\<lambda>_. True)" "keep P (UpdateStaticVGC env ns name c) (\<lambda>_. True)"
  "keep P (UpdateThinVGC env ns name) (\<lambda>_. True)"
  "(P \<Longrightarrow> J vgc) \<Longrightarrow> keep P (UpdateVGCByResponse env vgc resp) (\<lambda>(err, vgc). J vgc)"
proof -
  have static: "J vgc \<Longrightarrow> J (updateStaticVGCSpec c vgc)" for vgc
    unfolding updateStaticVGCSpec_def Let_def by (auto intro: content_spec split: prod.split)
  have thin: "J vgc \<Longrightarrow> updateThinVGCSpec vgc = Ret vgc' \<Longrightarrow> J vgc'" for vgc vgc'
    unfolding updateThinVGCSpec_def by (auto intro: content_spec split: outcome.splits if_splits)
  have thin_step: "keep P (liftG (updateThinVGCSpec vgc)) J" if "P \<Longrightarrow> J vgc" for P vgc
    by (rule keeps_liftG) (use that thin in blast)
  show "keep P (UpdateStaticVGCFromVG env vg c) (\<lambda>_. True)" "keep P (UpdateStaticVGC env ns name c) (\<lambda>_. True)"
    "keep P (UpdateThinVGC env ns name) (\<lambda>_. True)"
    unfolding UpdateStaticVGCFromVG_def UpdateStaticVGC_def UpdateThinVGC_def Let_def
    by - (rule kept thin_step keeps_intro | (simp add: static content_spec; fail))+
  show "(P \<Longrightarrow> J vgc) \<Longrightarrow> keep P (UpdateVGCByResponse env vgc resp) (\<lambda>(err, vgc). J vgc)"
    unfolding UpdateVGCByResponse_def Let_def prod.case
    by - (rule kept keeps_intro | (simp add: content_spec; fail))+
qed

lemma keep_event_VGC [kept]: "(P \<Longrightarrow> J vgc) \<Longrightarrow> keep P (CreateSuccessVGCEvent env vgc) (\<lambda>(err, vgc). J vgc)"
  unfolding CreateSuccessVGCEvent_def Let_def by - (rule kept keeps_intro | (simp add: content_spec; fail))+

lemma keep_deletePVC_of:
  assumes "retry_documented env" and "P \<Longrightarrow> J vgc"
    and k: "\<And>P arr shared vgc. (P \<Longrightarrow> J vgc) \<Longrightarrow> keep P (continue arr shared vgc) (\<lambda>(err, vgc). J vgc)"
  shows "keep P (deletePVC_of env driver pv name ns arr shared vgc continue) (\<lambda>(err, vgc). J vgc)"
  unfolding deletePVC_of_def Let_def
  apply (rule keeps_bindG [OF keep_claims(3) [OF assms(1)]])
  apply (rule keeps_option)
   apply (rule keeps_bindG [OF keep_list_VGC(2) [OF assms(1)]])
    apply (use assms(2) in simp)
   apply (rule keeps_prod, rule keeps_option)
    apply (rule keeps_bindG [where Q = "\<lambda>_. True"], rule keeps_readG, simp)
    apply (rule k, simp)
   apply (auto intro!: keeps_returnG assms(2))
  done

lemma keep_DeletePVCsUnderVGC [kept]:
  assumes "retry_documented env" and "P \<Longrightarrow> J vgc"
  shows "keep P (DeletePVCsUnderVGC env vgc driver) (\<lambda>(err, vgc). J vgc)"
proof -
  have loop: "keep P (deletePVCs_loop env driver k i arr shared vgc) (\<lambda>(err, vgc). J vgc)" if "P \<Longrightarrow> J vgc" for P k i arr shared vgc
    using that
  proof (induction k arbitrary: P i arr shared vgc)
    case (Suc k)
    show ?case
      unfolding deletePVCs_loop.simps Let_def getPVCNameFromPV_def getPVCNamespaceFromPV_def reflected_fields bindG_lift_Ret
      using assms(1) Suc.prems by - (rule kept keep_deletePVC_of Suc.IH keeps_intro | (simp; fail))+
  qed (auto intro: keeps_returnG)
  show ?thesis unfolding DeletePVCsUnderVGC_def Let_def by (rule loop [OF assms(2)])
qed

section \<open>The reconcilers\<close>

lemma keep_updateItems [kept]:
  assumes "retry_documented env" and "P \<Longrightarrow> I vg"
  shows "keep P (updateItems env vg now name) (\<lambda>(err, vg). I vg)"
  unfolding updateItems_def UpdateVGSourceContent_def case_return_pair return_bindG
  using assms by - (rule kept keeps_intro | (simp add: kept_changes; fail))+

lemma keep_removeInstance [kept]:
  assumes "retry_documented env" and "P \<Longrightarrow> I vg"
  shows "keep P (removeInstance env vg) (\<lambda>(err, vg). I vg)"
  unfolding removeInstance_def
  apply (rule keeps_bindG [OF keep_GetVGC_of], rule keeps_bindG [where Q = "\<lambda>_. True"])
  using assms by - (rule kept keeps_intro | (simp; fail))+

lemma keep_reconcileLive [kept]:
  assumes "retry_documented env" and "P \<Longrightarrow> I vg"
  shows "keep P (reconcileLive env r vg c) (\<lambda>_. True)"
proof -
  have static: "keep P (handleStaticProvisionedVG env r vg now c) (\<lambda>(err, b, vg). I vg)" if "P \<Longrightarrow> I vg" for P vg now
    unfolding handleStaticProvisionedVG_def using assms(1) that by - (rule kept keeps_intro | (simp; fail))+
  have generate: "keep P (liftG (GenerateVGC name vg c sn sns)) K" for P name vg sn sns
    by (rule keeps_liftG) (erule generated)
  have dynamic: "keep P (reconcileDynamic env r vg now c) (\<lambda>_. True)" if "P \<Longrightarrow> I vg" for P vg now
    unfolding reconcileDynamic_def Let_def using assms(1) that by - (rule kept generate keeps_intro | (simp; fail))+
  show ?thesis
    unfolding reconcileLive_def using assms(2) by - (rule kept static dynamic keeps_intro | (simp; fail))+
qed

lemma keep_VG_Reconcile:
  assumes "retry_documented env"
  shows "keep True (VG_Reconcile env r req) (\<lambda>_. True)"
proof -
  have own: "keep P (reconcileOwn env r vg c) (\<lambda>_. True)" if "P \<Longrightarrow> I vg" for P vg c
    unfolding reconcileOwn_def using assms that by - (rule kept keeps_intro | (simp; fail))+
  show ?thesis
    unfolding VG_Reconcile_def reflected_fields bindG_lift_Ret
    using assms by - (rule keep_client(3) kept own keeps_intro | (simp; fail))+
qed

lemma keep_removeVGC [kept]:
  assumes "retry_documented env" and "P \<Longrightarrow> J vgc"
  shows "keep P (removeVGC env r vgc secret) (\<lambda>(err, vgc). J vgc)"
  unfolding removeVGC_def
  apply (rule keeps_option, rule keeps_panicG, rule keeps_bindG [where Q = "\<lambda>_. True"])
  using assms by - (rule kept keeps_intro | (simp; fail))+

lemma keep_deletion [kept]:
  assumes "retry_documented env" and "P \<Longrightarrow> J vgc"
  shows "keep P (handleVGCWithDeletionTimestamp env r vgc secret) (\<lambda>(err, vgc). J vgc)"
proof -
  have claims: "keep P (if b then DeletePVCsUnderVGC env vgc d else returnG (None, vgc)) (\<lambda>(err, vgc). J vgc)" if "P \<Longrightarrow> J vgc" for P b d
    using assms(1) that by - (rule kept keeps_intro | (simp; fail))+
  show ?thesis
    unfolding handleVGCWithDeletionTimestamp_def using assms by - (rule kept claims keeps_intro | (simp; fail))+
qed

lemma keep_reconcileLiveVGC [kept]:
  assumes "retry_documented env" and "P \<Longrightarrow> J vgc"
  shows "keep P (reconcileLiveVGC env r vgc c secret) (\<lambda>_. True)"
proof -
  have spec: "keep P (reconciler_updateStaticVGCSpec env vgc) (\<lambda>_. True)" for P vgc
    unfolding reconciler_updateStaticVGCSpec_def by - (rule kept keeps_intro | (simp; fail))+
  have update: "keep P (updateStaticVGC env vgc) (\<lambda>(err, vgc). J vgc)" if "P \<Longrightarrow> J vgc" for P vgc
    unfolding updateStaticVGC_def using that by - (rule kept spec keeps_intro | (simp; fail))+
  have static: "keep P (handleStaticProvisionedVGC env vgc) (\<lambda>(err, b, vgc). J vgc)" if "P \<Longrightarrow> J vgc" for P vgc
    unfolding handleStaticProvisionedVGC_def reflected_fields bindG_lift_Ret
    using that by - (rule kept update keeps_intro | (simp; fail))+
  have create: "keep P (handleCreateVG env r vgc c secret) (\<lambda>(err, vgc). J vgc)" if "P \<Longrightarrow> J vgc" for P vgc
    unfolding handleCreateVG_def Let_def using that by - (rule kept keeps_intro | (simp; fail))+
  show ?thesis
    unfolding reconcileLiveVGC_def using assms(2) by - (rule kept static create keeps_intro | (simp; fail))+
qed

lemma keep_VGC_Reconcile:
  assumes "retry_documented env"
  shows "keep True (VGC_Reconcile env r req) (\<lambda>_. True)"
proof -
  have thin: "keep P (reconcileThin env vgc) (\<lambda>_. True)" if "P \<Longrightarrow> J vgc" for P vgc
    unfolding reconcileThin_def using that by - (rule kept keeps_intro | (simp; fail))+
  have own: "keep P (reconcileOwnVGC env r vgc c) (\<lambda>_. True)" if "P \<Longrightarrow> J vgc" for P vgc c
    unfolding reconcileOwnVGC_def using assms that by - (rule kept keeps_intro | (simp; fail))+
  show ?thesis
    unfolding VGC_Reconcile_def reflected_fields bindG_lift_Ret
    by - (rule kept thin own keeps_intro | (simp; fail))+
qed

lemma reconcilers_keep:
  assumes "retry_documented env"
  shows "gives (VG_Reconcile env r req) (\<lambda>_. guards (list_ex (bad_answer I J)) (bad_write I J K))"
    "gives (VGC_Reconcile env r' req) (\<lambda>_. guards (list_ex (bad_answer I J)) (bad_write I J K))"
  by (rule gives_mono [OF keep_VG_Reconcile [OF assms, unfolded keeps_def]], simp)
    (rule gives_mono [OF keep_VGC_Reconcile [OF assms, unfolded keeps_def]], simp)

end

end
