(* ===== verification/Object_Spec.thy ===== *)
theory Object_Spec
  imports Kept_Objects
begin

text \<open>
  Two properties of the objects the operator writes, as interpretations of \<open>kept_objects\<close> for groups
  and for contents: the lists in the statuses have no duplicates, and what belongs to the user or to
  the API server is written back as it was read.
\<close>

section \<open>Objects in answers and writes\<close>

fun group_answer :: "event \<Rightarrow> VolumeGroup option" where
  "group_answer (EvGetVG k a) = Some (snd a)"
| "group_answer (EvUpdateVG sent a) = Some (snd a)"
| "group_answer (EvStatusVG sent a) = Some (snd a)"
| "group_answer _ = None"

fun content_answer :: "event \<Rightarrow> VolumeGroupContent option" where
  "content_answer (EvGetVGC k a) = Some (snd a)"
| "content_answer (EvUpdateVGC sent a) = Some (snd a)"
| "content_answer (EvStatusVGC sent a) = Some (snd a)"
| "content_answer _ = None"

fun group_write :: "event \<Rightarrow> VolumeGroup option" where
  "group_write (EvUpdateVG sent a) = Some sent"
| "group_write (EvStatusVG sent a) = Some sent"
| "group_write _ = None"

fun content_write :: "event \<Rightarrow> VolumeGroupContent option" where
  "content_write (EvUpdateVGC sent a) = Some sent"
| "content_write (EvStatusVGC sent a) = Some sent"
| "content_write _ = None"

fun content_create :: "event \<Rightarrow> VolumeGroupContent option" where
  "content_create (EvCreateVGC sent a) = Some sent"
| "content_create _ = None"

lemma bad_answer_iff:
  "bad_answer I J e \<longleftrightarrow> (\<exists>vg. group_answer e = Some vg \<and> \<not> I vg) \<or> (\<exists>c. content_answer e = Some c \<and> \<not> J c)"
  by (cases e) auto

lemma bad_write_iff:
  "bad_write I J K e \<longleftrightarrow> (\<exists>vg. group_write e = Some vg \<and> \<not> I vg) \<or> (\<exists>c. content_write e = Some c \<and> \<not> J c) \<or>
     (\<exists>c. content_create e = Some c \<and> \<not> K c)"
  by (cases e) auto

section \<open>Lists without duplicates\<close>

definition tidy_group :: "VolumeGroup \<Rightarrow> bool" where
  "tidy_group vg \<longleftrightarrow> distinct (map pvc_key (PVCList (vgStatus vg)))"

definition tidy_content :: "VolumeGroupContent \<Rightarrow> bool" where
  "tidy_content vgc \<longleftrightarrow> distinct (map pv_name (PVList (vgcStatus vgc)))"

lemma distinct_without: "distinct (map f xs) \<Longrightarrow> distinct (map f (take i xs @ drop (Suc i) xs))"
  using set_take_disj_set_drop_if_distinct [of "map f xs" i "Suc i"]
  by (simp add: take_map [symmetric] drop_map [symmetric] del: set_map)

lemma tidy_remove: "distinct (map pv_name pvs) \<Longrightarrow> distinct (map pv_name (removeFromPVList pv pvs))"
  using distinct_without [of pv_name pvs] by (auto simp: removeFromPVList_def removeByIndexFromPVList_def split: option.split)

lemmas change_defs = set_VGStatus_def set_VGError_def set_PVCList_def set_ContentName_def
  updateVGCStatusFields_def set_VGCError_def set_PVList_def

lemmas tidy_defs = tidy_group_def tidy_content_def change_defs

interpretation tidy_groups: kept_objects tidy_group "\<lambda>_. True" "\<lambda>_. True"
  by unfold_locales (auto simp: tidy_defs pvcs.distinct_append pvcs.distinct_remove)

interpretation tidy: kept_objects tidy_group tidy_content tidy_content
  by unfold_locales (auto simp: tidy_defs GenerateVGC_def VolumeGroupContent0_def pvcs.distinct_append pvcs.distinct_remove
    pv_append.distinct_append tidy_remove split: outcome.splits)

interpretation tidy_contents: kept_objects "\<lambda>_. True" tidy_content tidy_content
  by unfold_locales
    (auto simp: tidy_defs GenerateVGC_def VolumeGroupContent0_def pv_append.distinct_append tidy_remove split: outcome.splits)

section \<open>Fields that are not the operator's\<close>

text \<open>
  Of a group, everything but its status, its finalizers and the name of its content; of a content,
  its metadata but the finalizers. Both contain the resource version.
\<close>

definition group_rest :: "VolumeGroup \<Rightarrow> TypeMeta \<times> ObjectMeta \<times> VolumeGroupSpec" where
  "group_rest vg = (vgTypeMeta vg, (vgMeta vg)\<lparr>Finalizers := []\<rparr>,
     (vgSpec vg)\<lparr>vgSource := (vgSource (vgSpec vg))\<lparr>srcVolumeGroupContentName := None\<rparr>\<rparr>)"

definition content_rest :: "VolumeGroupContent \<Rightarrow> ObjectMeta" where
  "content_rest vgc = (vgcMeta vgc)\<lparr>Finalizers := []\<rparr>"

interpretation same_groups: kept_objects "\<lambda>vg. group_rest vg \<noteq> g" "\<lambda>_. True" "\<lambda>_. True" for g
  by unfold_locales (auto simp: group_rest_def change_defs)

interpretation same_contents: kept_objects "\<lambda>_. True" "\<lambda>vgc. content_rest vgc \<noteq> c" "\<lambda>_. True" for c
  by unfold_locales (auto simp: content_rest_def change_defs)

end
