(* ===== verification/Operator.thy ===== *)
theory Operator
  imports Startup Sample_Cluster Deletion_Spec Object_Spec
begin

text \<open>
  The operator as a whole: the manager runs the two reconcilers in several workers at once. A history
  is concurrent when it interleaves the events of some reconciles, each of them finished, panicked or
  still under way. A worker sees the outside in its own way: what the other workers, other clients and
  a stale cache do to the cluster shows in the answers it gets, so each reconcile runs in an
  environment and from a history of its own.
\<close>

datatype request = ForVG NamespacedName | ForVGC NamespacedName

fun reconcile :: "env \<Rightarrow> VolumeGroupReconciler \<Rightarrow> VolumeGroupContentReconciler \<Rightarrow> request \<Rightarrow> (Result \<times> error option) go" where
  "reconcile env vgR vgcR (ForVG req) = VG_Reconcile env vgR req"
| "reconcile env vgR vgcR (ForVGC req) = VGC_Reconcile env vgcR req"

text \<open>
  One worker's view of the outside is as arbitrary as any; the library is the same for all in what it
  takes for the absence of an object.
\<close>

definition view_of :: "env \<Rightarrow> env \<Rightarrow> bool" where
  "view_of env env' \<longleftrightarrow> retry_documented env' \<and> IsNotFound env' = IsNotFound env"

inductive concurrent ::
    "env \<Rightarrow> VolumeGroupReconciler \<Rightarrow> VolumeGroupContentReconciler \<Rightarrow> (request \<times> event list) list \<Rightarrow> history \<Rightarrow> bool"
  for env vgR vgcR where
  idle: "concurrent env vgR vgcR [] []"
| worker: "concurrent env vgR vgcR runs t \<Longrightarrow> view_of env env' \<Longrightarrow> reconcile env' vgR vgcR req u = (x, u @ es) \<Longrightarrow>
    t' \<in> shuffles t (take n es) \<Longrightarrow> concurrent env vgR vgcR ((req, take n es) # runs) t'"

inductive_cases concurrentE: "concurrent env vgR vgcR runs t"

text \<open>The history after a list of requests, one after the other.\<close>

fun run_requests :: "env \<Rightarrow> VolumeGroupReconciler \<Rightarrow> VolumeGroupContentReconciler \<Rightarrow> request list \<Rightarrow> history \<Rightarrow> history" where
  "run_requests env vgR vgcR [] t = t"
| "run_requests env vgR vgcR (req # reqs) t = run_requests env vgR vgcR reqs (snd (reconcile env vgR vgcR req t))"

section \<open>Histories and runs\<close>

text \<open>The events of a history are those of its runs, in the order of each run.\<close>

lemma subseq_shuffles: "zs \<in> shuffles xs ys \<Longrightarrow> subseq xs zs \<and> subseq ys zs"
proof (induction zs arbitrary: xs ys)
  case (Cons z zs)
  then consider xs' where "xs = z # xs'" "zs \<in> shuffles xs' ys" | ys' where "ys = z # ys'" "zs \<in> shuffles xs ys'"
    by (cases xs; cases ys) (auto simp: Cons_in_shuffles_iff)
  then show ?case using Cons.IH by cases (auto intro: subseq_Cons')
qed simp

lemma concurrent_subseq: "concurrent env vgR vgcR runs t \<Longrightarrow> (req, es) \<in> set runs \<Longrightarrow> subseq es t"
  by (induction rule: concurrent.induct) (auto dest: subseq_shuffles intro: subseq_order.order_trans)

lemma concurrent_events: "concurrent env vgR vgcR runs t \<Longrightarrow> set t = (\<Union>(req, es) \<in> set runs. set es)"
  by (induction rule: concurrent.induct) (auto simp: set_shuffles)

lemma guards_take: "guards G W es \<Longrightarrow> guards G W (take n es)"
  unfolding guards_def by (metis append.assoc append_Cons append_take_drop_id)

text \<open>
  An order that every reconcile keeps holds in each run of a history. So an event that the order
  speaks of was produced by a run that had what the order asks for: \<open>by_run\<close>.
\<close>

lemma concurrent_guards:
  assumes "concurrent env vgR vgcR runs t" and "(req, es) \<in> set runs"
    and "\<And>env' k. view_of env env' \<Longrightarrow> gives (reconcile env' vgR vgcR k) (\<lambda>_. guards (G k) W)"
  shows "guards (G req) W es"
  using assms(1,2)
proof induction
  case (worker runs t env' k u x es' t' n)
  have "guards (G k) W es'"
    using assms(3) [OF worker.hyps(2)] worker.hyps(3) by (rule gives_run) simp
  with worker show ?case by (auto intro: guards_take)
qed simp

definition by_run :: "(request \<times> event list) list \<Rightarrow> event \<Rightarrow> (request \<Rightarrow> event list \<Rightarrow> bool) \<Rightarrow> bool" where
  "by_run runs e G \<longleftrightarrow> (\<exists>req es1 es2. (req, es1 @ e # es2) \<in> set runs \<and> G req es1)"

lemma concurrent_by:
  assumes t: "concurrent env vgR vgcR runs t" and e: "e \<in> set t" "W e"
    and G: "\<And>env' k. view_of env env' \<Longrightarrow> gives (reconcile env' vgR vgcR k) (\<lambda>_. guards (G k) W)"
  shows "by_run runs e G"
proof -
  obtain req es where es: "(req, es) \<in> set runs" "e \<in> set es" using t e(1) by (auto simp: concurrent_events)
  then obtain es1 es2 where "es = es1 @ e # es2" by (meson split_list)
  with concurrent_guards [OF t es(1) G] es e(2) show ?thesis unfolding by_run_def by (meson guards_at)
qed

text \<open>Requests worked off one after the other are a special case.\<close>

lemma append_shuffles: "xs @ ys \<in> shuffles xs ys"
  by (induction xs) (auto simp: Cons_in_shuffles_iff)

lemma reconcile_extends:
  assumes "retry_documented env" and "reconcile env vgR vgcR req t = (x, t')"
  obtains es where "t' = t @ es"
  using assms emits_run [OF does_VG_Reconcile [OF _ order_refl]] emits_run [OF does_VGC_Reconcile [OF _ order_refl]]
  by (cases req) (simp, metis)+

lemma run_requests_concurrent:
  assumes "retry_documented env" and "concurrent env vgR vgcR runs t"
  shows "\<exists>runs. concurrent env vgR vgcR runs (run_requests env vgR vgcR reqs t)"
  using assms(2)
proof (induction reqs arbitrary: runs t)
  case (Cons req reqs)
  obtain x t' where run: "reconcile env vgR vgcR req t = (x, t')" by fastforce
  with assms(1) obtain es where es: "t' = t @ es" by (rule reconcile_extends)
  have "concurrent env vgR vgcR ((req, take (length es) es) # runs) t'"
    using Cons.prems _ run [unfolded es] by (rule concurrent.worker) (simp_all add: view_of_def assms(1) es append_shuffles)
  from Cons.IH [OF this] run show ?case by simp
qed auto

section \<open>What each reconciler is kept from\<close>

lemma does_guards: "does S m \<Longrightarrow> S \<inter> T = {} \<Longrightarrow> gives m (\<lambda>_. guards (\<lambda>_. False) (within T))"
  unfolding emits_def by (erule gives_mono) (force simp: list_all_iff within_def intro!: guards_none)

abbreviation group_touches :: "touched set" where
  "group_touches \<equiv> {Reading, Note, SpecVG, StatusVG, SpecVGC, StatusVGC, NewVGC, GoneVGC, SpecPVC, RpcModify}"

abbreviation content_touches :: "touched set" where
  "content_touches \<equiv> {Reading, Note, SpecVGC, StatusVGC, SpecPVC, GonePVC, RpcCreate, RpcDelete}"

lemma group_idle:
  "retry_documented env \<Longrightarrow> group_touches \<inter> T = {} \<Longrightarrow> gives (VG_Reconcile env r req) (\<lambda>_. guards (\<lambda>_. False) (within T))"
  by (rule does_guards [OF does_VG_Reconcile [OF _ order_refl]])

lemma content_idle:
  "retry_documented env \<Longrightarrow> content_touches \<inter> T = {} \<Longrightarrow> gives (VGC_Reconcile env r req) (\<lambda>_. guards (\<lambda>_. False) (within T))"
  by (rule does_guards [OF does_VGC_Reconcile [OF _ order_refl]])

text \<open>An order of events that only one of the reconcilers can produce.\<close>

lemma reconcile_guards:
  assumes "retry_documented env"
  shows "group_touches \<inter> T = {} \<Longrightarrow> (\<And>req. gives (VGC_Reconcile env vgcR req) (\<lambda>_. guards (B req) W)) \<Longrightarrow> (\<And>e. W e \<Longrightarrow> within T e) \<Longrightarrow>
      gives (reconcile env vgR vgcR k) (\<lambda>_. guards (\<lambda>es. \<exists>req. k = ForVGC req \<and> B req es) W)"
    "content_touches \<inter> T = {} \<Longrightarrow> (\<And>req. gives (VG_Reconcile env vgR req) (\<lambda>_. guards (A req) W)) \<Longrightarrow> (\<And>e. W e \<Longrightarrow> within T e) \<Longrightarrow>
      gives (reconcile env vgR vgcR k) (\<lambda>_. guards (\<lambda>es. \<exists>req. k = ForVG req \<and> A req es) W)"
proof -
  have none: "gives m (\<lambda>_. guards G W)" if "gives m (\<lambda>_. guards (\<lambda>_. False) (within T))" "\<And>e. W e \<Longrightarrow> within T e"
    for T G and m :: "(Result \<times> error option) go"
    by (rule gives_mono [OF that(1)]) (use that(2) in \<open>auto simp: guards_def\<close>)
  show "gives (reconcile env vgR vgcR k) (\<lambda>_. guards (\<lambda>es. \<exists>req. k = ForVGC req \<and> B req es) W)"
    if "group_touches \<inter> T = {}" "\<And>req. gives (VGC_Reconcile env vgcR req) (\<lambda>_. guards (B req) W)" "\<And>e. W e \<Longrightarrow> within T e"
    using none [OF group_idle [OF assms that(1)] that(3)] that(2) by (cases k) simp_all
  show "gives (reconcile env vgR vgcR k) (\<lambda>_. guards (\<lambda>es. \<exists>req. k = ForVG req \<and> A req es) W)"
    if "content_touches \<inter> T = {}" "\<And>req. gives (VG_Reconcile env vgR req) (\<lambda>_. guards (A req) W)" "\<And>e. W e \<Longrightarrow> within T e"
    using none [OF content_idle [OF assms that(1)] that(3)] that(2) by (cases k) simp_all
qed

lemma reconcile_all:
  assumes "\<And>env' req r. retry_documented env' \<Longrightarrow> gives (VG_Reconcile env' r req) Q"
    "\<And>env' req r. retry_documented env' \<Longrightarrow> gives (VGC_Reconcile env' r req) Q" and "view_of env env'"
  shows "gives (reconcile env' vgR vgcR k) Q"
  using assms by (cases k) (auto simp: view_of_def)

lemma view_condemned:
  assumes "view_of env env'"
  shows "condemned env' r req q es = condemned env r req q es" "condemned_claim env' r req p es = condemned_claim env r req p es"
proof -
  have "group_gone env' vgc es = group_gone env vgc es" for vgc
    using assms by (simp add: view_of_def group_gone_def)
  then have "orphaned env' r req vgc es = orphaned env r req vgc es" for vgc
    by (simp add: orphaned_def)
  then show "condemned env' r req q es = condemned env r req q es" "condemned_claim env' r req p es = condemned_claim env r req p es"
    by (simp_all add: condemned_def condemned_claim_def)
qed

lemma reconcile_condemned:
  assumes "view_of env env'"
  shows "gives (reconcile env' vgR vgcR k) (\<lambda>_. guards (\<lambda>es. \<exists>req. k = ForVGC req \<and> condemned env vgcR req q es) (\<lambda>e. e = EvRpcDelete q a))"
    "gives (reconcile env' vgR vgcR k) (\<lambda>_. guards (\<lambda>es. \<exists>req. k = ForVGC req \<and> condemned_claim env vgcR req p es) (\<lambda>e. e = EvDeletePVC p b))"
proof -
  have env': "retry_documented env'" using assms by (simp add: view_of_def)
  show "gives (reconcile env' vgR vgcR k) (\<lambda>_. guards (\<lambda>es. \<exists>req. k = ForVGC req \<and> condemned env vgcR req q es) (\<lambda>e. e = EvRpcDelete q a))"
    unfolding view_condemned [OF assms, symmetric]
    by (rule reconcile_guards(1) [OF env' _ VGC_Reconcile_condemned(1) [OF env'], where T = "{RpcDelete}"]) simp_all
  show "gives (reconcile env' vgR vgcR k) (\<lambda>_. guards (\<lambda>es. \<exists>req. k = ForVGC req \<and> condemned_claim env vgcR req p es) (\<lambda>e. e = EvDeletePVC p b))"
    unfolding view_condemned [OF assms, symmetric]
    by (rule reconcile_guards(1) [OF env' _ VGC_Reconcile_condemned(2) [OF env'], where T = "{GonePVC}"]) simp_all
qed

section \<open>Order across runs\<close>

text \<open>
  In an interleaving an event comes after everything its own run had before it. So an order that each
  run keeps holds in the history too, when what it asks for may come from any run.
\<close>

lemma shuffles_at:
  "zs1 @ e # zs2 \<in> shuffles xs ys \<Longrightarrow>
     (\<exists>us vs. xs = us @ e # vs \<and> set us \<subseteq> set zs1) \<or> (\<exists>us vs. ys = us @ e # vs \<and> set us \<subseteq> set zs1)"
proof (induction zs1 arbitrary: xs ys)
  case Nil
  then show ?case by (cases xs; cases ys) (auto simp: Cons_in_shuffles_iff)
next
  case (Cons z zs1)
  then consider xs' where "xs = z # xs'" "zs1 @ e # zs2 \<in> shuffles xs' ys"
    | ys' where "ys = z # ys'" "zs1 @ e # zs2 \<in> shuffles xs ys'"
    by (cases xs; cases ys) (auto simp: Cons_in_shuffles_iff)
  then show ?case
  proof cases
    case 1
    from Cons.IH [OF 1(2)] show ?thesis
    proof
      assume "\<exists>us vs. xs' = us @ e # vs \<and> set us \<subseteq> set zs1"
      then obtain us vs where "xs' = us @ e # vs" "set us \<subseteq> set zs1" by blast
      with 1(1) have "xs = (z # us) @ e # vs" "set (z # us) \<subseteq> set (z # zs1)" by auto
      then show ?thesis by blast
    qed auto
  next
    case 2
    from Cons.IH [OF 2(2)] show ?thesis
    proof
      assume "\<exists>us vs. ys' = us @ e # vs \<and> set us \<subseteq> set zs1"
      then obtain us vs where "ys' = us @ e # vs" "set us \<subseteq> set zs1" by blast
      with 2(1) have "ys = (z # us) @ e # vs" "set (z # us) \<subseteq> set (z # zs1)" by auto
      then show ?thesis by blast
    qed auto
  qed
qed

lemma guards_shuffles:
  assumes "guards G W xs" and "guards G W ys" and "zs \<in> shuffles xs ys"
    and mono: "\<And>es es'. G es \<Longrightarrow> set es \<subseteq> set es' \<Longrightarrow> G es'"
  shows "guards G W zs"
  unfolding guards_def
proof (intro allI impI)
  fix es1 e es2
  assume zs: "zs = es1 @ e # es2" and "W e"
  with shuffles_at [OF assms(3) [unfolded zs]] assms(1,2) obtain us where "G us" "set us \<subseteq> set es1"
    unfolding guards_def by blast
  then show "G es1" by (rule mono)
qed

lemma concurrent_guards_history:
  assumes "concurrent env vgR vgcR runs t"
    and G: "\<And>env' k. view_of env env' \<Longrightarrow> gives (reconcile env' vgR vgcR k) (\<lambda>_. guards G W)"
    and mono: "\<And>es es'. G es \<Longrightarrow> set es \<subseteq> set es' \<Longrightarrow> G es'"
  shows "guards G W t"
  using assms(1)
proof induction
  case (worker runs t env' k u x es t' n)
  have "guards G W es" using G [OF worker.hyps(2)] worker.hyps(3) by (rule gives_run) simp
  from worker.IH guards_take [OF this] worker.hyps(4) show ?case by (rule guards_shuffles) (rule mono)
qed simp

section \<open>A server that keeps what it is sent\<close>

text \<open>
  \<open>served P V t\<close>: every group in an answer has a list of claims that is in \<open>P\<close>, the lists there at the
  start and the empty one of an object not found, or that this operator had written by then; and so for
  contents with \<open>V\<close>.
\<close>

fun served :: "PersistentVolumeClaim list set \<Rightarrow> PersistentVolume list set \<Rightarrow> history \<Rightarrow> bool" where
  "served P V [] = True"
| "served P V (e # t) =
     (let P = (case group_write e of Some vg \<Rightarrow> insert (PVCList (vgStatus vg)) P | None \<Rightarrow> P);
          V = (case content_write e of Some vgc \<Rightarrow> insert (PVList (vgcStatus vgc)) V | None \<Rightarrow> V);
          V = (case content_create e of Some vgc \<Rightarrow> insert (PVList (vgcStatus vgc)) V | None \<Rightarrow> V)
      in (case group_answer e of Some vg \<Rightarrow> PVCList (vgStatus vg) \<in> P | None \<Rightarrow> True) \<and>
         (case content_answer e of Some vgc \<Rightarrow> PVList (vgcStatus vgc) \<in> V | None \<Rightarrow> True) \<and> served P V t)"

definition tidy_event :: "event \<Rightarrow> bool" where
  "tidy_event e \<longleftrightarrow> \<not> bad_answer tidy_group tidy_content e \<and> \<not> bad_write tidy_group tidy_content tidy_content e"

lemma served_tidy:
  assumes "guards (list_ex (bad_answer tidy_group tidy_content)) (bad_write tidy_group tidy_content tidy_content) t"
    and "served P V t" and "\<forall>l \<in> P. distinct (map pvc_key l)" and "\<forall>l \<in> V. distinct (map pv_name l)"
  shows "list_all tidy_event t"
  using assms
proof (induction t arbitrary: P V)
  case (Cons e t)
  have sent: "\<not> bad_write tidy_group tidy_content tidy_content e" using Cons.prems(1) by (simp add: guards_Cons)
  have answer: "\<not> bad_answer tidy_group tidy_content e"
    using Cons.prems(2-4) sent by (auto simp: bad_answer_iff bad_write_iff tidy_group_def tidy_content_def Let_def split: option.splits)
  have "guards (list_ex (bad_answer tidy_group tidy_content)) (bad_write tidy_group tidy_content tidy_content) t"
    using Cons.prems(1) answer by (simp add: guards_Cons)
  moreover obtain P' V' where "served P' V' t" "\<forall>l \<in> P'. distinct (map pvc_key l)" "\<forall>l \<in> V'. distinct (map pv_name l)"
    using Cons.prems(2-4) sent by (auto simp: bad_write_iff tidy_group_def tidy_content_def Let_def split: option.splits)
  ultimately have rest: "list_all tidy_event t" by (rule Cons.IH)
  have "tidy_event e" using sent answer by (simp add: tidy_event_def)
  with rest show ?case by simp
qed simp

end
