(* ===== verification/Test_Doubles.thy ===== *)
theory Test_Doubles
  imports Operator
begin

text \<open>
  The test doubles of the repository: the objects of \<open>src/controllers/envtest\<close>, the driver of
  \<open>src/tests/mock_grpc_server\<close>, the connection of \<open>src/pkg/client/fake\<close> and the helpers through which the
  tests use the cluster. Names that the model has already are prefixed by \<open>test\<close>.
\<close>

section \<open>settings.go\<close>

definition test_VGName :: string where "test_VGName = ''fake-vg-name''"
definition test_VGClassName :: string where "test_VGClassName = ''fake-vgclass-name''"
definition test_Namespace :: string where "test_Namespace = ''default''"
definition test_SecretName :: string where "test_SecretName = ''fake-secret-name''"
definition test_PVCName :: string where "test_PVCName = ''fake-pvc-name''"
definition test_PVName :: string where "test_PVName = ''fake-pv-name''"
definition test_SCName :: string where "test_SCName = ''fake-storage-class-name''"
definition test_DriverName :: string where "test_DriverName = ''driver.name''"
definition StorageClassParameters :: gomap where
  "StorageClassParameters = [(''volumegroup.storage.ibm.io/secret-name'', test_SecretName),
     (''volumegroup.storage.ibm.io/secret-namespace'', test_Namespace)]"
definition FakeMatchLabels :: gomap where "FakeMatchLabels = [(''fake-label'', ''fake-value'')]"
definition PVCProtectionFinalizer :: string where "PVCProtectionFinalizer = ''kubernetes.io/pvc-protection''"

section \<open>k8s\_objects.go\<close>

text \<open>Access modes, sizes and the other fields the operator does not look at are the opaque rest, here by a short name.\<close>

definition test_VG :: VolumeGroup where
  "test_VG = VolumeGroup0\<lparr>vgMeta := ObjectMeta0\<lparr>Name := test_VGName, Namespace := test_Namespace\<rparr>,
     vgSpec := \<lparr>vgVolumeGroupClassName = Some test_VGClassName,
       vgSource = \<lparr>srcVolumeGroupContentName = None, Selector = Some \<lparr>MatchLabels = FakeMatchLabels, MatchExpressions = []\<rparr>\<rparr>\<rparr>\<rparr>"

definition test_VGClass :: VolumeGroupClass where
  "test_VGClass = \<lparr>classTypeMeta = TypeMeta0, classMeta = ObjectMeta0\<lparr>Name := test_VGClassName\<rparr>, Driver = test_DriverName,
     classParameters = StorageClassParameters, classVolumeGroupDeletionPolicy = None, classSupportVolumeGroupSnapshot = None\<rparr>"

definition test_Secret :: "NamespacedName \<times> Secret" where
  "test_Secret = ((test_Namespace, test_SecretName), \<lparr>SecretData = []\<rparr>)"

definition test_PVC :: PersistentVolumeClaim where
  "test_PVC = PersistentVolumeClaim0\<lparr>PVCMeta := ObjectMeta0\<lparr>Name := test_PVCName, Namespace := test_Namespace, Labels := FakeMatchLabels\<rparr>,
     PVCStorageClassName := Some test_SCName, PVCVolumeName := test_PVName, PVCPhase := ClaimBound,
     PVCRest := ''rwo''\<rparr>"

definition test_StorageClass :: StorageClass where
  "test_StorageClass = \<lparr>SCName = test_SCName, Provisioner = test_DriverName, SCParameters = []\<rparr>"

definition test_PV :: PersistentVolume where
  "test_PV = \<lparr>PVMeta = ObjectMeta0\<lparr>Name := test_PVName, Namespace := test_Namespace\<rparr>, PVCSI = Some ''volumeHandle'',
     PVClaimRef = Some \<lparr>refKind = '''', refNamespace = test_Namespace, refName = test_PVCName, refUID = '''',
       refAPIVersion = '''', refResourceVersion = ''''\<rparr>,
     PVRest = ''rwo''\<rparr>"

section \<open>mock\_controller\_server.go\<close>

definition MockControllerServer :: csi_driver where
  "MockControllerServer = \<lparr>
     drv_CreateVolumeGroup = (\<lambda>timeout req t. (Some \<lparr>crespVolumeGroup =
        Some \<lparr>csiVolumeGroupId = ''test'', csiVolumeGroupContext = [(''fake-label'', ''fake-value'')]\<rparr>\<rparr>, None)),
     drv_DeleteVolumeGroup = (\<lambda>timeout req t. None),
     drv_ModifyVolumeGroupMembership = (\<lambda>timeout req t. None)\<rparr>"

section \<open>fake/client.go\<close>

definition fake_New :: "platform \<Rightarrow> string \<Rightarrow> string \<Rightarrow> grpc_Client \<times> error option" where
  "fake_New p address driver =
     (case plat_Connect p address (60 * 1000000000) of
        Some err \<Rightarrow> (\<lparr>Connected = False, Timeout = 0\<rparr>, Some err)
      | None \<Rightarrow> (\<lparr>Connected = True, Timeout = 60 * 1000000000\<rparr>, None))"

section \<open>test\_utils.go and finalizers.go\<close>

definition GetNamespacedResourceObject :: "('o, 'z) client_Object_scheme \<Rightarrow> string \<Rightarrow> string \<Rightarrow> 'o attempt" where
  "GetNamespacedResourceObject ops name namespace obj = obj_Get ops (namespace, name) obj"

definition GetVGCName :: "string \<Rightarrow> string" where
  "GetVGCName vgUID = Sprintf ''volumegroup-%s'' [vgUID]"

definition GetVGCObjectFromVG :: "env \<Rightarrow> string \<Rightarrow> string \<Rightarrow> VolumeGroup \<Rightarrow> (error option \<times> VolumeGroupContent option \<times> VolumeGroup) go" where
  "GetVGCObjectFromVG env vgName namespace vgObject =
     bindG (GetNamespacedResourceObject (VG_object env) vgName namespace vgObject) (\<lambda>(err, vgObject).
     case err of
       Some e \<Rightarrow> returnG (Some e, None, vgObject)
     | None \<Rightarrow> bindG (GetNamespacedResourceObject (VGC_object env) (GetVGCName (UID (vgMeta vgObject))) namespace VolumeGroupContent0)
         (\<lambda>(err, vgcObj). returnG (err, Some vgcObj, vgObject)))"

text \<open>The object keeps its type; the version of the one created before is dropped.\<close>

definition CreateResourceObject :: "((ObjectMeta \<Rightarrow> ObjectMeta) \<Rightarrow> 'o \<Rightarrow> 'o) \<Rightarrow> ('o \<Rightarrow> 'r) \<Rightarrow> 'o \<Rightarrow> 'r" where
  "CreateResourceObject upd create obj = create (upd (\<lambda>m. m\<lparr>ResourceVersion := ''''\<rparr>) obj)"

definition RemoveResourceObjectFinalizers :: "env \<Rightarrow> ('o, 'z) client_Object_scheme \<Rightarrow> string \<Rightarrow> string \<Rightarrow> 'o attempt" where
  "RemoveResourceObjectFinalizers env ops name namespace obj =
     bindG (GetNamespacedResourceObject ops name namespace obj) (\<lambda>(err, obj).
     case err of
       Some e \<Rightarrow> (if IsNotFound env e then returnG (None, obj) else returnG (Some e, obj))
     | None \<Rightarrow> obj_Update ops (SetFinalizers ops [] obj))"

definition test_RemoveFinalizerFromPVC :: "env \<Rightarrow> string \<Rightarrow> string \<Rightarrow> string \<Rightarrow> error option go" where
  "test_RemoveFinalizerFromPVC env name namespace finalizer =
     bindG (GetNamespacedResourceObject (PVC_object env) name namespace PersistentVolumeClaim0) (\<lambda>(err, pvc).
     case err of
       Some e \<Rightarrow> returnG (Some e)
     | None \<Rightarrow>
         (let pvc = (if Contains (Finalizers (PVCMeta pvc)) finalizer
                     then pvc\<lparr>PVCMeta := (PVCMeta pvc)\<lparr>Finalizers := Remove (Finalizers (PVCMeta pvc)) finalizer\<rparr>\<rparr> else pvc)
          in bindG (client_Update_PVC env pvc) (\<lambda>(err, pvc). returnG err)))"

section \<open>The cluster of the tests\<close>

text \<open>
  The operator as \<open>suite_test.go\<close> sets it up, over the API server of \<open>Sample_Cluster\<close> and the mock driver.
  Creation gives an object its identity; a claim gets the protection finalizer.
\<close>

definition test_config :: "nat \<Rightarrow> DriverConfig" where
  "test_config limit = \<lparr>DriverEndpoint = '''', DriverName = test_DriverName, RPCTimeout = limit,
     MultipleVGsToPVC = ''false'', DisableDeletePvcs = ''false''\<rparr>"

definition test_env :: "cluster \<Rightarrow> env" where
  "test_env c = (sample_env c)\<lparr>csi := MockControllerServer\<rparr>"

definition test_step :: "nat \<Rightarrow> request \<Rightarrow> cluster \<Rightarrow> cluster \<times> event list" where
  "test_step limit k c = (let r = snd (reconcile (test_env c)
       \<lparr>vgDriverConfig = test_config limit, vgVGClient = NewVolumeGroupClient limit\<rparr>
       \<lparr>vgcDriverConfig = test_config limit, vgcVGClient = NewVolumeGroupClient limit\<rparr> k [])
     in (cluster_after c r, filter (within {RpcCreate, RpcDelete, RpcModify}) r))"

text \<open>The cluster after some reconciles, one after the other, and what the driver was asked.\<close>

fun test_runs :: "nat \<Rightarrow> request list \<Rightarrow> cluster \<Rightarrow> cluster \<times> event list" where
  "test_runs limit [] c = (c, [])"
| "test_runs limit (k # ks) c = (let (c, es) = test_step limit k c; (c, es') = test_runs limit ks c in (c, es @ es'))"

definition created :: "string \<Rightarrow> ObjectMeta \<Rightarrow> ObjectMeta" where
  "created uid m = m\<lparr>UID := uid, ResourceVersion := ''i''\<rparr>"

definition create_VG :: "VolumeGroup \<Rightarrow> cluster \<Rightarrow> cluster" where
  "create_VG vg c = c\<lparr>clusterVGs := clusterVGs c @ [upd_vg (created ''vg-uid'') vg]\<rparr>"

definition create_PVC :: "PersistentVolumeClaim \<Rightarrow> cluster \<Rightarrow> cluster" where
  "create_PVC pvc c = c\<lparr>clusterPVCs := clusterPVCs c @ [upd_pvc (\<lambda>m. (created ''pvc-uid'' m)\<lparr>Finalizers := [PVCProtectionFinalizer]\<rparr>) pvc]\<rparr>"

definition empty_cluster :: cluster where
  "empty_cluster = \<lparr>clusterVGs = [], clusterVGCs = [], clusterPVCs = [], clusterPVs = [], clusterSCs = [], clusterClasses = [], clusterSecrets = []\<rparr>"

definition createNonVolumeK8SResources :: "cluster \<Rightarrow> cluster" where
  "createNonVolumeK8SResources c = c\<lparr>clusterSecrets := [test_Secret], clusterSCs := [test_StorageClass]\<rparr>"

definition createVolumeGroupObjects :: "VolumeGroupDeletionPolicy \<Rightarrow> cluster \<Rightarrow> cluster" where
  "createVolumeGroupObjects policy c = CreateResourceObject upd_vg create_VG test_VG
     (c\<lparr>clusterClasses := [test_VGClass\<lparr>classVolumeGroupDeletionPolicy := Some policy\<rparr>]\<rparr>)"

definition createVolumeObjects :: "cluster \<Rightarrow> cluster" where
  "createVolumeObjects c = CreateResourceObject upd_pvc create_PVC test_PVC (c\<lparr>clusterPVs := [test_PV]\<rparr>)"

text \<open>What the tests do between the reconciles.\<close>

definition delete_VG :: "cluster \<Rightarrow> cluster" where
  "delete_VG c = c\<lparr>clusterVGs := map (upd_vg (\<lambda>m. m\<lparr>DeletionTimestamp := Some 1\<rparr>)) (clusterVGs c)\<rparr>"

definition delete_VGC :: "cluster \<Rightarrow> cluster" where
  "delete_VGC c = c\<lparr>clusterVGCs := map (upd_vgc (\<lambda>m. m\<lparr>DeletionTimestamp := Some 1\<rparr>)) (clusterVGCs c)\<rparr>"

definition change_selector :: "gomap \<Rightarrow> cluster \<Rightarrow> cluster" where
  "change_selector labels c = c\<lparr>clusterVGs := map (\<lambda>vg. vg\<lparr>vgSpec := (vgSpec vg)\<lparr>vgSource := (vgSource (vgSpec vg))
     \<lparr>Selector := Some \<lparr>MatchLabels = labels, MatchExpressions = []\<rparr>\<rparr>\<rparr>\<rparr>) (clusterVGs c)\<rparr>"

definition unprotect_claim :: "cluster \<Rightarrow> cluster" where
  "unprotect_claim c = cluster_after c
     (snd (test_RemoveFinalizerFromPVC (test_env c) test_PVCName test_Namespace PVCProtectionFinalizer []))"

abbreviation for_VG :: request where
  "for_VG \<equiv> ForVG (test_Namespace, test_VGName)"

abbreviation for_VGC :: request where
  "for_VGC \<equiv> ForVGC (test_Namespace, GetVGCName ''vg-uid'')"

end
