(* ===== verification/Life_Cycle.thy ===== *)
theory Life_Cycle
  imports Test_Doubles
begin

text \<open>
  The tests of \<open>src/controllers/envtest\<close>, run in the model: from the cluster that a test sets up, one
  reconcile after the other until what the test expects. Each state on the way is written out, and
  each reconcile is evaluated from the state before it, for any timeout of the driver.
\<close>

section \<open>States\<close>















section \<open>Reconciles\<close>










section \<open>What the tests expect\<close>



end
