(* ===== verification/Memory.thy ===== *)
theory Memory
  imports Prelude "HOL-Library.State_Monad"
begin

text \<open>
  Memory with pointers, for the code whose point is what is shared and what is not: the deep copies.
  A heap is the list of its cells, an address an index into it, and allocation appends. Programs over
  a heap are those of \<open>State_Monad\<close>. \<open>yields\<close> is their logic: a program that only allocates leaves the
  old cells alone, and what it returns can be judged by the new cells alone, whatever the old ones
  hold later. The locale \<open>reader\<close> is a way to read a value out of a heap; \<open>copier\<close> adds an operation that
  copies what is read, apart from the original.
\<close>

section \<open>Cells and programs\<close>

type_synonym addr = nat
type_synonym 'c heap = "'c list"
type_synonym ('c, 'a) mem = "('c heap, 'a) state"

definition new_into :: "('s \<Rightarrow> 'c) \<Rightarrow> 's \<Rightarrow> ('c, 's) mem \<Rightarrow> ('c, addr) mem" where
  "new_into mk s fill = State (\<lambda>h. let (s', h') = run_state fill (h @ [mk s]) in (length h, h'[length h := mk s']))"

definition load :: "('c \<Rightarrow> 's option) \<Rightarrow> 'c heap \<Rightarrow> addr \<Rightarrow> 's option" where
  "load sel h a = (if a < length h then sel (h ! a) else None)"

definition store :: "addr \<Rightarrow> 'c \<Rightarrow> 'c heap \<Rightarrow> 'c heap" where
  "store a c h = h[a := c]"

definition stores :: "(addr \<times> 'c) list \<Rightarrow> 'c heap \<Rightarrow> 'c heap" where
  "stores ws h = fold (\<lambda>(a, c). store a c) ws h"

lemma load_append: "load sel h a = Some s \<Longrightarrow> load sel (h @ k) a = Some s"
  by (simp add: load_def nth_append split: if_splits)

lemma stores_old: "\<forall>(a, c) \<in> set ws. a < length h \<Longrightarrow> \<exists>h'. length h' = length h \<and> stores ws (h @ new) = h' @ new"
proof (induction ws arbitrary: h)
  case (Cons w ws)
  then show ?case using Cons.IH [of "h[fst w := snd w]"]
    by (auto simp: stores_def store_def list_update_append case_prod_beta)
qed (auto simp: stores_def)

lemma stores_new: "\<forall>(a, c) \<in> set ws. length h \<le> a \<Longrightarrow> \<exists>new'. stores ws (h @ new) = h @ new'"
proof (induction ws arbitrary: new)
  case (Cons w ws)
  then show ?case using Cons.IH [of "new[fst w - length h := snd w]"]
    by (auto simp: stores_def store_def list_update_append case_prod_beta)
qed (auto simp: stores_def)

section \<open>Programs that only allocate\<close>

definition yields :: "('c, 'a) mem \<Rightarrow> 'c heap \<Rightarrow> ('c heap \<Rightarrow> 'a \<Rightarrow> bool) \<Rightarrow> bool" where
  "yields m h P \<longleftrightarrow> (\<exists>x new. run_state m h = (x, h @ new) \<and> (\<forall>old. length old = length h \<longrightarrow> P (old @ new) x))"

lemma yieldsE:
  assumes "yields m h P"
  obtains x new where "run_state m h = (x, h @ new)" "\<And>old. length old = length h \<Longrightarrow> P (old @ new) x"
  using assms unfolding yields_def by blast

lemma yields_return: "(\<And>g. length g = length h \<Longrightarrow> P g x) \<Longrightarrow> yields (State_Monad.return x) h P"
  unfolding yields_def by (rule exI [of _ x], rule exI [of _ "[]"]) simp

lemma yields_bind:
  assumes "yields m h P" and stable: "\<And>h k x. P h x \<Longrightarrow> P (h @ k) x"
    and rest: "\<And>x new. yields (f x) (h @ new) (\<lambda>g y. P g x \<longrightarrow> Q g y)"
  shows "yields (State_Monad.bind m f) h Q"
proof -
  obtain x new where m: "run_state m h = (x, h @ new)" "\<And>old. length old = length h \<Longrightarrow> P (old @ new) x"
    using assms(1) by (rule yieldsE) blast
  obtain y new' where f: "run_state (f x) (h @ new) = (y, (h @ new) @ new')"
      "\<And>old. length old = length (h @ new) \<Longrightarrow> P (old @ new') x \<longrightarrow> Q (old @ new') y"
    using rest by (rule yieldsE) blast
  have "Q (old @ new @ new') y" if "length old = length h" for old
    using f(2) [of "old @ new"] stable [OF m(2) [OF that], of new'] that by simp
  with m(1) f(1) show ?thesis unfolding yields_def by auto
qed

lemma yields_mono: "yields m h P \<Longrightarrow> (\<And>g x. P g x \<Longrightarrow> Q g x) \<Longrightarrow> yields m h Q"
  unfolding yields_def by blast

text \<open>The cell is reserved before what it refers to is copied, and filled after.\<close>

lemma yields_new_into:
  assumes "yields fill (h @ [mk s]) (\<lambda>g s'. P g s')" and sel: "\<And>s. sel (mk s) = Some s"
  shows "yields (new_into mk s fill) h (\<lambda>g a. \<exists>s'. load sel g a = Some s' \<and> P g s')"
proof -
  obtain s' new where fill: "run_state fill (h @ [mk s]) = (s', (h @ [mk s]) @ new)"
      "\<And>old. length old = length (h @ [mk s]) \<Longrightarrow> P (old @ new) s'"
    using assms(1) by (rule yieldsE) blast
  have "load sel (old @ mk s' # new) (length h) = Some s' \<and> P (old @ mk s' # new) s'" if "length old = length h" for old
    using fill(2) [of "old @ [mk s']"] that by (simp add: load_def nth_append sel)
  with fill(1) show ?thesis unfolding yields_def new_into_def by (auto simp: list_update_append)
qed

section \<open>Reading and copying through pointers\<close>

text \<open>A pointer field: nil, or the address of a cell of the right type. A slice is the address of its array.\<close>

definition pointee :: "('c \<Rightarrow> 's option) \<Rightarrow> ('c heap \<Rightarrow> 's \<Rightarrow> 'v option) \<Rightarrow> 'c heap \<Rightarrow> addr option \<Rightarrow> 'v option option" where
  "pointee sel val h p = (case p of
     None \<Rightarrow> Some None
   | Some a \<Rightarrow> Option.bind (load sel h a) (\<lambda>s. map_option Some (val h s)))"

fun each :: "('c heap \<Rightarrow> 's \<Rightarrow> 'v option) \<Rightarrow> 'c heap \<Rightarrow> 's list \<Rightarrow> 'v list option" where
  "each val h [] = Some []"
| "each val h (s # ss) = Option.bind (val h s) (\<lambda>v. map_option ((#) v) (each val h ss))"

text \<open>
  \<open>if in.F != nil { out.F = new(T); copy *in.F into *out.F }\<close>. The last case does not arise in a
  program with types: the pointer is dangling.
\<close>

definition copy_pointer :: "('c \<Rightarrow> 's option) \<Rightarrow> ('s \<Rightarrow> 'c) \<Rightarrow> ('s \<Rightarrow> ('c, 's) mem) \<Rightarrow> addr option \<Rightarrow> ('c, addr option) mem" where
  "copy_pointer sel mk copy p = (case p of
     None \<Rightarrow> State_Monad.return None
   | Some a \<Rightarrow> State_Monad.bind State_Monad.get (\<lambda>h. case load sel h a of
       Some s \<Rightarrow> State_Monad.bind (new_into mk s (copy s)) (\<lambda>b. State_Monad.return (Some b))
     | None \<Rightarrow> State_Monad.return p))"

text \<open>The loop over a slice: element by element.\<close>

fun copy_each :: "('s \<Rightarrow> ('c, 's) mem) \<Rightarrow> 's list \<Rightarrow> ('c, 's list) mem" where
  "copy_each copy [] = State_Monad.return []"
| "copy_each copy (s # ss) = State_Monad.bind (copy s) (\<lambda>s'.
     State_Monad.bind (copy_each copy ss) (\<lambda>ss'. State_Monad.return (s' # ss')))"

lemma yields_get: "yields (f h) h Q \<Longrightarrow> yields (State_Monad.bind State_Monad.get f) h Q"
  by (simp add: yields_def)

lemma pointee_Some: "pointee sel val h (Some a) = Some (Some v) \<longleftrightarrow> (\<exists>s. load sel h a = Some s \<and> val h s = Some v)"
  by (auto simp: pointee_def bind_eq_Some_conv)

text \<open>
  What a deep copy promises: it allocates a new object and changes no other; whatever is stored into
  the cells that were there before, the copy reads as the original did, and whatever is stored into
  the new cells, the original reads as it did.
\<close>

definition copied_apart :: "('c heap \<Rightarrow> addr option \<Rightarrow> 'v option option) \<Rightarrow> (addr option \<Rightarrow> ('c, addr option) mem) \<Rightarrow>
    'c heap \<Rightarrow> addr \<Rightarrow> 'v \<Rightarrow> bool" where
  "copied_apart at copy h a v \<longleftrightarrow> (\<exists>b new. run_state (copy (Some a)) h = (Some b, h @ new) \<and> length h \<le> b \<and> b < length (h @ new) \<and>
     (\<forall>ws. (\<forall>(c, x) \<in> set ws. c < length h) \<longrightarrow> at (stores ws (h @ new)) (Some b) = Some (Some v)) \<and>
     (\<forall>ws. (\<forall>(c, x) \<in> set ws. length h \<le> c) \<longrightarrow> at (stores ws (h @ new)) (Some a) = Some (Some v)))"

section \<open>Readers and copiers\<close>

locale reader =
  fixes val :: "'c heap \<Rightarrow> 's \<Rightarrow> 'v option"
  assumes grow: "val h s = Some v \<Longrightarrow> val (h @ k) s = Some v"
begin

lemma grow_pointee: "pointee sel val h p = Some v \<Longrightarrow> pointee sel val (h @ k) p = Some v"
  by (cases p) (auto simp: pointee_def bind_eq_Some_conv load_append grow)

lemma grow_each: "each val h ss = Some vs \<Longrightarrow> each val (h @ k) ss = Some vs"
  by (induction ss arbitrary: vs) (auto simp: bind_eq_Some_conv grow)

end

locale copier = reader val for val :: "'c heap \<Rightarrow> 's \<Rightarrow> 'v option" +
  fixes copy :: "'s \<Rightarrow> ('c, 's) mem"
  assumes copies: "val h s = Some v \<Longrightarrow> yields (copy s) h (\<lambda>g s'. val g s' = Some v)"
begin

lemma copy_then:
  assumes "val h s = Some v" and "\<And>s' new. yields (f s') (h @ new) (\<lambda>g y. val g s' = Some v \<longrightarrow> Q g y)"
  shows "yields (State_Monad.bind (copy s) f) h Q"
  using copies [OF assms(1)] grow assms(2) by (rule yields_bind)

lemma copies_each: "each val h ss = Some vs \<Longrightarrow> yields (copy_each copy ss) h (\<lambda>g ss'. each val g ss' = Some vs)"
proof (induction ss arbitrary: h vs)
  case (Cons s ss)
  then obtain v vs' where v: "val h s = Some v" "each val h ss = Some vs'" "vs = v # vs'"
    by (auto simp: bind_eq_Some_conv)
  show ?case
    unfolding copy_each.simps
  proof (rule copy_then [OF v(1)], rule yields_bind [OF Cons.IH [OF grow_each [OF v(2)]]])
    show "each val h ss = Some vs' \<Longrightarrow> each val (h @ k) ss = Some vs'" for h k ss by (rule grow_each)
    show "yields (State_Monad.return (s' # ss')) ((h @ new) @ new')
        (\<lambda>g y. each val g ss' = Some vs' \<longrightarrow> val g s' = Some v \<longrightarrow> each val g y = Some vs)" for s' ss' new new'
      by (rule yields_return) (simp add: v(3))
  qed
qed (auto intro: yields_return)

lemma copies_pointer:
  assumes "pointee sel val h p = Some v" and sel: "\<And>s. sel (mk s) = Some s"
  shows "yields (copy_pointer sel mk copy p) h (\<lambda>g q. pointee sel val g q = Some v)"
proof (cases p)
  case None
  with assms(1) show ?thesis by (auto simp: copy_pointer_def pointee_def intro: yields_return)
next
  case (Some a)
  with assms(1) obtain s w where s: "load sel h a = Some s" "val h s = Some w" "v = Some w"
    by (auto simp: pointee_def bind_eq_Some_conv)
  have "yields (new_into mk s (copy s)) h (\<lambda>g b. \<exists>s'. load sel g b = Some s' \<and> val g s' = Some w)"
    by (rule yields_new_into [OF copies [OF grow [OF s(2)]] sel])
  then have "yields (State_Monad.bind (new_into mk s (copy s)) (\<lambda>b. State_Monad.return (Some b))) h
      (\<lambda>g q. pointee sel val g q = Some v)"
    by (rule yields_bind) (auto simp: s(3) pointee_Some load_append grow intro!: yields_return)
  with Some s(1) show ?thesis by (auto simp: copy_pointer_def intro: yields_get)
qed

lemma apart:
  assumes "pointee sel val h (Some a) = Some (Some v)" and sel: "\<And>s. sel (mk s) = Some s"
  shows "copied_apart (pointee sel val) (copy_pointer sel mk copy) h a v"
proof -
  obtain q new where run: "run_state (copy_pointer sel mk copy (Some a)) h = (q, h @ new)"
      and old: "\<And>old. length old = length h \<Longrightarrow> pointee sel val (old @ new) q = Some (Some v)"
    using copies_pointer [OF assms] by (rule yieldsE) blast
  obtain s where s: "load sel h a = Some s" using assms(1) by (auto simp: pointee_Some)
  obtain b where b: "q = Some b" "b = length h" "b < length (h @ new)"
    using run s old [OF refl, of] by (auto simp: copy_pointer_def new_into_def pointee_Some load_def split: prod.splits if_splits)
  have "pointee sel val (stores ws (h @ new)) (Some b) = Some (Some v)" if "\<forall>(c, x) \<in> set ws. c < length h" for ws
    using stores_old [OF that, of new] old b(1) by auto
  moreover have "pointee sel val (stores ws (h @ new)) (Some a) = Some (Some v)" if "\<forall>(c, x) \<in> set ws. length h \<le> c" for ws
    using stores_new [OF that, of new] grow_pointee [OF assms(1)] by auto
  ultimately show ?thesis unfolding copied_apart_def using run b by auto
qed

end

text \<open>How copiers are built: of the elements of a slice, of what a pointer leads to, and up to a function of the value.\<close>

lemma reader_each: "reader val \<Longrightarrow> reader (each val)"
  by unfold_locales (rule reader.grow_each)

lemma reader_pointee: "reader val \<Longrightarrow> reader (pointee sel val)"
  by unfold_locales (rule reader.grow_pointee)

lemma reader_image: "reader val \<Longrightarrow> reader (\<lambda>h s. map_option f (val h s))"
  by unfold_locales (auto dest: reader.grow)

lemma copier_reader: "copier val copy \<Longrightarrow> reader val"
  by (rule copier.axioms(1))

lemma copierI: "reader val \<Longrightarrow> (\<And>h s v. val h s = Some v \<Longrightarrow> yields (copy s) h (\<lambda>g s'. val g s' = Some v)) \<Longrightarrow> copier val copy"
  by (rule copier.intro) (simp_all add: copier_axioms_def)

lemma copier_each: "copier val copy \<Longrightarrow> copier (each val) (copy_each copy)"
  by (rule copierI [OF reader_each [OF copier_reader]]) (auto intro: copier.copies_each)

lemma copier_pointer:
  assumes "copier val copy" and "\<And>s. sel (mk s) = Some s"
  shows "copier (pointee sel val) (copy_pointer sel mk copy)"
  by (rule copierI [OF reader_pointee [OF copier_reader [OF assms(1)]]]) (rule copier.copies_pointer [OF assms(1) _ assms(2)])

lemma copier_image:
  assumes "copier val copy"
  shows "copier (\<lambda>h s. map_option f (val h s)) copy"
proof (rule copierI [OF reader_image [OF copier_reader [OF assms]]])
  fix h s v assume "map_option f (val h s) = Some v"
  then obtain w where "val h s = Some w" "v = f w" by auto
  with copier.copies [OF assms, of h s w] show "yields (copy s) h (\<lambda>g s'. map_option f (val g s') = Some v)"
    by (auto elim: yields_mono)
qed

text \<open>A value without pointers is its own reading and its own copy.\<close>

definition plain :: "'c heap \<Rightarrow> 's \<Rightarrow> 's option" where
  "plain h s = Some s"

interpretation plain: copier plain State_Monad.return
  by unfold_locales (auto simp: plain_def intro: yields_return)

end
