(* ===== verification/Api_Memory.thy ===== *)
theory Api_Memory
  imports Api_Types Memory
begin

text \<open>
  The types of \<open>src/api/v1\<close> as they lie in memory: a struct holds its embedded structs, and an address
  where the Go type has a pointer, a map or a slice. For every struct a function reads the value of
  \<open>Api_Types\<close> that it stands for, following the pointers; it is \<open>None\<close> when a pointer leads to no cell or
  to a cell of another type, which Go rules out. As in the rest of the model, a nil map or slice reads
  as an empty one. Of the Kubernetes types the fields are those the model keeps.
\<close>

type_synonym ptr = "addr option"

section \<open>Structs\<close>

record ObjectMeta_mem =
  mName :: string
  mNamespace :: string
  mUID :: string
  mResourceVersion :: string
  mLabels :: ptr
  mAnnotations :: ptr
  mFinalizers :: ptr
  mDeletionTimestamp :: ptr

record ListMeta =
  lmResourceVersion :: string
  Continue :: string
  RemainingItemCount :: "int option"

record ListMeta_mem =
  mlmResourceVersion :: string
  mContinue :: string
  mRemainingItemCount :: ptr

record LabelSelector_mem =
  mMatchLabels :: ptr
  mMatchExpressions :: ptr

record PersistentVolumeClaim_mem =
  mPVCTypeMeta :: TypeMeta
  mPVCMeta :: ObjectMeta_mem
  mPVCStorageClassName :: ptr
  mPVCVolumeName :: string
  mPVCPhase :: string
  mPVCRest :: ptr

record PersistentVolume_mem =
  mPVMeta :: ObjectMeta_mem
  mPVCSI :: ptr
  mPVClaimRef :: ptr
  mPVRest :: ptr

record VolumeGroupError_mem =
  mErrTime :: ptr
  mErrMessage :: ptr

record VolumeGroupSource_mem =
  mSrcVolumeGroupContentName :: ptr
  mSelector :: ptr

record VolumeGroupSpec_mem =
  mVgVolumeGroupClassName :: ptr
  mVgSource :: VolumeGroupSource_mem

record VolumeGroupStatus_mem =
  mBoundVolumeGroupContentName :: ptr
  mVgGroupCreationTime :: ptr
  mPVCList :: ptr
  mVgReady :: ptr
  mVgError :: ptr

record VolumeGroup_mem =
  mVgTypeMeta :: TypeMeta
  mVgMeta :: ObjectMeta_mem
  mVgSpec :: VolumeGroupSpec_mem
  mVgStatus :: VolumeGroupStatus_mem

record VolumeGroupClass_mem =
  mClassTypeMeta :: TypeMeta
  mClassMeta :: ObjectMeta_mem
  mDriver :: string
  mClassParameters :: ptr
  mClassVolumeGroupDeletionPolicy :: ptr
  mClassSupportVolumeGroupSnapshot :: ptr

record VolumeGroupContentSource_mem =
  mSrcDriver :: string
  mVolumeGroupHandle :: string
  mVolumeGroupAttributes :: ptr

record VolumeGroupContentSpec_mem =
  mVgcVolumeGroupClassName :: ptr
  mVolumeGroupRef :: ptr
  mVgcSource :: ptr
  mVgcVolumeGroupDeletionPolicy :: ptr
  mSupportVolumeGroupSnapshot :: ptr
  mVolumeGroupSecretRef :: ptr

record VolumeGroupContentStatus_mem =
  mVgcGroupCreationTime :: ptr
  mPVList :: ptr
  mVgcReady :: ptr
  mVgcError :: ptr

record VolumeGroupContent_mem =
  mVgcTypeMeta :: TypeMeta
  mVgcMeta :: ObjectMeta_mem
  mVgcSpec :: VolumeGroupContentSpec_mem
  mVgcStatus :: VolumeGroupContentStatus_mem

text \<open>The three list types differ in the type of their items.\<close>

record 'a ObjectList =
  listTypeMeta :: TypeMeta
  listMeta :: ListMeta
  Items :: "'a list"

type_synonym VolumeGroupList = "VolumeGroup ObjectList"
type_synonym VolumeGroupClassList = "VolumeGroupClass ObjectList"
type_synonym VolumeGroupContentList = "VolumeGroupContent ObjectList"

record List_mem =
  mListTypeMeta :: TypeMeta
  mListMeta :: ListMeta_mem
  mItems :: ptr

section \<open>Cells\<close>

datatype cell = StringCell string | BoolCell bool | TimeCell Time | IntCell int | MapCell gomap
  | StringsCell "string list" | RequirementsCell "LabelSelectorRequirement list"
  | ObjectReferenceCell ObjectReference | SecretReferenceCell SecretReference
  | LabelSelectorCell LabelSelector_mem | PVCsCell "PersistentVolumeClaim_mem list" | PVsCell "PersistentVolume_mem list"
  | VolumeGroupErrorCell VolumeGroupError_mem | VolumeGroupSourceCell VolumeGroupSource_mem
  | VolumeGroupSpecCell VolumeGroupSpec_mem | VolumeGroupStatusCell VolumeGroupStatus_mem
  | VolumeGroupCell VolumeGroup_mem | VolumeGroupsCell "VolumeGroup_mem list" | VolumeGroupListCell List_mem
  | VolumeGroupClassCell VolumeGroupClass_mem | VolumeGroupClassesCell "VolumeGroupClass_mem list"
  | VolumeGroupClassListCell List_mem
  | VolumeGroupContentSourceCell VolumeGroupContentSource_mem | VolumeGroupContentSpecCell VolumeGroupContentSpec_mem
  | VolumeGroupContentStatusCell VolumeGroupContentStatus_mem | VolumeGroupContentCell VolumeGroupContent_mem
  | VolumeGroupContentsCell "VolumeGroupContent_mem list" | VolumeGroupContentListCell List_mem

type_synonym memory = "cell heap"
type_synonym 'a go_mem = "(cell, 'a) mem"

definition the_String :: "cell \<Rightarrow> string option" where
  "the_String c = (case c of StringCell x \<Rightarrow> Some x | _ \<Rightarrow> None)"
definition the_Bool :: "cell \<Rightarrow> bool option" where
  "the_Bool c = (case c of BoolCell x \<Rightarrow> Some x | _ \<Rightarrow> None)"
definition the_Time :: "cell \<Rightarrow> Time option" where
  "the_Time c = (case c of TimeCell x \<Rightarrow> Some x | _ \<Rightarrow> None)"
definition the_Int :: "cell \<Rightarrow> int option" where
  "the_Int c = (case c of IntCell x \<Rightarrow> Some x | _ \<Rightarrow> None)"
definition the_Strings :: "cell \<Rightarrow> string list option" where
  "the_Strings c = (case c of StringsCell x \<Rightarrow> Some x | _ \<Rightarrow> None)"
definition the_Requirements :: "cell \<Rightarrow> LabelSelectorRequirement list option" where
  "the_Requirements c = (case c of RequirementsCell x \<Rightarrow> Some x | _ \<Rightarrow> None)"
definition the_ObjectReference :: "cell \<Rightarrow> ObjectReference option" where
  "the_ObjectReference c = (case c of ObjectReferenceCell x \<Rightarrow> Some x | _ \<Rightarrow> None)"
definition the_SecretReference :: "cell \<Rightarrow> SecretReference option" where
  "the_SecretReference c = (case c of SecretReferenceCell x \<Rightarrow> Some x | _ \<Rightarrow> None)"
definition the_LabelSelector :: "cell \<Rightarrow> LabelSelector_mem option" where
  "the_LabelSelector c = (case c of LabelSelectorCell x \<Rightarrow> Some x | _ \<Rightarrow> None)"
definition the_PVCs :: "cell \<Rightarrow> PersistentVolumeClaim_mem list option" where
  "the_PVCs c = (case c of PVCsCell x \<Rightarrow> Some x | _ \<Rightarrow> None)"
definition the_PVs :: "cell \<Rightarrow> PersistentVolume_mem list option" where
  "the_PVs c = (case c of PVsCell x \<Rightarrow> Some x | _ \<Rightarrow> None)"
definition the_VolumeGroupError :: "cell \<Rightarrow> VolumeGroupError_mem option" where
  "the_VolumeGroupError c = (case c of VolumeGroupErrorCell x \<Rightarrow> Some x | _ \<Rightarrow> None)"
definition the_VolumeGroupSource :: "cell \<Rightarrow> VolumeGroupSource_mem option" where
  "the_VolumeGroupSource c = (case c of VolumeGroupSourceCell x \<Rightarrow> Some x | _ \<Rightarrow> None)"
definition the_VolumeGroupSpec :: "cell \<Rightarrow> VolumeGroupSpec_mem option" where
  "the_VolumeGroupSpec c = (case c of VolumeGroupSpecCell x \<Rightarrow> Some x | _ \<Rightarrow> None)"
definition the_VolumeGroupStatus :: "cell \<Rightarrow> VolumeGroupStatus_mem option" where
  "the_VolumeGroupStatus c = (case c of VolumeGroupStatusCell x \<Rightarrow> Some x | _ \<Rightarrow> None)"
definition the_VolumeGroup :: "cell \<Rightarrow> VolumeGroup_mem option" where
  "the_VolumeGroup c = (case c of VolumeGroupCell x \<Rightarrow> Some x | _ \<Rightarrow> None)"
definition the_VolumeGroups :: "cell \<Rightarrow> VolumeGroup_mem list option" where
  "the_VolumeGroups c = (case c of VolumeGroupsCell x \<Rightarrow> Some x | _ \<Rightarrow> None)"
definition the_VolumeGroupList :: "cell \<Rightarrow> List_mem option" where
  "the_VolumeGroupList c = (case c of VolumeGroupListCell x \<Rightarrow> Some x | _ \<Rightarrow> None)"
definition the_VolumeGroupClass :: "cell \<Rightarrow> VolumeGroupClass_mem option" where
  "the_VolumeGroupClass c = (case c of VolumeGroupClassCell x \<Rightarrow> Some x | _ \<Rightarrow> None)"
definition the_VolumeGroupClasses :: "cell \<Rightarrow> VolumeGroupClass_mem list option" where
  "the_VolumeGroupClasses c = (case c of VolumeGroupClassesCell x \<Rightarrow> Some x | _ \<Rightarrow> None)"
definition the_VolumeGroupClassList :: "cell \<Rightarrow> List_mem option" where
  "the_VolumeGroupClassList c = (case c of VolumeGroupClassListCell x \<Rightarrow> Some x | _ \<Rightarrow> None)"
definition the_VolumeGroupContentSource :: "cell \<Rightarrow> VolumeGroupContentSource_mem option" where
  "the_VolumeGroupContentSource c = (case c of VolumeGroupContentSourceCell x \<Rightarrow> Some x | _ \<Rightarrow> None)"
definition the_VolumeGroupContentSpec :: "cell \<Rightarrow> VolumeGroupContentSpec_mem option" where
  "the_VolumeGroupContentSpec c = (case c of VolumeGroupContentSpecCell x \<Rightarrow> Some x | _ \<Rightarrow> None)"
definition the_VolumeGroupContentStatus :: "cell \<Rightarrow> VolumeGroupContentStatus_mem option" where
  "the_VolumeGroupContentStatus c = (case c of VolumeGroupContentStatusCell x \<Rightarrow> Some x | _ \<Rightarrow> None)"
definition the_VolumeGroupContent :: "cell \<Rightarrow> VolumeGroupContent_mem option" where
  "the_VolumeGroupContent c = (case c of VolumeGroupContentCell x \<Rightarrow> Some x | _ \<Rightarrow> None)"
definition the_VolumeGroupContents :: "cell \<Rightarrow> VolumeGroupContent_mem list option" where
  "the_VolumeGroupContents c = (case c of VolumeGroupContentsCell x \<Rightarrow> Some x | _ \<Rightarrow> None)"
definition the_VolumeGroupContentList :: "cell \<Rightarrow> List_mem option" where
  "the_VolumeGroupContentList c = (case c of VolumeGroupContentListCell x \<Rightarrow> Some x | _ \<Rightarrow> None)"

text \<open>A Go map has every key once.\<close>

definition the_Map :: "cell \<Rightarrow> gomap option" where
  "the_Map c = (case c of MapCell m \<Rightarrow> (if distinct (map fst m) then Some m else None) | _ \<Rightarrow> None)"

lemmas the_cell = the_String_def the_Bool_def the_Time_def the_Int_def the_Strings_def the_Requirements_def
  the_ObjectReference_def the_SecretReference_def the_LabelSelector_def the_PVCs_def the_PVs_def
  the_VolumeGroupError_def the_VolumeGroupSource_def the_VolumeGroupSpec_def the_VolumeGroupStatus_def
  the_VolumeGroup_def the_VolumeGroups_def the_VolumeGroupList_def the_VolumeGroupClass_def
  the_VolumeGroupClasses_def the_VolumeGroupClassList_def the_VolumeGroupContentSource_def
  the_VolumeGroupContentSpec_def the_VolumeGroupContentStatus_def the_VolumeGroupContent_def
  the_VolumeGroupContents_def the_VolumeGroupContentList_def

section \<open>What a struct stands for\<close>

definition or_empty :: "'a list option \<Rightarrow> 'a list" where
  "or_empty x = (case x of None \<Rightarrow> [] | Some l \<Rightarrow> l)"

definition slice :: "(cell \<Rightarrow> 's list option) \<Rightarrow> (memory \<Rightarrow> 's \<Rightarrow> 'v option) \<Rightarrow> memory \<Rightarrow> ptr \<Rightarrow> 'v list option" where
  "slice sel val h p = map_option or_empty (pointee sel (each val) h p)"

definition map_value :: "memory \<Rightarrow> ptr \<Rightarrow> gomap option" where
  "map_value h p = map_option or_empty (pointee the_Map plain h p)"

abbreviation string_value :: "memory \<Rightarrow> ptr \<Rightarrow> string option option" where
  "string_value \<equiv> pointee the_String plain"

abbreviation bool_value :: "memory \<Rightarrow> ptr \<Rightarrow> bool option option" where
  "bool_value \<equiv> pointee the_Bool plain"

abbreviation time_value :: "memory \<Rightarrow> ptr \<Rightarrow> Time option option" where
  "time_value \<equiv> pointee the_Time plain"

definition ObjectMeta_value :: "memory \<Rightarrow> ObjectMeta_mem \<Rightarrow> ObjectMeta option" where
  "ObjectMeta_value h s = do {
     labels \<leftarrow> map_value h (mLabels s);
     annotations \<leftarrow> map_value h (mAnnotations s);
     finalizers \<leftarrow> slice the_Strings plain h (mFinalizers s);
     deleted \<leftarrow> time_value h (mDeletionTimestamp s);
     Some \<lparr>Name = mName s, Namespace = mNamespace s, UID = mUID s, ResourceVersion = mResourceVersion s,
       Labels = labels, Annotations = annotations, Finalizers = finalizers, DeletionTimestamp = deleted\<rparr> }"

definition ListMeta_value :: "memory \<Rightarrow> ListMeta_mem \<Rightarrow> ListMeta option" where
  "ListMeta_value h s = do {
     remaining \<leftarrow> pointee the_Int plain h (mRemainingItemCount s);
     Some \<lparr>lmResourceVersion = mlmResourceVersion s, Continue = mContinue s, RemainingItemCount = remaining\<rparr> }"

definition LabelSelector_value :: "memory \<Rightarrow> LabelSelector_mem \<Rightarrow> LabelSelector option" where
  "LabelSelector_value h s = do {
     labels \<leftarrow> map_value h (mMatchLabels s);
     expressions \<leftarrow> slice the_Requirements plain h (mMatchExpressions s);
     Some \<lparr>MatchLabels = labels, MatchExpressions = expressions\<rparr> }"

definition PersistentVolumeClaim_value :: "memory \<Rightarrow> PersistentVolumeClaim_mem \<Rightarrow> PersistentVolumeClaim option" where
  "PersistentVolumeClaim_value h s = do {
     m \<leftarrow> ObjectMeta_value h (mPVCMeta s);
     sc \<leftarrow> string_value h (mPVCStorageClassName s);
     rest \<leftarrow> slice the_String plain h (mPVCRest s);
     Some \<lparr>PVCTypeMeta = mPVCTypeMeta s, PVCMeta = m, PVCStorageClassName = sc, PVCVolumeName = mPVCVolumeName s,
       PVCPhase = mPVCPhase s, PVCRest = rest\<rparr> }"

definition PersistentVolume_value :: "memory \<Rightarrow> PersistentVolume_mem \<Rightarrow> PersistentVolume option" where
  "PersistentVolume_value h s = do {
     m \<leftarrow> ObjectMeta_value h (mPVMeta s);
     source \<leftarrow> string_value h (mPVCSI s);
     claim \<leftarrow> pointee the_ObjectReference plain h (mPVClaimRef s);
     rest \<leftarrow> slice the_String plain h (mPVRest s);
     Some \<lparr>PVMeta = m, PVCSI = source, PVClaimRef = claim, PVRest = rest\<rparr> }"

definition VolumeGroupError_value :: "memory \<Rightarrow> VolumeGroupError_mem \<Rightarrow> VolumeGroupError option" where
  "VolumeGroupError_value h s = do {
     t \<leftarrow> time_value h (mErrTime s);
     message \<leftarrow> string_value h (mErrMessage s);
     Some \<lparr>errTime = t, errMessage = message\<rparr> }"

definition VolumeGroupSource_value :: "memory \<Rightarrow> VolumeGroupSource_mem \<Rightarrow> VolumeGroupSource option" where
  "VolumeGroupSource_value h s = do {
     content \<leftarrow> string_value h (mSrcVolumeGroupContentName s);
     selector \<leftarrow> pointee the_LabelSelector LabelSelector_value h (mSelector s);
     Some \<lparr>srcVolumeGroupContentName = content, Selector = selector\<rparr> }"

definition VolumeGroupSpec_value :: "memory \<Rightarrow> VolumeGroupSpec_mem \<Rightarrow> VolumeGroupSpec option" where
  "VolumeGroupSpec_value h s = do {
     class_name \<leftarrow> string_value h (mVgVolumeGroupClassName s);
     source \<leftarrow> VolumeGroupSource_value h (mVgSource s);
     Some \<lparr>vgVolumeGroupClassName = class_name, vgSource = source\<rparr> }"

definition VolumeGroupStatus_value :: "memory \<Rightarrow> VolumeGroupStatus_mem \<Rightarrow> VolumeGroupStatus option" where
  "VolumeGroupStatus_value h s = do {
     bound \<leftarrow> string_value h (mBoundVolumeGroupContentName s);
     created \<leftarrow> time_value h (mVgGroupCreationTime s);
     pvcs \<leftarrow> slice the_PVCs PersistentVolumeClaim_value h (mPVCList s);
     ready \<leftarrow> bool_value h (mVgReady s);
     err \<leftarrow> pointee the_VolumeGroupError VolumeGroupError_value h (mVgError s);
     Some \<lparr>BoundVolumeGroupContentName = bound, vgGroupCreationTime = created, PVCList = pvcs, vgReady = ready, vgError = err\<rparr> }"

definition VolumeGroup_value :: "memory \<Rightarrow> VolumeGroup_mem \<Rightarrow> VolumeGroup option" where
  "VolumeGroup_value h s = do {
     m \<leftarrow> ObjectMeta_value h (mVgMeta s);
     spec \<leftarrow> VolumeGroupSpec_value h (mVgSpec s);
     status \<leftarrow> VolumeGroupStatus_value h (mVgStatus s);
     Some \<lparr>vgTypeMeta = mVgTypeMeta s, vgMeta = m, vgSpec = spec, vgStatus = status\<rparr> }"

definition VolumeGroupClass_value :: "memory \<Rightarrow> VolumeGroupClass_mem \<Rightarrow> VolumeGroupClass option" where
  "VolumeGroupClass_value h s = do {
     m \<leftarrow> ObjectMeta_value h (mClassMeta s);
     parameters \<leftarrow> map_value h (mClassParameters s);
     policy \<leftarrow> string_value h (mClassVolumeGroupDeletionPolicy s);
     snapshot \<leftarrow> bool_value h (mClassSupportVolumeGroupSnapshot s);
     Some \<lparr>classTypeMeta = mClassTypeMeta s, classMeta = m, Driver = mDriver s, classParameters = parameters,
       classVolumeGroupDeletionPolicy = policy, classSupportVolumeGroupSnapshot = snapshot\<rparr> }"

definition VolumeGroupContentSource_value ::
    "memory \<Rightarrow> VolumeGroupContentSource_mem \<Rightarrow> VolumeGroupContentSource option" where
  "VolumeGroupContentSource_value h s = do {
     attributes \<leftarrow> map_value h (mVolumeGroupAttributes s);
     Some \<lparr>srcDriver = mSrcDriver s, VolumeGroupHandle = mVolumeGroupHandle s, VolumeGroupAttributes = attributes\<rparr> }"

definition VolumeGroupContentSpec_value :: "memory \<Rightarrow> VolumeGroupContentSpec_mem \<Rightarrow> VolumeGroupContentSpec option" where
  "VolumeGroupContentSpec_value h s = do {
     class_name \<leftarrow> string_value h (mVgcVolumeGroupClassName s);
     group \<leftarrow> pointee the_ObjectReference plain h (mVolumeGroupRef s);
     source \<leftarrow> pointee the_VolumeGroupContentSource VolumeGroupContentSource_value h (mVgcSource s);
     policy \<leftarrow> string_value h (mVgcVolumeGroupDeletionPolicy s);
     snapshot \<leftarrow> bool_value h (mSupportVolumeGroupSnapshot s);
     secret \<leftarrow> pointee the_SecretReference plain h (mVolumeGroupSecretRef s);
     Some \<lparr>vgcVolumeGroupClassName = class_name, VolumeGroupRef = group, vgcSource = source,
       vgcVolumeGroupDeletionPolicy = policy, SupportVolumeGroupSnapshot = snapshot, VolumeGroupSecretRef = secret\<rparr> }"

definition VolumeGroupContentStatus_value ::
    "memory \<Rightarrow> VolumeGroupContentStatus_mem \<Rightarrow> VolumeGroupContentStatus option" where
  "VolumeGroupContentStatus_value h s = do {
     created \<leftarrow> time_value h (mVgcGroupCreationTime s);
     pvs \<leftarrow> slice the_PVs PersistentVolume_value h (mPVList s);
     ready \<leftarrow> bool_value h (mVgcReady s);
     err \<leftarrow> pointee the_VolumeGroupError VolumeGroupError_value h (mVgcError s);
     Some \<lparr>vgcGroupCreationTime = created, PVList = pvs, vgcReady = ready, vgcError = err\<rparr> }"

definition VolumeGroupContent_value :: "memory \<Rightarrow> VolumeGroupContent_mem \<Rightarrow> VolumeGroupContent option" where
  "VolumeGroupContent_value h s = do {
     m \<leftarrow> ObjectMeta_value h (mVgcMeta s);
     spec \<leftarrow> VolumeGroupContentSpec_value h (mVgcSpec s);
     status \<leftarrow> VolumeGroupContentStatus_value h (mVgcStatus s);
     Some \<lparr>vgcTypeMeta = mVgcTypeMeta s, vgcMeta = m, vgcSpec = spec, vgcStatus = status\<rparr> }"

definition List_value :: "(cell \<Rightarrow> 's list option) \<Rightarrow> (memory \<Rightarrow> 's \<Rightarrow> 'v option) \<Rightarrow> memory \<Rightarrow> List_mem \<Rightarrow> 'v ObjectList option" where
  "List_value sel val h s = do {
     m \<leftarrow> ListMeta_value h (mListMeta s);
     items \<leftarrow> slice sel val h (mItems s);
     Some \<lparr>listTypeMeta = mListTypeMeta s, listMeta = m, Items = items\<rparr> }"

section \<open>Readers\<close>

lemma reader_slice: "reader val \<Longrightarrow> reader (slice sel val)"
  unfolding slice_def [abs_def] by (intro reader_image reader_pointee reader_each)

interpretation entries: reader map_value
  unfolding map_value_def [abs_def] by (intro reader_image reader_pointee plain.reader_axioms)

lemmas plain_pointee = reader_pointee [OF plain.reader_axioms]
lemmas plain_slice = reader_slice [OF plain.reader_axioms]
lemmas grow_plain = entries.grow reader.grow [OF plain_pointee] reader.grow [OF plain_slice]

interpretation ObjectMeta: reader ObjectMeta_value
  by unfold_locales (auto simp: ObjectMeta_value_def bind_eq_Some_conv grow_plain)

interpretation ListMeta: reader ListMeta_value
  by unfold_locales (auto simp: ListMeta_value_def bind_eq_Some_conv grow_plain)

interpretation LabelSelector: reader LabelSelector_value
  by unfold_locales (auto simp: LabelSelector_value_def bind_eq_Some_conv grow_plain)

interpretation PersistentVolumeClaim: reader PersistentVolumeClaim_value
  by unfold_locales (auto simp: PersistentVolumeClaim_value_def bind_eq_Some_conv grow_plain ObjectMeta.grow)

interpretation PersistentVolume: reader PersistentVolume_value
  by unfold_locales (auto simp: PersistentVolume_value_def bind_eq_Some_conv grow_plain ObjectMeta.grow)

interpretation VolumeGroupError: reader VolumeGroupError_value
  by unfold_locales (auto simp: VolumeGroupError_value_def bind_eq_Some_conv grow_plain)

lemmas grow_error = VolumeGroupError.grow_pointee

interpretation VolumeGroupSource: reader VolumeGroupSource_value
  by unfold_locales (auto simp: VolumeGroupSource_value_def bind_eq_Some_conv grow_plain LabelSelector.grow_pointee)

interpretation VolumeGroupSpec: reader VolumeGroupSpec_value
  by unfold_locales (auto simp: VolumeGroupSpec_value_def bind_eq_Some_conv grow_plain VolumeGroupSource.grow)

interpretation VolumeGroupStatus: reader VolumeGroupStatus_value
  by unfold_locales (auto simp: VolumeGroupStatus_value_def bind_eq_Some_conv grow_plain grow_error
    reader.grow [OF reader_slice [OF PersistentVolumeClaim.reader_axioms]])

interpretation VolumeGroup: reader VolumeGroup_value
  by unfold_locales (auto simp: VolumeGroup_value_def bind_eq_Some_conv ObjectMeta.grow VolumeGroupSpec.grow VolumeGroupStatus.grow)

interpretation VolumeGroupClass: reader VolumeGroupClass_value
  by unfold_locales (auto simp: VolumeGroupClass_value_def bind_eq_Some_conv grow_plain ObjectMeta.grow)

interpretation VolumeGroupContentSource: reader VolumeGroupContentSource_value
  by unfold_locales (auto simp: VolumeGroupContentSource_value_def bind_eq_Some_conv grow_plain)

interpretation VolumeGroupContentSpec: reader VolumeGroupContentSpec_value
  by unfold_locales (auto simp: VolumeGroupContentSpec_value_def bind_eq_Some_conv grow_plain VolumeGroupContentSource.grow_pointee)

interpretation VolumeGroupContentStatus: reader VolumeGroupContentStatus_value
  by unfold_locales (auto simp: VolumeGroupContentStatus_value_def bind_eq_Some_conv grow_plain grow_error
    reader.grow [OF reader_slice [OF PersistentVolume.reader_axioms]])

interpretation VolumeGroupContent: reader VolumeGroupContent_value
  by unfold_locales (auto simp: VolumeGroupContent_value_def bind_eq_Some_conv ObjectMeta.grow
    VolumeGroupContentSpec.grow VolumeGroupContentStatus.grow)

lemma reader_List: "reader val \<Longrightarrow> reader (List_value sel val)"
  by unfold_locales (auto simp: List_value_def bind_eq_Some_conv ListMeta.grow reader.grow [OF reader_slice])

end
