(* ===== verification/Deep_Copy.thy ===== *)
theory Deep_Copy
  imports Api_Memory "HOL-Library.AList"
begin

text \<open>
  The generated deep copies of \<open>src/api/v1/zz_generated.deepcopy.go\<close>, over memory with pointers. A
  \<open>DeepCopyInto\<close> starts with \<open>*out = *in\<close>, so what \<open>out\<close> held does not matter: it is a program that takes
  the struct \<open>*in\<close> and returns the struct left in \<open>*out\<close>; fields it does not name keep what \<open>*out = *in\<close>
  gave them. The copies of Kubernetes types are parameters, the record \<open>kubernetes_lib\<close>; the locale
  \<open>kubernetes\<close> says that they are copies.
\<close>

section \<open>The copies of Kubernetes types\<close>

record kubernetes_lib =
  ObjectMeta_DeepCopyInto :: "ObjectMeta_mem \<Rightarrow> ObjectMeta_mem go_mem"
  ListMeta_DeepCopyInto :: "ListMeta_mem \<Rightarrow> ListMeta_mem go_mem"
  LabelSelector_DeepCopyInto :: "LabelSelector_mem \<Rightarrow> LabelSelector_mem go_mem"
  PersistentVolumeClaim_DeepCopyInto :: "PersistentVolumeClaim_mem \<Rightarrow> PersistentVolumeClaim_mem go_mem"
  PersistentVolume_DeepCopyInto :: "PersistentVolume_mem \<Rightarrow> PersistentVolume_mem go_mem"
  Time_DeepCopy :: "ptr \<Rightarrow> ptr go_mem"

locale kubernetes = ObjectMeta: copier ObjectMeta_value "ObjectMeta_DeepCopyInto k" +
    ListMeta: copier ListMeta_value "ListMeta_DeepCopyInto k" +
    LabelSelector: copier LabelSelector_value "LabelSelector_DeepCopyInto k" +
    PersistentVolumeClaim: copier PersistentVolumeClaim_value "PersistentVolumeClaim_DeepCopyInto k" +
    PersistentVolume: copier PersistentVolume_value "PersistentVolume_DeepCopyInto k" +
    Time: copier time_value "Time_DeepCopy k"
  for k :: kubernetes_lib

section \<open>Fields\<close>

text \<open>\<open>if in.F != nil { *out = new(T); **out = **in }\<close> for the types without pointers.\<close>

abbreviation copy_string :: "ptr \<Rightarrow> ptr go_mem" where
  "copy_string \<equiv> copy_pointer the_String StringCell State_Monad.return"

abbreviation copy_bool :: "ptr \<Rightarrow> ptr go_mem" where
  "copy_bool \<equiv> copy_pointer the_Bool BoolCell State_Monad.return"

abbreviation copy_ObjectReference :: "ptr \<Rightarrow> ptr go_mem" where
  "copy_ObjectReference \<equiv> copy_pointer the_ObjectReference ObjectReferenceCell State_Monad.return"

abbreviation copy_SecretReference :: "ptr \<Rightarrow> ptr go_mem" where
  "copy_SecretReference \<equiv> copy_pointer the_SecretReference SecretReferenceCell State_Monad.return"

text \<open>\<open>if in.F != nil { *out = (*in).DeepCopy() }\<close> for a time.\<close>

definition copy_time :: "kubernetes_lib \<Rightarrow> ptr \<Rightarrow> ptr go_mem" where
  "copy_time k p = (if p \<noteq> None then Time_DeepCopy k p else State_Monad.return p)"

text \<open>\<open>if in.F != nil { *out = make(map[string]string, len(*in)); for key, val := range *in { (*out)[key] = val } }\<close>.\<close>

fun range_into :: "gomap \<Rightarrow> gomap \<Rightarrow> gomap" where
  "range_into [] out = out"
| "range_into ((key, v) # m) out = range_into m (AList.update key v out)"

definition copy_map :: "ptr \<Rightarrow> ptr go_mem" where
  "copy_map p = (case p of
     None \<Rightarrow> State_Monad.return p
   | Some a \<Rightarrow> State_Monad.bind State_Monad.get (\<lambda>h. case load the_Map h a of
       Some m \<Rightarrow> State_Monad.bind (new_into MapCell [] (State_Monad.return (range_into m []))) (\<lambda>b. State_Monad.return (Some b))
     | None \<Rightarrow> State_Monad.return p))"

text \<open>\<open>if in.F != nil { *out = make([]T, len(*in)); for i := range *in { (*in)[i].DeepCopyInto(&(*out)[i]) } }\<close>.\<close>

abbreviation copy_slice :: "(cell \<Rightarrow> 's list option) \<Rightarrow> ('s list \<Rightarrow> cell) \<Rightarrow> ('s \<Rightarrow> 's go_mem) \<Rightarrow> ptr \<Rightarrow> ptr go_mem" where
  "copy_slice sel mk copy \<equiv> copy_pointer sel mk (copy_each copy)"

section \<open>VolumeGroup\<close>

definition VolumeGroupError_DeepCopyInto :: "kubernetes_lib \<Rightarrow> VolumeGroupError_mem \<Rightarrow> VolumeGroupError_mem go_mem" where
  "VolumeGroupError_DeepCopyInto k s = do {
     t \<leftarrow> copy_time k (mErrTime s);
     message \<leftarrow> copy_string (mErrMessage s);
     State_Monad.return (s\<lparr>mErrTime := t, mErrMessage := message\<rparr>) }"

definition VolumeGroupError_DeepCopy :: "kubernetes_lib \<Rightarrow> ptr \<Rightarrow> ptr go_mem" where
  "VolumeGroupError_DeepCopy k = copy_pointer the_VolumeGroupError VolumeGroupErrorCell (VolumeGroupError_DeepCopyInto k)"

definition VolumeGroupSource_DeepCopyInto :: "kubernetes_lib \<Rightarrow> VolumeGroupSource_mem \<Rightarrow> VolumeGroupSource_mem go_mem" where
  "VolumeGroupSource_DeepCopyInto k s = do {
     content \<leftarrow> copy_string (mSrcVolumeGroupContentName s);
     selector \<leftarrow> copy_pointer the_LabelSelector LabelSelectorCell (LabelSelector_DeepCopyInto k) (mSelector s);
     State_Monad.return (s\<lparr>mSrcVolumeGroupContentName := content, mSelector := selector\<rparr>) }"

definition VolumeGroupSource_DeepCopy :: "kubernetes_lib \<Rightarrow> ptr \<Rightarrow> ptr go_mem" where
  "VolumeGroupSource_DeepCopy k = copy_pointer the_VolumeGroupSource VolumeGroupSourceCell (VolumeGroupSource_DeepCopyInto k)"

definition VolumeGroupSpec_DeepCopyInto :: "kubernetes_lib \<Rightarrow> VolumeGroupSpec_mem \<Rightarrow> VolumeGroupSpec_mem go_mem" where
  "VolumeGroupSpec_DeepCopyInto k s = do {
     class_name \<leftarrow> copy_string (mVgVolumeGroupClassName s);
     source \<leftarrow> VolumeGroupSource_DeepCopyInto k (mVgSource s);
     State_Monad.return (s\<lparr>mVgVolumeGroupClassName := class_name, mVgSource := source\<rparr>) }"

definition VolumeGroupSpec_DeepCopy :: "kubernetes_lib \<Rightarrow> ptr \<Rightarrow> ptr go_mem" where
  "VolumeGroupSpec_DeepCopy k = copy_pointer the_VolumeGroupSpec VolumeGroupSpecCell (VolumeGroupSpec_DeepCopyInto k)"

definition VolumeGroupStatus_DeepCopyInto :: "kubernetes_lib \<Rightarrow> VolumeGroupStatus_mem \<Rightarrow> VolumeGroupStatus_mem go_mem" where
  "VolumeGroupStatus_DeepCopyInto k s = do {
     bound \<leftarrow> copy_string (mBoundVolumeGroupContentName s);
     created \<leftarrow> copy_time k (mVgGroupCreationTime s);
     pvcs \<leftarrow> copy_slice the_PVCs PVCsCell (PersistentVolumeClaim_DeepCopyInto k) (mPVCList s);
     ready \<leftarrow> copy_bool (mVgReady s);
     err \<leftarrow> copy_pointer the_VolumeGroupError VolumeGroupErrorCell (VolumeGroupError_DeepCopyInto k) (mVgError s);
     State_Monad.return (s\<lparr>mBoundVolumeGroupContentName := bound, mVgGroupCreationTime := created, mPVCList := pvcs,
       mVgReady := ready, mVgError := err\<rparr>) }"

definition VolumeGroupStatus_DeepCopy :: "kubernetes_lib \<Rightarrow> ptr \<Rightarrow> ptr go_mem" where
  "VolumeGroupStatus_DeepCopy k = copy_pointer the_VolumeGroupStatus VolumeGroupStatusCell (VolumeGroupStatus_DeepCopyInto k)"

definition VolumeGroup_DeepCopyInto :: "kubernetes_lib \<Rightarrow> VolumeGroup_mem \<Rightarrow> VolumeGroup_mem go_mem" where
  "VolumeGroup_DeepCopyInto k s = do {
     m \<leftarrow> ObjectMeta_DeepCopyInto k (mVgMeta s);
     spec \<leftarrow> VolumeGroupSpec_DeepCopyInto k (mVgSpec s);
     status \<leftarrow> VolumeGroupStatus_DeepCopyInto k (mVgStatus s);
     State_Monad.return (s\<lparr>mVgTypeMeta := mVgTypeMeta s, mVgMeta := m, mVgSpec := spec, mVgStatus := status\<rparr>) }"

definition VolumeGroup_DeepCopy :: "kubernetes_lib \<Rightarrow> ptr \<Rightarrow> ptr go_mem" where
  "VolumeGroup_DeepCopy k = copy_pointer the_VolumeGroup VolumeGroupCell (VolumeGroup_DeepCopyInto k)"

definition VolumeGroupList_DeepCopyInto :: "kubernetes_lib \<Rightarrow> List_mem \<Rightarrow> List_mem go_mem" where
  "VolumeGroupList_DeepCopyInto k s = do {
     m \<leftarrow> ListMeta_DeepCopyInto k (mListMeta s);
     items \<leftarrow> copy_slice the_VolumeGroups VolumeGroupsCell (VolumeGroup_DeepCopyInto k) (mItems s);
     State_Monad.return (s\<lparr>mListTypeMeta := mListTypeMeta s, mListMeta := m, mItems := items\<rparr>) }"

definition VolumeGroupList_DeepCopy :: "kubernetes_lib \<Rightarrow> ptr \<Rightarrow> ptr go_mem" where
  "VolumeGroupList_DeepCopy k = copy_pointer the_VolumeGroupList VolumeGroupListCell (VolumeGroupList_DeepCopyInto k)"

section \<open>VolumeGroupClass\<close>

definition VolumeGroupClass_DeepCopyInto :: "kubernetes_lib \<Rightarrow> VolumeGroupClass_mem \<Rightarrow> VolumeGroupClass_mem go_mem" where
  "VolumeGroupClass_DeepCopyInto k s = do {
     m \<leftarrow> ObjectMeta_DeepCopyInto k (mClassMeta s);
     parameters \<leftarrow> copy_map (mClassParameters s);
     policy \<leftarrow> copy_string (mClassVolumeGroupDeletionPolicy s);
     snapshot \<leftarrow> copy_bool (mClassSupportVolumeGroupSnapshot s);
     State_Monad.return (s\<lparr>mClassTypeMeta := mClassTypeMeta s, mClassMeta := m, mClassParameters := parameters,
       mClassVolumeGroupDeletionPolicy := policy, mClassSupportVolumeGroupSnapshot := snapshot\<rparr>) }"

definition VolumeGroupClass_DeepCopy :: "kubernetes_lib \<Rightarrow> ptr \<Rightarrow> ptr go_mem" where
  "VolumeGroupClass_DeepCopy k = copy_pointer the_VolumeGroupClass VolumeGroupClassCell (VolumeGroupClass_DeepCopyInto k)"

definition VolumeGroupClassList_DeepCopyInto :: "kubernetes_lib \<Rightarrow> List_mem \<Rightarrow> List_mem go_mem" where
  "VolumeGroupClassList_DeepCopyInto k s = do {
     m \<leftarrow> ListMeta_DeepCopyInto k (mListMeta s);
     items \<leftarrow> copy_slice the_VolumeGroupClasses VolumeGroupClassesCell (VolumeGroupClass_DeepCopyInto k) (mItems s);
     State_Monad.return (s\<lparr>mListTypeMeta := mListTypeMeta s, mListMeta := m, mItems := items\<rparr>) }"

definition VolumeGroupClassList_DeepCopy :: "kubernetes_lib \<Rightarrow> ptr \<Rightarrow> ptr go_mem" where
  "VolumeGroupClassList_DeepCopy k =
     copy_pointer the_VolumeGroupClassList VolumeGroupClassListCell (VolumeGroupClassList_DeepCopyInto k)"

section \<open>VolumeGroupContent\<close>

definition VolumeGroupContentSource_DeepCopyInto :: "VolumeGroupContentSource_mem \<Rightarrow> VolumeGroupContentSource_mem go_mem" where
  "VolumeGroupContentSource_DeepCopyInto s = do {
     attributes \<leftarrow> copy_map (mVolumeGroupAttributes s);
     State_Monad.return (s\<lparr>mVolumeGroupAttributes := attributes\<rparr>) }"

definition VolumeGroupContentSource_DeepCopy :: "ptr \<Rightarrow> ptr go_mem" where
  "VolumeGroupContentSource_DeepCopy =
     copy_pointer the_VolumeGroupContentSource VolumeGroupContentSourceCell VolumeGroupContentSource_DeepCopyInto"

definition VolumeGroupContentSpec_DeepCopyInto :: "VolumeGroupContentSpec_mem \<Rightarrow> VolumeGroupContentSpec_mem go_mem" where
  "VolumeGroupContentSpec_DeepCopyInto s = do {
     class_name \<leftarrow> copy_string (mVgcVolumeGroupClassName s);
     group \<leftarrow> copy_ObjectReference (mVolumeGroupRef s);
     source \<leftarrow> copy_pointer the_VolumeGroupContentSource VolumeGroupContentSourceCell
       VolumeGroupContentSource_DeepCopyInto (mVgcSource s);
     policy \<leftarrow> copy_string (mVgcVolumeGroupDeletionPolicy s);
     snapshot \<leftarrow> copy_bool (mSupportVolumeGroupSnapshot s);
     secret \<leftarrow> copy_SecretReference (mVolumeGroupSecretRef s);
     State_Monad.return (s\<lparr>mVgcVolumeGroupClassName := class_name, mVolumeGroupRef := group, mVgcSource := source,
       mVgcVolumeGroupDeletionPolicy := policy, mSupportVolumeGroupSnapshot := snapshot, mVolumeGroupSecretRef := secret\<rparr>) }"

definition VolumeGroupContentSpec_DeepCopy :: "ptr \<Rightarrow> ptr go_mem" where
  "VolumeGroupContentSpec_DeepCopy =
     copy_pointer the_VolumeGroupContentSpec VolumeGroupContentSpecCell VolumeGroupContentSpec_DeepCopyInto"

definition VolumeGroupContentStatus_DeepCopyInto ::
    "kubernetes_lib \<Rightarrow> VolumeGroupContentStatus_mem \<Rightarrow> VolumeGroupContentStatus_mem go_mem" where
  "VolumeGroupContentStatus_DeepCopyInto k s = do {
     created \<leftarrow> copy_time k (mVgcGroupCreationTime s);
     pvs \<leftarrow> copy_slice the_PVs PVsCell (PersistentVolume_DeepCopyInto k) (mPVList s);
     ready \<leftarrow> copy_bool (mVgcReady s);
     err \<leftarrow> copy_pointer the_VolumeGroupError VolumeGroupErrorCell (VolumeGroupError_DeepCopyInto k) (mVgcError s);
     State_Monad.return (s\<lparr>mVgcGroupCreationTime := created, mPVList := pvs, mVgcReady := ready, mVgcError := err\<rparr>) }"

definition VolumeGroupContentStatus_DeepCopy :: "kubernetes_lib \<Rightarrow> ptr \<Rightarrow> ptr go_mem" where
  "VolumeGroupContentStatus_DeepCopy k =
     copy_pointer the_VolumeGroupContentStatus VolumeGroupContentStatusCell (VolumeGroupContentStatus_DeepCopyInto k)"

definition VolumeGroupContent_DeepCopyInto :: "kubernetes_lib \<Rightarrow> VolumeGroupContent_mem \<Rightarrow> VolumeGroupContent_mem go_mem" where
  "VolumeGroupContent_DeepCopyInto k s = do {
     m \<leftarrow> ObjectMeta_DeepCopyInto k (mVgcMeta s);
     spec \<leftarrow> VolumeGroupContentSpec_DeepCopyInto (mVgcSpec s);
     status \<leftarrow> VolumeGroupContentStatus_DeepCopyInto k (mVgcStatus s);
     State_Monad.return (s\<lparr>mVgcTypeMeta := mVgcTypeMeta s, mVgcMeta := m, mVgcSpec := spec, mVgcStatus := status\<rparr>) }"

definition VolumeGroupContent_DeepCopy :: "kubernetes_lib \<Rightarrow> ptr \<Rightarrow> ptr go_mem" where
  "VolumeGroupContent_DeepCopy k =
     copy_pointer the_VolumeGroupContent VolumeGroupContentCell (VolumeGroupContent_DeepCopyInto k)"

definition VolumeGroupContentList_DeepCopyInto :: "kubernetes_lib \<Rightarrow> List_mem \<Rightarrow> List_mem go_mem" where
  "VolumeGroupContentList_DeepCopyInto k s = do {
     m \<leftarrow> ListMeta_DeepCopyInto k (mListMeta s);
     items \<leftarrow> copy_slice the_VolumeGroupContents VolumeGroupContentsCell (VolumeGroupContent_DeepCopyInto k) (mItems s);
     State_Monad.return (s\<lparr>mListTypeMeta := mListTypeMeta s, mListMeta := m, mItems := items\<rparr>) }"

definition VolumeGroupContentList_DeepCopy :: "kubernetes_lib \<Rightarrow> ptr \<Rightarrow> ptr go_mem" where
  "VolumeGroupContentList_DeepCopy k =
     copy_pointer the_VolumeGroupContentList VolumeGroupContentListCell (VolumeGroupContentList_DeepCopyInto k)"

section \<open>Objects behind an interface\<close>

text \<open>
  A value of the interface \<open>runtime.Object\<close> is nil, or it holds a pointer of some type, which may be nil
  itself: an interface that holds a nil pointer is not nil.
\<close>

datatype api_type = GroupType | GroupListType | ClassType | ClassListType | ContentType | ContentListType

datatype runtime_Object = NilObject | Holding api_type ptr

text \<open>\<open>if c := in.DeepCopy(); c != nil { return c }; return nil\<close>, for the six types that have it.\<close>

definition object_of :: "api_type \<Rightarrow> ptr \<Rightarrow> runtime_Object" where
  "object_of ty c = (if c \<noteq> None then Holding ty c else NilObject)"

definition VolumeGroup_DeepCopyObject :: "kubernetes_lib \<Rightarrow> ptr \<Rightarrow> runtime_Object go_mem" where
  "VolumeGroup_DeepCopyObject k p = State_Monad.bind (VolumeGroup_DeepCopy k p) (\<lambda>c. State_Monad.return (object_of GroupType c))"

definition VolumeGroupList_DeepCopyObject :: "kubernetes_lib \<Rightarrow> ptr \<Rightarrow> runtime_Object go_mem" where
  "VolumeGroupList_DeepCopyObject k p =
     State_Monad.bind (VolumeGroupList_DeepCopy k p) (\<lambda>c. State_Monad.return (object_of GroupListType c))"

definition VolumeGroupClass_DeepCopyObject :: "kubernetes_lib \<Rightarrow> ptr \<Rightarrow> runtime_Object go_mem" where
  "VolumeGroupClass_DeepCopyObject k p =
     State_Monad.bind (VolumeGroupClass_DeepCopy k p) (\<lambda>c. State_Monad.return (object_of ClassType c))"

definition VolumeGroupClassList_DeepCopyObject :: "kubernetes_lib \<Rightarrow> ptr \<Rightarrow> runtime_Object go_mem" where
  "VolumeGroupClassList_DeepCopyObject k p =
     State_Monad.bind (VolumeGroupClassList_DeepCopy k p) (\<lambda>c. State_Monad.return (object_of ClassListType c))"

definition VolumeGroupContent_DeepCopyObject :: "kubernetes_lib \<Rightarrow> ptr \<Rightarrow> runtime_Object go_mem" where
  "VolumeGroupContent_DeepCopyObject k p =
     State_Monad.bind (VolumeGroupContent_DeepCopy k p) (\<lambda>c. State_Monad.return (object_of ContentType c))"

definition VolumeGroupContentList_DeepCopyObject :: "kubernetes_lib \<Rightarrow> ptr \<Rightarrow> runtime_Object go_mem" where
  "VolumeGroupContentList_DeepCopyObject k p =
     State_Monad.bind (VolumeGroupContentList_DeepCopy k p) (\<lambda>c. State_Monad.return (object_of ContentListType c))"

end
