(* ===== verification/Deep_Copy_Spec.thy ===== *)
theory Deep_Copy_Spec
  imports Deep_Copy
begin

text \<open>
  Every deep copy is a copy: as \<open>copier\<close> for fields without library code, and for each struct as a
  sublocale of \<open>kubernetes\<close>, from the fields up to the objects and lists.
\<close>

section \<open>Fields\<close>

lemma copier_slice:
  assumes "copier val copy" and "\<And>s. sel (mk s) = Some s"
  shows "copier (slice sel val) (copy_slice sel mk copy)"
  unfolding slice_def [abs_def] by (intro copier_image copier_pointer copier_each assms)

interpretation strings: copier string_value copy_string
  by (rule copier_pointer [OF plain.copier_axioms]) (simp add: the_cell)

interpretation bools: copier bool_value copy_bool
  by (rule copier_pointer [OF plain.copier_axioms]) (simp add: the_cell)

interpretation references: copier "pointee the_ObjectReference plain" copy_ObjectReference
  by (rule copier_pointer [OF plain.copier_axioms]) (simp add: the_cell)

interpretation secrets: copier "pointee the_SecretReference plain" copy_SecretReference
  by (rule copier_pointer [OF plain.copier_axioms]) (simp add: the_cell)

lemma update_new: "key \<notin> fst ` set m \<Longrightarrow> AList.update key v m = m @ [(key, v)]"
  by (induction m) auto

lemma range_into_append: "distinct (map fst (out @ m)) \<Longrightarrow> range_into m out = out @ m"
proof (induction m arbitrary: out)
  case (Cons e m)
  then show ?case by (cases e) (simp add: update_new)
qed simp

interpretation maps: copier map_value copy_map
proof (rule copierI [OF entries.reader_axioms])
  fix h p v assume v: "map_value h p = Some v"
  show "yields (copy_map p) h (\<lambda>g q. map_value g q = Some v)"
  proof (cases p)
    case None
    with v show ?thesis by (auto simp: copy_map_def map_value_def pointee_def intro: yields_return)
  next
    case (Some a)
    with v have m: "load the_Map h a = Some v" "distinct (map fst v)"
      by (auto simp: map_value_def pointee_def bind_eq_Some_conv plain_def or_empty_def load_def the_Map_def split: cell.splits if_splits)
    have "run_state (copy_map p) h = (Some (length h), h @ [MapCell v])"
      using Some m range_into_append [of "[]" v] by (simp add: copy_map_def new_into_def)
    with m(2) show ?thesis
      unfolding yields_def
      by (auto simp: map_value_def pointee_def load_def nth_append the_Map_def plain_def or_empty_def)
  qed
qed

sublocale kubernetes \<subseteq> times: copier time_value "copy_time k"
proof (rule copierI [OF Time.reader_axioms])
  show "yields (copy_time k p) h (\<lambda>g q. time_value g q = Some v)" if "time_value h p = Some v" for h p v
    using that Time.copies [OF that] by (cases p) (auto simp: copy_time_def pointee_def intro: yields_return)
qed

section \<open>Structs\<close>

lemmas grow_all = strings.grow bools.grow references.grow secrets.grow grow_plain grow_error
  ObjectMeta.grow ListMeta.grow LabelSelector.grow_pointee VolumeGroupSource.grow VolumeGroupSpec.grow VolumeGroupStatus.grow
  VolumeGroupContentSource.grow_pointee VolumeGroupContentSpec.grow VolumeGroupContentStatus.grow
  reader.grow [OF reader_slice [OF PersistentVolumeClaim.reader_axioms]]
  reader.grow [OF reader_slice [OF PersistentVolume.reader_axioms]]
  reader.grow [OF reader_slice [OF VolumeGroup.reader_axioms]]
  reader.grow [OF reader_slice [OF VolumeGroupClass.reader_axioms]]
  reader.grow [OF reader_slice [OF VolumeGroupContent.reader_axioms]]

lemmas copy_fields = strings.copy_then bools.copy_then references.copy_then secrets.copy_then maps.copy_then

sublocale kubernetes \<subseteq> VGError: copier VolumeGroupError_value "VolumeGroupError_DeepCopyInto k"
proof (rule copierI [OF VolumeGroupError.reader_axioms])
  show "yields (VolumeGroupError_DeepCopyInto k s) h (\<lambda>g s'. VolumeGroupError_value g s' = Some v)" if "VolumeGroupError_value h s = Some v" for h s v
    using that unfolding VolumeGroupError_DeepCopyInto_def
    by (auto simp: VolumeGroupError_value_def bind_eq_Some_conv intro!: times.copy_then copy_fields yields_return intro: grow_all)
qed

sublocale kubernetes \<subseteq> errors: copier "pointee the_VolumeGroupError VolumeGroupError_value" "copy_pointer the_VolumeGroupError VolumeGroupErrorCell (VolumeGroupError_DeepCopyInto k)"
  by (rule copier_pointer [OF VGError.copier_axioms]) (simp add: the_cell)

sublocale kubernetes \<subseteq> selectors: copier "pointee the_LabelSelector LabelSelector_value" "copy_pointer the_LabelSelector LabelSelectorCell (LabelSelector_DeepCopyInto k)"
  by (rule copier_pointer [OF LabelSelector.copier_axioms]) (simp add: the_cell)

sublocale kubernetes \<subseteq> claims: copier "slice the_PVCs PersistentVolumeClaim_value" "copy_slice the_PVCs PVCsCell (PersistentVolumeClaim_DeepCopyInto k)"
  by (rule copier_slice [OF PersistentVolumeClaim.copier_axioms]) (simp add: the_cell)

sublocale kubernetes \<subseteq> volumes: copier "slice the_PVs PersistentVolume_value" "copy_slice the_PVs PVsCell (PersistentVolume_DeepCopyInto k)"
  by (rule copier_slice [OF PersistentVolume.copier_axioms]) (simp add: the_cell)

sublocale kubernetes \<subseteq> VGSource: copier VolumeGroupSource_value "VolumeGroupSource_DeepCopyInto k"
proof (rule copierI [OF VolumeGroupSource.reader_axioms])
  show "yields (VolumeGroupSource_DeepCopyInto k s) h (\<lambda>g s'. VolumeGroupSource_value g s' = Some v)" if "VolumeGroupSource_value h s = Some v" for h s v
    using that unfolding VolumeGroupSource_DeepCopyInto_def
    by (auto simp: VolumeGroupSource_value_def bind_eq_Some_conv intro!: selectors.copy_then copy_fields yields_return intro: grow_all)
qed

sublocale kubernetes \<subseteq> VGSpec: copier VolumeGroupSpec_value "VolumeGroupSpec_DeepCopyInto k"
proof (rule copierI [OF VolumeGroupSpec.reader_axioms])
  show "yields (VolumeGroupSpec_DeepCopyInto k s) h (\<lambda>g s'. VolumeGroupSpec_value g s' = Some v)" if "VolumeGroupSpec_value h s = Some v" for h s v
    using that unfolding VolumeGroupSpec_DeepCopyInto_def
    by (auto simp: VolumeGroupSpec_value_def bind_eq_Some_conv intro!: VGSource.copy_then copy_fields yields_return intro: grow_all)
qed

sublocale kubernetes \<subseteq> VGStatus: copier VolumeGroupStatus_value "VolumeGroupStatus_DeepCopyInto k"
proof (rule copierI [OF VolumeGroupStatus.reader_axioms])
  show "yields (VolumeGroupStatus_DeepCopyInto k s) h (\<lambda>g s'. VolumeGroupStatus_value g s' = Some v)" if "VolumeGroupStatus_value h s = Some v" for h s v
    using that unfolding VolumeGroupStatus_DeepCopyInto_def
    by (auto simp: VolumeGroupStatus_value_def bind_eq_Some_conv intro!: times.copy_then claims.copy_then errors.copy_then copy_fields yields_return intro: grow_all)
qed

sublocale kubernetes \<subseteq> VG: copier VolumeGroup_value "VolumeGroup_DeepCopyInto k"
proof (rule copierI [OF VolumeGroup.reader_axioms])
  show "yields (VolumeGroup_DeepCopyInto k s) h (\<lambda>g s'. VolumeGroup_value g s' = Some v)" if "VolumeGroup_value h s = Some v" for h s v
    using that unfolding VolumeGroup_DeepCopyInto_def
    by (auto simp: VolumeGroup_value_def bind_eq_Some_conv intro!: ObjectMeta.copy_then VGSpec.copy_then VGStatus.copy_then yields_return intro: grow_all)
qed

sublocale kubernetes \<subseteq> groups: copier "slice the_VolumeGroups VolumeGroup_value" "copy_slice the_VolumeGroups VolumeGroupsCell (VolumeGroup_DeepCopyInto k)"
  by (rule copier_slice [OF VG.copier_axioms]) (simp add: the_cell)

sublocale kubernetes \<subseteq> VGClass: copier VolumeGroupClass_value "VolumeGroupClass_DeepCopyInto k"
proof (rule copierI [OF VolumeGroupClass.reader_axioms])
  show "yields (VolumeGroupClass_DeepCopyInto k s) h (\<lambda>g s'. VolumeGroupClass_value g s' = Some v)" if "VolumeGroupClass_value h s = Some v" for h s v
    using that unfolding VolumeGroupClass_DeepCopyInto_def
    by (auto simp: VolumeGroupClass_value_def bind_eq_Some_conv intro!: ObjectMeta.copy_then copy_fields yields_return intro: grow_all)
qed

sublocale kubernetes \<subseteq> classes: copier "slice the_VolumeGroupClasses VolumeGroupClass_value" "copy_slice the_VolumeGroupClasses VolumeGroupClassesCell (VolumeGroupClass_DeepCopyInto k)"
  by (rule copier_slice [OF VGClass.copier_axioms]) (simp add: the_cell)

interpretation VGCSource: copier VolumeGroupContentSource_value VolumeGroupContentSource_DeepCopyInto
proof (rule copierI [OF VolumeGroupContentSource.reader_axioms])
  show "yields (VolumeGroupContentSource_DeepCopyInto s) h (\<lambda>g s'. VolumeGroupContentSource_value g s' = Some v)" if "VolumeGroupContentSource_value h s = Some v" for h s v
    using that unfolding VolumeGroupContentSource_DeepCopyInto_def
    by (auto simp: VolumeGroupContentSource_value_def bind_eq_Some_conv intro!: copy_fields yields_return intro: grow_all)
qed

interpretation sources: copier "pointee the_VolumeGroupContentSource VolumeGroupContentSource_value" "copy_pointer the_VolumeGroupContentSource VolumeGroupContentSourceCell VolumeGroupContentSource_DeepCopyInto"
  by (rule copier_pointer [OF VGCSource.copier_axioms]) (simp add: the_cell)

interpretation VGCSpec: copier VolumeGroupContentSpec_value VolumeGroupContentSpec_DeepCopyInto
proof (rule copierI [OF VolumeGroupContentSpec.reader_axioms])
  show "yields (VolumeGroupContentSpec_DeepCopyInto s) h (\<lambda>g s'. VolumeGroupContentSpec_value g s' = Some v)" if "VolumeGroupContentSpec_value h s = Some v" for h s v
    using that unfolding VolumeGroupContentSpec_DeepCopyInto_def
    by (auto simp: VolumeGroupContentSpec_value_def bind_eq_Some_conv intro!: sources.copy_then copy_fields yields_return intro: grow_all)
qed

sublocale kubernetes \<subseteq> VGCStatus: copier VolumeGroupContentStatus_value "VolumeGroupContentStatus_DeepCopyInto k"
proof (rule copierI [OF VolumeGroupContentStatus.reader_axioms])
  show "yields (VolumeGroupContentStatus_DeepCopyInto k s) h (\<lambda>g s'. VolumeGroupContentStatus_value g s' = Some v)" if "VolumeGroupContentStatus_value h s = Some v" for h s v
    using that unfolding VolumeGroupContentStatus_DeepCopyInto_def
    by (auto simp: VolumeGroupContentStatus_value_def bind_eq_Some_conv intro!: times.copy_then volumes.copy_then errors.copy_then copy_fields yields_return intro: grow_all)
qed

sublocale kubernetes \<subseteq> VGC: copier VolumeGroupContent_value "VolumeGroupContent_DeepCopyInto k"
proof (rule copierI [OF VolumeGroupContent.reader_axioms])
  show "yields (VolumeGroupContent_DeepCopyInto k s) h (\<lambda>g s'. VolumeGroupContent_value g s' = Some v)" if "VolumeGroupContent_value h s = Some v" for h s v
    using that unfolding VolumeGroupContent_DeepCopyInto_def
    by (auto simp: VolumeGroupContent_value_def bind_eq_Some_conv intro!: ObjectMeta.copy_then VGCSpec.copy_then VGCStatus.copy_then yields_return intro: grow_all)
qed

sublocale kubernetes \<subseteq> contents: copier "slice the_VolumeGroupContents VolumeGroupContent_value" "copy_slice the_VolumeGroupContents VolumeGroupContentsCell (VolumeGroupContent_DeepCopyInto k)"
  by (rule copier_slice [OF VGC.copier_axioms]) (simp add: the_cell)

sublocale kubernetes \<subseteq> VGList: copier "List_value the_VolumeGroups VolumeGroup_value" "VolumeGroupList_DeepCopyInto k"
proof (rule copierI [OF reader_List [OF VolumeGroup.reader_axioms]])
  show "yields (VolumeGroupList_DeepCopyInto k s) h (\<lambda>g s'. List_value the_VolumeGroups VolumeGroup_value g s' = Some v)"
    if "List_value the_VolumeGroups VolumeGroup_value h s = Some v" for h s v
    using that unfolding VolumeGroupList_DeepCopyInto_def
    by (auto simp: List_value_def bind_eq_Some_conv intro!: ListMeta.copy_then groups.copy_then yields_return intro: grow_all)
qed

sublocale kubernetes \<subseteq> VGClassList: copier "List_value the_VolumeGroupClasses VolumeGroupClass_value" "VolumeGroupClassList_DeepCopyInto k"
proof (rule copierI [OF reader_List [OF VolumeGroupClass.reader_axioms]])
  show "yields (VolumeGroupClassList_DeepCopyInto k s) h (\<lambda>g s'. List_value the_VolumeGroupClasses VolumeGroupClass_value g s' = Some v)"
    if "List_value the_VolumeGroupClasses VolumeGroupClass_value h s = Some v" for h s v
    using that unfolding VolumeGroupClassList_DeepCopyInto_def
    by (auto simp: List_value_def bind_eq_Some_conv intro!: ListMeta.copy_then classes.copy_then yields_return intro: grow_all)
qed

sublocale kubernetes \<subseteq> VGCList: copier "List_value the_VolumeGroupContents VolumeGroupContent_value" "VolumeGroupContentList_DeepCopyInto k"
proof (rule copierI [OF reader_List [OF VolumeGroupContent.reader_axioms]])
  show "yields (VolumeGroupContentList_DeepCopyInto k s) h (\<lambda>g s'. List_value the_VolumeGroupContents VolumeGroupContent_value g s' = Some v)"
    if "List_value the_VolumeGroupContents VolumeGroupContent_value h s = Some v" for h s v
    using that unfolding VolumeGroupContentList_DeepCopyInto_def
    by (auto simp: List_value_def bind_eq_Some_conv intro!: ListMeta.copy_then contents.copy_then yields_return intro: grow_all)
qed

section \<open>Through a pointer\<close>

abbreviation VolumeGroup_at :: "memory \<Rightarrow> ptr \<Rightarrow> VolumeGroup option option" where
  "VolumeGroup_at \<equiv> pointee the_VolumeGroup (VolumeGroup_value)"

abbreviation VolumeGroupList_at :: "memory \<Rightarrow> ptr \<Rightarrow> VolumeGroupList option option" where
  "VolumeGroupList_at \<equiv> pointee the_VolumeGroupList (List_value the_VolumeGroups VolumeGroup_value)"

abbreviation VolumeGroupClass_at :: "memory \<Rightarrow> ptr \<Rightarrow> VolumeGroupClass option option" where
  "VolumeGroupClass_at \<equiv> pointee the_VolumeGroupClass (VolumeGroupClass_value)"

abbreviation VolumeGroupClassList_at :: "memory \<Rightarrow> ptr \<Rightarrow> VolumeGroupClassList option option" where
  "VolumeGroupClassList_at \<equiv> pointee the_VolumeGroupClassList (List_value the_VolumeGroupClasses VolumeGroupClass_value)"

abbreviation VolumeGroupContent_at :: "memory \<Rightarrow> ptr \<Rightarrow> VolumeGroupContent option option" where
  "VolumeGroupContent_at \<equiv> pointee the_VolumeGroupContent (VolumeGroupContent_value)"

abbreviation VolumeGroupContentList_at :: "memory \<Rightarrow> ptr \<Rightarrow> VolumeGroupContentList option option" where
  "VolumeGroupContentList_at \<equiv> pointee the_VolumeGroupContentList (List_value the_VolumeGroupContents VolumeGroupContent_value)"

abbreviation VolumeGroupError_at :: "memory \<Rightarrow> ptr \<Rightarrow> VolumeGroupError option option" where
  "VolumeGroupError_at \<equiv> pointee the_VolumeGroupError (VolumeGroupError_value)"

abbreviation VolumeGroupSource_at :: "memory \<Rightarrow> ptr \<Rightarrow> VolumeGroupSource option option" where
  "VolumeGroupSource_at \<equiv> pointee the_VolumeGroupSource (VolumeGroupSource_value)"

abbreviation VolumeGroupSpec_at :: "memory \<Rightarrow> ptr \<Rightarrow> VolumeGroupSpec option option" where
  "VolumeGroupSpec_at \<equiv> pointee the_VolumeGroupSpec (VolumeGroupSpec_value)"

abbreviation VolumeGroupStatus_at :: "memory \<Rightarrow> ptr \<Rightarrow> VolumeGroupStatus option option" where
  "VolumeGroupStatus_at \<equiv> pointee the_VolumeGroupStatus (VolumeGroupStatus_value)"

abbreviation VolumeGroupContentSource_at :: "memory \<Rightarrow> ptr \<Rightarrow> VolumeGroupContentSource option option" where
  "VolumeGroupContentSource_at \<equiv> pointee the_VolumeGroupContentSource (VolumeGroupContentSource_value)"

abbreviation VolumeGroupContentSpec_at :: "memory \<Rightarrow> ptr \<Rightarrow> VolumeGroupContentSpec option option" where
  "VolumeGroupContentSpec_at \<equiv> pointee the_VolumeGroupContentSpec (VolumeGroupContentSpec_value)"

abbreviation VolumeGroupContentStatus_at :: "memory \<Rightarrow> ptr \<Rightarrow> VolumeGroupContentStatus option option" where
  "VolumeGroupContentStatus_at \<equiv> pointee the_VolumeGroupContentStatus (VolumeGroupContentStatus_value)"

lemmas DeepCopy_defs = VolumeGroup_DeepCopy_def VolumeGroupList_DeepCopy_def VolumeGroupClass_DeepCopy_def VolumeGroupClassList_DeepCopy_def VolumeGroupContent_DeepCopy_def VolumeGroupContentList_DeepCopy_def VolumeGroupError_DeepCopy_def VolumeGroupSource_DeepCopy_def VolumeGroupSpec_DeepCopy_def VolumeGroupStatus_DeepCopy_def VolumeGroupContentSource_DeepCopy_def VolumeGroupContentSpec_DeepCopy_def VolumeGroupContentStatus_DeepCopy_def

context kubernetes
begin

lemma all_apart:
  shows "VolumeGroup_at h (Some a) = Some (Some v0) \<Longrightarrow> copied_apart VolumeGroup_at (VolumeGroup_DeepCopy k) h a v0"
    and "VolumeGroupList_at h (Some a) = Some (Some v1) \<Longrightarrow> copied_apart VolumeGroupList_at (VolumeGroupList_DeepCopy k) h a v1"
    and "VolumeGroupClass_at h (Some a) = Some (Some v2) \<Longrightarrow> copied_apart VolumeGroupClass_at (VolumeGroupClass_DeepCopy k) h a v2"
    and "VolumeGroupClassList_at h (Some a) = Some (Some v3) \<Longrightarrow> copied_apart VolumeGroupClassList_at (VolumeGroupClassList_DeepCopy k) h a v3"
    and "VolumeGroupContent_at h (Some a) = Some (Some v4) \<Longrightarrow> copied_apart VolumeGroupContent_at (VolumeGroupContent_DeepCopy k) h a v4"
    and "VolumeGroupContentList_at h (Some a) = Some (Some v5) \<Longrightarrow> copied_apart VolumeGroupContentList_at (VolumeGroupContentList_DeepCopy k) h a v5"
    and "VolumeGroupError_at h (Some a) = Some (Some v6) \<Longrightarrow> copied_apart VolumeGroupError_at (VolumeGroupError_DeepCopy k) h a v6"
    and "VolumeGroupSource_at h (Some a) = Some (Some v7) \<Longrightarrow> copied_apart VolumeGroupSource_at (VolumeGroupSource_DeepCopy k) h a v7"
    and "VolumeGroupSpec_at h (Some a) = Some (Some v8) \<Longrightarrow> copied_apart VolumeGroupSpec_at (VolumeGroupSpec_DeepCopy k) h a v8"
    and "VolumeGroupStatus_at h (Some a) = Some (Some v9) \<Longrightarrow> copied_apart VolumeGroupStatus_at (VolumeGroupStatus_DeepCopy k) h a v9"
    and "VolumeGroupContentSource_at h (Some a) = Some (Some v10) \<Longrightarrow> copied_apart VolumeGroupContentSource_at VolumeGroupContentSource_DeepCopy h a v10"
    and "VolumeGroupContentSpec_at h (Some a) = Some (Some v11) \<Longrightarrow> copied_apart VolumeGroupContentSpec_at VolumeGroupContentSpec_DeepCopy h a v11"
    and "VolumeGroupContentStatus_at h (Some a) = Some (Some v12) \<Longrightarrow> copied_apart VolumeGroupContentStatus_at (VolumeGroupContentStatus_DeepCopy k) h a v12"
  unfolding DeepCopy_defs
  by ((rule VG.apart VGList.apart VGClass.apart VGClassList.apart VGC.apart VGCList.apart VGError.apart VGSource.apart VGSpec.apart VGStatus.apart VGCSource.apart VGCSpec.apart VGCStatus.apart; simp add: the_cell)+)

end

end
