(* ===== verification/Copy_Properties.thy ===== *)
theory Copy_Properties
  imports Deep_Copy_Spec
begin

text \<open>
  Properties of the generated deep copies, and a library of Kubernetes copies and a memory on which
  they are tried out.
\<close>

section \<open>A library and a memory\<close>

definition copy_ObjectMeta :: "ObjectMeta_mem \<Rightarrow> ObjectMeta_mem go_mem" where
  "copy_ObjectMeta s = do {
     labels \<leftarrow> copy_map (mLabels s);
     annotations \<leftarrow> copy_map (mAnnotations s);
     finalizers \<leftarrow> copy_slice the_Strings StringsCell State_Monad.return (mFinalizers s);
     deleted \<leftarrow> copy_pointer the_Time TimeCell State_Monad.return (mDeletionTimestamp s);
     State_Monad.return (s\<lparr>mLabels := labels, mAnnotations := annotations, mFinalizers := finalizers, mDeletionTimestamp := deleted\<rparr>) }"

definition copying_library :: kubernetes_lib where
  "copying_library = \<lparr>
     ObjectMeta_DeepCopyInto = copy_ObjectMeta,
     ListMeta_DeepCopyInto = (\<lambda>s. do {
       remaining \<leftarrow> copy_pointer the_Int IntCell State_Monad.return (mRemainingItemCount s);
       State_Monad.return (s\<lparr>mRemainingItemCount := remaining\<rparr>) }),
     LabelSelector_DeepCopyInto = (\<lambda>s. do {
       labels \<leftarrow> copy_map (mMatchLabels s);
       expressions \<leftarrow> copy_slice the_Requirements RequirementsCell State_Monad.return (mMatchExpressions s);
       State_Monad.return (s\<lparr>mMatchLabels := labels, mMatchExpressions := expressions\<rparr>) }),
     PersistentVolumeClaim_DeepCopyInto = (\<lambda>s. do {
       m \<leftarrow> copy_ObjectMeta (mPVCMeta s);
       sc \<leftarrow> copy_string (mPVCStorageClassName s);
       rest \<leftarrow> copy_slice the_String StringCell State_Monad.return (mPVCRest s);
       State_Monad.return (s\<lparr>mPVCMeta := m, mPVCStorageClassName := sc, mPVCRest := rest\<rparr>) }),
     PersistentVolume_DeepCopyInto = (\<lambda>s. do {
       m \<leftarrow> copy_ObjectMeta (mPVMeta s);
       source \<leftarrow> copy_string (mPVCSI s);
       claim \<leftarrow> copy_ObjectReference (mPVClaimRef s);
       rest \<leftarrow> copy_slice the_String StringCell State_Monad.return (mPVRest s);
       State_Monad.return (s\<lparr>mPVMeta := m, mPVCSI := source, mPVClaimRef := claim, mPVRest := rest\<rparr>) }),
     Time_DeepCopy = copy_pointer the_Time TimeCell State_Monad.return\<rparr>"

lemma plain_copiers:
  "copier (pointee the_Time plain) (copy_pointer the_Time TimeCell State_Monad.return)"
  "copier (pointee the_Int plain) (copy_pointer the_Int IntCell State_Monad.return)"
  "copier (slice the_Strings plain) (copy_slice the_Strings StringsCell State_Monad.return)"
  "copier (slice the_Requirements plain) (copy_slice the_Requirements RequirementsCell State_Monad.return)"
  "copier (slice the_String plain) (copy_slice the_String StringCell State_Monad.return)"
  by (intro copier_pointer copier_slice plain.copier_axioms; simp add: the_cell)+

lemmas copy_plain = copy_fields plain_copiers [THEN copier.copy_then]

interpretation copied_meta: copier ObjectMeta_value copy_ObjectMeta
proof (rule copierI [OF ObjectMeta.reader_axioms])
  show "yields (copy_ObjectMeta s) h (\<lambda>g s'. ObjectMeta_value g s' = Some v)" if "ObjectMeta_value h s = Some v" for h s v
    using that unfolding copy_ObjectMeta_def
    by (auto simp: ObjectMeta_value_def bind_eq_Some_conv intro!: copy_plain yields_return intro: grow_all)
qed

lemmas copied_value_defs = ListMeta_value_def LabelSelector_value_def PersistentVolumeClaim_value_def PersistentVolume_value_def

interpretation copying: kubernetes copying_library
  by unfold_locales (auto simp: copying_library_def copied_value_defs bind_eq_Some_conv
    intro!: copied_meta.copy_then copy_plain copied_meta.copies copier.copies [OF plain_copiers(1)] yields_return intro: grow_all)

text \<open>A group and a claim in its list; both have the same map of labels, which the selector has, too.\<close>

definition meta_mem :: "string \<Rightarrow> ObjectMeta_mem" where
  "meta_mem name = \<lparr>mName = name, mNamespace = ''n'', mUID = name, mResourceVersion = '''', mLabels = Some 0, mAnnotations = None,
     mFinalizers = Some 1, mDeletionTimestamp = None\<rparr>"

definition shared_memory :: memory where
  "shared_memory =
     [MapCell [(''l'', ''x'')], StringsCell [''f''], LabelSelectorCell \<lparr>mMatchLabels = Some 0, mMatchExpressions = None\<rparr>,
      StringCell ''c'', BoolCell True,
      PVCsCell [\<lparr>mPVCTypeMeta = TypeMeta0, mPVCMeta = meta_mem ''A'', mPVCStorageClassName = Some 3, mPVCVolumeName = ''a'',
        mPVCPhase = ClaimBound, mPVCRest = None\<rparr>],
      VolumeGroupCell \<lparr>mVgTypeMeta = TypeMeta0, mVgMeta = meta_mem ''g'',
        mVgSpec = \<lparr>mVgVolumeGroupClassName = Some 3, mVgSource = \<lparr>mSrcVolumeGroupContentName = None, mSelector = Some 2\<rparr>\<rparr>,
        mVgStatus = \<lparr>mBoundVolumeGroupContentName = None, mVgGroupCreationTime = None, mPVCList = Some 5, mVgReady = Some 4, mVgError = None\<rparr>\<rparr>]"

definition shared_group :: VolumeGroup where
  "shared_group = the (the (VolumeGroup_at shared_memory (Some 6)))"

lemma shared_group: "VolumeGroup_at shared_memory (Some 6) = Some (Some shared_group)"
  by code_simp

section \<open>Copies\<close>

text \<open>
  C20. The deep copies copy: when the object behind a pointer reads as some value, a deep copy
  allocates an object that reads as the same value and changes no cell that was there. The two share
  nothing: stores into old cells do not change what the copy reads as, stores into new cells not what
  the original reads as. So for all thirteen types.
\<close>

theorem deep_copies_are_apart:
  assumes "kubernetes k"
  shows "(VolumeGroup_at h (Some a) = Some (Some vg) \<longrightarrow> copied_apart VolumeGroup_at (VolumeGroup_DeepCopy k) h a vg) \<and>
    (VolumeGroupList_at h (Some a) = Some (Some vgs) \<longrightarrow> copied_apart VolumeGroupList_at (VolumeGroupList_DeepCopy k) h a vgs) \<and>
    (VolumeGroupClass_at h (Some a) = Some (Some vgClass) \<longrightarrow> copied_apart VolumeGroupClass_at (VolumeGroupClass_DeepCopy k) h a vgClass) \<and>
    (VolumeGroupClassList_at h (Some a) = Some (Some classes) \<longrightarrow> copied_apart VolumeGroupClassList_at (VolumeGroupClassList_DeepCopy k) h a classes) \<and>
    (VolumeGroupContent_at h (Some a) = Some (Some vgc) \<longrightarrow> copied_apart VolumeGroupContent_at (VolumeGroupContent_DeepCopy k) h a vgc) \<and>
    (VolumeGroupContentList_at h (Some a) = Some (Some vgcs) \<longrightarrow> copied_apart VolumeGroupContentList_at (VolumeGroupContentList_DeepCopy k) h a vgcs) \<and>
    (VolumeGroupError_at h (Some a) = Some (Some err) \<longrightarrow> copied_apart VolumeGroupError_at (VolumeGroupError_DeepCopy k) h a err) \<and>
    (VolumeGroupSource_at h (Some a) = Some (Some src) \<longrightarrow> copied_apart VolumeGroupSource_at (VolumeGroupSource_DeepCopy k) h a src) \<and>
    (VolumeGroupSpec_at h (Some a) = Some (Some spec) \<longrightarrow> copied_apart VolumeGroupSpec_at (VolumeGroupSpec_DeepCopy k) h a spec) \<and>
    (VolumeGroupStatus_at h (Some a) = Some (Some status) \<longrightarrow> copied_apart VolumeGroupStatus_at (VolumeGroupStatus_DeepCopy k) h a status) \<and>
    (VolumeGroupContentSource_at h (Some a) = Some (Some csrc) \<longrightarrow> copied_apart VolumeGroupContentSource_at VolumeGroupContentSource_DeepCopy h a csrc) \<and>
    (VolumeGroupContentSpec_at h (Some a) = Some (Some cspec) \<longrightarrow> copied_apart VolumeGroupContentSpec_at VolumeGroupContentSpec_DeepCopy h a cspec) \<and>
    (VolumeGroupContentStatus_at h (Some a) = Some (Some cstatus) \<longrightarrow> copied_apart VolumeGroupContentStatus_at (VolumeGroupContentStatus_DeepCopy k) h a cstatus)"
  by (intro conjI impI) (erule kubernetes.all_apart [OF assms])+

theorem deep_copies_are_apart_witness:
  "copied_apart VolumeGroup_at (VolumeGroup_DeepCopy copying_library) shared_memory 6 shared_group"
  using deep_copies_are_apart [OF copying.kubernetes_axioms] shared_group by blast

definition is_copy_object :: "api_type \<Rightarrow> (ptr \<Rightarrow> ptr go_mem) \<Rightarrow> (ptr \<Rightarrow> runtime_Object go_mem) \<Rightarrow> memory \<Rightarrow> ptr \<Rightarrow> bool" where
  "is_copy_object ty copy copy_object h p \<longleftrightarrow>
     (case p of None \<Rightarrow> run_state (copy_object p) h = (NilObject, h)
      | Some a \<Rightarrow> (\<exists>b h'. run_state (copy p) h = (Some b, h') \<and> run_state (copy_object p) h = (Holding ty (Some b), h')))"

lemma is_copy_objectI:
  "is_copy_object ty (copy_pointer sel mk copy) (\<lambda>p. State_Monad.bind (copy_pointer sel mk copy p) (\<lambda>c. State_Monad.return (object_of ty c))) h p"
  by (cases p) (auto simp: is_copy_object_def copy_pointer_def new_into_def object_of_def split: option.split prod.split)

text \<open>
  C38. As a \<open>runtime.Object\<close> a copy of a nil pointer is the nil interface, never an interface that
  holds a nil pointer, and memory stays as it is; any other copy is an interface that holds the copy
  with its own type.
\<close>

theorem copies_as_objects:
  "is_copy_object GroupType (VolumeGroup_DeepCopy k) (VolumeGroup_DeepCopyObject k) h p \<and>
   is_copy_object GroupListType (VolumeGroupList_DeepCopy k) (VolumeGroupList_DeepCopyObject k) h p \<and>
   is_copy_object ClassType (VolumeGroupClass_DeepCopy k) (VolumeGroupClass_DeepCopyObject k) h p \<and>
   is_copy_object ClassListType (VolumeGroupClassList_DeepCopy k) (VolumeGroupClassList_DeepCopyObject k) h p \<and>
   is_copy_object ContentType (VolumeGroupContent_DeepCopy k) (VolumeGroupContent_DeepCopyObject k) h p \<and>
   is_copy_object ContentListType (VolumeGroupContentList_DeepCopy k) (VolumeGroupContentList_DeepCopyObject k) h p"
  unfolding VolumeGroup_DeepCopy_def VolumeGroup_DeepCopyObject_def [abs_def] VolumeGroupList_DeepCopy_def VolumeGroupList_DeepCopyObject_def [abs_def] VolumeGroupClass_DeepCopy_def VolumeGroupClass_DeepCopyObject_def [abs_def] VolumeGroupClassList_DeepCopy_def VolumeGroupClassList_DeepCopyObject_def [abs_def] VolumeGroupContent_DeepCopy_def VolumeGroupContent_DeepCopyObject_def [abs_def] VolumeGroupContentList_DeepCopy_def VolumeGroupContentList_DeepCopyObject_def [abs_def]
  by (intro conjI is_copy_objectI)

end
