(* ===== verification/Spec2Isabelle.thy ===== *)
theory Spec2Isabelle
  imports Content_Properties Group_Properties Member_Properties Finalizer_Properties Error_Properties
    Helper_Properties Operator Life_Cycle Copy_Properties
begin

text \<open>
  \<^bold>\<open>The IBM volume group operator\<close>

  The operator in \<open>src/\<close> is a Kubernetes controller manager with two reconcilers. A VolumeGroup
  (\<open>vg\<close>) is a user's request to keep the storage volumes of some claims together; a
  VolumeGroupContent (\<open>vgc\<close>) stands for the group on the storage, as a PersistentVolume does for a
  volume. The group reconciler (\<open>src/controllers/volumegroup_controller.go\<close>) creates a content for
  a group, waits until it is ready, collects the claims (\<open>pvc\<close>) that match the group's selector, tells
  the CSI driver the volumes of the group and keeps the lists in the status of group and content. The
  content reconciler (\<open>src/controllers/volumegroupcontent/volumegroupcontent_controller.go\<close>) creates
  and deletes the group on the storage. Both only meet in the API server: they read and write groups,
  contents and claims there, guard them by finalizers, and are called again when an object changes or
  an error was returned. \<open>src/main.go\<close> reads the flags, connects to the driver and starts both.

  \<^bold>\<open>How code is modelled\<close>

  A Go function that does nothing outside is a HOL function. A function that talks to the API server,
  the driver, the clock or the random source is a program of type \<open>'a go\<close> (theory \<open>Prelude\<close>): it maps
  the history of interactions so far to an outcome, a value or a panic, and a longer history. An event
  records one interaction with its answer (type \<open>event\<close> in \<open>Api_Types\<close>). Everything that is not in
  \<open>src/\<close> is a parameter (theory \<open>Cluster\<close>): \<open>env\<close> bundles the API server, the driver and the library
  functions, whose answers are arbitrary functions of the whole history. So what other clients and
  concurrent workers do to the cluster, a stale cache and any failure are behaviours of some \<open>env\<close>, and
  a theorem about all \<open>env\<close> covers them. The hypotheses about libraries are \<open>retry_documented\<close>:
  \<open>retry.RetryOnConflict\<close> calls its closure, again after a conflict, some number of times, and returns
  what the last call returned; and, only for the absence of panics, \<open>rand_documented\<close>: \<open>rand.Intn\<close> draws
  within its range. Errors are values of the type \<open>error\<close>; \<open>x, err\<close> is a sum where the value
  is not used with an error and a pair where it is; a nil pointer that the code dereferences
  unchecked is a \<open>Panic\<close>. A function that mutates an object behind a pointer returns it.

  Where Go's aliasing is visible it is kept: \<open>deletePVCs_loop\<close> ranges over the array that its body
  overwrites, \<open>getSecrets\<close> returns the group it changed. Objects that a retried closure captured are
  values, since a Get through the manager's cache hands out deep copies, which share nothing with what
  they copy (\<open>Deep_Copy\<close>); whether decoding an answer reuses the array of a slice is the parameter
  \<open>lib_decode_in_place\<close>.

  \<^bold>\<open>Theories, and the files under src they model\<close>

  \<^item> \<open>Prelude\<close>: programs, a weakest-precondition calculus over emitted events (\<open>wp\<close>, \<open>gives\<close>, \<open>emits\<close>),
    the order of events (\<open>guards\<close>), fragments of Go's strings, maps and \<open>Sprintf\<close>.
  \<^item> \<open>Api_Types\<close>: the types of \<open>api/v1\<close>, the fields used of Kubernetes and CSI types, errors
    (\<open>pkg/errors\<close>), messages (\<open>pkg/messages\<close>), configuration (\<open>pkg/config\<close>), events and what each touches.
  \<^item> \<open>Cluster\<close>: the parameters, the client's calls, updating objects (\<open>controller_utils.go\<close>).
  \<^item> \<open>Utils\<close>: \<open>settings.go\<close>, \<open>strings.go\<close>, \<open>utils.go\<close> with its field access by reflection, \<open>parameters.go\<close>,
    \<open>secret.go\<close>, \<open>labels.go\<close>, \<open>predicate.go\<close>.
  \<^item> \<open>Volume_Lists\<close>: the slices of claims and volumes in the statuses (\<open>volumegroup.go\<close>,
    \<open>volumegroupcontent.go\<close>), with the locales \<open>key_append\<close>, \<open>key_remove\<close> and \<open>keyed_list\<close>.
  \<^item> \<open>Status\<close>: \<open>event.go\<close>, \<open>handle_messages.go\<close>, \<open>finalizers.go\<close> and the status updates of \<open>volumegroup.go\<close>
    and \<open>volumegroupcontent.go\<close>. \<open>Writes\<close>: their contract, the locale \<open>retried_write\<close>, interpreted for
    the five kinds of retried write.
  \<^item> \<open>Volumes\<close>: reading classes, storage classes, volumes, groups, contents and claims, and the release
    of a claim (\<open>volumegroupclass.go\<close>, \<open>storageclass.go\<close>, \<open>persistentvolume.go\<close>, \<open>persistentvolumeclaim.go\<close>,
    \<open>finalizers.go\<close>), with contracts of the reads.
  \<^item> \<open>Requests\<close>: the requests to the driver (\<open>volumegroup_client.go\<close>, \<open>controllers/volumegroup\<close>).
  \<^item> \<open>Membership\<close>: \<open>modify_volumegroup.go\<close> and the bookkeeping of members in \<open>controller_utils.go\<close>.
  \<^item> \<open>Contents\<close>: generation, defaults and the claims of contents (\<open>volumegroupcontent.go\<close>).
  \<^item> \<open>VG_Controller\<close>, \<open>VGC_Controller\<close>: the reconcilers. \<open>Startup\<close>: \<open>main.go\<close>, \<open>client.go\<close> and
    \<open>SetupWithManager\<close> with the watch of claims; manager and connection library are the record \<open>platform\<close>.
  \<^item> \<open>Operator\<close>: the reconcilers together, in several workers. A history is \<open>concurrent\<close> when it
    interleaves the events of reconciles that are finished, panicked or still under way; it is \<open>served\<close>
    when the server answers with lists that were there or that the operator had sent.
  \<^item> \<open>Memory\<close>: a heap of cells, programs over it as in \<open>State_Monad\<close>, the logic \<open>yields\<close> of programs that only
    allocate, and the locales \<open>reader\<close> and \<open>copier\<close>. \<open>Api_Memory\<close>: the types of \<open>api/v1\<close> as they lie in
    memory and the values of \<open>Api_Types\<close> they stand for. \<open>Deep_Copy\<close>: \<open>zz_generated.deepcopy.go\<close>, the
    copies of Kubernetes types being the record \<open>kubernetes_lib\<close> under the locale \<open>kubernetes\<close>.
  \<^item> \<open>Test_Doubles\<close>: \<open>controllers/envtest\<close>, the driver of \<open>tests/mock_grpc_server\<close> and the connection of
    \<open>pkg/client/fake\<close>.

  \<^bold>\<open>What is shown\<close>

  \<open>Frames\<close> bounds what every operation may touch. \<open>VGC_Spec\<close> and \<open>Deletion_Spec\<close> carry the content
  reconciler: what has to be seen before anything is destroyed, that what is destroyed belongs to the
  orphaned content, that the content outlives its storage group, that a willing outside lets one
  reconcile finish the deletion, and how a group is created and recorded. \<open>VG_Spec\<close> and
  \<open>Membership_Spec\<close> carry the group reconciler: when a content is deleted, when a group is announced,
  which claims are taken in, what the driver is told, that the bookkeeping follows only the driver's
  agreement and ends with the claims asked for, and when a claim loses its finalizer.
  \<open>Interference\<close> is a rely-guarantee logic (a bad write only after a bad answer); the locale
  \<open>kept_objects\<close> of \<open>Kept_Objects\<close> carries it through both reconcilers for every property of groups and
  contents that the single changes preserve, and \<open>Object_Spec\<close> interprets it: lists without
  duplicates, and fields that are written back as they were read. With a server that keeps what it is
  sent this closes into an invariant of the cluster (\<open>cluster_stays_tidy\<close>).
  \<open>Panic_Spec\<close> has a logic for returning and names the answers on which either reconciler can panic.
  These are facts about one run from any history under any \<open>env\<close>. The properties stand in
  \<open>Content_Properties\<close>, \<open>Group_Properties\<close>, \<open>Member_Properties\<close>, \<open>Finalizer_Properties\<close>,
  \<open>Error_Properties\<close> and \<open>Helper_Properties\<close>; this theory has those of whole histories, by rule induction
  over \<open>concurrent\<close>. \<open>Sample_Cluster\<close> is a concrete \<open>env\<close>, an API server that keeps what it accepts and
  refuses stale writes, in which the witnesses run. \<open>Life_Cycle\<close> runs the repository's own tests in it, with
  their objects and their driver, to the state they expect. \<open>Deep_Copy_Spec\<close> makes every generated copy a
  \<open>copier\<close>, by sublocales of \<open>kubernetes\<close>, and \<open>Copy_Properties\<close> has their properties: a copy reads as the
  original and is apart from it.

  Some properties show what the code does where it does not do what it means to: claims survive that
  should be deleted, the driver is not told of members after a failure to read a secret, a retry drops
  the finalizer of another controller, a retained content takes its claims with it, and missing optional
  fields lead to panics.

  \<^bold>\<open>Loops and fuel\<close>

  All loops are structural recursions over slices, except two. \<open>waitForVGResource\<close> polls until a
  resource is known and has fuel; running out is the outcome \<open>None\<close>. It is enough to have more fuel than
  there are answers that the kind is unknown (\<open>wait_ends\<close>). Retries are a parameter; their number is
  not bounded by the hypothesis.

  \<^bold>\<open>Not modelled\<close>

  The registration of types in the scheme (\<open>groupversion_info.go\<close>, the \<open>init\<close> functions), which is
  apimachinery's. Of the watches in \<open>SetupWithManager\<close>, the filter on generations and the registration,
  which belong to controller-runtime; the filters of the operator and the mapping to requests are
  modelled. Logging, and messages that are only logged. The gRPC server that carries the mock driver
  (\<open>mock_server.go\<close>, \<open>mock_volumegroup_server.go\<close>), which is sockets and goroutines, and the fake client of
  \<open>fake/volumegroup_client.go\<close>, which \<open>SetupWithManager\<close> replaces before anything calls it. A nil map or
  slice and an empty one are not told apart.
  That the work queue never hands one object to two workers at once is not assumed: the
  theorems hold without it.
\<close>

section \<open>A busy operator\<close>

text \<open>A group and a content of two clusters, both under deletion, reconciled at the same time.\<close>

definition busy_history :: history where
  "busy_history = splice leaving_run dying_run"

definition busy_runs :: "(request \<times> event list) list" where
  "busy_runs = [(ForVGC (''n'', ''k''), dying_run), (ForVG (''n'', ''g''), leaving_run)]"

lemma busy: "concurrent (sample_env dying_cluster) sample_VG_reconciler sample_VGC_reconciler busy_runs busy_history"
proof -
  have view: "view_of (sample_env dying_cluster) (sample_env c)" for c
    using sample_retry by (simp add: view_of_def sample_env_def)
  have group: "reconcile (sample_env leaving_cluster) sample_VG_reconciler sample_VGC_reconciler (ForVG (''n'', ''g'')) [] =
      (fst (VG_Reconcile (sample_env leaving_cluster) sample_VG_reconciler (''n'', ''g'') []), [] @ leaving_run)" by simp
  have content: "reconcile (sample_env dying_cluster) sample_VG_reconciler sample_VGC_reconciler (ForVGC (''n'', ''k'')) [] =
      (fst (VGC_Reconcile (sample_env dying_cluster) sample_VGC_reconciler (''n'', ''k'') []), [] @ dying_run)" by simp
  have "concurrent (sample_env dying_cluster) sample_VG_reconciler sample_VGC_reconciler
      [(ForVG (''n'', ''g''), take (length leaving_run) leaving_run)] leaving_run"
    by (rule concurrent.worker [OF concurrent.idle view group]) simp
  then have "concurrent (sample_env dying_cluster) sample_VG_reconciler sample_VGC_reconciler
      [(ForVGC (''n'', ''k''), take (length dying_run) dying_run), (ForVG (''n'', ''g''), take (length leaving_run) leaving_run)] busy_history"
    by (rule concurrent.worker [OF _ view content]) (simp add: busy_history_def splice_in_shuffles)
  then show ?thesis by (simp add: busy_runs_def)
qed

lemma busy_write: "\<exists>e vg. e \<in> set busy_history \<and> group_write e = Some vg"
proof -
  have "list_ex (within {SpecVG}) leaving_run" by code_simp
  then obtain e where "e \<in> set leaving_run" "within {SpecVG} e" by (auto simp: list_ex_iff)
  moreover from this(2) have "\<exists>vg. group_write e = Some vg" by (cases e) auto
  ultimately show ?thesis by (auto simp: concurrent_events [OF busy] busy_runs_def)
qed

section \<open>The reconcilers together\<close>

text \<open>
  C1. However the reconciles of the operator interleave, a storage group is deleted only by a reconcile
  of a content that read that content under deletion, with the operator's finalizer as the last one
  and with a class of the operator's driver, found its group to be gone, and saw the policy Delete; the
  request names the handle of the content. A claim is deleted only by a reconcile of a content that saw
  all this but the policy, which it does not look at, and only when a volume in the list of the content
  is bound to it. The content is the one read or as an accepted status update returned it.
\<close>

theorem history_destroys_only_orphans:
  assumes "concurrent env vgR vgcR runs t"
  shows "(EvRpcDelete q a \<in> set t \<longrightarrow> by_run runs (EvRpcDelete q a) (\<lambda>k es. \<exists>req. k = ForVGC req \<and> condemned env vgcR req q es)) \<and>
    (EvDeletePVC p b \<in> set t \<longrightarrow> by_run runs (EvDeletePVC p b) (\<lambda>k es. \<exists>req. k = ForVGC req \<and> condemned_claim env vgcR req p es))"
proof (intro conjI impI)
  show "by_run runs (EvRpcDelete q a) (\<lambda>k es. \<exists>req. k = ForVGC req \<and> condemned env vgcR req q es)" if "EvRpcDelete q a \<in> set t"
    by (rule concurrent_by [OF assms that refl]) (rule reconcile_condemned(1))
  show "by_run runs (EvDeletePVC p b) (\<lambda>k es. \<exists>req. k = ForVGC req \<and> condemned_claim env vgcR req p es)" if "EvDeletePVC p b \<in> set t"
    by (rule concurrent_by [OF assms that refl]) (rule reconcile_condemned(2))
qed

theorem history_destroys_only_orphans_witness:
  "EvRpcDelete \<lparr>dreqVolumeGroupId = ''id'', dreqSecrets = []\<rparr> None \<in> set busy_history \<and>
   by_run busy_runs (EvRpcDelete \<lparr>dreqVolumeGroupId = ''id'', dreqSecrets = []\<rparr> None)
     (\<lambda>k es. \<exists>req. k = ForVGC req \<and> condemned (sample_env dying_cluster) sample_VGC_reconciler req \<lparr>dreqVolumeGroupId = ''id'', dreqSecrets = []\<rparr> es)"
proof -
  have "filter (within {RpcDelete}) dying_run = [EvRpcDelete \<lparr>dreqVolumeGroupId = ''id'', dreqSecrets = []\<rparr> None]" by code_simp
  then have "EvRpcDelete \<lparr>dreqVolumeGroupId = ''id'', dreqSecrets = []\<rparr> None \<in> set dying_run"
    by (metis filter_is_subset list.set_intros(1) subsetD)
  then have "EvRpcDelete \<lparr>dreqVolumeGroupId = ''id'', dreqSecrets = []\<rparr> None \<in> set busy_history"
    by (simp add: concurrent_events [OF busy] busy_runs_def)
  with history_destroys_only_orphans [OF busy] show ?thesis by blast
qed





text \<open>
  C12. A cluster without duplicates stays without them, however the reconciles of the operator
  interleave: when the lists at the start have none and the server answers with lists from the start
  or lists the operator had sent by then, no group and no content that any reconcile reads, writes or
  creates has a claim or a volume listed twice.
\<close>

theorem cluster_stays_tidy:
  assumes "concurrent env vgR vgcR runs t" and "served P V t"
    and "\<forall>l \<in> P. distinct (map pvc_key l)" and "\<forall>l \<in> V. distinct (map pv_name l)" and "e \<in> set t"
  shows "(group_write e = Some vg \<or> group_answer e = Some vg \<longrightarrow> tidy_group vg) \<and>
    (content_write e = Some vgc \<or> content_create e = Some vgc \<or> content_answer e = Some vgc \<longrightarrow> tidy_content vgc)"
proof -
  have "guards (list_ex (bad_answer tidy_group tidy_content)) (bad_write tidy_group tidy_content tidy_content) t"
    using assms(1) by (rule concurrent_guards_history) (rule reconcile_all [OF tidy.reconcilers_keep], auto simp: list_ex_iff)
  then have "list_all tidy_event t" using assms(2-4) by (rule served_tidy)
  with assms(5) have "tidy_event e" by (simp add: list_all_iff)
  then show ?thesis unfolding tidy_event_def bad_answer_iff bad_write_iff by blast
qed

theorem cluster_stays_tidy_witness:
  "\<exists>e vg. e \<in> set busy_history \<and> group_write e = Some vg \<and> tidy_group vg"
proof -
  have "served {[]} {[], [sample_pv ''a'' ''A'', sample_pv ''b'' ''B'']} busy_history" by code_simp
  moreover have "distinct (map pv_name [sample_pv ''a'' ''A'', sample_pv ''b'' ''B''])" by code_simp
  moreover obtain e vg where "e \<in> set busy_history" "group_write e = Some vg" using busy_write by blast
  ultimately show ?thesis using cluster_stays_tidy [OF busy, of "{[]}" "{[], [sample_pv ''a'' ''A'', sample_pv ''b'' ''B'']}" e vg]
    by auto
qed

text \<open>
  C33. However the reconciles of the operator interleave, a content is deleted only by a reconcile of a
  group that read that group under deletion, with the operator's finalizer as the last one, and read
  the content as the group's, with the policy Delete.
\<close>

theorem history_deletes_contents_of_groups:
  assumes "concurrent env vgR vgcR runs t" and "EvDeleteVGC c a \<in> set t"
  shows "by_run runs (EvDeleteVGC c a) (\<lambda>k es. \<exists>req. k = ForVG req \<and> deleting req c es)"
proof (rule concurrent_by [OF assms, where W = "\<lambda>e. e = EvDeleteVGC c a"])
  show "gives (reconcile env' vgR vgcR k) (\<lambda>_. guards (\<lambda>es. \<exists>req. k = ForVG req \<and> deleting req c es) (\<lambda>e. e = EvDeleteVGC c a))"
    if "view_of env env'" for env' k
    by (rule reconcile_guards(2) [where T = "{GoneVGC}"]) (use that in \<open>simp_all add: view_of_def VG_Reconcile_deletes\<close>)
qed simp

theorem history_deletes_contents_of_groups_witness:
  "by_run busy_runs (EvDeleteVGC (hd (clusterVGCs leaving_cluster)) None) (\<lambda>k es. \<exists>req. k = ForVG req \<and> deleting req (hd (clusterVGCs leaving_cluster)) es)"
proof (rule history_deletes_contents_of_groups [OF busy])
  have "filter (within {GoneVGC}) leaving_run = [EvDeleteVGC (hd (clusterVGCs leaving_cluster)) None]" by code_simp
  then have "EvDeleteVGC (hd (clusterVGCs leaving_cluster)) None \<in> set leaving_run"
    by (metis filter_is_subset list.set_intros(1) subsetD)
  then show "EvDeleteVGC (hd (clusterVGCs leaving_cluster)) None \<in> set busy_history"
    by (simp add: concurrent_events [OF busy] busy_runs_def)
qed

text \<open>
  C14. The reconcilers share the work: the group reconciler creates and deletes contents and tells
  memberships, and never creates or deletes a storage group nor deletes a claim; the content
  reconciler creates and deletes storage groups and deletes claims, and never writes a group, never
  creates or deletes a content and never tells a membership.
\<close>

theorem division_of_labour:
  assumes "retry_documented env"
    and "VG_Reconcile env vgR req t = (x, t')" and "VGC_Reconcile env vgcR creq u = (y, u')"
  shows "(\<exists>es. t' = t @ es \<and> list_all (within group_touches) es) \<and>
    (\<exists>es. u' = u @ es \<and> list_all (within content_touches) es)"
  using emits_run [OF does_VG_Reconcile [OF assms(1) order_refl] assms(2)]
    emits_run [OF does_VGC_Reconcile [OF assms(1) order_refl] assms(3)] by metis

theorem division_of_labour_witness:
  "list_all (within group_touches) leaving_run \<and> list_all (within content_touches) dying_run"
  using division_of_labour [OF sample_retry surjective_pairing surjective_pairing,
      of leaving_cluster sample_VG_reconciler "(''n'', ''g'')" "[]" sample_VGC_reconciler "(''n'', ''k'')" "[]"]
    division_of_labour [OF sample_retry surjective_pairing surjective_pairing,
      of dying_cluster sample_VG_reconciler "(''n'', ''g'')" "[]" sample_VGC_reconciler "(''n'', ''k'')" "[]"] by simp

text \<open>
  C23. Objects of other drivers are left alone: in every run of the group reconciler, anything but
  reading, the status of the group and events comes after the requested group and its class, which
  is one of the operator's driver, were read; in every run of the content reconciler, storage groups
  are created or deleted and claims written or deleted only after the requested content and its
  class, one of the operator's driver, were read.
\<close>

theorem foreign_objects_untouched:
  assumes "retry_documented env"
    and "VG_Reconcile env vgR req t = (x, t')" and "VGC_Reconcile env vgcR creq u = (y, u')"
  shows "(\<exists>es. t' = t @ es \<and> guards (owned vgR req) acts es) \<and>
    (\<exists>es. u' = u @ es \<and> guards (owned_content vgcR creq) (within {RpcCreate, RpcDelete, SpecPVC, GonePVC}) es)"
  using gives_run [OF VG_Reconcile_owned [OF assms(1)] assms(2)] gives_run [OF VGC_Reconcile_owned [OF assms(1)] assms(3)] by metis

theorem foreign_objects_untouched_witness:
  "guards (owned sample_VG_reconciler (''n'', ''g'')) acts leaving_run \<and> map touches (filter acts leaving_run) = [GoneVGC, SpecVG] \<and>
   guards (owned_content sample_VGC_reconciler (''n'', ''k'')) (within {RpcCreate, RpcDelete, SpecPVC, GonePVC}) dying_run"
proof (intro conjI)
  show "guards (owned sample_VG_reconciler (''n'', ''g'')) acts leaving_run"
    using foreign_objects_untouched [OF sample_retry surjective_pairing surjective_pairing,
      of leaving_cluster sample_VG_reconciler "(''n'', ''g'')" "[]" sample_VGC_reconciler "(''n'', ''k'')" "[]"] by simp
  show "map touches (filter acts leaving_run) = [GoneVGC, SpecVG]" by code_simp
  show "guards (owned_content sample_VGC_reconciler (''n'', ''k'')) (within {RpcCreate, RpcDelete, SpecPVC, GonePVC}) dying_run"
    using foreign_objects_untouched [OF sample_retry surjective_pairing surjective_pairing,
      of dying_cluster sample_VG_reconciler "(''n'', ''g'')" "[]" sample_VGC_reconciler "(''n'', ''k'')" "[]"] by simp
qed

end
